(* ===== verification/Prelude.thy ===== *)
theory Prelude
  imports Main "HOL-Library.Sublist"
begin

text \<open>
  Shared vocabulary of the development: the names of the model's types (clock values,
  JavaScript values and their truthiness, the string tests the code uses), the
  collections of facts the component theories feed and the generic lemmas on lists and
  maps they share.  Nothing here models a particular file of the repository except the
  JavaScript built-ins \<open>String.prototype.startsWith\<close> and \<open>String.prototype.includes\<close>,
  which every component calls.
\<close>

named_theorems cache_simps "evaluation rules of the cache components"
named_theorems inv_simps "unfolding rules of the component invariants"

text \<open>\<open>Date.now()\<close> readings, in milliseconds.\<close>

type_synonym time = int

subsection \<open>JavaScript values\<close>

text \<open>
  The payloads the caches store are JSON values (the result of a GraphQL request).
  Their JavaScript truthiness matters, because the code tests cached values with
  \<open>if (cached)\<close> and \<open>data && ...\<close>.
\<close>

datatype json =
    JNull
  | JBool bool
  | JNum int
  | JStr string
  | JArr "json list"
  | JObj "(string \<times> json) list"

fun truthy :: "json \<Rightarrow> bool" where
  "truthy JNull = False"
| "truthy (JBool b) = b"
| "truthy (JNum n) = (n \<noteq> 0)"
| "truthy (JStr s) = (s \<noteq> [])"
| "truthy (JArr _) = True"
| "truthy (JObj _) = True"

text \<open>\<open>x || d\<close> on an optional number: \<open>undefined\<close> and \<open>0\<close> give the default.\<close>

definition or_default :: "int option \<Rightarrow> int \<Rightarrow> int" where
  "or_default x d = (case x of None \<Rightarrow> d | Some n \<Rightarrow> if n = 0 then d else n)"

subsection \<open>String tests\<close>

text \<open>\<open>s.startsWith(p)\<close> and \<open>s.includes(p)\<close>, receiver first as in the source.\<close>

fun starts_with :: "'a list \<Rightarrow> 'a list \<Rightarrow> bool" where
  "starts_with s [] = True"
| "starts_with [] (c # p) = False"
| "starts_with (d # s) (c # p) = (d = c \<and> starts_with s p)"

fun str_includes :: "'a list \<Rightarrow> 'a list \<Rightarrow> bool" where
  "str_includes [] p = (p = [])"
| "str_includes (c # s) p = (starts_with (c # s) p \<or> str_includes s p)"

text \<open>\<open>xs.join(sep)\<close>.\<close>

fun join_with :: "string \<Rightarrow> string list \<Rightarrow> string" where
  "join_with sep [] = []"
| "join_with sep [x] = x"
| "join_with sep (x # y # zs) = x @ sep @ join_with sep (y # zs)"

text \<open>A line break, for multi-line template literals.\<close>

definition NL :: string where
  "NL = [CHR 0x0A]"

text \<open>The decimal text of an integer, as template literals print it.\<close>

fun digits_of_nat :: "nat \<Rightarrow> string" where
  "digits_of_nat n =
     (if n < 10 then [''0123456789'' ! n] else digits_of_nat (n div 10) @ [''0123456789'' ! (n mod 10)])"

definition show_int :: "int \<Rightarrow> string" where
  "show_int i = (if i < 0 then ''-'' @ digits_of_nat (nat (- i)) else digits_of_nat (nat i))"

declare digits_of_nat.simps [simp del]

text \<open>\<open>obj.k\<close> on a JSON value: a field of an object, \<open>undefined\<close> (\<open>None\<close>) otherwise.\<close>

definition js_field :: "json \<Rightarrow> string \<Rightarrow> json option" where
  "js_field v k = (case v of JObj fs \<Rightarrow> map_of fs k | _ \<Rightarrow> None)"

text \<open>\<open>a?.k || []\<close> for a list-valued field.\<close>

definition field_or_empty :: "json option \<Rightarrow> string \<Rightarrow> json" where
  "field_or_empty v k =
     (case v of None \<Rightarrow> JArr [] | Some x \<Rightarrow>
        (case js_field x k of None \<Rightarrow> JArr [] | Some n \<Rightarrow> if truthy n then n else JArr []))"

text \<open>\<open>xs.map(f)\<close> with a callback that may throw: the first exception, in order.\<close>

fun map_throw :: "('a \<Rightarrow> 'e + 'b) \<Rightarrow> 'a list \<Rightarrow> 'e + 'b list" where
  "map_throw f [] = Inr []"
| "map_throw f (x # xs) =
     (case f x of Inl e \<Rightarrow> Inl e | Inr y \<Rightarrow> (case map_throw f xs of Inl e \<Rightarrow> Inl e | Inr ys \<Rightarrow> Inr (y # ys)))"

subsection \<open>Maps\<close>

text \<open>Deleting every key that satisfies a test, as a loop of \<open>map.delete\<close> does.\<close>

definition map_delete_where :: "('k \<Rightarrow> bool) \<Rightarrow> ('k \<rightharpoonup> 'v) \<Rightarrow> ('k \<rightharpoonup> 'v)" where
  "map_delete_where P m = (\<lambda>k. if P k then None else m k)"

subsection \<open>Lemmas\<close>

lemma or_default_simps [simp]:
  "or_default None d = d"
  "or_default (Some n) d = (if n = 0 then d else n)"
  by (simp_all add: or_default_def)

text \<open>Both agree with the library's \<open>prefix\<close> and contiguous \<open>sublist\<close>.\<close>

lemma starts_with_prefix: "starts_with s p \<longleftrightarrow> prefix p s"
  by (induction s p rule: starts_with.induct) auto

lemma includes_sublist: "str_includes s p \<longleftrightarrow> sublist p s"
  by (induction s) (auto simp: starts_with_prefix sublist_Cons_right)

lemma includes_Nil [simp]: "str_includes s []"
  by (simp add: includes_sublist)

lemma includes_append_left [simp]: "str_includes (p @ s) p"
  by (simp add: includes_sublist)

lemma starts_with_append [simp]: "starts_with (p @ s) p"
  by (simp add: starts_with_prefix)


lemma map_delete_where_apply [simp]:
  "map_delete_where P m k = (if P k then None else m k)"
  by (simp add: map_delete_where_def)

lemma dom_map_delete_where [simp]:
  "dom (map_delete_where P m) = {k \<in> dom m. \<not> P k}"
  by (auto simp: map_delete_where_def split: if_splits)

text \<open>A property kept by every step of a \<open>forEach\<close> or event loop.\<close>

lemma foldl_invariant:
  assumes "\<And>s x. x \<in> set xs \<Longrightarrow> P s \<Longrightarrow> P (f s x)" and "P s"
  shows "P (foldl f s xs)"
  using assms by (induction xs arbitrary: s) auto

text \<open>\<open>splice(n, 1)\<close> on a duplicate-free list deletes the element at \<open>n\<close>.\<close>

lemma take_drop_removeAll:
  "distinct xs \<Longrightarrow> n < length xs \<Longrightarrow> take n xs @ drop (Suc n) xs = removeAll (xs ! n) xs"
proof -
  assume d: "distinct xs" and n: "n < length xs"
  have xs: "xs = take n xs @ xs ! n # drop (Suc n) xs" using n by (simp add: id_take_nth_drop)
  then have "distinct (take n xs @ xs ! n # drop (Suc n) xs)" using d by simp
  then have "removeAll (xs ! n) (take n xs @ xs ! n # drop (Suc n) xs) = take n xs @ drop (Suc n) xs"
    by simp
  with xs show ?thesis by simp
qed

text \<open>
  The first element of a stable sort is the first element of the input with the least
  key; the last is the last element of the input with the greatest key.
\<close>

lemma sort_key_hd_split:
  assumes "xs \<noteq> []"
  shows "\<exists>as cs. xs = as @ hd (sort_key f xs) # cs \<and> (\<forall>a\<in>set as. f (hd (sort_key f xs)) < f a)
                 \<and> (\<forall>c\<in>set cs. f (hd (sort_key f xs)) \<le> f c)"
proof -
  obtain x s where s: "sort_key f xs = x # s" using assms by (metis length_0_conv length_sort neq_Nil_conv)
  have "sorted (map f (x # s))" using sorted_sort_key[of f xs] s by simp
  then have min: "\<forall>y\<in>set xs. f x \<le> f y" using set_sort[of f xs] s by auto
  have "x \<in> set xs" using set_sort[of f xs] s by (metis list.set_intros(1))
  then obtain as y cs where xs: "xs = as @ y # cs" "f y = f x" "\<forall>a\<in>set as. f a \<noteq> f x"
    using split_list_first_prop[of xs "\<lambda>y. f y = f x"] by blast
  have "filter (\<lambda>y. f y = f x) (sort_key f xs) = x # filter (\<lambda>y. f y = f x) s"
    using s by simp
  moreover have "filter (\<lambda>y. f y = f x) xs = y # filter (\<lambda>y. f y = f x) cs"
    using xs by simp
  ultimately have "y = x" using sort_key_stable[of f "f x" xs] by simp
  moreover have "hd (sort_key f xs) = x" using s by simp
  ultimately show ?thesis using xs min by (metis order_le_neq_trans Un_iff set_append set_subset_Cons subsetD)
qed

lemma sort_key_last_split:
  assumes "xs \<noteq> []"
  shows "\<exists>as cs. xs = as @ last (sort_key f xs) # cs \<and> (\<forall>a\<in>set as. f a \<le> f (last (sort_key f xs)))
                 \<and> (\<forall>c\<in>set cs. f c < f (last (sort_key f xs)))"
proof -
  obtain s x where s: "sort_key f xs = s @ [x]"
    using assms by (metis append_butlast_last_id length_0_conv length_sort)
  have "sorted (map f (s @ [x]))" using sorted_sort_key[of f xs] s by simp
  then have max: "\<forall>y\<in>set xs. f y \<le> f x" using set_sort[of f xs] s by (auto simp: sorted_append)
  have "x \<in> set xs" using set_sort[of f xs] s by (metis in_set_conv_decomp)
  then obtain as y cs where xs: "xs = as @ y # cs" "f y = f x" "\<forall>c\<in>set cs. f c \<noteq> f x"
    using split_list_last_prop[of xs "\<lambda>y. f y = f x"] by blast
  have "filter (\<lambda>y. f y = f x) (sort_key f xs) = filter (\<lambda>y. f y = f x) s @ [x]"
    using s by simp
  moreover have "filter (\<lambda>y. f y = f x) xs = filter (\<lambda>y. f y = f x) as @ [y]"
    using xs by simp
  ultimately have "y = x" using sort_key_stable[of f "f x" xs] by simp
  moreover have "last (sort_key f xs) = x" using s by simp
  ultimately show ?thesis using xs max by (metis order_le_neq_trans Un_iff set_append set_subset_Cons subsetD)
qed
text \<open>Updating each key of a list of distinct keys once gives, at each key, its own
  update of the old value, whatever the order; and a search that matches exactly one
  element finds it.\<close>

lemma foldl_key_updates:
  assumes "distinct ord" "inj_on k (set ord)"
  shows "foldl (\<lambda>c i. c(k i := g i (c (k i)))) c ord =
           (\<lambda>x. case find (\<lambda>i. k i = x) ord of Some i \<Rightarrow> g i (c x) | None \<Rightarrow> c x)"
  using assms
proof (induction ord arbitrary: c)
  case Nil then show ?case by simp
next
  case (Cons i js)
  have ni: "\<And>j. j \<in> set js \<Longrightarrow> k j \<noteq> k i"
    using Cons.prems by (metis distinct.simps(2) inj_on_eq_iff list.set_intros)
  have "find (\<lambda>j. k j = k i) js = None" using ni by (simp add: find_None_iff)
  then show ?case
    using Cons.IH[of "c(k i := g i (c (k i)))"] Cons.prems
    by (auto simp: fun_eq_iff inj_on_insert split: option.split)
qed

lemma find_unique:
  assumes "y \<in> set xs" "P y" "\<And>z. z \<in> set xs \<Longrightarrow> P z \<Longrightarrow> z = y"
  shows "find P xs = Some y"
  using assms
proof (induction xs)
  case Nil then show ?case by simp
next
  case (Cons a xs)
  show ?case
  proof (cases "P a")
    case True
    have "a = y" using Cons.prems(3)[of a] True by simp
    then show ?thesis using True by simp
  next
    case False
    then have "y \<in> set xs" using Cons.prems(1,2) by auto
    moreover have "\<And>z. z \<in> set xs \<Longrightarrow> P z \<Longrightarrow> z = y" using Cons.prems(3) by (meson list.set_intros(2))
    ultimately have "find P xs = Some y" using Cons.IH Cons.prems(2) by blast
    then show ?thesis using False by simp
  qed
qed

lemma find_perm:
  assumes "distinct ord" "set ord = {..<n}" "distinct (map f [0..<n])"
  shows "find (\<lambda>i. f i = x) ord = find (\<lambda>i. f i = x) [0..<n]"
proof (cases "\<exists>i<n. f i = x")
  case False
  then have "find (\<lambda>i. f i = x) ord = None" "find (\<lambda>i. f i = x) [0..<n] = None"
    using assms(2) by (auto simp: find_None_iff)
  then show ?thesis by simp
next
  case True
  then obtain i where i: "i < n" "f i = x" by blast
  have uniq: "\<And>j. j < n \<Longrightarrow> f j = x \<Longrightarrow> j = i"
    using assms(3) i by (metis atLeastLessThan_iff diff_zero distinct_map inj_on_eq_iff set_upt zero_le)
  have "find (\<lambda>i. f i = x) ord = Some i"
  proof (rule find_unique)
    show "i \<in> set ord" using i assms(2) by simp
    show "f i = x" by (rule i(2))
    show "\<And>z. z \<in> set ord \<Longrightarrow> f z = x \<Longrightarrow> z = i" using assms(2) uniq by blast
  qed
  moreover have "find (\<lambda>i. f i = x) [0..<n] = Some i"
  proof (rule find_unique)
    show "i \<in> set [0..<n]" using i by simp
    show "f i = x" by (rule i(2))
    show "\<And>z. z \<in> set [0..<n] \<Longrightarrow> f z = x \<Longrightarrow> z = i" using uniq by simp
  qed
  ultimately show ?thesis by simp
qed

end
