(* ===== verification/Response_Cache.thy ===== *)
theory Response_Cache
  imports Prelude
begin

text \<open>
  The in-process response cache of \<open>src/lib/graphql/cache.ts\<close>: the class
  \<open>GraphQLCache\<close> (a \<open>Map\<close> from a key built of the query text and its serialised
  variables to an entry with a timestamp and a time to live, in milliseconds) and the
  cache-aside client \<open>CachedGraphQLClient.request\<close> built on it.  The map is the state;
  every method takes the clock reading \<open>Date.now()\<close> it makes and returns the new map.
  The serialised variables \<open>JSON.stringify(variables || {})\<close> are the argument
  \<open>vars\<close>: \<open>None\<close> is \<open>undefined\<close>, serialised as \<open>{}\<close>.
\<close>

record cache_entry =
  ce_data :: json
  ce_timestamp :: time
  ce_ttl :: int

type_synonym gql_cache = "string \<rightharpoonup> cache_entry"

definition DEFAULT_TTL :: int where
  "DEFAULT_TTL = 5 * 60 * 1000"

definition cache_generateKey :: "string \<Rightarrow> string option \<Rightarrow> string" where
  "cache_generateKey query vars = query @ '':'' @ (case vars of None \<Rightarrow> ''{}'' | Some v \<Rightarrow> v)"

definition isExpired :: "time \<Rightarrow> cache_entry \<Rightarrow> bool" where
  "isExpired now e \<longleftrightarrow> now - ce_timestamp e > ce_ttl e"

text \<open>\<open>get\<close>: a missing or expired entry is deleted and \<open>null\<close> returned.\<close>

definition cache_get :: "time \<Rightarrow> string \<Rightarrow> string option \<Rightarrow> gql_cache \<Rightarrow> json option \<times> gql_cache" where
  "cache_get now query vars c =
     (let key = cache_generateKey query vars in
      case c key of
        None \<Rightarrow> (None, c(key := None))
      | Some e \<Rightarrow> if isExpired now e then (None, c(key := None)) else (Some (ce_data e), c))"

definition cache_set :: "time \<Rightarrow> string \<Rightarrow> string option \<Rightarrow> json \<Rightarrow> int option \<Rightarrow> gql_cache \<Rightarrow> gql_cache" where
  "cache_set now query vars d ttl c =
     c(cache_generateKey query vars \<mapsto>
         \<lparr>ce_data = d, ce_timestamp = now, ce_ttl = or_default ttl DEFAULT_TTL\<rparr>)"

text \<open>\<open>clear(pattern)\<close>: a non-empty pattern deletes the keys that include it, an absent
  or empty one (falsy) clears the map.\<close>

definition cache_clear :: "string option \<Rightarrow> gql_cache \<Rightarrow> gql_cache" where
  "cache_clear pattern c =
     (case pattern of
        Some p \<Rightarrow> if p \<noteq> [] then map_delete_where (\<lambda>k. str_includes k p) c else Map.empty
      | None \<Rightarrow> Map.empty)"

definition getTTLForQuery :: "string \<Rightarrow> int" where
  "getTTLForQuery query =
     (if str_includes query ''products'' then 2 * 60 * 1000
      else if str_includes query ''categories'' then 10 * 60 * 1000
      else if str_includes query ''featured'' then 5 * 60 * 1000
      else DEFAULT_TTL)"

text \<open>
  \<open>CachedGraphQLClient.request\<close>: the cache is read at time \<open>now\<close>; on a miss the
  backend answers with \<open>resp\<close> (\<open>Inl\<close> an error, which propagates with nothing
  cached) and the answer is stored at the later reading \<open>now'\<close> taken after the
  \<open>await\<close>.  A cached value is used only when it is truthy (\<open>if (cached)\<close>).
\<close>

definition cached_request ::
  "time \<Rightarrow> time \<Rightarrow> string \<Rightarrow> string option \<Rightarrow> ('e + json) \<Rightarrow> gql_cache \<Rightarrow> ('e + json) \<times> gql_cache" where
  "cached_request now now' query vars resp c =
     (case cache_get now query vars c of
        (Some d, c1) \<Rightarrow> if truthy d then (Inr d, c1)
          else (case resp of Inl e \<Rightarrow> (Inl e, c1)
                | Inr d' \<Rightarrow> (Inr d', cache_set now' query vars d' (Some (getTTLForQuery query)) c1))
      | (None, c1) \<Rightarrow>
          (case resp of Inl e \<Rightarrow> (Inl e, c1)
           | Inr d' \<Rightarrow> (Inr d', cache_set now' query vars d' (Some (getTTLForQuery query)) c1)))"

definition invalidateCache :: "string option \<Rightarrow> gql_cache \<Rightarrow> gql_cache" where
  "invalidateCache pattern c = cache_clear pattern c"

subsection \<open>Lemmas\<close>

definition live :: "time \<Rightarrow> cache_entry \<Rightarrow> bool" where
  "live now e \<longleftrightarrow> now - ce_timestamp e \<le> ce_ttl e"

lemma isExpired_live [cache_simps]: "isExpired now e \<longleftrightarrow> \<not> live now e"
  by (auto simp: isExpired_def live_def)

lemma cache_get_lookup [cache_simps]:
  "fst (cache_get now q v c) =
     (case c (cache_generateKey q v) of None \<Rightarrow> None
      | Some e \<Rightarrow> if live now e then Some (ce_data e) else None)"
  by (auto simp: cache_get_def Let_def cache_simps split: option.splits)

lemma cache_get_state:
  "snd (cache_get now q v c) =
     (case c (cache_generateKey q v) of None \<Rightarrow> c
      | Some e \<Rightarrow> if live now e then c else c(cache_generateKey q v := None))"
  by (auto simp: cache_get_def Let_def cache_simps fun_upd_idem split: option.splits)

lemma getTTLForQuery_pos: "0 < getTTLForQuery q"
  by (simp add: getTTLForQuery_def DEFAULT_TTL_def)

lemma getTTLForQuery_nonzero [simp]: "getTTLForQuery q \<noteq> 0"
  using getTTLForQuery_pos [of q] by linarith

lemma cached_request_miss:
  "c (cache_generateKey q v) = None \<Longrightarrow>
   cached_request now now' q v resp c =
     (resp, case resp of Inl e \<Rightarrow> c | Inr d \<Rightarrow> cache_set now' q v d (Some (getTTLForQuery q)) c)"
  by (simp add: cached_request_def cache_get_def Let_def fun_upd_idem split: sum.splits)

lemma cache_get_frame:
  "k \<noteq> cache_generateKey q v \<Longrightarrow> snd (cache_get now q v c) k = c k"
  by (simp add: cache_get_state split: option.splits)

subsection \<open>Properties\<close>

text \<open>C1. Reading a key right after it was set at time \<open>t\<close> returns the stored value
  exactly while \<open>now - t\<close> does not exceed the effective time to live (the given one,
  or the 5-minute default when it is absent or 0), and nothing afterwards.\<close>

theorem cache_get_set:
  "fst (cache_get now q v (cache_set t q v d ttl c)) =
     (if now - t \<le> or_default ttl DEFAULT_TTL then Some d else None)"
  by (simp add: cache_get_lookup cache_set_def live_def)

text \<open>A second \<open>set\<close> of the same query and variables overwrites the first
  completely: value, timestamp and time to live of the first are gone.\<close>

theorem cache_set_overwrite:
  "cache_set t2 q v d2 ttl2 (cache_set t1 q v d1 ttl1 c) = cache_set t2 q v d2 ttl2 c"
  by (simp add: cache_set_def)

text \<open>C2. A live, truthy cached value is returned by \<open>CachedGraphQLClient.request\<close>
  whatever the backend would answer, and the cache is left unchanged.\<close>

theorem cached_request_hit:
  assumes "c (cache_generateKey q v) = Some e" "live now e" "truthy (ce_data e)"
  shows "cached_request now now' q v resp c = (Inr (ce_data e), c)"
  using assms by (simp add: cached_request_def cache_get_def Let_def cache_simps)

theorem cached_request_hit_witness:
  "cached_request 5 6 ''q'' None (Inl ())
     [cache_generateKey ''q'' None \<mapsto> \<lparr>ce_data = JNum 1, ce_timestamp = 0, ce_ttl = 10\<rparr>] =
   (Inr (JNum 1), [cache_generateKey ''q'' None \<mapsto> \<lparr>ce_data = JNum 1, ce_timestamp = 0, ce_ttl = 10\<rparr>])"
  by (rule cached_request_hit [where e = "\<lparr>ce_data = JNum 1, ce_timestamp = 0, ce_ttl = 10\<rparr>",
        simplified]) (simp_all add: live_def)

text \<open>A request that misses and is answered with a truthy value makes every identical
  request within the query's time to live a cache hit with the same data.\<close>

theorem cached_request_repeat:
  assumes "c (cache_generateKey q v) = None" "truthy d" "now' \<le> now2" "now2 - now' \<le> getTTLForQuery q"
  shows "fst (cached_request now2 now2' q v resp2 (snd (cached_request now now' q v (Inr d) c))) = Inr d"
  using assms by (simp add: cached_request_miss cached_request_def cache_get_def Let_def
      cache_simps cache_set_def live_def)

theorem cached_request_repeat_witness:
  "fst (cached_request 100 101 ''{ products }'' None (Inl ())
     (snd (cached_request 0 10 ''{ products }'' None (Inr (JNum 7)) Map.empty))) = Inr (JNum 7)"
  by (rule cached_request_repeat) (simp_all add: getTTLForQuery_def)

text \<open>C3. A falsy response (\<open>null\<close>, \<open>0\<close>, \<open>false\<close>, \<open>""\<close>) is stored but never
  served: \<open>if (cached)\<close> treats it as a miss, so the next identical request goes to
  the backend again, at any time.\<close>

theorem cached_request_falsy_refetch:
  assumes "c (cache_generateKey q v) = None" "\<not> truthy d"
  shows "fst (cached_request now2 now2' q v resp2 (snd (cached_request now now' q v (Inr d) c))) = resp2"
  using assms
  by (auto simp: cached_request_miss cached_request_def cache_get_def Let_def cache_simps
      cache_set_def split: sum.splits)

theorem cached_request_falsy_refetch_witness:
  "fst (cached_request 1 1 ''q'' None (Inr (JNum 5) :: unit + json)
     (snd (cached_request 0 0 ''q'' None (Inr JNull) Map.empty))) = Inr (JNum 5)"
  by (rule cached_request_falsy_refetch) simp_all

text \<open>\<open>clear(pattern)\<close> with a non-empty pattern removes exactly the keys that
  include the pattern and keeps every other entry.\<close>

theorem cache_clear_dom:
  "p \<noteq> [] \<Longrightarrow> dom (cache_clear (Some p) c) = {k \<in> dom c. \<not> str_includes k p}"
  by (simp add: cache_clear_def)

theorem cache_clear_dom_witness:
  "''prod'' \<noteq> [] \<and>
   dom (cache_clear (Some ''prod'') [''products:{}'' \<mapsto> \<lparr>ce_data = JNull, ce_timestamp = 0, ce_ttl = 1\<rparr>, ''cats:{}'' \<mapsto> \<lparr>ce_data = JNull, ce_timestamp = 0, ce_ttl = 1\<rparr>]) = {''cats:{}''}"
proof -
  have p: "str_includes ''products:{}'' ''prod''" and c: "\<not> str_includes ''cats:{}'' ''prod''"
    by simp_all
  have "dom (cache_clear (Some ''prod'') [''products:{}'' \<mapsto> \<lparr>ce_data = JNull, ce_timestamp = 0, ce_ttl = 1\<rparr>, ''cats:{}'' \<mapsto> \<lparr>ce_data = JNull, ce_timestamp = 0, ce_ttl = 1\<rparr>]) =
        {k \<in> dom [''products:{}'' \<mapsto> \<lparr>ce_data = JNull, ce_timestamp = 0, ce_ttl = 1\<rparr>, ''cats:{}'' \<mapsto> \<lparr>ce_data = JNull, ce_timestamp = 0, ce_ttl = 1\<rparr>]. \<not> str_includes k ''prod''}"
    by (rule cache_clear_dom) simp
  also have "\<dots> = {''cats:{}''}"
    using p c by (auto simp del: str_includes.simps starts_with.simps)
  finally show ?thesis by simp
qed

end
