(* ===== verification/Retry.thy ===== *)
theory Retry
  imports Prelude
begin

text \<open>
  The retry layer of \<open>src/lib/graphql/error-handler.ts\<close> (class \<open>GraphQLErrorHandler\<close>):
  the classification of failures (\<open>isRetryableError\<close>, \<open>handleGraphQLError\<close>), the
  exponential back-off (\<open>calculateDelay\<close>), the wrapping of the last failure
  (\<open>enhanceError\<close>) and the loop \<open>withRetry\<close>.  The operation being retried is a
  state transformer \<open>'s \<Rightarrow> (gql_error + 'a) \<times> 's\<close>, so that it can itself use
  shared state (the circuit breaker of \<open>Circuit_Breaker\<close>); the \<open>await\<close> on the
  back-off timer is the parameter \<open>wait\<close>, and the delays waited are returned in order.
\<close>

subsection \<open>Failures\<close>

text \<open>
  A thrown error as the code reads it: \<open>error.code\<close>, \<open>error.response?.status\<close>,
  the messages of \<open>error.response?.errors\<close> (an array is present even when empty, and
  then truthy) and \<open>error.message\<close>.
\<close>

record gql_error =
  err_code :: "string option"
  err_status :: "int option"
  err_errors :: "string list option"
  err_message :: string

record enhanced_error =
  ee_message :: string
  ee_code :: string
  ee_original :: gql_error

text \<open>\<open>enhanceError(lastError)\<close> with \<open>lastError\<close> still \<open>undefined\<close> reads
  \<open>undefined.response\<close> and throws a \<open>TypeError\<close> instead.\<close>

datatype retry_failure = Enhanced enhanced_error | TypeError

record retry_config =
  maxRetries :: int
  baseDelay :: int
  maxDelay :: int
  backoffMultiplier :: int

text \<open>\<open>Partial<RetryConfig>\<close>: \<open>None\<close> is a key the caller did not give.\<close>

record partial_retry_config =
  p_maxRetries :: "int option"
  p_baseDelay :: "int option"
  p_maxDelay :: "int option"
  p_backoffMultiplier :: "int option"

definition defaultConfig :: retry_config where
  "defaultConfig = \<lparr>maxRetries = 3, baseDelay = 1000, maxDelay = 10000, backoffMultiplier = 2\<rparr>"

definition no_overrides :: partial_retry_config where
  "no_overrides = \<lparr>p_maxRetries = None, p_baseDelay = None, p_maxDelay = None,
     p_backoffMultiplier = None\<rparr>"

text \<open>\<open>{ ...this.defaultConfig, ...config }\<close>.\<close>

definition final_config :: "partial_retry_config \<Rightarrow> retry_config" where
  "final_config pc =
     \<lparr>maxRetries = case_option (maxRetries defaultConfig) id (p_maxRetries pc),
      baseDelay = case_option (baseDelay defaultConfig) id (p_baseDelay pc),
      maxDelay = case_option (maxDelay defaultConfig) id (p_maxDelay pc),
      backoffMultiplier = case_option (backoffMultiplier defaultConfig) id (p_backoffMultiplier pc)\<rparr>"

definition temporary_message :: "string \<Rightarrow> bool" where
  "temporary_message m \<longleftrightarrow>
     str_includes m ''timeout'' \<or> str_includes m ''rate limit'' \<or> str_includes m ''temporary''"

definition isRetryableError :: "gql_error \<Rightarrow> bool" where
  "isRetryableError e =
     (if err_code e = Some ''NETWORK_ERROR'' \<or> err_code e = Some ''TIMEOUT'' then True
      else if (case err_status e of Some s \<Rightarrow> s \<ge> 500 | None \<Rightarrow> False) then True
      else if err_status e = Some 429 then True
      else (case err_errors e of Some ms \<Rightarrow> list_ex temporary_message ms | None \<Rightarrow> False))"

definition calculateDelay :: "int \<Rightarrow> retry_config \<Rightarrow> int" where
  "calculateDelay attempt cfg =
     min (baseDelay cfg * backoffMultiplier cfg ^ nat (attempt - 1)) (maxDelay cfg)"

text \<open>The last two branches of \<open>enhanceError\<close>: a truthy \<open>error.code\<close>, or the generic
  message.\<close>

definition enhance_by_code :: "gql_error \<Rightarrow> enhanced_error" where
  "enhance_by_code e =
     (case err_code e of
        Some c \<Rightarrow> if c \<noteq> [] then \<lparr>ee_message = c @ '': '' @ err_message e, ee_code = c, ee_original = e\<rparr>
                  else \<lparr>ee_message = ''GraphQL request failed'', ee_code = ''GRAPHQL_ERROR'', ee_original = e\<rparr>
      | None \<Rightarrow> \<lparr>ee_message = ''GraphQL request failed'', ee_code = ''GRAPHQL_ERROR'', ee_original = e\<rparr>)"

definition enhanceError :: "gql_error \<Rightarrow> enhanced_error" where
  "enhanceError e =
     (case err_errors e of
        Some ms \<Rightarrow> \<lparr>ee_message = join_with ''; '' ms, ee_code = ''GRAPHQL_VALIDATION_ERROR'', ee_original = e\<rparr>
      | None \<Rightarrow>
          (case err_status e of
             Some s \<Rightarrow> if s \<noteq> 0
               then \<lparr>ee_message = ''HTTP '' @ show_int s @ '': '' @ err_message e,
                     ee_code = ''HTTP_'' @ show_int s, ee_original = e\<rparr>
               else enhance_by_code e
           | None \<Rightarrow> enhance_by_code e))"

definition throw_last :: "gql_error option \<Rightarrow> retry_failure" where
  "throw_last lastError = (case lastError of None \<Rightarrow> TypeError | Some e \<Rightarrow> Enhanced (enhanceError e))"

text \<open>
  The \<open>for\<close> loop of \<open>withRetry\<close>, from \<open>attempt\<close> on: a success returns; a failure on
  the last attempt or a non-retryable one breaks out to \<open>throw enhanceError(lastError)\<close>;
  any other failure waits \<open>calculateDelay(attempt)\<close> and tries again.
\<close>

function retry_loop ::
  "retry_config \<Rightarrow> ('s \<Rightarrow> (gql_error + 'a) \<times> 's) \<Rightarrow> (int \<Rightarrow> 's \<Rightarrow> 's) \<Rightarrow> int \<Rightarrow>
   gql_error option \<Rightarrow> int list \<Rightarrow> 's \<Rightarrow> (retry_failure + 'a) \<times> int list \<times> 's" where
  "retry_loop cfg op wait attempt lastError delays s =
     (if attempt \<le> maxRetries cfg then
        (case op s of
           (Inr v, s1) \<Rightarrow> (Inr v, delays, s1)
         | (Inl e, s1) \<Rightarrow>
             (if attempt = maxRetries cfg \<or> \<not> isRetryableError e
              then (Inl (throw_last (Some e)), delays, s1)
              else retry_loop cfg op wait (attempt + 1) (Some e)
                     (delays @ [calculateDelay attempt cfg]) (wait (calculateDelay attempt cfg) s1)))
      else (Inl (throw_last lastError), delays, s))"
  by pat_completeness auto
termination
  by (relation "measure (\<lambda>(cfg, op, wait, attempt, lastError, delays, s). nat (maxRetries cfg + 1 - attempt))")
    auto

declare retry_loop.simps [simp del]

definition withRetry ::
  "partial_retry_config \<Rightarrow> ('s \<Rightarrow> (gql_error + 'a) \<times> 's) \<Rightarrow> (int \<Rightarrow> 's \<Rightarrow> 's) \<Rightarrow> 's \<Rightarrow>
   (retry_failure + 'a) \<times> int list \<times> 's" where
  "withRetry pc op wait s = retry_loop (final_config pc) op wait 1 None [] s"

text \<open>\<open>handleGraphQLError\<close>: the first GraphQL error message that names an invalid field,
  a rate limit or a timeout decides; otherwise the generic classification.\<close>

fun classify_messages :: "string list \<Rightarrow> (string \<times> string \<times> bool) option" where
  "classify_messages [] = None"
| "classify_messages (m # ms) =
     (if str_includes m ''Cannot query field''
      then Some (''Invalid GraphQL query - field not found'', ''INVALID_FIELD'', False)
      else if str_includes m ''rate limit''
      then Some (''Rate limit exceeded - please try again later'', ''RATE_LIMIT'', True)
      else if str_includes m ''timeout''
      then Some (''Request timeout - server is busy'', ''TIMEOUT'', True)
      else classify_messages ms)"

definition handleGraphQLError :: "gql_error \<Rightarrow> string \<times> string \<times> bool" where
  "handleGraphQLError e =
     (case (case err_errors e of Some ms \<Rightarrow> classify_messages ms | None \<Rightarrow> None) of
        Some r \<Rightarrow> r
      | None \<Rightarrow> (if err_message e \<noteq> [] then err_message e else ''Unknown GraphQL error'',
                 ''UNKNOWN_ERROR'', isRetryableError e))"

subsection \<open>Instrumentation and sample failures\<close>

text \<open>\<open>count_calls\<close> counts the invocations of an operation in its state; the sample
  failures are an HTTP 503 (retryable) and an HTTP 400 (not retryable).\<close>

definition count_calls :: "('s \<Rightarrow> ('e + 'a) \<times> 's) \<Rightarrow> nat \<times> 's \<Rightarrow> ('e + 'a) \<times> nat \<times> 's" where
  "count_calls op = (\<lambda>(n, s). case op s of (r, s') \<Rightarrow> (r, (Suc n, s')))"

definition count_wait :: "(int \<Rightarrow> 's \<Rightarrow> 's) \<Rightarrow> int \<Rightarrow> nat \<times> 's \<Rightarrow> nat \<times> 's" where
  "count_wait wait = (\<lambda>d (n, s). (n, wait d s))"

definition e503 :: gql_error where
  "e503 = \<lparr>err_code = None, err_status = Some 503, err_errors = None, err_message = ''Service Unavailable''\<rparr>"

definition e400 :: gql_error where
  "e400 = \<lparr>err_code = None, err_status = Some 400, err_errors = None, err_message = ''Bad Request''\<rparr>"

subsection \<open>Lemmas\<close>

lemma retry_loop_exit:
  "\<not> attempt \<le> maxRetries cfg \<Longrightarrow> retry_loop cfg op wait attempt le ds s = (Inl (throw_last le), ds, s)"
  by (simp add: retry_loop.simps)

lemma retry_loop_step:
  "attempt \<le> maxRetries cfg \<Longrightarrow>
   retry_loop cfg op wait attempt le ds s =
     (case op s of
        (Inr v, s1) \<Rightarrow> (Inr v, ds, s1)
      | (Inl e, s1) \<Rightarrow>
          (if attempt = maxRetries cfg \<or> \<not> isRetryableError e
           then (Inl (throw_last (Some e)), ds, s1)
           else retry_loop cfg op wait (attempt + 1) (Some e)
                  (ds @ [calculateDelay attempt cfg]) (wait (calculateDelay attempt cfg) s1)))"
  by (simp add: retry_loop.simps)

lemma retry_loop_retryable:
  assumes "\<forall>s. \<exists>e s'. op s = (Inl e, s') \<and> isRetryableError e" "1 \<le> attempt" "attempt \<le> maxRetries cfg"
  shows "fst (snd (retry_loop cfg op wait attempt le ds s)) =
           ds @ map (\<lambda>i. calculateDelay (int i) cfg) [nat attempt..<nat (maxRetries cfg)]"
  using assms
proof (induction cfg op wait attempt le ds s rule: retry_loop.induct)
  case (1 cfg op wait attempt le ds s)
  obtain e s' where op: "op s = (Inl e, s')" "isRetryableError e" using "1.prems"(1) by blast
  show ?case
  proof (cases "attempt = maxRetries cfg")
    case True
    with "1.prems" op show ?thesis by (simp add: retry_loop_step)
  next
    case False
    then have lt: "attempt < maxRetries cfg" using "1.prems" by simp
    have IH: "fst (snd (retry_loop cfg op wait (attempt + 1) (Some e) (ds @ [calculateDelay attempt cfg])
                 (wait (calculateDelay attempt cfg) s'))) =
              (ds @ [calculateDelay attempt cfg]) @
                map (\<lambda>i. calculateDelay (int i) cfg) [nat (attempt + 1)..<nat (maxRetries cfg)]"
      using "1.IH" [OF "1.prems"(3) op(1)[symmetric] refl _ "1.prems"(1)] lt op(2) "1.prems" by simp
    have "[nat attempt..<nat (maxRetries cfg)] = nat attempt # [nat (attempt + 1)..<nat (maxRetries cfg)]"
      using lt "1.prems" by (simp add: upt_conv_Cons nat_add_distrib)
    with IH lt "1.prems" op show ?thesis by (simp add: retry_loop_step)
  qed
qed

lemma calculateDelay_le: "calculateDelay a cfg \<le> maxDelay cfg"
  by (simp add: calculateDelay_def)

lemma retry_loop_counted_gen:
  assumes "retry_loop cfg cop cwait attempt le ds p = (r, ds', p')"
    "1 \<le> attempt" "attempt \<le> maxRetries cfg" "cop = count_calls op" "cwait = count_wait wait"
  shows "\<exists>new. ds' = ds @ new \<and> fst p' = fst p + length new + 1 \<and>
           int (length new) \<le> maxRetries cfg - attempt \<and> (\<forall>d \<in> set new. d \<le> maxDelay cfg)"
  using assms
proof (induction cfg cop cwait attempt le ds p arbitrary: r ds' p' rule: retry_loop.induct)
  case (1 cfg cop cwait attempt le ds p)
  obtain n s where p: "p = (n, s)" by (cases p)
  obtain x s1 where opx: "op s = (x, s1)" by (cases "op s")
  have cc: "cop p = (x, Suc n, s1)" by (simp add: "1.prems"(4) count_calls_def p opx)
  show ?case
  proof (cases x)
    case (Inr v)
    with "1.prems" cc show ?thesis by (auto simp: retry_loop_step p)
  next
    case (Inl e)
    show ?thesis
    proof (cases "attempt = maxRetries cfg \<or> \<not> isRetryableError e")
      case True
      with "1.prems" cc Inl show ?thesis by (auto simp: retry_loop_step p)
    next
      case False
      let ?d = "calculateDelay attempt cfg"
      have rec: "retry_loop cfg cop cwait (attempt + 1) (Some e) (ds @ [?d])
                   (cwait ?d (Suc n, s1)) = (r, ds', p')"
        using "1.prems" cc Inl False by (simp add: retry_loop_step p)
      obtain new where "ds' = (ds @ [?d]) @ new" "fst p' = fst (cwait ?d (Suc n, s1)) + length new + 1"
          "int (length new) \<le> maxRetries cfg - (attempt + 1)" "\<forall>d \<in> set new. d \<le> maxDelay cfg"
        using "1.IH" [OF "1.prems"(3) cc[symmetric] Inl _ rec] False "1.prems" by auto
      then show ?thesis using calculateDelay_le [of attempt cfg] p "1.prems"(5)
        by (intro exI [of _ "?d # new"]) (simp add: count_wait_def)
    qed
  qed
qed

text \<open>C4. With every attempt failing retryably, withRetry waits calculateDelay(1), ..., calculateDelay(maxRetries - 1) in this order: the exponential back-off capped at maxDelay.\<close>

theorem withRetry_backoff:
  assumes "\<forall>s. \<exists>e s'. op s = (Inl e, s') \<and> isRetryableError e" "1 \<le> maxRetries (final_config pc)"
  shows "fst (snd (withRetry pc op wait s)) =
           map (\<lambda>i. calculateDelay (int i) (final_config pc)) [1..<nat (maxRetries (final_config pc))]"
  using retry_loop_retryable [OF assms(1) _ assms(2), of wait None "[]" s] by (simp add: withRetry_def)

theorem withRetry_backoff_witness:
  "fst (snd (withRetry no_overrides (\<lambda>s. (Inl e503 :: gql_error + unit, s)) (\<lambda>d s. s) (0::nat))) = [1000, 2000]"
proof -
  have "fst (snd (withRetry no_overrides (\<lambda>s. (Inl e503 :: gql_error + unit, s)) (\<lambda>d s. s) (0::nat))) =
          map (\<lambda>i. calculateDelay (int i) (final_config no_overrides)) [1..<nat (maxRetries (final_config no_overrides))]"
    by (rule withRetry_backoff) (simp_all add: e503_def isRetryableError_def final_config_def no_overrides_def defaultConfig_def)
  then show ?thesis
    by (simp add: final_config_def no_overrides_def defaultConfig_def calculateDelay_def upt_rec)
qed

text \<open>C5. A non-retryable failure on the first attempt is thrown at once, wrapped by enhanceError, with no delay and no second attempt.\<close>

theorem withRetry_non_retryable:
  assumes "op s = (Inl e, s1)" "\<not> isRetryableError e" "1 \<le> maxRetries (final_config pc)"
  shows "withRetry pc op wait s = (Inl (Enhanced (enhanceError e)), [], s1)"
  using assms by (simp add: withRetry_def retry_loop_step throw_last_def)

lemma withRetry_success:
  assumes "op s = (Inr v, s1)" "1 \<le> maxRetries (final_config pc)"
  shows "withRetry pc op wait s = (Inr v, [], s1)"
  using assms by (simp add: withRetry_def retry_loop_step)

text \<open>C6. withRetry invokes the operation at most maxRetries times, exactly once more than the number of delays it waits, and no delay exceeds maxDelay.\<close>

theorem withRetry_attempt_bound:
  assumes "withRetry pc (count_calls op) (count_wait wait) (0, s) = (r, ds, (n, s'))"
    "1 \<le> maxRetries (final_config pc)"
  shows "n = length ds + 1 \<and> int n \<le> maxRetries (final_config pc) \<and>
         (\<forall>d \<in> set ds. d \<le> maxDelay (final_config pc))"
  using retry_loop_counted_gen [OF assms(1) [unfolded withRetry_def] _ assms(2) refl refl] by auto

text \<open>With maxRetries below 1 the operation is never invoked and withRetry throws a TypeError (enhanceError(undefined)) instead of a classified error.\<close>

theorem withRetry_no_attempts:
  "maxRetries (final_config pc) < 1 \<Longrightarrow> withRetry pc op wait s = (Inl TypeError, [], s)"
  by (simp add: withRetry_def retry_loop_exit throw_last_def)

text \<open>handleGraphQLError and isRetryableError disagree: an HTTP 503 response carrying a Cannot query field error is retried by withRetry but reported as not retryable.\<close>

theorem handle_retry_disagree:
  "isRetryableError \<lparr>err_code = None, err_status = Some 503,
      err_errors = Some [''Cannot query field x''], err_message = ''''\<rparr> \<and>
   \<not> snd (snd (handleGraphQLError \<lparr>err_code = None, err_status = Some 503,
      err_errors = Some [''Cannot query field x''], err_message = ''''\<rparr>))"
  by (simp add: isRetryableError_def handleGraphQLError_def)

theorem withRetry_non_retryable_witness:
  "withRetry no_overrides (\<lambda>s. (Inl e400 :: gql_error + unit, Suc s)) (\<lambda>d s. s) (0::nat) =
     (Inl (Enhanced (enhanceError e400)), [], 1)"
  by (rule withRetry_non_retryable)
    (simp_all add: e400_def isRetryableError_def final_config_def no_overrides_def defaultConfig_def)

theorem withRetry_attempt_bound_witness:
  "int 3 \<le> maxRetries (final_config no_overrides) \<and>
   withRetry no_overrides (count_calls (\<lambda>s. (Inl e503 :: gql_error + unit, s))) (count_wait (\<lambda>d s. s)) (0, 0::nat) =
     (Inl (Enhanced (enhanceError e503)), [1000, 2000], (3, 0))"
proof -
  have run: "withRetry no_overrides (count_calls (\<lambda>s. (Inl e503 :: gql_error + unit, s))) (count_wait (\<lambda>d s. s)) (0, 0::nat) =
     (Inl (Enhanced (enhanceError e503)), [1000, 2000], (3, 0))"
    by (simp add: withRetry_def retry_loop.simps count_calls_def count_wait_def final_config_def
        no_overrides_def defaultConfig_def e503_def isRetryableError_def calculateDelay_def throw_last_def)
  have "1 \<le> maxRetries (final_config no_overrides)"
    by (simp add: final_config_def no_overrides_def defaultConfig_def)
  from withRetry_attempt_bound [OF run this] run show ?thesis by simp
qed

theorem withRetry_no_attempts_witness:
  "withRetry (no_overrides\<lparr>p_maxRetries := Some 0\<rparr>) (\<lambda>s. (Inr (), Suc s)) (\<lambda>d s. s) (0::nat) =
     (Inl TypeError, [], 0)"
  by (rule withRetry_no_attempts) (simp add: final_config_def no_overrides_def)

end
