(* ===== verification/Circuit_Breaker.thy ===== *)
theory Circuit_Breaker
  imports Retry
begin

text \<open>
  The circuit breaker of \<open>src/lib/graphql/error-handler.ts\<close>
  (\<open>GraphQLErrorHandler.circuitBreaker\<close> and \<open>withCircuitBreaker\<close>).  The breaker is
  one shared record; a call reads the clock once, at its start (\<open>const now =
  Date.now()\<close>), may be rejected, and otherwise runs the operation and updates the
  breaker when the operation settles.  \<open>withCircuitBreaker\<close> below is one call run
  to completion; the relation \<open>cb_conc\<close> splits calls into their start and their
  settlement, so that several calls can be in flight at once, as under the event loop.
\<close>

datatype cb_state = CLOSED | OPEN | HALF_OPEN

record breaker =
  failures :: nat
  lastFailureTime :: time
  state :: cb_state
  threshold :: nat
  timeout :: int

definition initial_breaker :: breaker where
  "initial_breaker = \<lparr>failures = 0, lastFailureTime = 0, state = CLOSED, threshold = 5, timeout = 60000\<rparr>"

text \<open>The rejection is a plain \<open>Error\<close> with only a message.\<close>

definition breaker_open_error :: gql_error where
  "breaker_open_error = \<lparr>err_code = None, err_status = None, err_errors = None,
     err_message = ''GraphQL service is temporarily unavailable (circuit breaker open)''\<rparr>"

text \<open>The guard at the start of a call: an open breaker rejects, unless the timeout has
  passed since the last failure, in which case it moves to \<open>HALF_OPEN\<close>.\<close>

definition cb_enter :: "time \<Rightarrow> breaker \<Rightarrow> gql_error + breaker" where
  "cb_enter now b =
     (if state b = OPEN then
        (if now - lastFailureTime b > timeout b then Inr (b\<lparr>state := HALF_OPEN\<rparr>)
         else Inl breaker_open_error)
      else Inr b)"

definition cb_success :: "breaker \<Rightarrow> breaker" where
  "cb_success b = (if state b = HALF_OPEN then b\<lparr>state := CLOSED, failures := 0\<rparr> else b)"

text \<open>A failure counts and records the call's start time \<open>now\<close>, and opens the breaker
  at the threshold.\<close>

definition cb_failure :: "time \<Rightarrow> breaker \<Rightarrow> breaker" where
  "cb_failure now b =
     (let b' = b\<lparr>failures := failures b + 1, lastFailureTime := now\<rparr> in
      if failures b' \<ge> threshold b' then b'\<lparr>state := OPEN\<rparr> else b')"

definition withCircuitBreaker ::
  "('s \<Rightarrow> (gql_error + 'a) \<times> 's) \<Rightarrow> time \<Rightarrow> breaker \<times> 's \<Rightarrow> (gql_error + 'a) \<times> breaker \<times> 's" where
  "withCircuitBreaker op now bs =
     (case bs of (b, s) \<Rightarrow>
       (case cb_enter now b of
          Inl err \<Rightarrow> (Inl err, b, s)
        | Inr b1 \<Rightarrow>
            (case op s of
               (Inr v, s1) \<Rightarrow> (Inr v, cb_success b1, s1)
             | (Inl e, s1) \<Rightarrow> (Inl e, cb_failure now b1, s1))))"

subsection \<open>Sequential calls\<close>

text \<open>The breaker's part of one completed call: \<open>ok\<close> is the operation's outcome, if
  it is invoked at all.\<close>

definition cb_step :: "breaker \<Rightarrow> time \<times> bool \<Rightarrow> breaker" where
  "cb_step b call =
     (case call of (now, ok) \<Rightarrow>
       (case cb_enter now b of
          Inl _ \<Rightarrow> b
        | Inr b1 \<Rightarrow> if ok then cb_success b1 else cb_failure now b1))"

definition cb_run :: "breaker \<Rightarrow> (time \<times> bool) list \<Rightarrow> breaker" where
  "cb_run b calls = foldl cb_step b calls"

subsection \<open>Interleaved calls\<close>

text \<open>
  The shared breaker, the start times of the calls in flight (by call number) and the
  clock.  \<open>cb_start\<close> is a call passing the guard, \<open>cb_reject\<close> one refused by it,
  \<open>cb_settle\<close> the settlement of a call in flight with the outcome \<open>ok\<close>.
\<close>

record cb_sys =
  brk :: breaker
  inflight :: "nat \<rightharpoonup> time"
  clock :: time

definition cb_init :: cb_sys where
  "cb_init = \<lparr>brk = initial_breaker, inflight = Map.empty, clock = 0\<rparr>"

inductive cb_conc :: "cb_sys \<Rightarrow> cb_sys \<Rightarrow> bool" where
  cb_start: "\<lbrakk>inflight s i = None; clock s \<le> now; cb_enter now (brk s) = Inr b1\<rbrakk> \<Longrightarrow>
     cb_conc s (s\<lparr>brk := b1, inflight := (inflight s)(i \<mapsto> now), clock := now\<rparr>)"
| cb_reject: "\<lbrakk>clock s \<le> now; cb_enter now (brk s) = Inl err\<rbrakk> \<Longrightarrow>
     cb_conc s (s\<lparr>clock := now\<rparr>)"
| cb_settle: "inflight s i = Some t \<Longrightarrow>
     cb_conc s (s\<lparr>brk := (if ok then cb_success (brk s) else cb_failure t (brk s)),
                  inflight := (inflight s)(i := None)\<rparr>)"

inductive cb_reach :: "cb_sys \<Rightarrow> bool" where
  cb_reach_init: "cb_reach cb_init"
| cb_reach_step: "cb_reach s \<Longrightarrow> cb_conc s t \<Longrightarrow> cb_reach t"

text \<open>The invariant: the breaker is closed exactly when its failure count is below the
  threshold, and the threshold never changes.\<close>

definition cb_inv :: "breaker \<Rightarrow> bool" where
  "cb_inv b \<longleftrightarrow> threshold b = 5 \<and> (state b = CLOSED \<longleftrightarrow> failures b < threshold b)"

subsection \<open>Lemmas\<close>

lemma cb_enter_inv: "cb_enter now b = Inr b1 \<Longrightarrow> cb_inv b \<Longrightarrow> cb_inv b1"
  by (auto simp: cb_enter_def cb_inv_def split: if_splits)

lemma cb_enter_reject: "cb_enter now b = Inl e \<Longrightarrow> e = breaker_open_error"
  by (auto simp: cb_enter_def split: if_splits)

lemma cb_success_inv: "cb_inv b \<Longrightarrow> cb_inv (cb_success b)"
  by (auto simp: cb_success_def cb_inv_def)

lemma cb_failure_inv: "cb_inv b \<Longrightarrow> cb_inv (cb_failure t b)"
  by (auto simp: cb_failure_def cb_inv_def Let_def)

lemma cb_conc_inv: "cb_conc s t \<Longrightarrow> cb_inv (brk s) \<Longrightarrow> cb_inv (brk t)"
  by (induction rule: cb_conc.induct) (auto intro: cb_enter_inv cb_success_inv cb_failure_inv)

text \<open>C7. In every state reachable by interleaved starts, rejections and settlements of calls, the breaker is CLOSED exactly when its failure count is below the threshold, and the threshold stays 5.\<close>

theorem cb_reach_inv: "cb_reach s \<Longrightarrow> cb_inv (brk s)"
proof (induction rule: cb_reach.induct)
  case cb_reach_init
  show ?case by (simp add: cb_init_def initial_breaker_def cb_inv_def)
next
  case (cb_reach_step s t)
  then show ?case by (blast intro: cb_conc_inv)
qed

theorem cb_reach_inv_witness: "cb_reach cb_init \<and> cb_inv (brk cb_init)"
  using cb_reach_inv [OF cb_reach.cb_reach_init] by (simp add: cb_reach.cb_reach_init)

text \<open>C8. An OPEN breaker whose timeout has not passed since the last failure rejects the call with the breaker-open error without invoking the operation and without changing any state.\<close>

theorem cb_open_rejects:
  assumes "state b = OPEN" "now - lastFailureTime b \<le> timeout b"
  shows "withCircuitBreaker op now (b, s) = (Inl breaker_open_error, b, s)"
  using assms by (simp add: withCircuitBreaker_def cb_enter_def)

text \<open>An OPEN breaker whose timeout has passed lets the call through; if it succeeds the breaker is CLOSED with failure count 0.\<close>

theorem cb_half_open_trial:
  assumes "state b = OPEN" "now - lastFailureTime b > timeout b" "op s = (Inr v, s1)"
  shows "withCircuitBreaker op now (b, s) = (Inr v, b\<lparr>state := CLOSED, failures := 0\<rparr>, s1)"
  using assms by (simp add: withCircuitBreaker_def cb_enter_def cb_success_def)

lemma cb_step_closed_failure:
  "state b = CLOSED \<Longrightarrow> cb_step b (t, False) = cb_failure t b"
  by (simp add: cb_step_def cb_enter_def)

lemma cb_run_failures_closed:
  assumes "state b = CLOSED" "failures b + length ts < threshold b"
  shows "cb_run b (map (\<lambda>t. (t, False)) ts) =
           b\<lparr>failures := failures b + length ts,
             lastFailureTime := (if ts = [] then lastFailureTime b else last ts)\<rparr>"
  using assms
proof (induction ts arbitrary: b)
  case Nil
  then show ?case by (simp add: cb_run_def)
next
  case (Cons t ts)
  have step: "cb_step b (t, False) = b\<lparr>failures := failures b + 1, lastFailureTime := t\<rparr>"
    using Cons.prems by (simp add: cb_step_closed_failure cb_failure_def Let_def)
  have "cb_run (b\<lparr>failures := failures b + 1, lastFailureTime := t\<rparr>) (map (\<lambda>t. (t, False)) ts) =
        b\<lparr>failures := failures b + 1 + length ts,
          lastFailureTime := (if ts = [] then t else last ts)\<rparr>"
    using Cons.IH [of "b\<lparr>failures := failures b + 1, lastFailureTime := t\<rparr>"] Cons.prems by simp
  then show ?case using step by (simp add: cb_run_def)
qed

text \<open>From a CLOSED breaker, consecutive failures that bring the count to the threshold open it.\<close>

theorem cb_opens_at_threshold:
  assumes "state b = CLOSED" "failures b + length ts + 1 = threshold b"
  shows "state (cb_run b (map (\<lambda>t. (t, False)) (ts @ [t]))) = OPEN"
proof -
  have pre: "cb_run b (map (\<lambda>t. (t, False)) ts) =
           b\<lparr>failures := failures b + length ts,
             lastFailureTime := (if ts = [] then lastFailureTime b else last ts)\<rparr>"
    using assms by (intro cb_run_failures_closed) simp_all
  show ?thesis
    using assms by (simp add: cb_run_def pre [unfolded cb_run_def] cb_step_closed_failure cb_failure_def Let_def)
qed

theorem cb_opens_at_threshold_witness:
  "state (cb_run initial_breaker (map (\<lambda>t. (t, False)) ([0, 1, 2, 3] @ [4]))) = OPEN"
  by (rule cb_opens_at_threshold) (simp_all add: initial_breaker_def)

text \<open>Failures need not be consecutive: successes while CLOSED do not reset the count, so five failures separated by successes open the breaker.\<close>

theorem cb_nonconsecutive_opens:
  "state (cb_run initial_breaker
     [(0, False), (1, True), (2, False), (3, True), (4, False), (5, True), (6, False), (7, True), (8, False)]) = OPEN"
  by (simp add: cb_run_def cb_step_def cb_enter_def cb_success_def cb_failure_def initial_breaker_def Let_def)

theorem cb_open_rejects_witness:
  "withCircuitBreaker (\<lambda>s. (Inr (), Suc s)) 100
     (initial_breaker\<lparr>state := OPEN, failures := 5, lastFailureTime := 50\<rparr>, 0::nat) =
   (Inl breaker_open_error, initial_breaker\<lparr>state := OPEN, failures := 5, lastFailureTime := 50\<rparr>, 0)"
  by (rule cb_open_rejects) (simp_all add: initial_breaker_def)

theorem cb_half_open_trial_witness:
  "withCircuitBreaker (\<lambda>s. (Inr (), Suc s)) 70000
     (initial_breaker\<lparr>state := OPEN, failures := 5, lastFailureTime := 50\<rparr>, 0::nat) =
   (Inr (), initial_breaker\<lparr>state := OPEN, failures := 5, lastFailureTime := 50\<rparr>\<lparr>state := CLOSED, failures := 0\<rparr>, 1)"
  by (rule cb_half_open_trial) (simp_all add: initial_breaker_def)

lemma cb_reach_start:
  "cb_reach s \<Longrightarrow> inflight s i = None \<Longrightarrow> clock s \<le> now \<Longrightarrow> cb_enter now (brk s) = Inr b1 \<Longrightarrow>
   cb_reach (s\<lparr>brk := b1, inflight := (inflight s)(i \<mapsto> now), clock := now\<rparr>)"
  by (rule cb_reach.cb_reach_step) (auto intro: cb_conc.cb_start)

lemma cb_reach_fail_cycle:
  assumes "cb_reach s" "inflight s i = None" "clock s \<le> now" "state (brk s) = CLOSED"
  shows "cb_reach (s\<lparr>clock := now, brk := cb_failure now (brk s)\<rparr>)"
proof -
  let ?s1 = "s\<lparr>brk := brk s, inflight := (inflight s)(i \<mapsto> now), clock := now\<rparr>"
  have r1: "cb_reach ?s1"
    using assms by (intro cb_reach_start) (simp_all add: cb_enter_def)
  have "cb_conc ?s1 (?s1\<lparr>brk := (if False then cb_success (brk ?s1) else cb_failure now (brk ?s1)),
                  inflight := (inflight ?s1)(i := None)\<rparr>)"
    by (rule cb_conc.cb_settle) simp
  with r1 have "cb_reach (?s1\<lparr>brk := cb_failure now (brk ?s1), inflight := (inflight ?s1)(i := None)\<rparr>)"
    by (auto intro: cb_reach.cb_reach_step)
  then show ?thesis using assms(2) by (simp add: fun_upd_idem)
qed

text \<open>C9. While the breaker is HALF_OPEN every call passes the guard: a reachable state has two trial calls in flight after the breaker opened, where the specification allows exactly one.\<close>

theorem cb_two_trial_calls:
  "\<exists>s. cb_reach s \<and> state (brk s) = HALF_OPEN \<and> inflight s 10 = Some 60006 \<and> inflight s 11 = Some 60007"
proof -
  let ?f = "\<lambda>now s. s\<lparr>clock := now, brk := cb_failure now (brk s)\<rparr>"
  have s1: "cb_reach (?f 1 cb_init)"
    by (rule cb_reach_fail_cycle [OF cb_reach.cb_reach_init, of 0])
      (simp_all add: cb_init_def initial_breaker_def)
  have s2: "cb_reach (?f 2 (?f 1 cb_init))"
    by (rule cb_reach_fail_cycle [OF s1, of 0])
      (simp_all add: cb_init_def initial_breaker_def cb_failure_def Let_def)
  have s3: "cb_reach (?f 3 (?f 2 (?f 1 cb_init)))"
    by (rule cb_reach_fail_cycle [OF s2, of 0])
      (simp_all add: cb_init_def initial_breaker_def cb_failure_def Let_def)
  have s4: "cb_reach (?f 4 (?f 3 (?f 2 (?f 1 cb_init))))"
    by (rule cb_reach_fail_cycle [OF s3, of 0])
      (simp_all add: cb_init_def initial_breaker_def cb_failure_def Let_def)
  have s5: "cb_reach (?f 5 (?f 4 (?f 3 (?f 2 (?f 1 cb_init)))))"
    by (rule cb_reach_fail_cycle [OF s4, of 0])
      (simp_all add: cb_init_def initial_breaker_def cb_failure_def Let_def)
  define o5 where "o5 = ?f 5 (?f 4 (?f 3 (?f 2 (?f 1 cb_init))))"
  have o5: "brk o5 = initial_breaker\<lparr>failures := 5, lastFailureTime := 5, state := OPEN\<rparr>"
      "inflight o5 = Map.empty" "clock o5 = 5"
    by (simp_all add: o5_def cb_init_def initial_breaker_def cb_failure_def Let_def)
  define h1 where "h1 = o5\<lparr>brk := (brk o5)\<lparr>state := HALF_OPEN\<rparr>, inflight := (inflight o5)(10 \<mapsto> 60006), clock := 60006\<rparr>"
  have r6: "cb_reach h1"
    unfolding h1_def
    by (rule cb_reach_start [OF s5 [folded o5_def]]) (simp_all add: o5 cb_enter_def initial_breaker_def)
  define h2 where "h2 = h1\<lparr>brk := brk h1, inflight := (inflight h1)(11 \<mapsto> 60007), clock := 60007\<rparr>"
  have r7: "cb_reach h2"
    unfolding h2_def
    by (rule cb_reach_start [OF r6]) (simp_all add: h1_def o5 cb_enter_def)
  have "state (brk h2) = HALF_OPEN \<and> inflight h2 10 = Some 60006 \<and> inflight h2 11 = Some 60007"
    by (simp add: h2_def h1_def o5)
  with r7 show ?thesis by blast
qed

end
