(* ===== verification/Batch.thy ===== *)
theory Batch
  imports Prelude
begin

text \<open>
  The request batcher \<open>GraphQLBatchClient\<close> of \<open>src/lib/graphql/batch-client.ts\<close>.
  Its state is the queue of pending queries, each with the resolver of the caller's
  promise (a ticket number here), and whether a dispatch timer is pending.  The
  operations are the events of a step function: \<open>addToBatch\<close> (\<open>BatchEnqueue\<close>), the
  timer firing (\<open>BatchTimer\<close>) and \<open>clearBatch\<close> (\<open>BatchClear\<close>).  A step returns the
  batches it dispatches; \<open>executeBatch\<close> runs a dispatched batch, each query through
  the executor independently, and resolves each ticket with its own result.  The
  executor (\<open>redisEnhancedGraphQLClient.request\<close>) is a parameter giving each query's
  outcome; the timer's 10 ms are not modelled, only whether it is pending, since any
  pending timer may fire between two events.
\<close>

record batch_options =
  opt_useCache :: "bool option"
  opt_cacheTTL :: "int option"
  opt_queryType :: "string option"

record batch_query =
  bq_id :: string
  bq_query :: string
  bq_variables :: "json option"
  bq_options :: "batch_options option"

text \<open>What the executor does with a query: a response with its \<open>fromCache\<close> flag, or a
  thrown value, an \<open>Error\<close> with a message or anything else.\<close>

datatype thrown = ErrorObj string | NonError

type_synonym exec_outcome = "thrown + json \<times> bool"

record batch_result =
  br_id :: string
  br_data :: "json option"
  br_error :: "string option"
  br_fromCache :: bool

record batch_response =
  results :: "batch_result list"
  cacheHits :: nat
  cacheMisses :: nat
  errors :: nat

type_synonym ticket = nat

record batcher =
  batchQueue :: "(ticket \<times> batch_query) list"
  batchTimeout :: bool

definition MAX_BATCH_SIZE :: nat where
  "MAX_BATCH_SIZE = 10"

definition batcher_init :: batcher where
  "batcher_init = \<lparr>batchQueue = [], batchTimeout = False\<rparr>"

datatype batch_event = BatchEnqueue ticket batch_query | BatchTimer | BatchClear

text \<open>\<open>executeBatch\<close>, up to its first \<open>await\<close>: an empty queue does nothing; otherwise the
  whole queue is taken as one batch, the queue emptied and the timer cleared.\<close>

definition executeBatch :: "batcher \<Rightarrow> (ticket \<times> batch_query) list option \<times> batcher" where
  "executeBatch st =
     (if batchQueue st = [] then (None, st)
      else (Some (batchQueue st), st\<lparr>batchQueue := [], batchTimeout := False\<rparr>))"

text \<open>\<open>addToBatch\<close>: push; a full queue is executed at once, otherwise the timer is
  (re)started.\<close>

definition addToBatch :: "ticket \<Rightarrow> batch_query \<Rightarrow> batcher \<Rightarrow> (ticket \<times> batch_query) list option \<times> batcher" where
  "addToBatch t q st =
     (let st1 = st\<lparr>batchQueue := batchQueue st @ [(t, q)]\<rparr> in
      if length (batchQueue st1) \<ge> MAX_BATCH_SIZE then executeBatch st1
      else (None, st1\<lparr>batchTimeout := True\<rparr>))"

definition clearBatch :: "batcher \<Rightarrow> batcher" where
  "clearBatch st = st\<lparr>batchTimeout := False, batchQueue := []\<rparr>"

definition getBatchStats :: "batcher \<Rightarrow> nat \<times> bool" where
  "getBatchStats st = (length (batchQueue st), batchTimeout st)"

fun batch_step :: "batcher \<Rightarrow> batch_event \<Rightarrow> (ticket \<times> batch_query) list option \<times> batcher" where
  "batch_step st (BatchEnqueue t q) = addToBatch t q st"
| "batch_step st BatchTimer = (if batchTimeout st then executeBatch st else (None, st))"
| "batch_step st BatchClear = (None, clearBatch st)"

text \<open>A run returns the final state and the dispatched batches in order.\<close>

fun batch_run :: "batcher \<Rightarrow> batch_event list \<Rightarrow> batcher \<times> (ticket \<times> batch_query) list list" where
  "batch_run st [] = (st, [])"
| "batch_run st (e # es) =
     (let r = batch_run (snd (batch_step st e)) es in
      (fst r, (case fst (batch_step st e) of None \<Rightarrow> snd r | Some b \<Rightarrow> b # snd r)))"

text \<open>The result of one query of a dispatched batch (the two \<open>resolve\<close> calls).\<close>

definition query_result :: "batch_query \<Rightarrow> exec_outcome \<Rightarrow> batch_result" where
  "query_result q r =
     (case r of
        Inr (d, fc) \<Rightarrow> \<lparr>br_id = bq_id q, br_data = Some d, br_error = None, br_fromCache = fc\<rparr>
      | Inl th \<Rightarrow> \<lparr>br_id = bq_id q, br_data = None,
                   br_error = Some (case th of ErrorObj m \<Rightarrow> m | NonError \<Rightarrow> ''Unknown error''),
                   br_fromCache = False\<rparr>)"

text \<open>The rest of \<open>executeBatch\<close>: every ticket of the batch is resolved with its own
  query's result.\<close>

definition resolve_batch ::
  "(batch_query \<Rightarrow> exec_outcome) \<Rightarrow> (ticket \<times> batch_query) list \<Rightarrow> (ticket \<times> batch_result) list" where
  "resolve_batch exec b = map (\<lambda>(t, q). (t, query_result q (exec q))) b"

text \<open>\<open>executeBatchQueries\<close>: all queries run, with the counters of hits, misses and
  errors.\<close>

fun count_outcomes :: "exec_outcome list \<Rightarrow> nat \<times> nat \<times> nat" where
  "count_outcomes [] = (0, 0, 0)"
| "count_outcomes (r # rs) =
     (case count_outcomes rs of (h, m, e) \<Rightarrow>
        (case r of Inr (_, True) \<Rightarrow> (Suc h, m, e) | Inr (_, False) \<Rightarrow> (h, Suc m, e)
         | Inl _ \<Rightarrow> (h, m, Suc e)))"

definition executeBatchQueries :: "(batch_query \<Rightarrow> exec_outcome) \<Rightarrow> batch_query list \<Rightarrow> batch_response" where
  "executeBatchQueries exec qs =
     (let rs = map exec qs; (h, m, e) = count_outcomes rs in
      \<lparr>results = map2 query_result qs rs, cacheHits = h, cacheMisses = m, errors = e\<rparr>)"

text \<open>The batcher's invariant: the queue stays below the size cap and a timer is pending
  exactly when the queue is not empty.\<close>

definition batch_inv :: "batcher \<Rightarrow> bool" where
  "batch_inv st \<longleftrightarrow> length (batchQueue st) < MAX_BATCH_SIZE \<and> (batchTimeout st \<longleftrightarrow> batchQueue st \<noteq> [])"

fun enqueued :: "batch_event list \<Rightarrow> (ticket \<times> batch_query) list" where
  "enqueued [] = []"
| "enqueued (BatchEnqueue t q # es) = (t, q) # enqueued es"
| "enqueued (_ # es) = enqueued es"

text \<open>Helpers of the proofs: the dispatched batch of a step as a list, and a sample query.\<close>

definition dispatched_list :: "(ticket \<times> batch_query) list option \<Rightarrow> (ticket \<times> batch_query) list" where
  "dispatched_list d = (case d of None \<Rightarrow> [] | Some b \<Rightarrow> b)"

definition sample_query :: "string \<Rightarrow> batch_query" where
  "sample_query i = \<lparr>bq_id = i, bq_query = ''{ products }'', bq_variables = None, bq_options = None\<rparr>"

subsection \<open>Lemmas\<close>

lemma batch_run_Cons [simp]:
  "batch_run st (e # es) =
     (fst (batch_run (snd (batch_step st e)) es),
      (case fst (batch_step st e) of None \<Rightarrow> snd (batch_run (snd (batch_step st e)) es)
       | Some b \<Rightarrow> b # snd (batch_run (snd (batch_step st e)) es)))"
  by (simp add: Let_def)

declare batch_run.simps(2) [simp del]

lemma batch_step_inv: "batch_inv st \<Longrightarrow> batch_inv (snd (batch_step st e))"
  by (cases e) (auto simp: batch_inv_def addToBatch_def executeBatch_def clearBatch_def Let_def)

text \<open>C10. Every run of addToBatch, timer and clearBatch events keeps the batcher invariant: fewer than MAX_BATCH_SIZE queued queries, and a dispatch timer pending exactly when the queue is non-empty.\<close>

lemma batch_run_inv: "batch_inv st \<Longrightarrow> batch_inv (fst (batch_run st es))"
proof (induction es arbitrary: st)
  case Nil
  then show ?case by simp
next
  case (Cons e es)
  obtain d st' where s: "batch_step st e = (d, st')" by (cases "batch_step st e")
  have "batch_inv st'" using batch_step_inv [OF Cons.prems, of e] s by simp
  then show ?case using Cons.IH [of st'] s by (simp add: Let_def)
qed

lemma batch_step_conserve:
  "e \<noteq> BatchClear \<Longrightarrow>
   dispatched_list (fst (batch_step st e)) @ batchQueue (snd (batch_step st e)) = batchQueue st @ enqueued [e]"
  by (cases e) (auto simp: addToBatch_def executeBatch_def dispatched_list_def Let_def)

text \<open>C11. Without clearBatch, the dispatched batches followed by the remaining queue are exactly the enqueued requests in arrival order: nothing is lost, duplicated or reordered.\<close>

theorem batch_conservation:
  "BatchClear \<notin> set es \<Longrightarrow>
   concat (snd (batch_run st es)) @ batchQueue (fst (batch_run st es)) = batchQueue st @ enqueued es"
proof (induction es arbitrary: st)
  case Nil
  then show ?case by simp
next
  case (Cons e es)
  have ne: "e \<noteq> BatchClear" and rest: "BatchClear \<notin> set es" using Cons.prems by auto
  have step: "dispatched_list (fst (batch_step st e)) @ batchQueue (snd (batch_step st e)) =
              batchQueue st @ enqueued [e]" by (rule batch_step_conserve [OF ne])
  have IH: "concat (snd (batch_run (snd (batch_step st e)) es)) @ batchQueue (fst (batch_run (snd (batch_step st e)) es)) =
            batchQueue (snd (batch_step st e)) @ enqueued es" by (rule Cons.IH [OF rest])
  have enq: "enqueued (e # es) = enqueued [e] @ enqueued es" by (cases e) simp_all
  show ?case
    using step IH enq by (simp add: batch_run_Cons dispatched_list_def split: option.splits)
qed

lemma batch_step_dispatch_size:
  "batch_inv st \<Longrightarrow> fst (batch_step st e) = Some b \<Longrightarrow> b \<noteq> [] \<and> length b \<le> MAX_BATCH_SIZE"
  by (cases e) (auto simp: batch_inv_def addToBatch_def executeBatch_def Let_def split: if_splits)

text \<open>Every dispatched batch is non-empty and holds at most MAX_BATCH_SIZE queries.\<close>

theorem batch_dispatch_bounded:
  "batch_inv st \<Longrightarrow> b \<in> set (snd (batch_run st es)) \<Longrightarrow> b \<noteq> [] \<and> length b \<le> MAX_BATCH_SIZE"
proof (induction es arbitrary: st)
  case Nil
  then show ?case by simp
next
  case (Cons e es)
  have inv': "batch_inv (snd (batch_step st e))" by (rule batch_step_inv [OF Cons.prems(1)])
  show ?case
  proof (cases "fst (batch_step st e)")
    case None
    with Cons.prems(2) have "b \<in> set (snd (batch_run (snd (batch_step st e)) es))"
      by (simp add: batch_run_Cons)
    then show ?thesis by (rule Cons.IH [OF inv'])
  next
    case (Some b0)
    with Cons.prems(2) have "b = b0 \<or> b \<in> set (snd (batch_run (snd (batch_step st e)) es))"
      by (simp add: batch_run_Cons)
    then show ?thesis
      using batch_step_dispatch_size [OF Cons.prems(1) Some] Cons.IH [OF inv'] by blast
  qed
qed

text \<open>The request that brings the queue to MAX_BATCH_SIZE dispatches the whole queue at once, without waiting for the timer, and leaves an empty queue with no timer.\<close>

theorem batch_size_cap:
  assumes "length (batchQueue st) + 1 = MAX_BATCH_SIZE"
  shows "batch_step st (BatchEnqueue t q) = (Some (batchQueue st @ [(t, q)]), batcher_init)"
  using assms by (simp add: addToBatch_def executeBatch_def batcher_init_def Let_def)

lemma batch_run_enqueue_small:
  "length (batchQueue st) + length rs < MAX_BATCH_SIZE \<Longrightarrow>
   batch_run st (map (\<lambda>(t, q). BatchEnqueue t q) rs) =
     (if rs = [] then st else st\<lparr>batchQueue := batchQueue st @ rs, batchTimeout := True\<rparr>, [])"
proof (induction rs arbitrary: st)
  case Nil
  then show ?case by simp
next
  case (Cons r rs)
  obtain t q where r: "r = (t, q)" by (cases r)
  let ?st1 = "st\<lparr>batchQueue := batchQueue st @ [(t, q)], batchTimeout := True\<rparr>"
  have step: "batch_step st (BatchEnqueue t q) = (None, ?st1)"
    using Cons.prems by (simp add: addToBatch_def Let_def)
  have "batch_run ?st1 (map (\<lambda>(t, q). BatchEnqueue t q) rs) =
          (if rs = [] then ?st1 else ?st1\<lparr>batchQueue := batchQueue ?st1 @ rs, batchTimeout := True\<rparr>, [])"
    using Cons.IH [of ?st1] Cons.prems by simp
  then show ?case using step r by simp
qed

text \<open>Fewer than MAX_BATCH_SIZE requests enqueued on an idle batcher are dispatched together as exactly one batch when the timer fires.\<close>

theorem batch_coalesce:
  assumes "rs \<noteq> []" "length rs < MAX_BATCH_SIZE"
  shows "batch_run batcher_init (map (\<lambda>(t, q). BatchEnqueue t q) rs @ [BatchTimer]) = (batcher_init, [rs])"
proof -
  have "batch_run batcher_init (map (\<lambda>(t, q). BatchEnqueue t q) rs) =
          (batcher_init\<lparr>batchQueue := rs, batchTimeout := True\<rparr>, [])"
    using batch_run_enqueue_small [of batcher_init rs] assms by (simp add: batcher_init_def)
  moreover have "\<And>st es es'. batch_run st (es @ es') =
      (fst (batch_run (fst (batch_run st es)) es'), snd (batch_run st es) @ snd (batch_run (fst (batch_run st es)) es'))"
  proof -
    fix st :: batcher and es es' :: "batch_event list"
    show "batch_run st (es @ es') =
      (fst (batch_run (fst (batch_run st es)) es'), snd (batch_run st es) @ snd (batch_run (fst (batch_run st es)) es'))"
      by (induction es arbitrary: st) (auto split: prod.splits option.splits)
  qed
  ultimately show ?thesis
    using assms by (simp add: executeBatch_def batcher_init_def)
qed

lemma batch_step_tickets:
  "fst ` set (dispatched_list (fst (batch_step st e))) \<union> fst ` set (batchQueue (snd (batch_step st e))) \<subseteq>
   fst ` set (batchQueue st) \<union> fst ` set (enqueued [e])"
  by (cases e) (auto simp: addToBatch_def executeBatch_def clearBatch_def dispatched_list_def Let_def)

lemma batch_run_tickets:
  "fst ` set (concat (snd (batch_run st es))) \<subseteq> fst ` set (batchQueue st) \<union> fst ` set (enqueued es)"
proof (induction es arbitrary: st)
  case Nil
  then show ?case by simp
next
  case (Cons e es)
  have enq: "enqueued (e # es) = enqueued [e] @ enqueued es" by (cases e) simp_all
  have IH: "fst ` set (concat (snd (batch_run (snd (batch_step st e)) es))) \<subseteq>
            fst ` set (batchQueue (snd (batch_step st e))) \<union> fst ` set (enqueued es)"
    by (rule Cons.IH)
  have st: "fst ` set (dispatched_list (fst (batch_step st e))) \<subseteq> fst ` set (batchQueue st) \<union> fst ` set (enqueued [e])"
    "fst ` set (batchQueue (snd (batch_step st e))) \<subseteq> fst ` set (batchQueue st) \<union> fst ` set (enqueued [e])"
    using batch_step_tickets [of st e] by blast+
  have d: "fst ` set (concat (snd (batch_run st (e # es)))) =
           fst ` set (dispatched_list (fst (batch_step st e))) \<union>
           fst ` set (concat (snd (batch_run (snd (batch_step st e)) es)))"
    by (auto simp: dispatched_list_def split: option.splits)
  have en: "fst ` set (enqueued (e # es)) = fst ` set (enqueued [e]) \<union> fst ` set (enqueued es)"
    using enq by (simp add: image_Un)
  show ?case unfolding d en using IH st by blast
qed

text \<open>clearBatch drops the pending requests: a request enqueued and then cleared is never dispatched, so its promise never settles.\<close>

theorem batch_clear_drops:
  assumes "length (batchQueue st) + 1 < MAX_BATCH_SIZE" "t \<notin> fst ` set (batchQueue st)"
    "t \<notin> fst ` set (enqueued es)"
  shows "t \<notin> fst ` set (concat (snd (batch_run st (BatchEnqueue t q # BatchClear # es))))"
proof -
  have "batch_step st (BatchEnqueue t q) = (None, st\<lparr>batchQueue := batchQueue st @ [(t, q)], batchTimeout := True\<rparr>)"
    using assms(1) by (simp add: addToBatch_def Let_def)
  then have run: "snd (batch_run st (BatchEnqueue t q # BatchClear # es)) =
      snd (batch_run (clearBatch (st\<lparr>batchQueue := batchQueue st @ [(t, q)], batchTimeout := True\<rparr>)) es)"
    by simp
  have "batchQueue (clearBatch (st\<lparr>batchQueue := batchQueue st @ [(t, q)], batchTimeout := True\<rparr>)) = []"
    by (simp add: clearBatch_def)
  then show ?thesis
    using batch_run_tickets [of "clearBatch (st\<lparr>batchQueue := batchQueue st @ [(t, q)], batchTimeout := True\<rparr>)" es]
      assms(3) run by auto
qed

text \<open>Executing a batch with distinct tickets resolves every ticket exactly once, in order, with the result of its own query: one query failing does not affect the others.\<close>

theorem resolve_batch_own:
  assumes "distinct (map fst b)"
  shows "map fst (resolve_batch exec b) = map fst b \<and>
         (\<forall>(t, q) \<in> set b. map_of (resolve_batch exec b) t = Some (query_result q (exec q)))"
proof -
  have fst_eq: "map fst (resolve_batch exec b) = map fst b"
    by (induction b) (auto simp: resolve_batch_def)
  have "\<forall>(t, q) \<in> set b. map_of (resolve_batch exec b) t = Some (query_result q (exec q))"
    using assms by (auto simp: resolve_batch_def map_of_map map_of_is_SomeI)
  with fst_eq show ?thesis by blast
qed

lemma count_outcomes_sum:
  "(case count_outcomes rs of (h, m, e) \<Rightarrow> h + m + e) = length rs \<and>
   snd (snd (count_outcomes rs)) = length (filter isl rs)"
  by (induction rs) (auto split: prod.splits sum.splits bool.splits)

text \<open>executeBatchQueries returns one result per query, and its cache hits, cache misses and errors add up to the number of queries, the errors being the failed queries.\<close>

theorem executeBatchQueries_counts:
  "cacheHits (executeBatchQueries exec qs) + cacheMisses (executeBatchQueries exec qs) +
     errors (executeBatchQueries exec qs) = length qs \<and>
   errors (executeBatchQueries exec qs) = length (filter isl (map exec qs)) \<and>
   length (results (executeBatchQueries exec qs)) = length qs"
  using count_outcomes_sum [of "map exec qs"]
  by (auto simp: executeBatchQueries_def Let_def split: prod.splits)

theorem batch_run_inv_witness:
  "batch_inv batcher_init \<and>
   batch_inv (fst (batch_run batcher_init [BatchEnqueue 1 (sample_query ''a''), BatchTimer]))"
  using batch_run_inv [of batcher_init "[BatchEnqueue 1 (sample_query ''a''), BatchTimer]"]
  by (simp add: batch_inv_def batcher_init_def MAX_BATCH_SIZE_def)

theorem batch_conservation_witness:
  "BatchClear \<notin> set [BatchEnqueue 1 (sample_query ''a''), BatchTimer, BatchEnqueue 2 (sample_query ''b'')] \<and>
   concat (snd (batch_run batcher_init [BatchEnqueue 1 (sample_query ''a''), BatchTimer, BatchEnqueue 2 (sample_query ''b'')])) @
     batchQueue (fst (batch_run batcher_init [BatchEnqueue 1 (sample_query ''a''), BatchTimer, BatchEnqueue 2 (sample_query ''b'')])) =
   [(1, sample_query ''a''), (2, sample_query ''b'')]"
  using batch_conservation [of "[BatchEnqueue 1 (sample_query ''a''), BatchTimer, BatchEnqueue 2 (sample_query ''b'')]" batcher_init]
  by (simp add: batcher_init_def addToBatch_def executeBatch_def Let_def MAX_BATCH_SIZE_def)

theorem batch_dispatch_bounded_witness:
  "batch_inv batcher_init \<and> [(1, sample_query ''a'')] \<in> set (snd (batch_run batcher_init [BatchEnqueue 1 (sample_query ''a''), BatchTimer])) \<and>
   [(1::nat, sample_query ''a'')] \<noteq> [] \<and> length [(1::nat, sample_query ''a'')] \<le> MAX_BATCH_SIZE"
proof -
  have i: "batch_inv batcher_init" by (simp add: batch_inv_def batcher_init_def MAX_BATCH_SIZE_def)
  have m: "[(1, sample_query ''a'')] \<in> set (snd (batch_run batcher_init [BatchEnqueue 1 (sample_query ''a''), BatchTimer]))"
    by (simp add: batcher_init_def addToBatch_def executeBatch_def Let_def MAX_BATCH_SIZE_def)
  show ?thesis using batch_dispatch_bounded [OF i m] i m by blast
qed

theorem batch_size_cap_witness:
  "batch_step (batcher_init\<lparr>batchQueue := map (\<lambda>i. (i, sample_query ''q'')) [0..<9], batchTimeout := True\<rparr>)
     (BatchEnqueue 9 (sample_query ''q'')) =
   (Some (map (\<lambda>i. (i, sample_query ''q'')) [0..<9] @ [(9, sample_query ''q'')]), batcher_init)"
  using batch_size_cap [of "batcher_init\<lparr>batchQueue := map (\<lambda>i. (i, sample_query ''q'')) [0..<9], batchTimeout := True\<rparr>"
      9 "sample_query ''q''"]
  by (simp add: batcher_init_def MAX_BATCH_SIZE_def)

theorem batch_coalesce_witness:
  "batch_run batcher_init (map (\<lambda>(t, q). BatchEnqueue t q)
      [(1, sample_query ''a''), (2, sample_query ''b''), (3, sample_query ''c''), (4, sample_query ''d''), (5, sample_query ''e'')]
      @ [BatchTimer]) =
   (batcher_init, [[(1, sample_query ''a''), (2, sample_query ''b''), (3, sample_query ''c''), (4, sample_query ''d''), (5, sample_query ''e'')]])"
  by (rule batch_coalesce) (simp_all add: MAX_BATCH_SIZE_def)

theorem batch_clear_drops_witness:
  "(7::nat) \<notin> fst ` set (concat (snd (batch_run batcher_init
      [BatchEnqueue 7 (sample_query ''a''), BatchClear, BatchEnqueue 8 (sample_query ''b''), BatchTimer])))"
  by (rule batch_clear_drops) (simp_all add: batcher_init_def MAX_BATCH_SIZE_def)

theorem resolve_batch_own_witness:
  "map fst (resolve_batch (\<lambda>q. if bq_id q = ''a'' then Inl NonError else Inr (JNum 1, False))
      [(1, sample_query ''a''), (2, sample_query ''b'')]) = [1, 2] \<and>
   map_of (resolve_batch (\<lambda>q. if bq_id q = ''a'' then Inl NonError else Inr (JNum 1, False))
      [(1, sample_query ''a''), (2, sample_query ''b'')]) 2 =
     Some (query_result (sample_query ''b'') (Inr (JNum 1, False)))"
  using resolve_batch_own [of "[(1::nat, sample_query ''a''), (2, sample_query ''b'')]"
      "\<lambda>q. if bq_id q = ''a'' then Inl NonError else Inr (JNum 1, False)"]
  by (simp add: sample_query_def)

end
