(* ===== verification/Prefetch.thy ===== *)
theory Prefetch
  imports Prelude "HOL-Library.Multiset"
begin

text \<open>
  The prefetch scheduler of \<open>src/lib/graphql/browser-prefetch-manager.ts\<close>
  (class \<open>BrowserPrefetchManager\<close>).  The object's fields are the record \<open>pm_state\<close>;
  \<open>Set\<close> and \<open>Map\<close> fields are a duplicate-free list and partial maps.  Each public or
  private method is one definition over the state.  An \<open>async\<close> method is split at its
  \<open>await\<close>: \<open>processQueue\<close> is the synchronous part up to \<open>await this.executePrefetch\<close>,
  and the resumption after the fetch settles is the event \<open>prefetch_settle\<close>.  The ghost
  field \<open>running\<close> lists the executions in flight.  The ghost field \<open>timers\<close> counts the
  pending \<open>setTimeout(() => this.processQueue(), d)\<close> callbacks.  Their delays do not
  matter to the state, because \<open>processQueue\<close> takes no argument.  The environment
  chooses when a callback fires, when a fetch settles and with what outcome, and which
  fresh id \<open>prefetch_${Date.now()}_${random}\<close> a new task gets.  The theory also holds
  the scheduler's invariants: the queue, concurrency and history bounds, and the
  agreement between \<open>activePrefetches\<close> and the executions in flight.
\<close>

subsection \<open>Tasks and configuration\<close>

datatype priority = High | Medium | Low

datatype trigger = Hover | Click | Scroll | Idle | Route

fun trigger_name :: "trigger \<Rightarrow> string" where
  "trigger_name Hover = ''hover''"
| "trigger_name Click = ''click''"
| "trigger_name Scroll = ''scroll''"
| "trigger_name Idle = ''idle''"
| "trigger_name Route = ''route''"

text \<open>The comparator's table \<open>{ high: 3, medium: 2, low: 1 }\<close>.\<close>

fun priorityOrder :: "priority \<Rightarrow> nat" where
  "priorityOrder High = 3"
| "priorityOrder Medium = 2"
| "priorityOrder Low = 1"

text \<open>
  \<open>condition\<close> is the value the condition callback returns (it is a pure test in every
  caller); \<open>None\<close> is an absent callback.
\<close>

record strategy =
  st_name :: string
  st_priority :: priority
  st_trigger :: trigger
  st_delay :: "int option"
  st_condition :: "bool option"

type_synonym pid = string

text \<open>A task.  \<open>fetchFunction\<close> is not a field: its outcome is chosen when it settles.\<close>

record prefetch_item =
  pi_id :: pid
  pi_strategy :: strategy
  pi_cacheKey :: "string option"
  pi_ttl :: "int option"

record prefetch_config =
  maxConcurrent :: nat
  maxQueueSize :: nat
  defaultTTL :: int
  enablePredictive :: bool
  enableRoutePrefetch :: bool

record partial_prefetch_config =
  p_maxConcurrent :: "nat option"
  p_maxQueueSize :: "nat option"
  p_defaultTTL :: "int option"
  p_enablePredictive :: "bool option"
  p_enableRoutePrefetch :: "bool option"

record pcache_entry =
  pc_data :: json
  pc_timestamp :: time
  pc_ttl :: int

record pm_state =
  queue :: "prefetch_item list"
  activePrefetches :: "pid list"
  pm_config :: prefetch_config
  routeHistory :: "string list"
  userBehavior :: "string \<rightharpoonup> nat"
  pcache :: "string \<rightharpoonup> pcache_entry"
  running :: "(pid \<times> prefetch_item \<times> bool) list"
  timers :: nat

text \<open>\<open>{ maxConcurrent: 3, maxQueueSize: 20, defaultTTL: 300, ..., ...config }\<close>.\<close>

definition prefetch_defaults :: "partial_prefetch_config \<Rightarrow> prefetch_config" where
  "prefetch_defaults pc =
     \<lparr>maxConcurrent = case_option 3 id (p_maxConcurrent pc),
      maxQueueSize = case_option 20 id (p_maxQueueSize pc),
      defaultTTL = case_option 300 id (p_defaultTTL pc),
      enablePredictive = case_option True id (p_enablePredictive pc),
      enableRoutePrefetch = case_option True id (p_enableRoutePrefetch pc)\<rparr>"

definition pm_create :: "partial_prefetch_config \<Rightarrow> pm_state" where
  "pm_create pc =
     \<lparr>queue = [], activePrefetches = [], pm_config = prefetch_defaults pc, routeHistory = [],
      userBehavior = Map.empty, pcache = Map.empty, running = [], timers = 0\<rparr>"

text \<open>\<open>Set.add\<close> on the insertion-ordered set \<open>activePrefetches\<close>.\<close>

definition set_add :: "'a \<Rightarrow> 'a list \<Rightarrow> 'a list" where
  "set_add x xs = (if x \<in> set xs then xs else xs @ [x])"

definition item_prio :: "prefetch_item \<Rightarrow> nat" where
  "item_prio i = priorityOrder (st_priority (pi_strategy i))"

text \<open>
  \<open>queue.sort((a, b) => priorityOrder[b] - priorityOrder[a])\<close>: \<open>Array.prototype.sort\<close>
  is stable, so it is the library's stable \<open>sort_key\<close> on the negated priority.
\<close>

definition sort_by_priority :: "prefetch_item list \<Rightarrow> prefetch_item list" where
  "sort_by_priority q = sort_key (\<lambda>i. - int (item_prio i)) q"

text \<open>\<open>item.cacheKey\<close> tested for truthiness: the empty key counts as absent.\<close>

definition cache_key :: "prefetch_item \<Rightarrow> string option" where
  "cache_key item = (case pi_cacheKey item of None \<Rightarrow> None | Some k \<Rightarrow> if k = [] then None else Some k)"

definition is_fresh :: "time \<Rightarrow> pcache_entry \<Rightarrow> bool" where
  "is_fresh now e \<longleftrightarrow> now - pc_timestamp e < pc_ttl e * 1000"

subsection \<open>Dispatch\<close>

text \<open>
  \<open>executePrefetch\<close> up to \<open>await item.fetchFunction()\<close>: a task whose key is cached
  and fresh returns at once; otherwise its fetch starts.  The flag records which.
\<close>

definition executePrefetch :: "time \<Rightarrow> prefetch_item \<Rightarrow> pm_state \<Rightarrow> pm_state" where
  "executePrefetch now item st =
     (let skip = (case cache_key item of None \<Rightarrow> False
                  | Some k \<Rightarrow> (case pcache st k of None \<Rightarrow> False | Some e \<Rightarrow> is_fresh now e))
      in st\<lparr>running := running st @ [(pi_id item, item, \<not> skip)]\<rparr>)"

text \<open>\<open>processQueue\<close> up to \<open>await this.executePrefetch(item)\<close>.\<close>

definition processQueue :: "time \<Rightarrow> pm_state \<Rightarrow> pm_state" where
  "processQueue now st =
     (if maxConcurrent (pm_config st) \<le> length (activePrefetches st) then st
      else (case sort_by_priority (queue st) of
              [] \<Rightarrow> st\<lparr>queue := []\<rparr>
            | item # rest \<Rightarrow>
                executePrefetch now item
                  (st\<lparr>queue := rest, activePrefetches := set_add (pi_id item) (activePrefetches st)\<rparr>)))"

text \<open>
  The rest of \<open>executePrefetch\<close> (caching a truthy result under a truthy key, with
  \<open>item.ttl || this.config.defaultTTL\<close>) when its fetch settles; a rejected fetch
  (\<open>Inl\<close>) is caught and logged.
\<close>

definition cache_result :: "time \<Rightarrow> prefetch_item \<Rightarrow> unit + json \<Rightarrow> pm_state \<Rightarrow> pm_state" where
  "cache_result now item out st =
     (case (cache_key item, out) of
        (Some k, Inr d) \<Rightarrow>
          if truthy d
          then st\<lparr>pcache := (pcache st)(k \<mapsto> \<lparr>pc_data = d, pc_timestamp = now,
                     pc_ttl = or_default (pi_ttl item) (defaultTTL (pm_config st))\<rparr>)\<rparr>
          else st
      | _ \<Rightarrow> st)"

text \<open>
  The resumption of the \<open>n\<close>-th execution in flight: the rest of \<open>executePrefetch\<close>
  for a task whose fetch was started, then the \<open>finally\<close> block of \<open>processQueue\<close>
  (release the slot, schedule \<open>processQueue\<close> with \<open>setTimeout(..., 0)\<close>).
\<close>

definition prefetch_settle :: "nat \<Rightarrow> unit + json \<Rightarrow> time \<Rightarrow> pm_state \<Rightarrow> pm_state" where
  "prefetch_settle n out now st =
     (if length (running st) \<le> n then st
      else (let (i, item, fetched) = running st ! n;
                st1 = st\<lparr>running := take n (running st) @ drop (Suc n) (running st)\<rparr>;
                st2 = (if fetched then cache_result now item out st1 else st1)
            in st2\<lparr>activePrefetches := removeAll i (activePrefetches st2), timers := Suc (timers st2)\<rparr>))"

subsection \<open>Admission\<close>

text \<open>The queue-size check of \<open>addPrefetch\<close>: sort, \<open>pop()\<close> the last, then \<open>push\<close>.\<close>

definition admit :: "prefetch_config \<Rightarrow> prefetch_item \<Rightarrow> prefetch_item list \<Rightarrow> prefetch_item list" where
  "admit cfg item q = (if maxQueueSize cfg \<le> length q then butlast (sort_by_priority q) else q) @ [item]"

text \<open>\<open>{ id, ...item }\<close>: an own \<open>id\<close> property of the caller's object (\<open>own\<close>) overrides
  the generated id \<open>i\<close>, while the duplicate check and the returned id use \<open>i\<close>.\<close>

definition addPrefetch :: "pid \<Rightarrow> pid option \<Rightarrow> prefetch_item \<Rightarrow> time \<Rightarrow> pm_state \<Rightarrow> pid \<times> pm_state" where
  "addPrefetch i own item now st =
     (if i \<in> set (map pi_id (queue st)) \<or> i \<in> set (activePrefetches st) then (i, st)
      else (i, processQueue now (st\<lparr>queue := admit (pm_config st)
                 (item\<lparr>pi_id := (case own of Some j \<Rightarrow> j | None \<Rightarrow> i)\<rparr>) (queue st)\<rparr>)))"

text \<open>\<open>if (item.strategy.delay)\<close>: a delay of \<open>0\<close> or none dispatches at once.\<close>

definition delay_truthy :: "prefetch_item \<Rightarrow> bool" where
  "delay_truthy item = (case st_delay (pi_strategy item) of None \<Rightarrow> False | Some d \<Rightarrow> d \<noteq> 0)"

definition triggerPrefetch :: "string \<Rightarrow> time \<Rightarrow> pm_state \<Rightarrow> pm_state" where
  "triggerPrefetch trig now st =
     foldl (\<lambda>s item. if delay_truthy item then s\<lparr>timers := Suc (timers s)\<rparr> else processQueue now s) st
       (filter (\<lambda>item. trigger_name (st_trigger (pi_strategy item)) = trig
                      \<and> case_option True id (st_condition (pi_strategy item))) (queue st))"

subsection \<open>Routes\<close>

record prediction =
  pr_route :: string
  pr_priority :: priority
  pr_cacheKey :: string
  pr_ttl :: int

definition getRoutePredictions :: "string \<Rightarrow> prediction list" where
  "getRoutePredictions r =
     (if r = ''/'' then
        [\<lparr>pr_route = ''/search'', pr_priority = High,
          pr_cacheKey = ''prefetch:categories:homepage'', pr_ttl = 600\<rparr>,
         \<lparr>pr_route = ''/product/[handle]'', pr_priority = Medium,
          pr_cacheKey = ''prefetch:featured:homepage'', pr_ttl = 300\<rparr>]
      else [])
     @ (if starts_with r ''/search'' then
          [\<lparr>pr_route = ''/product/[handle]'', pr_priority = High,
            pr_cacheKey = ''prefetch:products:list'', pr_ttl = 300\<rparr>]
        else [])
     @ (if starts_with r ''/product/'' then
          [\<lparr>pr_route = ''/search'', pr_priority = Medium,
            pr_cacheKey = ''prefetch:categories:product'', pr_ttl = 600\<rparr>]
        else [])"

definition prediction_item :: "prediction \<Rightarrow> prefetch_item" where
  "prediction_item p =
     \<lparr>pi_id = [],
      pi_strategy = \<lparr>st_name = ''route_'' @ pr_route p, st_priority = pr_priority p,
                     st_trigger = Route, st_delay = None, st_condition = None\<rparr>,
      pi_cacheKey = Some (pr_cacheKey p), pi_ttl = Some (pr_ttl p)\<rparr>"

text \<open>\<open>predictions.forEach(p => this.addPrefetch(...))\<close>, one fresh id per prediction.\<close>

fun predictAndPrefetch :: "prediction list \<Rightarrow> pid list \<Rightarrow> time \<Rightarrow> pm_state \<Rightarrow> pm_state" where
  "predictAndPrefetch (p # ps) (i # ids) now st =
     predictAndPrefetch ps ids now (snd (addPrefetch i None (prediction_item p) now st))"
| "predictAndPrefetch _ _ now st = st"

definition push_route :: "string list \<Rightarrow> string \<Rightarrow> string list" where
  "push_route h r = (let h' = h @ [r] in if 10 < length h' then tl h' else h')"

definition handleRouteChange :: "string \<Rightarrow> pid list \<Rightarrow> time \<Rightarrow> pm_state \<Rightarrow> pm_state" where
  "handleRouteChange r ids now st =
     (let c = case_option 0 id (userBehavior st r);
          st' = st\<lparr>routeHistory := push_route (routeHistory st) r,
                   userBehavior := (userBehavior st)(r \<mapsto> c + 1)\<rparr>
      in if enablePredictive (pm_config st) then predictAndPrefetch (getRoutePredictions r) ids now st'
         else st')"

subsection \<open>The other methods\<close>

text \<open>
  \<open>prefetchOnHover\<close>: the callback of the 200ms hover timer adds the task with a
  medium-priority hover strategy (the argument is the item's \<open>id\<close> field, if any).
\<close>

definition hover_item :: "string option \<Rightarrow> prefetch_item \<Rightarrow> prefetch_item" where
  "hover_item hid item =
     item\<lparr>pi_strategy := \<lparr>st_name = ''hover_'' @ (case hid of None \<Rightarrow> ''unknown''
                                                  | Some h \<Rightarrow> if h = [] then ''unknown'' else h),
                        st_priority = Medium, st_trigger = Hover, st_delay = Some 200,
                        st_condition = None\<rparr>\<rparr>"

definition clearQueue :: "pm_state \<Rightarrow> pm_state" where
  "clearQueue st = st\<lparr>queue := [], activePrefetches := []\<rparr>"

text \<open>\<open>findIndex\<close> and \<open>splice(index, 1)\<close>: the list without its first match.\<close>

fun splice_first :: "('a \<Rightarrow> bool) \<Rightarrow> 'a list \<Rightarrow> 'a list option" where
  "splice_first P [] = None"
| "splice_first P (x # xs) = (if P x then Some xs else map_option (Cons x) (splice_first P xs))"

definition cancelPrefetch :: "pid \<Rightarrow> pm_state \<Rightarrow> bool \<times> pm_state" where
  "cancelPrefetch i st =
     (case splice_first (\<lambda>item. pi_id item = i) (queue st) of
        None \<Rightarrow> (False, st)
      | Some q \<Rightarrow> (True, st\<lparr>queue := q\<rparr>))"

text \<open>The body of the one-minute \<open>setInterval\<close> of \<open>startCacheCleanup\<close>.\<close>

definition cleanupCache :: "time \<Rightarrow> pm_state \<Rightarrow> pm_state" where
  "cleanupCache now st =
     st\<lparr>pcache := (\<lambda>k. case pcache st k of None \<Rightarrow> None
                       | Some v \<Rightarrow> if now - pc_timestamp v > pc_ttl v * 1000 then None else Some v)\<rparr>"

definition getCached :: "string \<Rightarrow> time \<Rightarrow> pm_state \<Rightarrow> json option" where
  "getCached k now st =
     (case pcache st k of None \<Rightarrow> None
      | Some v \<Rightarrow> if now - pc_timestamp v < pc_ttl v * 1000 then Some (pc_data v) else None)"

subsection \<open>Events\<close>

text \<open>
  What can happen to the manager: a call of a public method, a DOM signal reaching a
  listener (the idle timer calls \<open>triggerPrefetch('idle')\<close>, \<open>popstate\<close> calls
  \<open>handleRouteChange\<close> when route prefetching is enabled), a timer callback or the
  settlement of an execution in flight.
\<close>

datatype pm_event =
    PmAdd pid "pid option" prefetch_item time
  | PmHover pid "string option" prefetch_item time
  | PmTrigger string time
  | PmTimer time
  | PmSettle nat "unit + json" time
  | PmRoute string "pid list" time
  | PmCancel pid
  | PmClear
  | PmCleanup time

fun pm_step :: "pm_event \<Rightarrow> pm_state \<Rightarrow> pm_state" where
  "pm_step (PmAdd i own item now) st = snd (addPrefetch i own item now st)"
| "pm_step (PmHover i hid item now) st = snd (addPrefetch i hid (hover_item hid item) now st)"
| "pm_step (PmTrigger t now) st = triggerPrefetch t now st"
| "pm_step (PmTimer now) st =
     (if timers st = 0 then st else processQueue now (st\<lparr>timers := timers st - 1\<rparr>))"
| "pm_step (PmSettle n out now) st = prefetch_settle n out now st"
| "pm_step (PmRoute r ids now) st =
     (if enableRoutePrefetch (pm_config st) then handleRouteChange r ids now st else st)"
| "pm_step (PmCancel i) st = snd (cancelPrefetch i st)"
| "pm_step PmClear st = clearQueue st"
| "pm_step (PmCleanup now) st = cleanupCache now st"

text \<open>The own \<open>id\<close> an event's object carries into \<open>addPrefetch\<close>, if any.\<close>

fun own_id :: "pm_event \<Rightarrow> pid option" where
  "own_id (PmAdd i own item now) = own"
| "own_id (PmHover i hid item now) = hid"
| "own_id _ = None"

definition pm_run :: "pm_state \<Rightarrow> pm_event list \<Rightarrow> pm_state" where
  "pm_run st es = foldl (\<lambda>s e. pm_step e s) st es"

text \<open>The routes a run reports to \<open>handleRouteChange\<close>.\<close>

fun routes_of :: "bool \<Rightarrow> pm_event list \<Rightarrow> string list" where
  "routes_of en [] = []"
| "routes_of en (PmRoute r ids now # es) = (if en then r # routes_of en es else routes_of en es)"
| "routes_of en (_ # es) = routes_of en es"

subsection \<open>Invariants\<close>

text \<open>The bounds every reachable state keeps.\<close>

definition pm_inv :: "prefetch_config \<Rightarrow> pm_state \<Rightarrow> bool" where
  "pm_inv cfg st \<longleftrightarrow>
     pm_config st = cfg \<and> length (queue st) \<le> max 1 (maxQueueSize cfg)
     \<and> length (activePrefetches st) \<le> maxConcurrent cfg \<and> length (routeHistory st) \<le> 10"

text \<open>
  \<open>activePrefetches\<close> lists exactly the executions in flight, and no id is both queued
  and active or queued twice.
\<close>

definition pm_sync :: "pm_state \<Rightarrow> bool" where
  "pm_sync st \<longleftrightarrow>
     map fst (running st) = activePrefetches st \<and> distinct (map pi_id (queue st) @ activePrefetches st)"

subsection \<open>Example tasks\<close>

text \<open>Tasks and configurations for the concrete runs of the lemmas below.\<close>

definition demo_task :: "priority \<Rightarrow> trigger \<Rightarrow> string option \<Rightarrow> prefetch_item" where
  "demo_task p t k =
     \<lparr>pi_id = [], pi_strategy = \<lparr>st_name = ''demo'', st_priority = p, st_trigger = t,
                                 st_delay = None, st_condition = None\<rparr>,
      pi_cacheKey = k, pi_ttl = None\<rparr>"

definition one_slot :: partial_prefetch_config where
  "one_slot = \<lparr>p_maxConcurrent = Some 1, p_maxQueueSize = None, p_defaultTTL = None,
               p_enablePredictive = None, p_enableRoutePrefetch = None\<rparr>"

definition no_overrides_pm :: partial_prefetch_config where
  "no_overrides_pm = \<lparr>p_maxConcurrent = None, p_maxQueueSize = None, p_defaultTTL = None,
               p_enablePredictive = None, p_enableRoutePrefetch = None\<rparr>"

subsection \<open>Lemmas\<close>

lemma mset_sort_by_priority [simp]: "mset (sort_by_priority q) = mset q"
  by (simp add: sort_by_priority_def)

lemma length_sort_by_priority [simp]: "length (sort_by_priority q) = length q"
  by (simp add: sort_by_priority_def)

lemma set_sort_by_priority [simp]: "set (sort_by_priority q) = set q"
  by (simp add: sort_by_priority_def)

lemma set_add_length: "length (set_add x xs) \<le> Suc (length xs)"
  by (simp add: set_add_def)

lemma processQueue_frame [simp]:
  "pm_config (processQueue now st) = pm_config st"
  "routeHistory (processQueue now st) = routeHistory st"
  "userBehavior (processQueue now st) = userBehavior st"
  "pcache (processQueue now st) = pcache st"
  "timers (processQueue now st) = timers st"
  by (simp_all add: processQueue_def executePrefetch_def Let_def split: list.split)

lemma processQueue_dispatch:
  assumes "length (activePrefetches st) < maxConcurrent (pm_config st)"
    and "sort_by_priority (queue st) = item # rest"
  shows "processQueue now st =
           executePrefetch now item
             (st\<lparr>queue := rest, activePrefetches := set_add (pi_id item) (activePrefetches st)\<rparr>)"
  using assms by (simp add: processQueue_def)

lemma processQueue_idle:
  assumes "maxConcurrent (pm_config st) \<le> length (activePrefetches st) \<or> queue st = []"
  shows "queue (processQueue now st) = queue st \<and> running (processQueue now st) = running st
         \<and> activePrefetches (processQueue now st) = activePrefetches st"
  using assms by (auto simp: processQueue_def sort_by_priority_def)

lemma executePrefetch_frame [simp]:
  "queue (executePrefetch now item st) = queue st"
  "activePrefetches (executePrefetch now item st) = activePrefetches st"
  by (simp_all add: executePrefetch_def Let_def)

lemma processQueue_cases:
  obtains "maxConcurrent (pm_config st) \<le> length (activePrefetches st) \<or> queue st = []"
  | item rest where "length (activePrefetches st) < maxConcurrent (pm_config st)"
      "sort_by_priority (queue st) = item # rest"
  by (metis length_0_conv length_sort_by_priority neq_Nil_conv not_le)

lemma processQueue_queue_length: "length (queue (processQueue now st)) \<le> length (queue st)"
proof (cases st rule: processQueue_cases)
  case (2 item rest)
  then have "length rest < length (queue st)"
    using length_sort_by_priority[of "queue st"] by simp
  with 2 show ?thesis by (simp add: processQueue_dispatch)
qed (simp add: processQueue_idle)

lemma processQueue_active_length:
  "length (activePrefetches st) \<le> maxConcurrent (pm_config st) \<Longrightarrow>
   length (activePrefetches (processQueue now st)) \<le> maxConcurrent (pm_config st)"
proof (cases st rule: processQueue_cases)
  case (2 item rest)
  then show ?thesis
    using set_add_length[of "pi_id item" "activePrefetches st"] by (simp add: processQueue_dispatch)
qed (simp add: processQueue_idle)

lemma admit_length:
  "length q \<le> max (Suc 0) (maxQueueSize cfg) \<Longrightarrow> length (admit cfg item q) \<le> max (Suc 0) (maxQueueSize cfg)"
  by (auto simp: admit_def)

lemma push_route_length: "length h \<le> 10 \<Longrightarrow> length (push_route h r) \<le> 10"
  by (simp add: push_route_def Let_def)

lemma pm_inv_processQueue: "pm_inv cfg st \<Longrightarrow> pm_inv cfg (processQueue now st)"
  using processQueue_queue_length[of now st] processQueue_active_length[of st now]
  by (auto simp: pm_inv_def)

lemma pm_inv_addPrefetch: "pm_inv cfg st \<Longrightarrow> pm_inv cfg (snd (addPrefetch i own item now st))"
proof -
  assume inv: "pm_inv cfg st"
  then have "pm_inv cfg (st\<lparr>queue := admit (pm_config st) (item\<lparr>pi_id := j\<rparr>) (queue st)\<rparr>)" for j
    by (simp add: pm_inv_def admit_length)
  with inv show ?thesis by (simp add: addPrefetch_def pm_inv_processQueue)
qed

lemma pm_inv_predict: "pm_inv cfg st \<Longrightarrow> pm_inv cfg (predictAndPrefetch ps ids now st)"
  by (induction ps ids now st rule: predictAndPrefetch.induct) (auto simp: pm_inv_addPrefetch)

lemma pm_inv_trigger: "pm_inv cfg st \<Longrightarrow> pm_inv cfg (triggerPrefetch t now st)"
  unfolding triggerPrefetch_def
  by (rule foldl_invariant) (auto simp: pm_inv_processQueue, auto simp: pm_inv_def)

lemma splice_first_length: "splice_first P xs = Some ys \<Longrightarrow> length ys < length xs"
  by (induction P xs arbitrary: ys rule: splice_first.induct) (auto split: if_splits)

lemma pm_inv_settle: "pm_inv cfg st \<Longrightarrow> pm_inv cfg (prefetch_settle n out now st)"
  by (auto simp: prefetch_settle_def cache_result_def pm_inv_def Let_def split: prod.split sum.split option.split
      intro: le_trans[OF length_removeAll_less_eq])

lemma pm_inv_step: "pm_inv cfg st \<Longrightarrow> pm_inv cfg (pm_step e st)"
proof (cases e)
  case (PmRoute r ids now)
  assume "pm_inv cfg st"
  then have "pm_inv cfg (st\<lparr>routeHistory := push_route (routeHistory st) r,
                   userBehavior := (userBehavior st)(r \<mapsto> c)\<rparr>)" for c
    by (simp add: pm_inv_def push_route_length)
  then show ?thesis using PmRoute \<open>pm_inv cfg st\<close>
    by (auto simp: handleRouteChange_def Let_def intro: pm_inv_predict)
next
  case (PmTimer now)
  assume "pm_inv cfg st"
  then have "pm_inv cfg (st\<lparr>timers := k\<rparr>)" for k by (simp add: pm_inv_def)
  then show ?thesis using PmTimer \<open>pm_inv cfg st\<close> by (simp add: pm_inv_processQueue)
next
  case (PmCancel i)
  assume "pm_inv cfg st"
  then show ?thesis using PmCancel splice_first_length[of _ "queue st"]
    by (fastforce simp: cancelPrefetch_def pm_inv_def split: option.split)
qed (auto simp: pm_inv_addPrefetch pm_inv_trigger pm_inv_settle pm_inv_processQueue clearQueue_def
          cleanupCache_def, auto simp: pm_inv_def)

lemma pm_inv_run: "pm_inv cfg st \<Longrightarrow> pm_inv cfg (pm_run st es)"
  unfolding pm_run_def by (rule foldl_invariant) (auto simp: pm_inv_step)

lemma splice_first_Some:
  "splice_first P xs = Some ys \<Longrightarrow> \<exists>a x b. xs = a @ x # b \<and> ys = a @ b"
proof (induction P xs arbitrary: ys rule: splice_first.induct)
  case (2 P x xs)
  then show ?case by (auto split: if_splits) (metis append_Cons append_Nil)+
qed simp

lemma distinct_map_butlast_sort:
  assumes "distinct (map f q @ A)"
  shows "distinct (map f (butlast (sort_by_priority q)) @ A)"
proof -
  have d: "distinct (map f (sort_by_priority q) @ A)"
    using assms mset_eq_imp_distinct_iff[of "map f (sort_by_priority q) @ A" "map f q @ A"] by simp
  show ?thesis
  proof (cases "sort_by_priority q" rule: rev_cases)
    case (snoc ys y)
    then show ?thesis using d by simp
  next
    case Nil
    then show ?thesis using d by simp
  qed
qed

lemma pm_sync_dispatch:
  assumes s: "pm_sync st" and q: "sort_by_priority (queue st) = item # rest"
  shows "pm_sync (executePrefetch now item
             (st\<lparr>queue := rest, activePrefetches := set_add (pi_id item) (activePrefetches st)\<rparr>))"
proof -
  have "mset (map pi_id (item # rest) @ activePrefetches st) = mset (map pi_id (queue st) @ activePrefetches st)"
    using arg_cong[OF q, of "\<lambda>q. mset (map pi_id q)"] by simp
  moreover have "distinct (map pi_id (queue st) @ activePrefetches st)" using s by (simp add: pm_sync_def)
  ultimately have d: "distinct (pi_id item # map pi_id rest @ activePrefetches st)"
    using mset_eq_imp_distinct_iff by (metis append_Cons list.simps(9))
  then have "set_add (pi_id item) (activePrefetches st) = activePrefetches st @ [pi_id item]"
    by (simp add: set_add_def)
  with d s show ?thesis by (simp add: pm_sync_def executePrefetch_def Let_def)
qed

lemma pm_sync_processQueue: "pm_sync st \<Longrightarrow> pm_sync (processQueue now st)"
proof (cases st rule: processQueue_cases)
  case 1
  assume "pm_sync st"
  with 1 show ?thesis
    by (auto simp: pm_sync_def processQueue_def sort_by_priority_def)
next
  case (2 item rest)
  assume s: "pm_sync st"
  with 2 show ?thesis by (simp add: processQueue_dispatch pm_sync_dispatch)
qed

lemma pm_sync_addPrefetch: "pm_sync st \<Longrightarrow> own = None \<Longrightarrow> pm_sync (snd (addPrefetch i own item now st))"
proof -
  assume s: "pm_sync st" and o: "own = None"
  have "i \<notin> set (map pi_id (queue st)) \<Longrightarrow> i \<notin> set (activePrefetches st) \<Longrightarrow>
        pm_sync (st\<lparr>queue := admit (pm_config st) (item\<lparr>pi_id := i\<rparr>) (queue st)\<rparr>)"
    using s distinct_map_butlast_sort[of pi_id "queue st" "activePrefetches st"]
    by (auto simp: pm_sync_def admit_def dest: in_set_butlastD)
  then show ?thesis using s o by (auto simp: addPrefetch_def pm_sync_processQueue)
qed

lemma pm_sync_predict: "pm_sync st \<Longrightarrow> pm_sync (predictAndPrefetch ps ids now st)"
  by (induction ps ids now st rule: predictAndPrefetch.induct) (auto simp: pm_sync_addPrefetch)

lemma pm_sync_trigger: "pm_sync st \<Longrightarrow> pm_sync (triggerPrefetch t now st)"
  unfolding triggerPrefetch_def
  by (rule foldl_invariant) (auto simp: pm_sync_processQueue, auto simp: pm_sync_def)

lemma cache_result_frame [simp]:
  "queue (cache_result now item out st) = queue st"
  "activePrefetches (cache_result now item out st) = activePrefetches st"
  "running (cache_result now item out st) = running st"
  "timers (cache_result now item out st) = timers st"
  "pm_config (cache_result now item out st) = pm_config st"
  by (simp_all add: cache_result_def split: option.split sum.split)

lemma pm_sync_settle: "pm_sync st \<Longrightarrow> pm_sync (prefetch_settle n out now st)"
proof (cases "n < length (running st)")
  case True
  assume s: "pm_sync st"
  then have a: "activePrefetches st = map fst (running st)" and d: "distinct (map fst (running st))"
    by (auto simp: pm_sync_def)
  have "map fst (take n (running st) @ drop (Suc n) (running st)) = removeAll (fst (running st ! n)) (activePrefetches st)"
    using take_drop_removeAll[OF d, of n] True a by (simp add: take_map drop_map)
  with s True show ?thesis
    by (auto simp: prefetch_settle_def pm_sync_def Let_def distinct_removeAll split: prod.split)
qed (simp add: prefetch_settle_def)

lemma pm_sync_step: "pm_sync st \<Longrightarrow> e \<noteq> PmClear \<Longrightarrow> own_id e = None \<Longrightarrow> pm_sync (pm_step e st)"
proof (cases e)
  case (PmRoute r ids now)
  assume s: "pm_sync st"
  then have "pm_sync (st\<lparr>routeHistory := h, userBehavior := u\<rparr>)" for h u
    by (simp add: pm_sync_def)
  then show ?thesis using PmRoute s
    by (auto simp: handleRouteChange_def Let_def intro: pm_sync_predict)
next
  case (PmTimer now)
  assume "pm_sync st"
  then have "pm_sync (st\<lparr>timers := k\<rparr>)" for k by (simp add: pm_sync_def)
  then show ?thesis using PmTimer \<open>pm_sync st\<close> by (simp add: pm_sync_processQueue)
next
  case (PmCancel i)
  assume "pm_sync st"
  then show ?thesis using PmCancel splice_first_Some[of _ "queue st"]
    by (fastforce simp: cancelPrefetch_def pm_sync_def split: option.split)
qed (auto simp: pm_sync_addPrefetch pm_sync_trigger pm_sync_settle cleanupCache_def,
     auto simp: pm_sync_def)

lemma pm_sync_run:
  "pm_sync st \<Longrightarrow> PmClear \<notin> set es \<Longrightarrow> list_all (\<lambda>e. own_id e = None) es \<Longrightarrow> pm_sync (pm_run st es)"
  unfolding pm_run_def by (rule foldl_invariant) (auto simp: list_all_iff intro: pm_sync_step)

lemma pm_inv_create: "pm_inv (prefetch_defaults pc) (pm_create pc)"
  by (simp add: pm_inv_def pm_create_def)

lemma pm_sync_create: "pm_sync (pm_create pc)"
  by (simp add: pm_sync_def pm_create_def)

lemma mset_butlast: "xs \<noteq> [] \<Longrightarrow> mset (butlast xs) = mset xs - {#last xs#}"
  by (metis add_mset_remove_trivial append_butlast_last_id mset.simps(2) mset_rev rev.simps(2) rev_rev_ident)

lemma addPrefetch_frame [simp]:
  "pm_config (snd (addPrefetch i own item now st)) = pm_config st"
  "routeHistory (snd (addPrefetch i own item now st)) = routeHistory st"
  "userBehavior (snd (addPrefetch i own item now st)) = userBehavior st"
  by (simp_all add: addPrefetch_def)

lemma predict_frame [simp]:
  "pm_config (predictAndPrefetch ps ids now st) = pm_config st"
  "routeHistory (predictAndPrefetch ps ids now st) = routeHistory st"
  "userBehavior (predictAndPrefetch ps ids now st) = userBehavior st"
  by (induction ps ids now st rule: predictAndPrefetch.induct) simp_all

lemma trigger_frame [simp]:
  "pm_config (triggerPrefetch t now st) = pm_config st \<and> routeHistory (triggerPrefetch t now st) = routeHistory st
   \<and> userBehavior (triggerPrefetch t now st) = userBehavior st"
  unfolding triggerPrefetch_def
  by (rule foldl_invariant[where P = "\<lambda>s. pm_config s = pm_config st \<and> routeHistory s = routeHistory st
                                         \<and> userBehavior s = userBehavior st"]) auto

lemma settle_frame [simp]:
  "pm_config (prefetch_settle n out now st) = pm_config st"
  "routeHistory (prefetch_settle n out now st) = routeHistory st"
  "userBehavior (prefetch_settle n out now st) = userBehavior st"
  by (simp_all add: prefetch_settle_def cache_result_def Let_def split: prod.split option.split sum.split)

lemma pm_step_config [simp]: "pm_config (pm_step e st) = pm_config st"
  by (cases e) (simp_all add: handleRouteChange_def Let_def cancelPrefetch_def clearQueue_def
                  cleanupCache_def split: option.split)

lemma pm_step_route:
  "routeHistory (pm_step e st) =
     (case e of PmRoute r ids now \<Rightarrow>
        if enableRoutePrefetch (pm_config st) then push_route (routeHistory st) r else routeHistory st
      | _ \<Rightarrow> routeHistory st)"
  "userBehavior (pm_step e st) =
     (case e of PmRoute r ids now \<Rightarrow>
        if enableRoutePrefetch (pm_config st) then (userBehavior st)(r \<mapsto> case_option 0 id (userBehavior st r) + 1)
        else userBehavior st
      | _ \<Rightarrow> userBehavior st)"
  by (cases e; simp add: handleRouteChange_def Let_def cancelPrefetch_def clearQueue_def
                  cleanupCache_def split: option.split)+

lemma pm_run_Cons [simp]: "pm_run st (e # es) = pm_run (pm_step e st) es"
  by (simp add: pm_run_def)

lemma routes_of_other:
  "\<not> (\<exists>r ids now. e = PmRoute r ids now \<and> en) \<Longrightarrow> routes_of en (e # es) = routes_of en es"
  by (cases e) auto

lemma pm_step_other:
  "\<not> (\<exists>r ids now. e = PmRoute r ids now \<and> enableRoutePrefetch (pm_config st)) \<Longrightarrow>
   routeHistory (pm_step e st) = routeHistory st \<and> userBehavior (pm_step e st) = userBehavior st"
  by (cases e) (simp_all del: pm_step.simps add: pm_step_route)

lemma pm_run_routes:
  "routeHistory (pm_run st es) = foldl push_route (routeHistory st) (routes_of (enableRoutePrefetch (pm_config st)) es)
   \<and> userBehavior (pm_run st es) r =
       (let c = count_list (routes_of (enableRoutePrefetch (pm_config st)) es) r in
        if c = 0 then userBehavior st r else Some (case_option 0 id (userBehavior st r) + c))"
proof (induction es arbitrary: st)
  case Nil
  then show ?case by (simp add: pm_run_def)
next
  case (Cons e es)
  let ?en = "enableRoutePrefetch (pm_config st)"
  have ih: "routeHistory (pm_run (pm_step e st) es) =
              foldl push_route (routeHistory (pm_step e st)) (routes_of ?en es)"
           "userBehavior (pm_run (pm_step e st) es) r =
              (let c = count_list (routes_of ?en es) r in
               if c = 0 then userBehavior (pm_step e st) r
               else Some (case_option 0 id (userBehavior (pm_step e st) r) + c))"
    using Cons.IH[of "pm_step e st"] by simp_all
  show ?case
  proof (cases "\<exists>r ids now. e = PmRoute r ids now \<and> ?en")
    case True
    then obtain r' ids now where e: "e = PmRoute r' ids now" and en: ?en by blast
    have "routeHistory (pm_step e st) = push_route (routeHistory st) r'"
         "userBehavior (pm_step e st) = (userBehavior st)(r' \<mapsto> case_option 0 id (userBehavior st r') + 1)"
      using e en by (simp_all del: pm_step.simps add: pm_step_route)
    with ih e en show ?thesis by (cases "r' = r") (auto simp: Let_def split: option.split)
  next
    case False
    have o1: "routeHistory (pm_step e st) = routeHistory st"
      and o2: "userBehavior (pm_step e st) = userBehavior st"
      using pm_step_other[OF False] by blast+
    show ?thesis
      using ih[unfolded o1 o2] routes_of_other[OF False, of es] by (simp del: pm_step.simps)
  qed
qed

lemma push_route_window: "foldl push_route [] rs = drop (length rs - 10) rs"
proof (induction rs rule: rev_induct)
  case (snoc r rs)
  have "10 \<le> length rs \<Longrightarrow> tl (drop (length rs - 10) rs) = drop (length rs - 9) rs"
  proof -
    assume "10 \<le> length rs"
    then have "length rs - 9 = Suc (length rs - 10)" by arith
    then show ?thesis by (simp add: drop_Suc tl_drop)
  qed
  with snoc show ?case
    by (cases "10 \<le> length rs") (auto simp: push_route_def Let_def)
qed simp

lemmas pm_eval = pm_run_def addPrefetch_def processQueue_def sort_by_priority_def item_prio_def
  admit_def executePrefetch_def cache_key_def set_add_def prefetch_defaults_def pm_create_def
  clearQueue_def demo_task_def one_slot_def no_overrides_pm_def prefetch_settle_def cache_result_def
  is_fresh_def triggerPrefetch_def delay_truthy_def

subsection \<open>Properties\<close>

text \<open>C12. In every run of the prefetch manager from its constructor, the queue holds at most max(1, maxQueueSize) tasks, at most maxConcurrent ids are active, and the route history holds at most 10 routes.\<close>

theorem pm_bounds:
  "length (queue (pm_run (pm_create pc) es)) \<le> max 1 (maxQueueSize (prefetch_defaults pc))
   \<and> length (activePrefetches (pm_run (pm_create pc) es)) \<le> maxConcurrent (prefetch_defaults pc)
   \<and> length (routeHistory (pm_run (pm_create pc) es)) \<le> 10"
  using pm_inv_run[OF pm_inv_create, of pc es] by (simp add: pm_inv_def)

text \<open>C13. In every run that never calls clearQueue and whose added items carry no id of their own, at most maxConcurrent executions are in flight at any instant.\<close>

theorem pm_concurrency_bound:
  "PmClear \<notin> set es \<Longrightarrow> list_all (\<lambda>e. own_id e = None) es \<Longrightarrow>
   length (running (pm_run (pm_create pc) es)) \<le> maxConcurrent (prefetch_defaults pc)"
proof -
  assume "PmClear \<notin> set es" "list_all (\<lambda>e. own_id e = None) es"
  then have "map fst (running (pm_run (pm_create pc) es)) = activePrefetches (pm_run (pm_create pc) es)"
    using pm_sync_run[OF pm_sync_create] by (simp add: pm_sync_def)
  then show ?thesis
    using pm_inv_run[OF pm_inv_create, of pc es] by (metis length_map pm_inv_def)
qed

theorem pm_concurrency_bound_witness:
  "PmClear \<notin> set [PmAdd ''a'' None (demo_task High Hover None) 0, PmAdd ''b'' None (demo_task High Hover None) 0]
   \<and> list_all (\<lambda>e. own_id e = None) [PmAdd ''a'' None (demo_task High Hover None) 0, PmAdd ''b'' None (demo_task High Hover None) 0]
   \<and> length (running (pm_run (pm_create one_slot)
        [PmAdd ''a'' None (demo_task High Hover None) 0, PmAdd ''b'' None (demo_task High Hover None) 0]))
     \<le> maxConcurrent (prefetch_defaults one_slot)"
  using pm_concurrency_bound[of "[PmAdd ''a'' None (demo_task High Hover None) 0, PmAdd ''b'' None (demo_task High Hover None) 0]" one_slot]
  by simp

text \<open>clearQueue empties activePrefetches while executions are still in flight, so with maxConcurrent = 1 the sequence add, clear, add leaves two executions in flight.\<close>

theorem pm_clear_overcommit:
  "maxConcurrent (prefetch_defaults one_slot) = 1
   \<and> length (running (pm_run (pm_create one_slot)
        [PmAdd ''a'' None (demo_task High Hover None) 0, PmClear, PmAdd ''b'' None (demo_task High Hover None) 0])) = 2"
  by (simp add: pm_eval)


text \<open>When a slot is free and the queue is not empty, processQueue starts the earliest-queued task of the highest priority present and removes exactly that task from the queue (priority first, then FIFO).\<close>

theorem processQueue_priority_fifo:
  assumes "length (activePrefetches st) < maxConcurrent (pm_config st)" and "queue st \<noteq> []"
  shows "\<exists>xs x ys b. queue st = xs @ x # ys
           \<and> (\<forall>y\<in>set xs. item_prio y < item_prio x) \<and> (\<forall>y\<in>set ys. item_prio y \<le> item_prio x)
           \<and> running (processQueue now st) = running st @ [(pi_id x, x, b)]
           \<and> mset (queue (processQueue now st)) = mset (queue st) - {#x#}"
proof -
  obtain x rest where s: "sort_by_priority (queue st) = x # rest"
    using assms(2) by (metis length_0_conv length_sort_by_priority neq_Nil_conv)
  obtain xs ys where split: "queue st = xs @ x # ys"
      "\<forall>a\<in>set xs. - int (item_prio x) < - int (item_prio a)"
      "\<forall>c\<in>set ys. - int (item_prio x) \<le> - int (item_prio c)"
    using sort_key_hd_split[OF assms(2), of "\<lambda>i. - int (item_prio i)"] s
    by (auto simp: sort_by_priority_def)
  have "mset (queue (processQueue now st)) = mset (queue st) - {#x#}"
    using arg_cong[OF s, of mset] by (simp add: processQueue_dispatch[OF assms(1) s])
  moreover have "\<exists>b. running (processQueue now st) = running st @ [(pi_id x, x, b)]"
    by (simp add: processQueue_dispatch[OF assms(1) s] executePrefetch_def Let_def)
  moreover have "\<forall>a\<in>set xs. item_prio a < item_prio x" "\<forall>c\<in>set ys. item_prio c \<le> item_prio x"
    using split(2,3) by auto
  ultimately show ?thesis using split(1) by blast
qed

theorem processQueue_priority_fifo_witness:
  "\<exists>xs x ys b. queue ((pm_create one_slot)\<lparr>queue := [demo_task Low Idle None, demo_task High Hover None]\<rparr>)
        = xs @ x # ys
     \<and> (\<forall>y\<in>set xs. item_prio y < item_prio x) \<and> (\<forall>y\<in>set ys. item_prio y \<le> item_prio x)
     \<and> running (processQueue 0 ((pm_create one_slot)\<lparr>queue := [demo_task Low Idle None, demo_task High Hover None]\<rparr>))
        = running ((pm_create one_slot)\<lparr>queue := [demo_task Low Idle None, demo_task High Hover None]\<rparr>) @ [(pi_id x, x, b)]
     \<and> mset (queue (processQueue 0 ((pm_create one_slot)\<lparr>queue := [demo_task Low Idle None, demo_task High Hover None]\<rparr>)))
        = mset (queue ((pm_create one_slot)\<lparr>queue := [demo_task Low Idle None, demo_task High Hover None]\<rparr>)) - {#x#}"
  by (rule processQueue_priority_fifo) (simp_all add: pm_create_def prefetch_defaults_def one_slot_def)

text \<open>When the queue is full, addPrefetch evicts the latest-queued task of the lowest priority present and appends the new task.\<close>

theorem admit_evicts_lowest:
  assumes "maxQueueSize cfg \<le> length q" and "q \<noteq> []"
  shows "\<exists>xs z ys. q = xs @ z # ys
           \<and> (\<forall>y\<in>set xs. item_prio z \<le> item_prio y) \<and> (\<forall>y\<in>set ys. item_prio z < item_prio y)
           \<and> mset (admit cfg item q) = mset q - {#z#} + {#item#}"
proof -
  let ?f = "\<lambda>i. - int (item_prio i)"
  obtain xs ys where split: "q = xs @ last (sort_by_priority q) # ys"
      "\<forall>a\<in>set xs. ?f a \<le> ?f (last (sort_by_priority q))"
      "\<forall>c\<in>set ys. ?f c < ?f (last (sort_by_priority q))"
    using sort_key_last_split[OF assms(2), of ?f] by (auto simp: sort_by_priority_def)
  have "sort_by_priority q \<noteq> []" using assms(2) by (metis length_0_conv length_sort_by_priority)
  then have "mset (admit cfg item q) = mset q - {#last (sort_by_priority q)#} + {#item#}"
    using assms(1) by (simp add: admit_def mset_butlast)
  moreover have "\<forall>a\<in>set xs. item_prio (last (sort_by_priority q)) \<le> item_prio a"
      "\<forall>c\<in>set ys. item_prio (last (sort_by_priority q)) < item_prio c"
    using split(2,3) by auto
  ultimately show ?thesis using split(1) by blast
qed

theorem admit_evicts_lowest_witness:
  "\<exists>xs z ys. [demo_task High Idle None, demo_task Low Idle None] = xs @ z # ys
     \<and> (\<forall>y\<in>set xs. item_prio z \<le> item_prio y) \<and> (\<forall>y\<in>set ys. item_prio z < item_prio y)
     \<and> mset (admit (prefetch_defaults (one_slot\<lparr>p_maxQueueSize := Some 2\<rparr>)) (demo_task Medium Idle None)
                [demo_task High Idle None, demo_task Low Idle None])
       = mset [demo_task High Idle None, demo_task Low Idle None] - {#z#} + {#demo_task Medium Idle None#}"
  by (rule admit_evicts_lowest) (simp_all add: prefetch_defaults_def one_slot_def)

text \<open>The eviction ignores the priority of the incoming task: a full queue holding a high-priority task evicts it to admit a low-priority one.\<close>

theorem admit_evicts_higher_priority:
  "admit (prefetch_defaults (one_slot\<lparr>p_maxQueueSize := Some 1\<rparr>)) (demo_task Low Idle None)
     [demo_task High Idle None] = [demo_task Low Idle None]"
  by (simp add: pm_eval)

text \<open>Whatever the fetch outcome, the settlement of an execution releases its slot in activePrefetches, schedules processQueue once, leaves the queue alone, and a failed fetch leaves the cache unchanged.\<close>

theorem prefetch_settle_finally:
  assumes "n < length (running st)"
  shows "fst (running st ! n) \<notin> set (activePrefetches (prefetch_settle n out now st))
         \<and> timers (prefetch_settle n out now st) = Suc (timers st)
         \<and> length (running (prefetch_settle n out now st)) = length (running st) - 1
         \<and> queue (prefetch_settle n out now st) = queue st
         \<and> (out = Inl () \<longrightarrow> pcache (prefetch_settle n out now st) = pcache st)"
  using assms by (auto simp: prefetch_settle_def cache_result_def Let_def min_def split: prod.split option.split sum.split)

theorem prefetch_settle_finally_witness:
  "fst (running ((pm_create one_slot)\<lparr>running := [(''a'', demo_task High Hover None, True)]\<rparr>) ! 0)
     \<notin> set (activePrefetches (prefetch_settle 0 (Inl ()) 5 ((pm_create one_slot)\<lparr>running := [(''a'', demo_task High Hover None, True)]\<rparr>)))
   \<and> timers (prefetch_settle 0 (Inl ()) 5 ((pm_create one_slot)\<lparr>running := [(''a'', demo_task High Hover None, True)]\<rparr>)) = 1"
  using prefetch_settle_finally[of 0 "(pm_create one_slot)\<lparr>running := [(''a'', demo_task High Hover None, True)]\<rparr>" "Inl ()" 5]
  by (simp add: pm_create_def)

text \<open>A successful fetch with a truthy result under a non-empty cacheKey is returned by getCached exactly while less than ttl (or defaultTTL) seconds have passed since it settled.\<close>

theorem prefetch_settle_caches:
  assumes "n < length (running st)" and "running st ! n = (i, item, True)"
    and "pi_cacheKey item = Some k" and "k \<noteq> []" and "truthy d" and "0 \<le> dt"
  shows "getCached k (now + dt) (prefetch_settle n (Inr d) now st) =
           (if dt < or_default (pi_ttl item) (defaultTTL (pm_config st)) * 1000 then Some d else None)"
  using assms by (simp add: prefetch_settle_def cache_result_def cache_key_def getCached_def Let_def)

theorem prefetch_settle_caches_witness:
  "getCached ''k'' (5 + 1000) (prefetch_settle 0 (Inr (JNum 7)) 5
      ((pm_create no_overrides_pm)\<lparr>running := [(''a'', demo_task High Hover (Some ''k''), True)]\<rparr>)) = Some (JNum 7)"
  using prefetch_settle_caches[of 0 "(pm_create no_overrides_pm)\<lparr>running := [(''a'', demo_task High Hover (Some ''k''), True)]\<rparr>"
      "''a''" "demo_task High Hover (Some ''k'')" "''k''" "JNum 7" 1000 5]
  by (simp add: pm_create_def demo_task_def prefetch_defaults_def no_overrides_pm_def)

text \<open>The manager does not deduplicate by cacheKey: two tasks with the same key added back to back are both fetched, and after a failed fetch a second task with that key is fetched again (only a fresh cached success suppresses the fetch).\<close>

theorem prefetch_duplicate_fetch:
  "map (\<lambda>(i, _, f). (i, f)) (running (pm_run (pm_create no_overrides_pm)
      [PmAdd ''a'' None (demo_task High Hover (Some ''k'')) 0, PmAdd ''b'' None (demo_task High Hover (Some ''k'')) 0]))
     = [(''a'', True), (''b'', True)]
   \<and> map (\<lambda>(i, _, f). (i, f)) (running (pm_run (pm_create no_overrides_pm)
      [PmAdd ''a'' None (demo_task High Hover (Some ''k'')) 0, PmSettle 0 (Inl ()) 1,
       PmAdd ''b'' None (demo_task High Hover (Some ''k'')) 2]))
     = [(''b'', True)]"
  by (simp add: pm_eval)

text \<open>triggerPrefetch only decides how many dispatches to make: firing the idle trigger dispatches the queued high-priority hover task instead of the matching idle task.\<close>

theorem trigger_dispatches_other_kind:
  "running (triggerPrefetch ''idle'' 0
      ((pm_create one_slot)\<lparr>queue := [(demo_task Low Idle None)\<lparr>pi_id := ''i''\<rparr>,
                                       (demo_task High Hover None)\<lparr>pi_id := ''h''\<rparr>]\<rparr>))
   = [(''h'', (demo_task High Hover None)\<lparr>pi_id := ''h''\<rparr>, True)]"
  by (simp add: pm_eval)

text \<open>After any run, the route history is the last 10 routes reported by popstate, and the visit counter of a route is the number of times it was reported (absent if never).\<close>

theorem pm_route_tracking:
  "(let rs = routes_of (enableRoutePrefetch (prefetch_defaults pc)) es in
      routeHistory (pm_run (pm_create pc) es) = drop (length rs - 10) rs
    \<and> userBehavior (pm_run (pm_create pc) es) r = (if count_list rs r = 0 then None else Some (count_list rs r)))"
  using pm_run_routes[of "pm_create pc" es r] by (simp add: pm_create_def push_route_window Let_def)

end
