(* ===== verification/Prefetch_Manager.thy ===== *)
theory Prefetch_Manager
  imports Prefetch
begin

text \<open>
  \<open>GraphQLPrefetchManager\<close> of \<open>src/lib/graphql/prefetch-manager.ts\<close>, the second
  prefetcher of the repository.  Its tasks are mutable objects: \<open>executePrefetch\<close> sets
  \<open>task.executed\<close> on the object it was given, which may be the object in the queue or
  one a timer closure captured before \<open>clearQueue\<close> dropped the queue.  The model keeps
  the objects in an explicit heap \<open>gm_objs\<close> (an object is its index), and the queue,
  the pending hover timers and the executions in flight hold references.  The idle timer
  is a flag because a new one cancels the old.  As in \<open>Prefetch\<close>, a fetch outcome is
  chosen when it settles, and timer callbacks are events.
\<close>

datatype gm_trigger = GHover | GIdle | GScroll | GManual

record gtask =
  gt_name :: string
  gt_priority :: priority
  gt_trigger :: gm_trigger
  gt_delay :: "int option"
  gt_condition :: "bool option"
  gt_cacheKey :: string
  gt_ttl :: "int option"
  gt_executed :: bool
  gt_timestamp :: time

type_synonym oref = nat

record gm_state =
  gm_objs :: "gtask list"
  prefetchQueue :: "oref list"
  executedPrefetches :: "string list"
  gm_idle :: bool
  gm_hover :: "oref list"
  gm_running :: "oref list"

definition gm_init :: gm_state where
  "gm_init = \<lparr>gm_objs = [], prefetchQueue = [], executedPrefetches = [], gm_idle = False,
              gm_hover = [], gm_running = []\<rparr>"

definition gt_prio :: "gm_state \<Rightarrow> oref \<Rightarrow> int" where
  "gt_prio st r = - int (priorityOrder (gt_priority (gm_objs st ! r)))"

text \<open>The first task of the sorted queue with the given trigger that is not executed.\<close>

definition first_pending :: "gm_trigger \<Rightarrow> gm_state \<Rightarrow> oref option" where
  "first_pending t st =
     find (\<lambda>r. gt_trigger (gm_objs st ! r) = t \<and> \<not> gt_executed (gm_objs st ! r)) (prefetchQueue st)"

text \<open>
  \<open>executePrefetch\<close> up to \<open>await task.fetchFunction()\<close>: an executed task or an
  executed key returns, so does a task whose condition fails; otherwise the fetch starts.
\<close>

definition gm_execute :: "oref \<Rightarrow> gm_state \<Rightarrow> gm_state" where
  "gm_execute r st =
     (let t = gm_objs st ! r in
      if gt_executed t \<or> gt_cacheKey t \<in> set (executedPrefetches st) then st
      else if gt_condition t = Some False then st
      else st\<lparr>gm_running := gm_running st @ [r]\<rparr>)"

text \<open>The rest of \<open>executePrefetch\<close> when the fetch of the \<open>n\<close>-th execution settles: on
  success the object is marked and its key recorded; a failure is only logged.\<close>

definition gm_settle :: "nat \<Rightarrow> bool \<Rightarrow> gm_state \<Rightarrow> gm_state" where
  "gm_settle n ok st =
     (if length (gm_running st) \<le> n then st
      else (let r = gm_running st ! n;
                st1 = st\<lparr>gm_running := take n (gm_running st) @ drop (Suc n) (gm_running st)\<rparr>
            in if ok
               then st1\<lparr>gm_objs := (gm_objs st)[r := (gm_objs st ! r)\<lparr>gt_executed := True\<rparr>],
                        executedPrefetches := set_add (gt_cacheKey (gm_objs st ! r)) (executedPrefetches st)\<rparr>
               else st1))"

text \<open>\<open>processHoverPrefetch\<close>: schedule the first pending hover task after
  \<open>delay || 200\<close> ms.\<close>

definition processHoverPrefetch :: "gm_state \<Rightarrow> gm_state" where
  "processHoverPrefetch st =
     (case first_pending GHover st of None \<Rightarrow> st | Some r \<Rightarrow> st\<lparr>gm_hover := gm_hover st @ [r]\<rparr>)"

text \<open>\<open>processIdlePrefetch\<close>: (re)start the one-second idle timer.\<close>

definition processIdlePrefetch :: "gm_state \<Rightarrow> gm_state" where
  "processIdlePrefetch st = st\<lparr>gm_idle := True\<rparr>"

definition processScrollPrefetch :: "gm_state \<Rightarrow> gm_state" where
  "processScrollPrefetch st = (case first_pending GScroll st of None \<Rightarrow> st | Some r \<Rightarrow> gm_execute r st)"

definition processManualPrefetch :: "gm_state \<Rightarrow> gm_state" where
  "processManualPrefetch st = (case first_pending GManual st of None \<Rightarrow> st | Some r \<Rightarrow> gm_execute r st)"

fun processQueueByTrigger :: "gm_trigger \<Rightarrow> gm_state \<Rightarrow> gm_state" where
  "processQueueByTrigger GHover st = processHoverPrefetch st"
| "processQueueByTrigger GIdle st = processIdlePrefetch st"
| "processQueueByTrigger GScroll st = processScrollPrefetch st"
| "processQueueByTrigger GManual st = processManualPrefetch st"

text \<open>\<open>addPrefetch\<close>: a task whose key was executed is ignored; otherwise a copy stamped
  with the time is pushed, the queue is sorted by priority (stably) and the task's
  trigger is processed.\<close>

definition gm_addPrefetch :: "gtask \<Rightarrow> time \<Rightarrow> gm_state \<Rightarrow> gm_state" where
  "gm_addPrefetch task now st =
     (if gt_cacheKey task \<in> set (executedPrefetches st) then st
      else (let r = length (gm_objs st);
                st1 = st\<lparr>gm_objs := gm_objs st @ [task\<lparr>gt_timestamp := now\<rparr>],
                         prefetchQueue := prefetchQueue st @ [r]\<rparr>;
                st2 = st1\<lparr>prefetchQueue := sort_key (gt_prio st1) (prefetchQueue st1)\<rparr>
            in processQueueByTrigger (gt_trigger task) st2))"

text \<open>The idle timer firing: execute the first pending idle task, if any.\<close>

definition gm_idle_fire :: "gm_state \<Rightarrow> gm_state" where
  "gm_idle_fire st =
     (if \<not> gm_idle st then st
      else (let st1 = st\<lparr>gm_idle := False\<rparr> in
            case first_pending GIdle st1 of None \<Rightarrow> st1 | Some r \<Rightarrow> gm_execute r st1))"

text \<open>The \<open>n\<close>-th pending hover timer firing: execute the captured task object.\<close>

definition gm_hover_fire :: "nat \<Rightarrow> gm_state \<Rightarrow> gm_state" where
  "gm_hover_fire n st =
     (if length (gm_hover st) \<le> n then st
      else gm_execute (gm_hover st ! n) (st\<lparr>gm_hover := take n (gm_hover st) @ drop (Suc n) (gm_hover st)\<rparr>))"

record prefetch_options =
  po_priority :: "priority option"
  po_trigger :: "gm_trigger option"
  po_delay :: "int option"

definition prefetchProduct :: "string \<Rightarrow> prefetch_options \<Rightarrow> time \<Rightarrow> gm_state \<Rightarrow> gm_state" where
  "prefetchProduct slug po now st =
     gm_addPrefetch
       \<lparr>gt_name = ''product_'' @ slug, gt_priority = case_option Medium id (po_priority po),
        gt_trigger = case_option GHover id (po_trigger po), gt_delay = Some (case_option 200 id (po_delay po)),
        gt_condition = None, gt_cacheKey = ''product:'' @ slug, gt_ttl = Some 300, gt_executed = False,
        gt_timestamp = 0\<rparr> now st"

definition prefetchCategory :: "string \<Rightarrow> prefetch_options \<Rightarrow> time \<Rightarrow> gm_state \<Rightarrow> gm_state" where
  "prefetchCategory slug po now st =
     gm_addPrefetch
       \<lparr>gt_name = ''category_'' @ slug, gt_priority = case_option Low id (po_priority po),
        gt_trigger = case_option GIdle id (po_trigger po), gt_delay = Some (case_option 500 id (po_delay po)),
        gt_condition = None, gt_cacheKey = ''category:'' @ slug, gt_ttl = Some 600, gt_executed = False,
        gt_timestamp = 0\<rparr> now st"

definition gm_getStats :: "gm_state \<Rightarrow> nat \<times> nat \<times> bool" where
  "gm_getStats st = (length (prefetchQueue st), length (executedPrefetches st), False)"

definition gm_clearQueue :: "gm_state \<Rightarrow> gm_state" where
  "gm_clearQueue st = st\<lparr>prefetchQueue := [], gm_idle := False\<rparr>"

definition gm_clearExecuted :: "gm_state \<Rightarrow> gm_state" where
  "gm_clearExecuted st = st\<lparr>executedPrefetches := []\<rparr>"

datatype gm_event =
    GmAdd gtask time
  | GmProduct string prefetch_options time
  | GmCategory string prefetch_options time
  | GmHoverFire nat
  | GmIdleFire
  | GmSettle nat bool
  | GmClearQueue
  | GmClearExecuted

fun gm_step :: "gm_event \<Rightarrow> gm_state \<Rightarrow> gm_state" where
  "gm_step (GmAdd t now) st = gm_addPrefetch t now st"
| "gm_step (GmProduct s po now) st = prefetchProduct s po now st"
| "gm_step (GmCategory s po now) st = prefetchCategory s po now st"
| "gm_step (GmHoverFire n) st = gm_hover_fire n st"
| "gm_step GmIdleFire st = gm_idle_fire st"
| "gm_step (GmSettle n ok) st = gm_settle n ok st"
| "gm_step GmClearQueue st = gm_clearQueue st"
| "gm_step GmClearExecuted st = gm_clearExecuted st"

definition gm_run :: "gm_state \<Rightarrow> gm_event list \<Rightarrow> gm_state" where
  "gm_run st es = foldl (\<lambda>s e. gm_step e s) st es"

text \<open>Every reference the manager holds points into the heap.\<close>

definition gm_wf :: "gm_state \<Rightarrow> bool" where
  "gm_wf st \<longleftrightarrow>
     (\<forall>r\<in>set (prefetchQueue st). r < length (gm_objs st)) \<and> (\<forall>r\<in>set (gm_hover st). r < length (gm_objs st))
     \<and> (\<forall>r\<in>set (gm_running st). r < length (gm_objs st))"

text \<open>A scroll task keyed by its name, for the concrete run below.\<close>

definition scroll_task :: "string \<Rightarrow> gtask" where
  "scroll_task k = \<lparr>gt_name = k, gt_priority = High, gt_trigger = GScroll, gt_delay = None,
     gt_condition = None, gt_cacheKey = k, gt_ttl = None, gt_executed = False, gt_timestamp = 0\<rparr>"

subsection \<open>Lemmas\<close>

text \<open>Every step keeps the heap references valid.\<close>

lemma gm_execute_frame [simp]:
  "gm_objs (gm_execute r st) = gm_objs st" "prefetchQueue (gm_execute r st) = prefetchQueue st"
  "executedPrefetches (gm_execute r st) = executedPrefetches st" "gm_hover (gm_execute r st) = gm_hover st"
  "gm_idle (gm_execute r st) = gm_idle st"
  by (simp_all add: gm_execute_def Let_def)

lemma gm_execute_running: "set (gm_running (gm_execute r st)) \<subseteq> insert r (set (gm_running st))"
  by (auto simp: gm_execute_def Let_def)

lemma first_pending_in: "first_pending t st = Some r \<Longrightarrow> r \<in> set (prefetchQueue st)"
  by (auto simp: first_pending_def dest: find_Some_iff[THEN iffD1] simp: find_Some_iff)

lemma gm_wf_execute: "gm_wf st \<Longrightarrow> r < length (gm_objs st) \<Longrightarrow> gm_wf (gm_execute r st)"
  using gm_execute_running[of r st] by (auto simp: gm_wf_def)

lemma gm_wf_trigger: "gm_wf st \<Longrightarrow> gm_wf (processQueueByTrigger t st)"
  by (cases t) (auto simp: processHoverPrefetch_def processIdlePrefetch_def processScrollPrefetch_def
      processManualPrefetch_def gm_wf_def gm_execute_def Let_def split: option.split dest!: first_pending_in)

lemma gm_wf_add: "gm_wf st \<Longrightarrow> gm_wf (gm_addPrefetch task now st)"
proof -
  assume w: "gm_wf st"
  let ?st1 = "st\<lparr>gm_objs := gm_objs st @ [task\<lparr>gt_timestamp := now\<rparr>],
                 prefetchQueue := prefetchQueue st @ [length (gm_objs st)]\<rparr>"
  have "gm_wf (?st1\<lparr>prefetchQueue := sort_key (gt_prio ?st1) (prefetchQueue ?st1)\<rparr>)"
    using w by (auto simp: gm_wf_def)
  then show ?thesis using w by (simp add: gm_addPrefetch_def Let_def gm_wf_trigger)
qed

lemma gm_wf_settle: "gm_wf st \<Longrightarrow> gm_wf (gm_settle n ok st)"
  by (auto simp: gm_settle_def gm_wf_def Let_def dest: in_set_takeD in_set_dropD)

lemma gm_wf_step: "gm_wf st \<Longrightarrow> gm_wf (gm_step e st)"
proof (cases e)
  case GmIdleFire
  assume w: "gm_wf st"
  then show ?thesis using GmIdleFire
    by (auto simp: gm_idle_fire_def Let_def gm_wf_def gm_execute_def split: option.split dest!: first_pending_in)
next
  case (GmHoverFire n)
  assume w: "gm_wf st"
  then show ?thesis using GmHoverFire
    by (auto simp: gm_hover_fire_def gm_wf_def gm_execute_def Let_def dest: in_set_takeD in_set_dropD)
qed (auto simp: gm_wf_add gm_wf_settle prefetchProduct_def prefetchCategory_def gm_clearQueue_def
       gm_clearExecuted_def, auto simp: gm_wf_def)

lemma gm_run_wf: "gm_wf st \<Longrightarrow> gm_wf (gm_run st es)"
  unfolding gm_run_def by (rule foldl_invariant) (auto simp: gm_wf_step)

text \<open>
  What the manager guarantees and what it does not.  An executed key stays executed until
  \<open>clearExecuted\<close>, and adding a task with that key does nothing.  A failed fetch marks
  nothing, so the task stays eligible.  The queue never shrinks except by
  \<open>clearQueue\<close>, because executed tasks are only flagged, never dequeued.  A task whose
  fetch is still in flight is not yet executed: adding a second scroll task starts the
  first one's fetch again.
\<close>

lemma set_add_set [simp]: "set (set_add x xs) = insert x (set xs)"
  by (auto simp: set_add_def)

lemma gm_trigger_executed [simp]: "executedPrefetches (processQueueByTrigger t st) = executedPrefetches st"
  by (cases t) (simp_all add: processHoverPrefetch_def processIdlePrefetch_def processScrollPrefetch_def
      processManualPrefetch_def split: option.split)

lemma gm_executed_mono: "e \<noteq> GmClearExecuted \<Longrightarrow> set (executedPrefetches st) \<subseteq> set (executedPrefetches (gm_step e st))"
  by (cases e) (auto simp: gm_addPrefetch_def Let_def prefetchProduct_def prefetchCategory_def gm_hover_fire_def
      gm_idle_fire_def gm_settle_def gm_clearQueue_def split: option.split)

lemma gm_run_executed_mono:
  assumes "GmClearExecuted \<notin> set es" and "k \<in> set (executedPrefetches st)"
  shows "k \<in> set (executedPrefetches (gm_run st es))"
  unfolding gm_run_def
proof (rule foldl_invariant[where P = "\<lambda>s :: gm_state. k \<in> set (executedPrefetches s)"])
  fix s :: gm_state and x
  assume "x \<in> set es" and "k \<in> set (executedPrefetches s)"
  moreover have "x \<noteq> GmClearExecuted" using assms(1) \<open>x \<in> set es\<close> by blast
  ultimately show "k \<in> set (executedPrefetches (gm_step x s))" using gm_executed_mono[of x s] by blast
qed (rule assms(2))

lemma gm_add_executed_noop: "gt_cacheKey t \<in> set (executedPrefetches st) \<Longrightarrow> gm_addPrefetch t now st = st"
  by (simp add: gm_addPrefetch_def)

lemma gm_trigger_queue [simp]: "prefetchQueue (processQueueByTrigger t st) = prefetchQueue st"
  by (cases t) (simp_all add: processHoverPrefetch_def processIdlePrefetch_def processScrollPrefetch_def
      processManualPrefetch_def split: option.split)

lemma gm_queue_grows:
  "e \<noteq> GmClearQueue \<Longrightarrow> length (prefetchQueue st) \<le> length (prefetchQueue (gm_step e st))"
  by (cases e) (auto simp: gm_addPrefetch_def Let_def prefetchProduct_def prefetchCategory_def gm_hover_fire_def
      gm_idle_fire_def gm_settle_def gm_clearExecuted_def split: option.split)

lemma gm_settle_failure_unmarked:
  "n < length (gm_running st) \<Longrightarrow>
   gm_objs (gm_settle n False st) = gm_objs st \<and> executedPrefetches (gm_settle n False st) = executedPrefetches st"
  by (simp add: gm_settle_def Let_def)

lemma gm_scroll_refetch_in_flight:
  "gm_running (gm_run gm_init [GmAdd (scroll_task ''a'') 0, GmAdd (scroll_task ''b'') 1]) = [0, 0]"
  by (simp add: gm_run_def gm_init_def gm_addPrefetch_def Let_def scroll_task_def gt_prio_def
      processScrollPrefetch_def first_pending_def gm_execute_def)

end
