(* ===== verification/Cache_Strategy.thy ===== *)
theory Cache_Strategy
  imports Prelude
begin

text \<open>
  The Redis cache policy of \<open>src/lib/redis/cache-strategy.ts\<close>: the per-type configurations
  \<open>CACHE_CONFIGS\<close>, the key derivation of \<open>CacheKeyGenerator\<close> (query normalisation, digest,
  key layout), the TTL policy of \<open>CacheTTLManager\<close> and the invalidation patterns of
  \<open>CacheInvalidation\<close>.  The MD5 digest and \<open>JSON.stringify\<close> are library functions the code
  calls; they are the parameters \<open>md5hex\<close> and \<open>stringify\<close> of a \<open>codec\<close>, so every fact
  here holds for any digest and any serialisation.  Characters are 8-bit; \<open>\s\<close> is the
  set of whitespace characters of that range.
\<close>

subsection \<open>Configurations\<close>

record cache_config =
  cc_ttl :: int
  cc_prefix :: string
  cc_version :: "string option"

definition cfg_v1 :: "int \<Rightarrow> string \<Rightarrow> cache_config" where
  "cfg_v1 t p = \<lparr>cc_ttl = t, cc_prefix = p, cc_version = Some ''v1''\<rparr>"

definition CACHE_CONFIG_DEFAULT :: cache_config where
  "CACHE_CONFIG_DEFAULT = cfg_v1 (10 * 60) ''graphql:default''"

definition CACHE_CONFIGS :: "(string \<times> cache_config) list" where
  "CACHE_CONFIGS =
     [(''PRODUCT'', cfg_v1 (30 * 60) ''graphql:product''),
      (''PRODUCT_LIST'', cfg_v1 (10 * 60) ''graphql:products''),
      (''CATEGORY'', cfg_v1 (60 * 60) ''graphql:category''),
      (''SEARCH'', cfg_v1 (5 * 60) ''graphql:search''),
      (''HOMEPAGE'', cfg_v1 (15 * 60) ''graphql:homepage''),
      (''USER'', cfg_v1 (5 * 60) ''graphql:user''),
      (''DEFAULT'', CACHE_CONFIG_DEFAULT)]"

text \<open>\<open>String.prototype.toUpperCase\<close> on the ASCII letters.\<close>

definition upper_table :: "(char \<times> char) list" where
  "upper_table = zip ''abcdefghijklmnopqrstuvwxyz'' ''ABCDEFGHIJKLMNOPQRSTUVWXYZ''"

definition toUpperCase :: "string \<Rightarrow> string" where
  "toUpperCase s = map (\<lambda>c. case map_of upper_table c of None \<Rightarrow> c | Some u \<Rightarrow> u) s"

text \<open>\<open>CACHE_CONFIGS[queryType.toUpperCase()] || CACHE_CONFIGS.DEFAULT\<close>.\<close>

definition getConfig :: "string \<Rightarrow> cache_config" where
  "getConfig qt = (case map_of CACHE_CONFIGS (toUpperCase qt) of None \<Rightarrow> CACHE_CONFIG_DEFAULT | Some c \<Rightarrow> c)"

text \<open>A template literal \<open>${config.version}\<close> prints an absent version as \<open>undefined\<close>;
  \<open>Array.prototype.join\<close> prints it as the empty string.\<close>

definition version_text :: "cache_config \<Rightarrow> string" where
  "version_text cfg = (case cc_version cfg of None \<Rightarrow> ''undefined'' | Some v \<Rightarrow> v)"

definition version_part :: "cache_config \<Rightarrow> string" where
  "version_part cfg = (case cc_version cfg of None \<Rightarrow> [] | Some v \<Rightarrow> v)"

subsection \<open>Key generation\<close>

record codec =
  md5hex :: "string \<Rightarrow> string"
  stringify :: "json \<Rightarrow> string"

record key_options =
  ko_query :: string
  ko_variables :: "json option"
  ko_userId :: "string option"
  ko_context :: "string option"

text \<open>The characters \<open>\s\<close> matches (the 8-bit ones), and the line terminators.\<close>

definition is_space :: "char \<Rightarrow> bool" where
  "is_space c \<longleftrightarrow> c \<in> set [CHR 0x09, CHR 0x0A, CHR 0x0B, CHR 0x0C, CHR 0x0D, CHR 0x20, CHR 0xA0]"

definition is_line_term :: "char \<Rightarrow> bool" where
  "is_line_term c \<longleftrightarrow> c = CHR 0x0A \<or> c = CHR 0x0D"

text \<open>\<open>replace(/\s+/g, ' ')\<close>.\<close>

function collapse_ws :: "string \<Rightarrow> string" where
  "collapse_ws [] = []"
| "collapse_ws (c # s) =
     (if is_space c then CHR '' '' # collapse_ws (dropWhile is_space s) else c # collapse_ws s)"
  by pat_completeness auto
termination
  by (relation "measure length") (auto simp: le_imp_less_Suc length_dropWhile_le)

text \<open>\<open>replace(/#.*$/gm, '')\<close>: from each \<open>#\<close> to the end of its line.\<close>

function strip_comments :: "string \<Rightarrow> string" where
  "strip_comments [] = []"
| "strip_comments (c # s) =
     (if c = CHR ''#'' then strip_comments (dropWhile (\<lambda>d. \<not> is_line_term d) s)
      else c # strip_comments s)"
  by pat_completeness auto
termination
  by (relation "measure length") (auto simp: le_imp_less_Suc length_dropWhile_le)

definition trim :: "string \<Rightarrow> string" where
  "trim s = rev (dropWhile is_space (rev (dropWhile is_space s)))"

definition normalizeQuery :: "string \<Rightarrow> string" where
  "normalizeQuery q = trim (strip_comments (collapse_ws q))"

definition generateKey :: "codec \<Rightarrow> key_options \<Rightarrow> cache_config \<Rightarrow> string" where
  "generateKey cd opts cfg =
     (let vars = (case ko_variables opts of None \<Rightarrow> JObj [] | Some v \<Rightarrow> v);
          queryHash = take 12 (md5hex cd (normalizeQuery (ko_query opts) @ stringify cd vars));
          ctx = (case ko_context opts of None \<Rightarrow> ''default'' | Some c \<Rightarrow> if c = [] then ''default'' else c);
          user = (case ko_userId opts of None \<Rightarrow> [] | Some u \<Rightarrow> if u = [] then [] else [''user:'' @ u])
      in join_with '':'' ([cc_prefix cfg, version_part cfg, ctx, queryHash] @ user))"

definition cfg_named :: "string \<Rightarrow> cache_config" where
  "cfg_named n = (case map_of CACHE_CONFIGS n of None \<Rightarrow> CACHE_CONFIG_DEFAULT | Some c \<Rightarrow> c)"

definition generateProductKey :: "codec \<Rightarrow> string \<Rightarrow> string option \<Rightarrow> string" where
  "generateProductKey cd slug uid =
     generateKey cd \<lparr>ko_query = ''product'', ko_variables = Some (JObj [(''slug'', JStr slug)]),
                     ko_userId = uid, ko_context = None\<rparr> (cfg_named ''PRODUCT'')"

definition generateProductListKey :: "codec \<Rightarrow> (string \<times> json) list \<Rightarrow> string option \<Rightarrow> string" where
  "generateProductListKey cd params uid =
     generateKey cd \<lparr>ko_query = ''products'', ko_variables = Some (JObj params),
                     ko_userId = uid, ko_context = None\<rparr> (cfg_named ''PRODUCT_LIST'')"

definition generateCategoryKey :: "codec \<Rightarrow> string \<Rightarrow> string option \<Rightarrow> string" where
  "generateCategoryKey cd slug uid =
     generateKey cd \<lparr>ko_query = ''category'', ko_variables = Some (JObj [(''slug'', JStr slug)]),
                     ko_userId = uid, ko_context = None\<rparr> (cfg_named ''CATEGORY'')"

text \<open>\<open>{ search: searchTerm, ...filters }\<close>: a \<open>search\<close> filter replaces the term in place.\<close>

definition search_variables :: "string \<Rightarrow> (string \<times> json) list \<Rightarrow> json" where
  "search_variables term filters =
     JObj ((''search'', case map_of filters ''search'' of None \<Rightarrow> JStr term | Some v \<Rightarrow> v)
           # filter (\<lambda>(k, _). k \<noteq> ''search'') filters)"

definition generateSearchKey :: "codec \<Rightarrow> string \<Rightarrow> (string \<times> json) list \<Rightarrow> string option \<Rightarrow> string" where
  "generateSearchKey cd term filters uid =
     generateKey cd \<lparr>ko_query = ''search'', ko_variables = Some (search_variables term filters),
                     ko_userId = uid, ko_context = None\<rparr> (cfg_named ''SEARCH'')"

definition generateHomepageKey :: "codec \<Rightarrow> string option \<Rightarrow> string" where
  "generateHomepageKey cd uid =
     generateKey cd \<lparr>ko_query = ''homepage'', ko_variables = None,
                     ko_userId = uid, ko_context = None\<rparr> (cfg_named ''HOMEPAGE'')"

subsection \<open>TTL policy\<close>

text \<open>
  \<open>context?.k\<close> tested for truthiness; an absent context is the empty object.  The
  \<open>Math.floor(ttl * f)\<close> steps are exact over \<open>int\<close>: for the TTLs of \<open>CACHE_CONFIGS\<close>
  and every combination of the three steps this agrees with IEEE doubles (it would not
  for, e.g., \<open>90 * 0.7\<close>).  \<open>hour\<close> is \<open>new Date().getHours()\<close>.
\<close>

definition ctx_truthy :: "(string \<times> json) list \<Rightarrow> string \<Rightarrow> bool" where
  "ctx_truthy ctx k = (case map_of ctx k of None \<Rightarrow> False | Some v \<Rightarrow> truthy v)"

definition getTTL :: "string \<Rightarrow> (string \<times> json) list \<Rightarrow> int \<Rightarrow> int" where
  "getTTL qt ctx hour =
     (let t0 = cc_ttl (getConfig qt);
          t1 = (if 9 \<le> hour \<and> hour \<le> 17 then t0 * 7 div 10 else t0);
          t2 = (if ctx_truthy ctx ''userId'' then t1 * 4 div 5 else t1);
          t3 = (if ctx_truthy ctx ''static'' then t2 * 3 div 2 else t2)
      in max t3 60)"

subsection \<open>Invalidation\<close>

text \<open>\<open>String(x)\<close> as a template literal prints a value.\<close>

fun js_string :: "json \<Rightarrow> string" where
  "js_string JNull = ''null''"
| "js_string (JBool b) = (if b then ''true'' else ''false'')"
| "js_string (JNum n) = show_int n"
| "js_string (JStr s) = s"
| "js_string (JArr xs) = join_with '','' (map (\<lambda>x. if x = JNull then [] else js_string x) xs)"
| "js_string (JObj _) = ''[object Object]''"

definition base_pattern :: "cache_config \<Rightarrow> string" where
  "base_pattern cfg = cc_prefix cfg @ '':'' @ version_text cfg @ '':*''"

definition getInvalidationPatterns :: "string \<Rightarrow> (string \<times> json) list \<Rightarrow> string list" where
  "getInvalidationPatterns qt ctx =
     (let cfg = getConfig qt; pv = cc_prefix cfg @ '':'' @ version_text cfg @ '':''
      in [base_pattern cfg]
         @ (if ctx_truthy ctx ''productId''
            then [pv @ ''*product*'' @ js_string (the (map_of ctx ''productId'')) @ ''*''] else [])
         @ (if ctx_truthy ctx ''categoryId''
            then [pv @ ''*category*'' @ js_string (the (map_of ctx ''categoryId'')) @ ''*''] else [])
         @ (if ctx_truthy ctx ''userId''
            then [pv @ ''*user:'' @ js_string (the (map_of ctx ''userId'')) @ ''*''] else []))"

definition getProductInvalidationKeys :: "codec \<Rightarrow> string \<Rightarrow> string list" where
  "getProductInvalidationKeys cd slug =
     [generateProductKey cd slug None, base_pattern (cfg_named ''PRODUCT_LIST''),
      base_pattern (cfg_named ''HOMEPAGE''), base_pattern (cfg_named ''SEARCH'')]"

definition getCategoryInvalidationKeys :: "codec \<Rightarrow> string \<Rightarrow> string list" where
  "getCategoryInvalidationKeys cd slug =
     [generateCategoryKey cd slug None, base_pattern (cfg_named ''PRODUCT_LIST''),
      base_pattern (cfg_named ''HOMEPAGE'')]"

subsection \<open>Lemmas\<close>

lemma line_term_space: "is_line_term c \<Longrightarrow> is_space c"
  by (auto simp: is_line_term_def is_space_def)

lemma collapse_ws_no_term: "c \<in> set (collapse_ws s) \<Longrightarrow> \<not> is_line_term c"
proof (induction s rule: collapse_ws.induct)
  case (2 c0 s)
  have "\<not> is_line_term (CHR '' '')" by (simp add: is_line_term_def)
  with 2 show ?case
    by (cases "is_space c0") (auto dest: line_term_space)
qed simp

lemma strip_comments_single_line:
  "\<forall>c\<in>set s. \<not> is_line_term c \<Longrightarrow> strip_comments s = takeWhile (\<lambda>c. c \<noteq> CHR ''#'') s"
proof (induction s rule: strip_comments.induct)
  case (2 c s)
  show ?case
  proof (cases "c = CHR ''#''")
    case True
    have "dropWhile (\<lambda>d. \<not> is_line_term d) s = []"
      using "2.prems" by (simp add: dropWhile_eq_Nil_conv)
    with True show ?thesis by (simp del: dropWhile_eq_Nil_conv)
  next
    case False
    with 2 show ?thesis by simp
  qed
qed simp

lemma dropWhile_append_stop: "\<not> P c \<Longrightarrow> dropWhile P (s @ c # r) = dropWhile P s @ c # r"
  by (induction s) auto

lemma collapse_ws_append:
  "\<not> is_space c \<Longrightarrow> collapse_ws (p @ c # r) = collapse_ws p @ c # collapse_ws r"
proof (induction p rule: collapse_ws.induct)
  case 1
  then show ?case by simp
next
  case (2 c0 s)
  then show ?case by (simp add: dropWhile_append_stop)
qed

lemma normalizeQuery_comment:
  "normalizeQuery (p @ CHR ''#'' # r) = trim (takeWhile (\<lambda>c. c \<noteq> CHR ''#'') (collapse_ws p))"
proof -
  have sp: "\<not> is_space (CHR ''#'')" by (simp add: is_space_def)
  have "\<forall>c\<in>set (collapse_ws (p @ CHR ''#'' # r)). \<not> is_line_term c"
    using collapse_ws_no_term by blast
  then show ?thesis
    by (simp add: normalizeQuery_def strip_comments_single_line collapse_ws_append[OF sp] takeWhile_append takeWhile_eq_all_conv[THEN iffD2])
qed

lemma getConfig_ttl: "cc_ttl (getConfig qt) \<in> {1800, 600, 3600, 300, 900}"
  by (auto simp: getConfig_def CACHE_CONFIGS_def CACHE_CONFIG_DEFAULT_def cfg_v1_def
           split: option.split if_splits dest!: map_of_SomeD)

lemma getTTL_bounds: "60 \<le> getTTL qt ctx h \<and> getTTL qt ctx h \<le> 5400"
  using getConfig_ttl[of qt] by (auto simp: getTTL_def Let_def)

subsection \<open>Properties\<close>

text \<open>C15. Key normalisation collapses all whitespace, newlines included, before it strips
  \<open>#\<close> comments, so everything after the first \<open>#\<close> of a query is dropped: two queries that
  agree up to a \<open>#\<close> get the same cache key, whatever follows and whatever the digest.\<close>

theorem generateKey_comment_collision:
  "generateKey cd (opts\<lparr>ko_query := p @ CHR ''#'' # r1\<rparr>) cfg = generateKey cd (opts\<lparr>ko_query := p @ CHR ''#'' # r2\<rparr>) cfg"
  by (simp add: generateKey_def normalizeQuery_comment)

end
