(* ===== verification/Redis_Cache.thy ===== *)
theory Redis_Cache
  imports Cache_Strategy "HOL-Library.AList"
begin

text \<open>
  \<open>RedisCacheService\<close> of \<open>src/lib/redis/cache-service.ts\<close> over the Redis server it
  talks to.  The server is an association list from keys to a stored value and an
  optional expiry instant (\<open>SET ... EX ttl\<close> stores \<open>now + 1000 * ttl\<close>); a key whose
  expiry has passed is absent for every command.  Values are the JSON values the service
  writes: it stores \<open>JSON.stringify(data)\<close> and reads back \<open>JSON.parse(cached)\<close>, which
  is the same value for JSON data.  \<open>r_available\<close> is whether the module-level
  \<open>redisClient\<close> exists (it is \<open>null\<close> in the browser or when \<open>ioredis\<close> fails to load);
  \<open>r_failing\<close> is whether commands currently throw (the \<open>catch\<close> branches).  A fetch
  function is its outcome, \<open>Inl\<close> for a rejection.  Redis \<open>KEYS\<close> globs are matched
  with \<open>*\<close> and \<open>?\<close>; bracket classes and escapes are not modelled.
\<close>

record redis =
  r_available :: bool
  r_failing :: bool
  r_store :: "(string \<times> json \<times> time option) list"

definition r_live :: "time \<Rightarrow> time option \<Rightarrow> bool" where
  "r_live now e = (case e of None \<Rightarrow> True | Some t \<Rightarrow> now < t)"

definition r_lookup :: "time \<Rightarrow> string \<Rightarrow> redis \<Rightarrow> json option" where
  "r_lookup now k r =
     (case map_of (r_store r) k of None \<Rightarrow> None | Some (v, e) \<Rightarrow> if r_live now e then Some v else None)"

definition r_usable :: "redis \<Rightarrow> bool" where
  "r_usable r \<longleftrightarrow> r_available r \<and> \<not> r_failing r"

text \<open>The Redis glob of \<open>KEYS pattern\<close>.\<close>

function glob :: "string \<Rightarrow> string \<Rightarrow> bool" where
  "glob [] s = (s = [])"
| "glob (c # p) s =
     (if c = CHR ''*'' then (case s of [] \<Rightarrow> glob p [] | d # s' \<Rightarrow> glob p s \<or> glob (c # p) s')
      else (case s of [] \<Rightarrow> False | d # s' \<Rightarrow> (c = CHR ''?'' \<or> c = d) \<and> glob p s'))"
  by pat_completeness auto
termination
  by (relation "measure (\<lambda>(p, s). length p + length s)") auto

definition r_keys :: "time \<Rightarrow> string \<Rightarrow> redis \<Rightarrow> string list" where
  "r_keys now pat r = [k. (k, v, e) \<leftarrow> r_store r, r_live now e, glob pat k]"

subsection \<open>Commands\<close>

text \<open>\<open>get\<close>: no client or a failing command gives \<open>null\<close>; a hit is parsed back.\<close>

definition svc_get :: "time \<Rightarrow> string \<Rightarrow> redis \<Rightarrow> json option" where
  "svc_get now k r = (if r_usable r then r_lookup now k r else None)"

text \<open>\<open>set\<close>: with a truthy positive \<open>ttl\<close> the key expires; otherwise it is stored without
  expiry.\<close>

definition svc_set :: "time \<Rightarrow> string \<Rightarrow> json \<Rightarrow> int option \<Rightarrow> redis \<Rightarrow> bool \<times> redis" where
  "svc_set now k d ttl r =
     (if \<not> r_usable r then (False, r)
      else (True, r\<lparr>r_store := AList.update k
                     (d, case ttl of Some t \<Rightarrow> if 0 < t then Some (now + 1000 * t) else None | None \<Rightarrow> None)
                     (r_store r)\<rparr>))"

text \<open>\<open>delete\<close>: \<open>DEL\<close> reports whether a live key was removed.\<close>

definition svc_delete :: "time \<Rightarrow> string \<Rightarrow> redis \<Rightarrow> bool \<times> redis" where
  "svc_delete now k r =
     (if \<not> r_usable r then (False, r)
      else (r_lookup now k r \<noteq> None, r\<lparr>r_store := AList.delete k (r_store r)\<rparr>))"

definition svc_exists :: "time \<Rightarrow> string \<Rightarrow> redis \<Rightarrow> bool" where
  "svc_exists now k r = (r_usable r \<and> r_lookup now k r \<noteq> None)"

subsection \<open>Read-through caching\<close>

record cache_options =
  co_ttl :: "int option"
  co_queryType :: "string option"
  co_userId :: "string option"
  co_context :: "(string \<times> json) list option"
  co_forceRefresh :: "bool option"

record cache_result =
  cr_data :: json
  cr_fromCache :: bool
  cr_cacheKey :: string
  cr_ttl :: "int option"

text \<open>
  The miss path of \<open>getOrSet\<close>: await the fetch (a rejection propagates), take
  \<open>options.ttl || getTTL(queryType, context)\<close>, store at the time the fetch returned and
  ignore whether the store succeeded.
\<close>

definition getOrSet_fetch ::
  "time \<Rightarrow> int \<Rightarrow> string \<Rightarrow> 'e + json \<Rightarrow> cache_options \<Rightarrow> redis \<Rightarrow> ('e + cache_result) \<times> redis" where
  "getOrSet_fetch now' hour k fetched opts r =
     (case fetched of
        Inl err \<Rightarrow> (Inl err, r)
      | Inr fresh \<Rightarrow>
          (let ttl = or_default (co_ttl opts)
                       (getTTL (case co_queryType opts of None \<Rightarrow> ''default'' | Some q \<Rightarrow> q)
                               (case co_context opts of None \<Rightarrow> [] | Some c \<Rightarrow> c) hour)
           in (Inr \<lparr>cr_data = fresh, cr_fromCache = False, cr_cacheKey = k, cr_ttl = Some ttl\<rparr>,
               snd (svc_set now' k fresh (Some ttl) r))))"

text \<open>\<open>getOrSet\<close>: unless forced, a cached value other than \<open>null\<close> is returned.\<close>

definition getOrSet ::
  "time \<Rightarrow> time \<Rightarrow> int \<Rightarrow> string \<Rightarrow> 'e + json \<Rightarrow> cache_options \<Rightarrow> redis \<Rightarrow> ('e + cache_result) \<times> redis" where
  "getOrSet now now' hour k fetched opts r =
     (let cached = (if case_option False id (co_forceRefresh opts) then None else svc_get now k r)
      in case cached of
           Some d \<Rightarrow>
             if d \<noteq> JNull
             then (Inr \<lparr>cr_data = d, cr_fromCache = True, cr_cacheKey = k, cr_ttl = None\<rparr>, r)
             else getOrSet_fetch now' hour k fetched opts r
         | None \<Rightarrow> getOrSet_fetch now' hour k fetched opts r)"

text \<open>\<open>{ ...context, userId }\<close>: the \<open>userId\<close> entry replaced (absent when undefined).\<close>

definition with_userId :: "(string \<times> json) list \<Rightarrow> string option \<Rightarrow> (string \<times> json) list" where
  "with_userId ctx uid =
     filter (\<lambda>(k, _). k \<noteq> ''userId'') ctx @ (case uid of None \<Rightarrow> [] | Some u \<Rightarrow> [(''userId'', JStr u)])"

definition graphql_key :: "codec \<Rightarrow> string \<Rightarrow> json option \<Rightarrow> cache_options \<Rightarrow> string" where
  "graphql_key cd query vars opts =
     (let qt = (case co_queryType opts of None \<Rightarrow> ''default'' | Some q \<Rightarrow> q)
      in generateKey cd \<lparr>ko_query = query, ko_variables = Some (case vars of None \<Rightarrow> JObj [] | Some v \<Rightarrow> v),
                         ko_userId = co_userId opts, ko_context = Some qt\<rparr> (getConfig qt))"

definition cacheGraphQLQuery ::
  "codec \<Rightarrow> time \<Rightarrow> time \<Rightarrow> int \<Rightarrow> string \<Rightarrow> json option \<Rightarrow> 'e + json \<Rightarrow> cache_options \<Rightarrow> redis
   \<Rightarrow> ('e + cache_result) \<times> redis" where
  "cacheGraphQLQuery cd now now' hour query vars fetched opts r =
     (let qt = (case co_queryType opts of None \<Rightarrow> ''default'' | Some q \<Rightarrow> q);
          ctx = (case co_context opts of None \<Rightarrow> [] | Some c \<Rightarrow> c)
      in getOrSet now now' hour (graphql_key cd query vars opts) fetched
           (opts\<lparr>co_queryType := Some qt, co_context := Some (with_userId ctx (co_userId opts))\<rparr>) r)"

subsection \<open>Invalidation\<close>

text \<open>The loop of \<open>invalidateByPattern\<close> and \<open>clearAllGraphQLCaches\<close>: delete each key and
  count the deletions that report success.\<close>

fun delete_all :: "time \<Rightarrow> string list \<Rightarrow> redis \<Rightarrow> nat \<times> redis" where
  "delete_all now [] r = (0, r)"
| "delete_all now (k # ks) r =
     (let (ok, r1) = svc_delete now k r; (n, r2) = delete_all now ks r1
      in (if ok then Suc n else n, r2))"

text \<open>Without a client \<open>redisClient.keys\<close> throws a \<open>TypeError\<close>, caught like a failing
  command.\<close>

definition invalidateByPattern :: "time \<Rightarrow> string \<Rightarrow> redis \<Rightarrow> nat \<times> redis" where
  "invalidateByPattern now pat r =
     (if \<not> r_usable r then (0, r) else delete_all now (r_keys now pat r) r)"

fun invalidate_patterns :: "time \<Rightarrow> string list \<Rightarrow> redis \<Rightarrow> nat \<times> redis" where
  "invalidate_patterns now [] r = (0, r)"
| "invalidate_patterns now (p # ps) r =
     (let (n, r1) = invalidateByPattern now p r; (m, r2) = invalidate_patterns now ps r1 in (n + m, r2))"

definition invalidateProduct :: "codec \<Rightarrow> time \<Rightarrow> string \<Rightarrow> redis \<Rightarrow> nat \<times> redis" where
  "invalidateProduct cd now slug r = invalidate_patterns now (getProductInvalidationKeys cd slug) r"

definition invalidateCategory :: "codec \<Rightarrow> time \<Rightarrow> string \<Rightarrow> redis \<Rightarrow> nat \<times> redis" where
  "invalidateCategory cd now slug r = invalidate_patterns now (getCategoryInvalidationKeys cd slug) r"

definition clearAllGraphQLCaches :: "time \<Rightarrow> redis \<Rightarrow> bool \<times> redis" where
  "clearAllGraphQLCaches now r =
     (if \<not> r_usable r then (False, r) else (True, snd (delete_all now (r_keys now ''graphql:*'' r) r)))"

datatype health = Healthy int | Unhealthy

definition healthCheck :: "time \<Rightarrow> time \<Rightarrow> redis \<Rightarrow> health" where
  "healthCheck now now' r = (if r_usable r then Healthy (now' - now) else Unhealthy)"

subsection \<open>Example data\<close>

text \<open>A codec, options and an empty server for the concrete runs below.\<close>

definition demo_codec :: codec where
  "demo_codec = \<lparr>md5hex = \<lambda>s. s, stringify = \<lambda>j. ''{}''\<rparr>"

definition no_cache_options :: cache_options where
  "no_cache_options = \<lparr>co_ttl = None, co_queryType = None, co_userId = None, co_context = None,
                       co_forceRefresh = None\<rparr>"

definition empty_redis :: redis where
  "empty_redis = \<lparr>r_available = True, r_failing = False, r_store = []\<rparr>"

subsection \<open>Lemmas\<close>

lemma r_lookup_delete:
  "r_lookup t k' (r\<lparr>r_store := AList.delete k (r_store r)\<rparr>) = (if k = k' then None else r_lookup t k' r)"
  by (simp add: r_lookup_def delete_conv')

lemma r_lookup_update:
  "r_lookup t k' (r\<lparr>r_store := AList.update k v (r_store r)\<rparr>) =
     (if k = k' then (if r_live t (snd v) then Some (fst v) else None) else r_lookup t k' r)"
  by (cases v) (simp add: r_lookup_def update_conv')

lemma delete_all_snd [simp]:
  "snd (delete_all now (k # ks) r) = snd (delete_all now ks (snd (svc_delete now k r)))"
  by (simp split: prod.split)

lemma invalidate_patterns_snd [simp]:
  "snd (invalidate_patterns now (p # ps) r) = snd (invalidate_patterns now ps (snd (invalidateByPattern now p r)))"
  by (simp split: prod.split)

lemma delete_all_other:
  "k \<notin> set ks \<Longrightarrow> r_lookup t k (snd (delete_all now ks r)) = r_lookup t k r"
proof (induction ks arbitrary: r)
  case (Cons k1 ks)
  then show ?case
    by (auto simp del: delete_all.simps simp add: svc_delete_def r_lookup_delete)
qed simp

lemma r_keys_glob: "k \<in> set (r_keys now pat r) \<Longrightarrow> glob pat k"
  by (auto simp: r_keys_def)

lemma invalidateByPattern_other:
  "\<not> glob pat k \<Longrightarrow> r_lookup t k (snd (invalidateByPattern now pat r)) = r_lookup t k r"
  by (auto simp: invalidateByPattern_def intro!: delete_all_other dest: r_keys_glob)

lemma invalidate_patterns_other:
  "\<forall>p\<in>set ps. \<not> glob p k \<Longrightarrow> r_lookup t k (snd (invalidate_patterns now ps r)) = r_lookup t k r"
proof (induction ps arbitrary: r)
  case (Cons p ps)
  then show ?case by (simp del: invalidate_patterns.simps add: invalidateByPattern_other)
qed simp

lemma join_key:
  "join_with '':'' ([a, b, c, d] @ us) = a @ '':'' @ b @ '':'' @ c @ '':'' @ join_with '':'' (d # us)"
  by simp

lemma graphql_key_product:
  "co_queryType opts = Some ''product'' \<Longrightarrow>
   \<exists>rest. graphql_key cd q vars opts = ''graphql:product:v1:product:'' @ rest"
  by (simp add: graphql_key_def generateKey_def getConfig_def toUpperCase_def upper_table_def
      CACHE_CONFIGS_def cfg_v1_def version_part_def Let_def join_key)

lemma product_key_default:
  "\<exists>rest. generateProductKey cd slug None = ''graphql:product:v1:default:'' @ rest"
  by (simp add: generateProductKey_def generateKey_def cfg_named_def CACHE_CONFIGS_def cfg_v1_def
      version_part_def Let_def join_key)

text \<open>Two behaviours of the service the specification does not cover: a cached JSON
  \<open>null\<close> is treated as a miss, and a non-positive \<open>ttl\<close> stores a key that never expires
  (\<open>options.ttl || ...\<close> keeps a negative ttl, and \<open>set\<close> then omits \<open>EX\<close>).\<close>

lemma getOrSet_null_is_miss:
  "r_usable r \<Longrightarrow> r_lookup now k r = Some JNull \<Longrightarrow> co_forceRefresh opts = None \<Longrightarrow>
   getOrSet now now' hour k f opts r = getOrSet_fetch now' hour k f opts r"
  by (simp add: getOrSet_def svc_get_def)

lemma svc_set_nonpositive_never_expires:
  "r_usable r \<Longrightarrow> ttl \<le> 0 \<Longrightarrow> r_lookup t k (snd (svc_set now k d (Some ttl) r)) = Some d"
  by (simp add: svc_set_def r_lookup_update r_live_def)

subsection \<open>Properties\<close>

text \<open>C16. \<open>invalidateProduct\<close> never removes an entry that \<open>cacheGraphQLQuery\<close> stored with query
  type \<open>product\<close>: such keys carry the context \<open>product\<close>, while the exact key it deletes
  carries \<open>default\<close>, and its three patterns name other prefixes.\<close>

theorem invalidateProduct_misses_query_keys:
  assumes "co_queryType opts = Some ''product''"
  shows "r_lookup t (graphql_key cd q vars opts) (snd (invalidateProduct cd now slug r)) =
         r_lookup t (graphql_key cd q vars opts) r"
proof -
  obtain rest where k: "graphql_key cd q vars opts = ''graphql:product:v1:product:'' @ rest"
    using graphql_key_product[OF assms] by blast
  obtain rest' where p: "generateProductKey cd slug None = ''graphql:product:v1:default:'' @ rest'"
    using product_key_default by blast
  have "\<forall>p\<in>set (getProductInvalidationKeys cd slug). \<not> glob p (graphql_key cd q vars opts)"
    by (simp add: getProductInvalidationKeys_def k p base_pattern_def cfg_named_def CACHE_CONFIGS_def
        CACHE_CONFIG_DEFAULT_def cfg_v1_def version_text_def)
  then show ?thesis by (simp add: invalidateProduct_def invalidate_patterns_other)
qed

theorem invalidateProduct_misses_query_keys_witness:
  "co_queryType (no_cache_options\<lparr>co_queryType := Some ''product''\<rparr>) = Some ''product''
   \<and> r_lookup 0 (graphql_key demo_codec ''query'' None (no_cache_options\<lparr>co_queryType := Some ''product''\<rparr>))
       (snd (invalidateProduct demo_codec 0 ''shirt'' empty_redis))
     = r_lookup 0 (graphql_key demo_codec ''query'' None (no_cache_options\<lparr>co_queryType := Some ''product''\<rparr>)) empty_redis"
  using invalidateProduct_misses_query_keys[of "no_cache_options\<lparr>co_queryType := Some ''product''\<rparr>"
      0 demo_codec "''query''" None 0 "''shirt''" empty_redis]
  by simp

text \<open>C17. On a miss, \<open>getOrSet\<close> fetches, returns the fresh value with \<open>fromCache = false\<close>
  and the policy TTL, and stores it; any later \<open>getOrSet\<close> of the key that is not forced and
  comes before the TTL elapses returns the same value with \<open>fromCache = true\<close> without using
  its fetch.\<close>

theorem getOrSet_roundtrip:
  assumes "r_usable r" and "svc_get now k r = None" and "co_ttl opts = None" and "d \<noteq> JNull"
    and "t < now' + 1000 * getTTL (case co_queryType opts of None \<Rightarrow> ''default'' | Some q \<Rightarrow> q)
                                  (case co_context opts of None \<Rightarrow> [] | Some c \<Rightarrow> c) hour"
    and "co_forceRefresh opts2 \<noteq> Some True"
  shows "\<exists>r1. getOrSet now now' hour k (Inr d) opts r =
              (Inr \<lparr>cr_data = d, cr_fromCache = False, cr_cacheKey = k,
                    cr_ttl = Some (getTTL (case co_queryType opts of None \<Rightarrow> ''default'' | Some q \<Rightarrow> q)
                                     (case co_context opts of None \<Rightarrow> [] | Some c \<Rightarrow> c) hour)\<rparr>, r1)
            \<and> fst (getOrSet t t2 hour2 k f2 opts2 r1) =
              Inr \<lparr>cr_data = d, cr_fromCache = True, cr_cacheKey = k, cr_ttl = None\<rparr>"
proof -
  let ?ttl = "getTTL (case co_queryType opts of None \<Rightarrow> ''default'' | Some q \<Rightarrow> q)
                     (case co_context opts of None \<Rightarrow> [] | Some c \<Rightarrow> c) hour"
  have pos: "0 < ?ttl" using getTTL_bounds by (metis less_le_trans zero_less_numeral)
  have force: "case_option False id (co_forceRefresh opts2) = False"
    using assms(6) by (cases "co_forceRefresh opts2") auto
  show ?thesis
    using assms pos force
    by (intro exI[of _ "r\<lparr>r_store := AList.update k (d, Some (now' + 1000 * ?ttl)) (r_store r)\<rparr>"] conjI)
       (simp_all add: getOrSet_def getOrSet_fetch_def svc_set_def svc_get_def r_lookup_update r_live_def
        r_usable_def Let_def)
qed

theorem getOrSet_roundtrip_witness:
  "\<exists>r1. getOrSet 0 10 0 ''k'' (Inr (JNum 1) :: unit + json) no_cache_options empty_redis =
          (Inr \<lparr>cr_data = JNum 1, cr_fromCache = False, cr_cacheKey = ''k'',
                cr_ttl = Some (getTTL (case co_queryType no_cache_options of None \<Rightarrow> ''default'' | Some q \<Rightarrow> q)
                                 (case co_context no_cache_options of None \<Rightarrow> [] | Some c \<Rightarrow> c) 0)\<rparr>, r1)
        \<and> fst (getOrSet 1000 1000 0 ''k'' (Inl () :: unit + json) no_cache_options r1) =
          Inr \<lparr>cr_data = JNum 1, cr_fromCache = True, cr_cacheKey = ''k'', cr_ttl = None\<rparr>"
proof (rule getOrSet_roundtrip)
  show "1000 < 10 + 1000 * getTTL (case co_queryType no_cache_options of None \<Rightarrow> ''default'' | Some q \<Rightarrow> q)
                                  (case co_context no_cache_options of None \<Rightarrow> [] | Some c \<Rightarrow> c) 0"
    using getTTL_bounds[of "''default''" "[]" 0] by (simp add: no_cache_options_def)
qed (simp_all add: empty_redis_def r_usable_def svc_get_def r_lookup_def no_cache_options_def)

end
