(* ===== verification/Executor.thy ===== *)
theory Executor
  imports Redis_Cache Batch
begin

text \<open>
  The request executors over the Redis cache: \<open>RedisEnhancedGraphQLClient\<close> of
  \<open>src/lib/graphql/redis-enhanced-client.ts\<close> and \<open>OptimizedGraphQLClient\<close> of
  \<open>src/lib/graphql/optimized-client.ts\<close>.  The GraphQL transport is the environment: a call
  is answered by an outcome (\<open>Inl\<close> for a thrown value, as in \<open>Batch\<close>).  Clock readings
  are the start of a request, the moment its fetch returns and its end.  Requests run
  together with \<open>Promise.all\<close> issue all their cache reads before any fetch returns, so
  they read the store as it was and their writes land afterwards, in completion order
  (taken to be list order); \<open>Promise.all\<close> rejects with the first rejection in that
  order.
\<close>

subsection \<open>The Redis-enhanced client\<close>

record gql_request_options =
  ro_useCache :: "bool option"
  ro_cacheTTL :: "int option"
  ro_queryType :: "string option"
  ro_userId :: "string option"
  ro_context :: "(string \<times> json) list option"
  ro_forceRefresh :: "bool option"

record gql_response =
  gr_data :: json
  gr_fromCache :: bool
  gr_executionTime :: int
  gr_cacheKey :: "string option"

text \<open>The options \<open>request\<close> passes to \<open>cacheGraphQLQuery\<close>, after its destructuring
  defaults.\<close>

definition re_cache_options :: "gql_request_options \<Rightarrow> cache_options" where
  "re_cache_options ro =
     \<lparr>co_ttl = ro_cacheTTL ro, co_queryType = Some (case ro_queryType ro of None \<Rightarrow> ''default'' | Some q \<Rightarrow> q),
      co_userId = ro_userId ro, co_context = Some (case ro_context ro of None \<Rightarrow> [] | Some c \<Rightarrow> c),
      co_forceRefresh = Some (case ro_forceRefresh ro of None \<Rightarrow> False | Some b \<Rightarrow> b)\<rparr>"

definition re_vars :: "json option \<Rightarrow> json" where
  "re_vars v = (case v of None \<Rightarrow> JObj [] | Some x \<Rightarrow> x)"

definition re_request ::
  "codec \<Rightarrow> time \<Rightarrow> time \<Rightarrow> time \<Rightarrow> int \<Rightarrow> string \<Rightarrow> json option \<Rightarrow> gql_request_options
   \<Rightarrow> thrown + json \<Rightarrow> redis \<Rightarrow> (thrown + gql_response) \<times> redis" where
  "re_request cd now now' now'' hour query vars ro resp r =
     (if \<not> (case ro_useCache ro of None \<Rightarrow> True | Some b \<Rightarrow> b) then
        (case resp of
           Inl e \<Rightarrow> (Inl e, r)
         | Inr d \<Rightarrow> (Inr \<lparr>gr_data = d, gr_fromCache = False, gr_executionTime = now'' - now, gr_cacheKey = None\<rparr>, r))
      else (case cacheGraphQLQuery cd now now' hour query (Some (re_vars vars)) resp (re_cache_options ro) r of
              (Inl e, r1) \<Rightarrow> (Inl e, r1)
            | (Inr cr, r1) \<Rightarrow>
                (Inr \<lparr>gr_data = cr_data cr, gr_fromCache = cr_fromCache cr, gr_executionTime = now'' - now,
                      gr_cacheKey = Some (cr_cacheKey cr)\<rparr>, r1)))"

text \<open>The store write of one request of a concurrent group: the request decided hit or
  miss on the store \<open>r\<close> it read, and its write (if any) lands on the current store.\<close>

definition re_write ::
  "codec \<Rightarrow> time \<Rightarrow> time \<Rightarrow> int \<Rightarrow> string \<Rightarrow> json option \<Rightarrow> gql_request_options
   \<Rightarrow> thrown + json \<Rightarrow> redis \<Rightarrow> redis \<Rightarrow> redis" where
  "re_write cd now now' hour query vars ro resp r r' =
     (if \<not> (case ro_useCache ro of None \<Rightarrow> True | Some b \<Rightarrow> b) then r'
      else (let co = re_cache_options ro;
                k = graphql_key cd query (Some (re_vars vars)) co;
                hit = (\<not> case_option False id (co_forceRefresh co)
                       \<and> (case svc_get now k r of None \<Rightarrow> False | Some d \<Rightarrow> d \<noteq> JNull))
            in if hit then r'
               else (case resp of
                       Inl _ \<Rightarrow> r'
                     | Inr fresh \<Rightarrow>
                         snd (svc_set now' k fresh
                               (Some (or_default (ro_cacheTTL ro)
                                 (getTTL (case ro_queryType ro of None \<Rightarrow> ''default'' | Some q \<Rightarrow> q)
                                   (with_userId (case ro_context ro of None \<Rightarrow> [] | Some c \<Rightarrow> c) (ro_userId ro)) hour)))
                               r'))))"

text \<open>\<open>Promise.all\<close>: all values, or the first rejection.\<close>

fun all_ok :: "('e + 'a) list \<Rightarrow> 'e + 'a list" where
  "all_ok [] = Inr []"
| "all_ok (Inl e # _) = Inl e"
| "all_ok (Inr a # xs) = (case all_ok xs of Inl e \<Rightarrow> Inl e | Inr as \<Rightarrow> Inr (a # as))"

type_synonym re_call = "string \<times> json option \<times> gql_request_options \<times> (thrown + json)"

definition re_batchRequest ::
  "codec \<Rightarrow> time \<Rightarrow> time \<Rightarrow> time \<Rightarrow> int \<Rightarrow> re_call list \<Rightarrow> redis
   \<Rightarrow> (thrown + gql_response list) \<times> redis" where
  "re_batchRequest cd now now' now'' hour calls r =
     (all_ok (map (\<lambda>(q, v, ro, resp). fst (re_request cd now now' now'' hour q v ro resp r)) calls),
      foldl (\<lambda>r' (q, v, ro, resp). re_write cd now now' hour q v ro resp r r') r calls)"

definition re_healthCheck :: "time \<Rightarrow> time \<Rightarrow> thrown + json \<Rightarrow> health" where
  "re_healthCheck now now' resp = (case resp of Inl _ \<Rightarrow> Unhealthy | Inr _ \<Rightarrow> Healthy (now' - now))"

text \<open>\<open>clearCache\<close>, \<open>invalidateProductCache\<close> and \<open>invalidateCategoryCache\<close> delegate to
  the service, whose methods never throw.\<close>

definition re_clearCache :: "time \<Rightarrow> redis \<Rightarrow> bool \<times> redis" where
  "re_clearCache now r = clearAllGraphQLCaches now r"

definition re_invalidateProductCache :: "codec \<Rightarrow> time \<Rightarrow> string \<Rightarrow> redis \<Rightarrow> nat \<times> redis" where
  "re_invalidateProductCache cd now slug r = invalidateProduct cd now slug r"

definition re_invalidateCategoryCache :: "codec \<Rightarrow> time \<Rightarrow> string \<Rightarrow> redis \<Rightarrow> nat \<times> redis" where
  "re_invalidateCategoryCache cd now slug r = invalidateCategory cd now slug r"

subsection \<open>The optimised client\<close>

text \<open>\<open>context\<close> only feeds the field optimiser, which the code disables
  (\<open>useFieldOptimization && false\<close>), so it is not an option of the model.\<close>

record opt_options =
  oo_useCache :: "bool option"
  oo_useBatching :: "bool option"
  oo_useFieldOptimization :: "bool option"
  oo_cacheTTL :: "int option"
  oo_queryType :: "string option"

record opt_result =
  od_data :: json
  od_fromCache :: bool
  od_executionTime :: int
  od_optimizations :: "string list"

definition oo_cache :: "opt_options \<Rightarrow> bool" where
  "oo_cache oo = (case oo_useCache oo of None \<Rightarrow> True | Some b \<Rightarrow> b)"

definition oo_qt :: "opt_options \<Rightarrow> string" where
  "oo_qt oo = (case oo_queryType oo of None \<Rightarrow> ''default'' | Some q \<Rightarrow> q)"

text \<open>The batched path: the query handed to \<open>graphqlBatchClient.addToBatch\<close> ...\<close>

definition opt_batch_query :: "time \<Rightarrow> string \<Rightarrow> json option \<Rightarrow> opt_options \<Rightarrow> batch_query" where
  "opt_batch_query now query vars oo =
     \<lparr>bq_id = ''query-'' @ show_int now, bq_query = query, bq_variables = Some (re_vars vars),
      bq_options = Some \<lparr>opt_useCache = Some (oo_cache oo), opt_cacheTTL = oo_cacheTTL oo,
                         opt_queryType = Some (oo_qt oo)\<rparr>\<rparr>"

text \<open>... and the result built from what the batch resolves it with (a failed query
  resolves with \<open>data: null\<close> and its error is dropped).\<close>

definition opt_from_batch :: "batch_result \<Rightarrow> int \<Rightarrow> opt_result" where
  "opt_from_batch br et =
     \<lparr>od_data = (case br_data br of None \<Rightarrow> JNull | Some d \<Rightarrow> d), od_fromCache = br_fromCache br,
      od_executionTime = et, od_optimizations = [''batching'']\<rparr>"

text \<open>The direct path through the Redis-enhanced client (only \<open>useCache\<close>, \<open>cacheTTL\<close> and
  \<open>queryType\<close> are passed on).\<close>

definition opt_re_options :: "opt_options \<Rightarrow> gql_request_options" where
  "opt_re_options oo =
     \<lparr>ro_useCache = Some (oo_cache oo), ro_cacheTTL = oo_cacheTTL oo, ro_queryType = Some (oo_qt oo),
      ro_userId = None, ro_context = None, ro_forceRefresh = None\<rparr>"

definition opt_of_response :: "gql_response \<Rightarrow> opt_result" where
  "opt_of_response g =
     \<lparr>od_data = gr_data g, od_fromCache = gr_fromCache g, od_executionTime = gr_executionTime g,
      od_optimizations = (if gr_fromCache g then [''redis-cache''] else [])\<rparr>"

definition opt_request_direct ::
  "codec \<Rightarrow> time \<Rightarrow> time \<Rightarrow> time \<Rightarrow> int \<Rightarrow> string \<Rightarrow> json option \<Rightarrow> opt_options
   \<Rightarrow> thrown + json \<Rightarrow> redis \<Rightarrow> (thrown + opt_result) \<times> redis" where
  "opt_request_direct cd now now' now'' hour query vars oo resp r =
     (case re_request cd now now' now'' hour query vars (opt_re_options oo) resp r of
        (Inl e, r1) \<Rightarrow> (Inl e, r1)
      | (Inr g, r1) \<Rightarrow> (Inr (opt_of_response g), r1))"

text \<open>\<open>request\<close>: with \<open>useBatching\<close> the query goes to the batcher; otherwise it runs now.\<close>

definition opt_request ::
  "codec \<Rightarrow> time \<Rightarrow> time \<Rightarrow> time \<Rightarrow> int \<Rightarrow> string \<Rightarrow> json option \<Rightarrow> opt_options
   \<Rightarrow> thrown + json \<Rightarrow> redis \<Rightarrow> batch_query + ((thrown + opt_result) \<times> redis)" where
  "opt_request cd now now' now'' hour query vars oo resp r =
     (if case oo_useBatching oo of None \<Rightarrow> False | Some b \<Rightarrow> b
      then Inl (opt_batch_query now query vars oo)
      else Inr (opt_request_direct cd now now' now'' hour query vars oo resp r))"

text \<open>\<open>batchRequest\<close>: the queries it builds and the result it reports.\<close>

definition opt_batch_queries ::
  "time \<Rightarrow> (string \<times> json option \<times> opt_options option) list \<Rightarrow> batch_query list" where
  "opt_batch_queries now qs =
     map (\<lambda>(i, q, v, oo).
            \<lparr>bq_id = ''batch-'' @ show_int (int i) @ ''-'' @ show_int now, bq_query = q,
             bq_variables = Some (re_vars v),
             bq_options = Some \<lparr>opt_useCache = Some (case oo of None \<Rightarrow> True | Some x \<Rightarrow> oo_useCache x \<noteq> Some False),
                                opt_cacheTTL = (case oo of None \<Rightarrow> None | Some x \<Rightarrow> oo_cacheTTL x),
                                opt_queryType = Some (case oo of None \<Rightarrow> ''batch''
                                  | Some x \<Rightarrow> (case oo_queryType x of None \<Rightarrow> ''batch''
                                               | Some t \<Rightarrow> if t = [] then ''batch'' else t))\<rparr>\<rparr>)
         (enumerate 0 qs)"

definition opt_batch_result :: "batch_result \<Rightarrow> json \<times> bool \<times> string list" where
  "opt_batch_result br =
     ((case br_data br of None \<Rightarrow> JNull | Some d \<Rightarrow> d), br_fromCache br,
      [''batching'', if br_fromCache br then ''redis-cache'' else ''fresh-data''])"

definition opt_batchRequest ::
  "(batch_query \<Rightarrow> exec_outcome) \<Rightarrow> time \<Rightarrow> (string \<times> json option \<times> opt_options option) list
   \<Rightarrow> (json \<times> bool \<times> string list) list \<times> nat \<times> nat" where
  "opt_batchRequest exec now qs =
     (let resp = executeBatchQueries exec (opt_batch_queries now qs)
      in (map opt_batch_result (results resp), cacheHits resp, cacheMisses resp))"

text \<open>\<open>healthCheck\<close> asks the Redis-enhanced client twice; batching is always reported
  available.\<close>

definition opt_healthCheck :: "health \<Rightarrow> health \<Rightarrow> bool \<times> bool \<times> bool \<times> bool" where
  "opt_healthCheck h1 h2 =
     (let ok = (\<lambda>h. case h of Healthy _ \<Rightarrow> True | Unhealthy \<Rightarrow> False)
      in (ok h1 \<and> ok h2, ok h1, ok h2, True))"

definition opt_clearCaches :: "time \<Rightarrow> redis \<Rightarrow> bool \<times> redis" where
  "opt_clearCaches now r = (True, snd (re_clearCache now r))"

subsection \<open>Query facades\<close>

text \<open>The facades' query texts, line for line.\<close>

definition GET_PRODUCT_BY_SLUG :: string where
  \<open>GET_PRODUCT_BY_SLUG = join_with NL
     [''query GetProduct($slug: ID!) {'',
      ''        product(id: $slug, idType: SLUG) {'',
      ''          id'',
      ''          name'',
      ''          slug'',
      ''          description'',
      ''          shortDescription'',
      ''          type'',
      ''          featured'',
      ''          averageRating'',
      ''          reviewCount'',
      ''          image {'',
      ''            id'',
      ''            sourceUrl'',
      ''            altText'',
      ''            mediaDetails {'',
      ''              width'',
      ''              height'',
      ''            }'',
      ''          }'',
      ''          galleryImages {'',
      ''            nodes {'',
      ''              id'',
      ''              sourceUrl'',
      ''              altText'',
      ''              mediaDetails {'',
      ''                width'',
      ''                height'',
      ''              }'',
      ''            }'',
      ''          }'',
      ''          ... on Product {'',
      ''            productCategories {'',
      ''              nodes {'',
      ''                id'',
      ''                name'',
      ''                slug'',
      ''              }'',
      ''            }'',
      ''          }'',
      ''          ... on ProductWithPricing {'',
      ''            price'',
      ''            regularPrice'',
      ''            salePrice'',
      ''          }'',
      ''          ... on InventoriedProduct {'',
      ''            stockStatus'',
      ''            stockQuantity'',
      ''          }'',
      ''        }'',
      ''      }'']\<close>

definition SEARCH_PRODUCTS :: string where
  \<open>SEARCH_PRODUCTS = join_with NL
     [''query SearchProducts($search: String!, $first: Int!) {'',
      ''        products(first: $first, where: { search: $search }) {'',
      ''          nodes {'',
      ''            id'',
      ''            name'',
      ''            slug'',
      ''            image {'',
      ''              sourceUrl'',
      ''              altText'',
      ''            }'',
      ''            ... on ProductWithPricing {'',
      ''              price'',
      ''              regularPrice'',
      ''              salePrice'',
      ''            }'',
      ''          }'',
      ''        }'',
      ''      }'']\<close>

definition GET_PRODUCTS :: string where
  \<open>GET_PRODUCTS = join_with NL
     [''query GetProducts($first: Int!) {'',
      ''        products(first: $first) {'',
      ''          nodes {'',
      ''            id'',
      ''            name'',
      ''            slug'',
      ''            image {'',
      ''              sourceUrl'',
      ''              altText'',
      ''            }'',
      ''            ... on ProductWithPricing {'',
      ''              price'',
      ''              regularPrice'',
      ''              salePrice'',
      ''            }'',
      ''          }'',
      ''        }'',
      ''      }'']\<close>

definition GET_PRODUCTS_BY_CATEGORY :: string where
  \<open>GET_PRODUCTS_BY_CATEGORY = join_with NL
     [''query GetProductsByCategory($categorySlug: ID!, $first: Int!) {'',
      ''        productCategory(id: $categorySlug, idType: SLUG) {'',
      ''          id'',
      ''          name'',
      ''          slug'',
      ''          description'',
      ''          image {'',
      ''            sourceUrl'',
      ''            altText'',
      ''          }'',
      ''        }'',
      ''        products(first: $first, where: { categoryId: $categorySlug }) {'',
      ''          nodes {'',
      ''            id'',
      ''            name'',
      ''            slug'',
      ''            image {'',
      ''              sourceUrl'',
      ''              altText'',
      ''            }'',
      ''            ... on ProductWithPricing {'',
      ''              price'',
      ''              regularPrice'',
      ''              salePrice'',
      ''            }'',
      ''          }'',
      ''        }'',
      ''      }'']\<close>

definition HOMEPAGE_PRODUCTS :: string where
  \<open>HOMEPAGE_PRODUCTS = join_with NL
     [''query GetProducts {'',
      ''          products(first: 8) {'',
      ''            nodes {'',
      ''              id'',
      ''              name'',
      ''              slug'',
      ''              image {'',
      ''                sourceUrl'',
      ''                altText'',
      ''              }'',
      ''              ... on ProductWithPricing {'',
      ''                price'',
      ''                regularPrice'',
      ''                salePrice'',
      ''              }'',
      ''            }'',
      ''          }'',
      ''        }'']\<close>

definition HOMEPAGE_CATEGORIES :: string where
  \<open>HOMEPAGE_CATEGORIES = join_with NL
     [''query GetCategories {'',
      ''          productCategories(first: 6) {'',
      ''            nodes {'',
      ''              id'',
      ''              name'',
      ''              slug'',
      ''              image { sourceUrl altText }'',
      ''            }'',
      ''          }'',
      ''        }'']\<close>

text \<open>The facades call \<open>request\<close> with caching and field optimisation, no batching.\<close>

definition facade_options :: opt_options where
  "facade_options = \<lparr>oo_useCache = Some True, oo_useBatching = None, oo_useFieldOptimization = Some True,
                     oo_cacheTTL = None, oo_queryType = None\<rparr>"

text \<open>\<open>result.data.products?.nodes || []\<close>: reading a field of a \<open>null\<close> result throws.\<close>

definition data_field :: "json \<Rightarrow> string \<Rightarrow> thrown + json option" where
  "data_field d k = (if d = JNull then Inl (ErrorObj ''TypeError'') else Inr (js_field d k))"

definition facade ::
  "codec \<Rightarrow> time \<Rightarrow> time \<Rightarrow> time \<Rightarrow> int \<Rightarrow> string \<Rightarrow> json \<Rightarrow> thrown + json \<Rightarrow> redis
   \<Rightarrow> (thrown + opt_result) \<times> redis" where
  "facade cd now now' now'' hour query vars resp r =
     opt_request_direct cd now now' now'' hour query (Some vars) facade_options resp r"

definition products_of :: "opt_result \<Rightarrow> thrown + json" where
  "products_of res = map_sum id (\<lambda>p. field_or_empty p ''nodes'') (data_field (od_data res) ''products'')"

definition getProductBySlug ::
  "codec \<Rightarrow> time \<Rightarrow> time \<Rightarrow> time \<Rightarrow> int \<Rightarrow> string \<Rightarrow> thrown + json \<Rightarrow> redis
   \<Rightarrow> (thrown + json option \<times> int \<times> string list) \<times> redis" where
  "getProductBySlug cd now now' now'' hour slug resp r =
     (case facade cd now now' now'' hour GET_PRODUCT_BY_SLUG (JObj [(''slug'', JStr slug)]) resp r of
        (Inl e, r1) \<Rightarrow> (Inl e, r1)
      | (Inr res, r1) \<Rightarrow>
          (map_sum id (\<lambda>p. (p, now'' - now, od_optimizations res)) (data_field (od_data res) ''product''), r1))"

definition searchProducts ::
  "codec \<Rightarrow> time \<Rightarrow> time \<Rightarrow> time \<Rightarrow> int \<Rightarrow> string \<Rightarrow> int option \<Rightarrow> thrown + json \<Rightarrow> redis
   \<Rightarrow> (thrown + json \<times> int \<times> string list) \<times> redis" where
  "searchProducts cd now now' now'' hour term first resp r =
     (case facade cd now now' now'' hour SEARCH_PRODUCTS
             (JObj [(''search'', JStr term), (''first'', JNum (case first of None \<Rightarrow> 20 | Some n \<Rightarrow> n))]) resp r of
        (Inl e, r1) \<Rightarrow> (Inl e, r1)
      | (Inr res, r1) \<Rightarrow> (map_sum id (\<lambda>p. (p, now'' - now, od_optimizations res)) (products_of res), r1))"

definition getProducts ::
  "codec \<Rightarrow> time \<Rightarrow> time \<Rightarrow> time \<Rightarrow> int \<Rightarrow> int option \<Rightarrow> thrown + json \<Rightarrow> redis
   \<Rightarrow> (thrown + json \<times> int \<times> string list) \<times> redis" where
  "getProducts cd now now' now'' hour first resp r =
     (case facade cd now now' now'' hour GET_PRODUCTS
             (JObj [(''first'', JNum (case first of None \<Rightarrow> 20 | Some n \<Rightarrow> n))]) resp r of
        (Inl e, r1) \<Rightarrow> (Inl e, r1)
      | (Inr res, r1) \<Rightarrow> (map_sum id (\<lambda>p. (p, now'' - now, od_optimizations res)) (products_of res), r1))"

definition getProductsByCategory ::
  "codec \<Rightarrow> time \<Rightarrow> time \<Rightarrow> time \<Rightarrow> int \<Rightarrow> string \<Rightarrow> int option \<Rightarrow> thrown + json \<Rightarrow> redis
   \<Rightarrow> (thrown + json \<times> json option \<times> int \<times> string list) \<times> redis" where
  "getProductsByCategory cd now now' now'' hour slug first resp r =
     (case facade cd now now' now'' hour GET_PRODUCTS_BY_CATEGORY
             (JObj [(''categorySlug'', JStr slug), (''first'', JNum (case first of None \<Rightarrow> 20 | Some n \<Rightarrow> n))]) resp r of
        (Inl e, r1) \<Rightarrow> (Inl e, r1)
      | (Inr res, r1) \<Rightarrow>
          (case (products_of res, data_field (od_data res) ''productCategory'') of
             (Inr ps, Inr c) \<Rightarrow> (Inr (ps, c, now'' - now, od_optimizations res), r1)
           | (Inl e, _) \<Rightarrow> (Inl e, r1)
           | (_, Inl e) \<Rightarrow> (Inl e, r1)))"

text \<open>\<open>getHomepageData\<close>: two facade requests under \<open>Promise.all\<close>, their optimisation
  tags merged without duplicates.\<close>

definition getHomepageData ::
  "codec \<Rightarrow> time \<Rightarrow> time \<Rightarrow> time \<Rightarrow> int \<Rightarrow> thrown + json \<Rightarrow> thrown + json \<Rightarrow> redis
   \<Rightarrow> (thrown + json \<times> json \<times> int \<times> string list) \<times> redis" where
  "getHomepageData cd now now' now'' hour resp1 resp2 r =
     (let calls = [(HOMEPAGE_PRODUCTS, Some (JObj []), opt_re_options facade_options, resp1),
                   (HOMEPAGE_CATEGORIES, Some (JObj []), opt_re_options facade_options, resp2)];
          (out, r1) = re_batchRequest cd now now' now'' hour calls r
      in (case out of
            Inl e \<Rightarrow> (Inl e, r1)
          | Inr gs \<Rightarrow>
              (let p = opt_of_response (gs ! 0); c = opt_of_response (gs ! 1)
               in (case (products_of p, data_field (od_data c) ''productCategories'') of
                     (Inr ps, Inr cs) \<Rightarrow>
                       (Inr (ps, field_or_empty cs ''nodes'', now'' - now,
                             remdups (od_optimizations p @ od_optimizations c)), r1)
                   | (Inl e, _) \<Rightarrow> (Inl e, r1)
                   | (_, Inl e) \<Rightarrow> (Inl e, r1)))))"

subsection \<open>Lemmas\<close>

text \<open>The write of a request in a concurrent group is the write it would make alone,
  when the store has not changed since it read.\<close>

lemma re_cache_options_sel [simp]:
  "co_ttl (re_cache_options ro) = ro_cacheTTL ro"
  "co_queryType (re_cache_options ro) = Some (case ro_queryType ro of None \<Rightarrow> ''default'' | Some q \<Rightarrow> q)"
  "co_userId (re_cache_options ro) = ro_userId ro"
  "co_context (re_cache_options ro) = Some (case ro_context ro of None \<Rightarrow> [] | Some c \<Rightarrow> c)"
  "co_forceRefresh (re_cache_options ro) = Some (case ro_forceRefresh ro of None \<Rightarrow> False | Some b \<Rightarrow> b)"
  by (simp_all add: re_cache_options_def)

lemma re_write_single:
  "re_write cd now now' hour q v ro resp r r = snd (re_request cd now now' now'' hour q v ro resp r)"
  by (auto simp: re_write_def re_request_def cacheGraphQLQuery_def getOrSet_def getOrSet_fetch_def
      re_cache_options_def Let_def split: sum.split prod.split option.split)

text \<open>A miss answered by the backend returns the fresh data, not from the cache.  Two
  identical requests run together both miss and both fetch: nothing coalesces
  concurrent identical requests.  A query of a batch that fails resolves the optimised
  client's request with \<open>data: null\<close> and no error.\<close>

lemma re_request_miss:
  assumes "case ro_useCache ro of None \<Rightarrow> True | Some b \<Rightarrow> b"
    and "svc_get now (graphql_key cd q (Some (re_vars v)) (re_cache_options ro)) r = None"
    and "resp = Inr d"
  shows "\<exists>r1. re_request cd now now' now'' hour q v ro resp r =
           (Inr \<lparr>gr_data = d, gr_fromCache = False, gr_executionTime = now'' - now,
                 gr_cacheKey = Some (graphql_key cd q (Some (re_vars v)) (re_cache_options ro))\<rparr>, r1)"
  using assms
  by (auto simp: re_request_def cacheGraphQLQuery_def getOrSet_def getOrSet_fetch_def Let_def)

lemma re_batch_no_single_flight:
  assumes "case ro_useCache ro of None \<Rightarrow> True | Some b \<Rightarrow> b"
    and "svc_get now (graphql_key cd q (Some (re_vars v)) (re_cache_options ro)) r = None"
  shows "\<exists>g. fst (re_batchRequest cd now now' now'' hour [(q, v, ro, Inr d), (q, v, ro, Inr d)] r) = Inr [g, g]
             \<and> gr_fromCache g = False"
  using re_request_miss[OF assms refl, of now' now'' hour d] by (auto simp: re_batchRequest_def)

lemma opt_batched_error_is_null:
  "opt_from_batch (query_result q (Inl th)) et =
     \<lparr>od_data = JNull, od_fromCache = False, od_executionTime = et, od_optimizations = [''batching'']\<rparr>"
  by (simp add: opt_from_batch_def query_result_def)

text \<open>The end-to-end scenario: \<open>getProducts\<close> on a miss fetches and reports no
  optimisation; the same call again before the policy TTL (at least a minute) elapses is
  served from Redis, tagged \<open>redis-cache\<close>, with the same products.\<close>

lemma getProducts_repeat:
  assumes "r_usable r"
    and "svc_get now (graphql_key cd GET_PRODUCTS (Some (JObj [(''first'', JNum (case first of None \<Rightarrow> 20 | Some n \<Rightarrow> n))]))
                       (re_cache_options (opt_re_options facade_options))) r = None"
    and "d \<noteq> JNull" and "t < now' + 60000"
  shows "\<exists>x r1. getProducts cd now now' now'' hour first (Inr d) r = (x, r1)
           \<and> map_sum id (\<lambda>(_, _, tags). tags) x = map_sum id (\<lambda>_. []) x
           \<and> fst (getProducts cd t t' t'' hour2 first resp2 r1) = map_sum id (\<lambda>(p, _, _). (p, t'' - t, [''redis-cache''])) x"
proof -
  let ?k = "graphql_key cd GET_PRODUCTS (Some (JObj [(''first'', JNum (case first of None \<Rightarrow> 20 | Some n \<Rightarrow> n))]))
              (re_cache_options (opt_re_options facade_options))"
  let ?ttl = "getTTL ''default'' [] hour"
  have ttl: "60 \<le> ?ttl" using getTTL_bounds by blast
  have first: "getProducts cd now now' now'' hour first (Inr d) r =
      (map_sum id (\<lambda>p. (p, now'' - now, [])) (products_of \<lparr>od_data = d, od_fromCache = False, od_executionTime = now'' - now, od_optimizations = []\<rparr>),
       r\<lparr>r_store := AList.update ?k (d, Some (now' + 1000 * ?ttl)) (r_store r)\<rparr>)"
    using assms ttl
    by (simp add: getProducts_def facade_def opt_request_direct_def re_request_def cacheGraphQLQuery_def getOrSet_def
        getOrSet_fetch_def svc_set_def r_usable_def opt_re_options_def facade_options_def oo_cache_def oo_qt_def
        opt_of_response_def with_userId_def re_vars_def Let_def)
  have hit: "svc_get t ?k (r\<lparr>r_store := AList.update ?k (d, Some (now' + 1000 * ?ttl)) (r_store r)\<rparr>) = Some d"
    using assms ttl by (simp add: svc_get_def r_usable_def r_lookup_update r_live_def)
  have second: "fst (getProducts cd t t' t'' hour2 first resp2
                  (r\<lparr>r_store := AList.update ?k (d, Some (now' + 1000 * ?ttl)) (r_store r)\<rparr>)) =
      map_sum id (\<lambda>p. (p, t'' - t, [''redis-cache''])) (products_of \<lparr>od_data = d, od_fromCache = True, od_executionTime = t'' - t, od_optimizations = [''redis-cache'']\<rparr>)"
    using hit assms(3)
    by (simp add: getProducts_def facade_def opt_request_direct_def re_request_def cacheGraphQLQuery_def getOrSet_def
        opt_re_options_def facade_options_def oo_cache_def oo_qt_def opt_of_response_def re_vars_def Let_def)
  show ?thesis
    using first second by (cases "data_field d ''products''") (simp_all add: products_of_def)
qed

end
