(* ===== verification/Queries.thy ===== *)
theory Queries
  imports Prelude
begin

text \<open>
  The GraphQL documents of \<open>src/lib/graphql/queries.ts\<close>, character for character: each
  template literal is the list of its lines joined by newlines.  The caches key requests
  by these texts, and several of them carry \<open>#\<close> comments that end at a newline.
\<close>

definition GET_PRODUCTS_QUERY :: string where
  \<open>GET_PRODUCTS_QUERY = join_with NL
     ['''',
      ''  query GetProducts($first: Int, $after: String, $where: RootQueryToProductUnionConnectionWhereArgs) {'',
      ''    products(first: $first, after: $after, where: $where) {'',
      ''      nodes {'',
      ''        id'',
      ''        databaseId'',
      ''        name'',
      ''        slug'',
      ''        description'',
      ''        shortDescription'',
      ''        type'',
      ''        featured'',
      ''        averageRating'',
      ''        reviewCount'',
      ''        image {'',
      ''          id'',
      ''          sourceUrl'',
      ''          altText'',
      ''          mediaDetails {'',
      ''            width'',
      ''            height'',
      ''          }'',
      ''        }'',
      ''        ... on Product {'',
      ''          productCategories {'',
      ''            nodes {'',
      ''              id'',
      ''              name'',
      ''              slug'',
      ''            }'',
      ''          }'',
      ''        }'',
      ''        ... on ProductWithPricing {'',
      ''          price'',
      ''          regularPrice'',
      ''          salePrice'',
      ''        }'',
      ''        ... on InventoriedProduct {'',
      ''          stockStatus'',
      ''          stockQuantity'',
      ''        }'',
      ''      }'',
      ''      pageInfo {'',
      ''        hasNextPage'',
      ''        hasPreviousPage'',
      ''        startCursor'',
      ''        endCursor'',
      ''      }'',
      ''    }'',
      ''  }'',
      '''']\<close>

definition GET_PRODUCT_BY_SLUG_QUERY :: string where
  \<open>GET_PRODUCT_BY_SLUG_QUERY = join_with NL
     ['''',
      ''  query GetProductBySlug($slug: ID!) {'',
      ''    product(id: $slug, idType: SLUG) {'',
      ''      id'',
      ''      databaseId'',
      ''      name'',
      ''      slug'',
      ''      description'',
      ''      shortDescription'',
      ''      type'',
      ''      featured'',
      ''      averageRating'',
      ''      reviewCount'',
      ''      image {'',
      ''        id'',
      ''        sourceUrl'',
      ''        altText'',
      ''        mediaDetails {'',
      ''          width'',
      ''          height'',
      ''        }'',
      ''      }'',
      ''      ... on Product {'',
      ''        productCategories {'',
      ''          nodes {'',
      ''            id'',
      ''            name'',
      ''            slug'',
      ''          }'',
      ''        }'',
      ''        localAttributes {'',
      ''          nodes {'',
      ''            id'',
      ''            name'',
      ''            options'',
      ''            variation'',
      ''            visible'',
      ''            position'',
      ''          }'',
      ''        }'',
      ''      }'',
      ''      ... on ProductWithPricing {'',
      ''        price'',
      ''        regularPrice'',
      ''        salePrice'',
      ''      }'',
      ''      ... on InventoriedProduct {'',
      ''        stockStatus'',
      ''        stockQuantity'',
      ''      }'',
      ''      ... on VariableProduct {'',
      ''        variations(first: 20) {'',
      ''          nodes {'',
      ''            id'',
      ''            databaseId'',
      ''            name'',
      ''            price'',
      ''            regularPrice'',
      ''            salePrice'',
      ''            stockStatus'',
      ''            stockQuantity'',
      ''            image {'',
      ''              id'',
      ''              sourceUrl'',
      ''              altText'',
      ''            }'',
      ''            attributes {'',
      ''              nodes {'',
      ''                id'',
      ''                name'',
      ''                value'',
      ''              }'',
      ''            }'',
      ''          }'',
      ''        }'',
      ''      }'',
      ''    }'',
      ''  }'',
      '''']\<close>

definition GET_FEATURED_PRODUCTS_QUERY :: string where
  \<open>GET_FEATURED_PRODUCTS_QUERY = join_with NL
     ['''',
      ''  query GetFeaturedProducts($first: Int = 3) {'',
      ''    products(first: $first, where: { featured: true }) {'',
      ''      nodes {'',
      ''        id'',
      ''        databaseId'',
      ''        name'',
      ''        slug'',
      ''        description'',
      ''        shortDescription'',
      ''        type'',
      ''        featured'',
      ''        averageRating'',
      ''        reviewCount'',
      ''        image {'',
      ''          id'',
      ''          sourceUrl'',
      ''          altText'',
      ''          mediaDetails {'',
      ''            width'',
      ''            height'',
      ''          }'',
      ''        }'',
      ''        ... on Product {'',
      ''          productCategories {'',
      ''            nodes {'',
      ''              id'',
      ''              name'',
      ''              slug'',
      ''            }'',
      ''          }'',
      ''        }'',
      ''        ... on ProductWithPricing {'',
      ''          price'',
      ''          regularPrice'',
      ''          salePrice'',
      ''        }'',
      ''        ... on InventoriedProduct {'',
      ''          stockStatus'',
      ''          stockQuantity'',
      ''        }'',
      ''      }'',
      ''    }'',
      ''  }'',
      '''']\<close>

definition GET_PRODUCTS_BY_CATEGORY_QUERY :: string where
  \<open>GET_PRODUCTS_BY_CATEGORY_QUERY = join_with NL
     ['''',
      ''  query GetProductsByCategory($categorySlug: String!, $first: Int = 10) {'',
      ''    products(first: $first, where: { category: $categorySlug }) {'',
      ''      nodes {'',
      ''        id'',
      ''        databaseId'',
      ''        name'',
      ''        slug'',
      ''        description'',
      ''        shortDescription'',
      ''        type'',
      ''        featured'',
      ''        averageRating'',
      ''        reviewCount'',
      ''        image {'',
      ''          id'',
      ''          sourceUrl'',
      ''          altText'',
      ''          mediaDetails {'',
      ''            width'',
      ''            height'',
      ''          }'',
      ''        }'',
      ''        ... on Product {'',
      ''          productCategories {'',
      ''            nodes {'',
      ''              id'',
      ''              name'',
      ''              slug'',
      ''            }'',
      ''          }'',
      ''        }'',
      ''        ... on ProductWithPricing {'',
      ''          price'',
      ''          regularPrice'',
      ''          salePrice'',
      ''        }'',
      ''        ... on InventoriedProduct {'',
      ''          stockStatus'',
      ''          stockQuantity'',
      ''        }'',
      ''      }'',
      ''    }'',
      ''  }'',
      '''']\<close>

definition SEARCH_PRODUCTS_QUERY :: string where
  \<open>SEARCH_PRODUCTS_QUERY = join_with NL
     ['''',
      ''  query SearchProducts($search: String!, $first: Int = 10) {'',
      ''    products(first: $first, where: { search: $search }) {'',
      ''      nodes {'',
      ''        id'',
      ''        databaseId'',
      ''        name'',
      ''        slug'',
      ''        description'',
      ''        shortDescription'',
      ''        type'',
      ''        featured'',
      ''        averageRating'',
      ''        reviewCount'',
      ''        image {'',
      ''          id'',
      ''          sourceUrl'',
      ''          altText'',
      ''          mediaDetails {'',
      ''            width'',
      ''            height'',
      ''          }'',
      ''        }'',
      ''        ... on Product {'',
      ''          productCategories {'',
      ''            nodes {'',
      ''              id'',
      ''              name'',
      ''              slug'',
      ''            }'',
      ''          }'',
      ''        }'',
      ''        ... on ProductWithPricing {'',
      ''          price'',
      ''          regularPrice'',
      ''          salePrice'',
      ''        }'',
      ''        ... on InventoriedProduct {'',
      ''          stockStatus'',
      ''          stockQuantity'',
      ''        }'',
      ''      }'',
      ''    }'',
      ''  }'',
      '''']\<close>

definition GET_CATEGORIES_QUERY :: string where
  \<open>GET_CATEGORIES_QUERY = join_with NL
     ['''',
      ''  query GetCategories($first: Int = 20) {'',
      ''    productCategories(first: $first, where: { hideEmpty: true }) {'',
      ''      nodes {'',
      ''        id'',
      ''        databaseId'',
      ''        name'',
      ''        slug'',
      ''        description'',
      ''        count'',
      ''        image {'',
      ''          id'',
      ''          sourceUrl'',
      ''          altText'',
      ''        }'',
      ''        parent {'',
      ''          node {'',
      ''            id'',
      ''            name'',
      ''            slug'',
      ''          }'',
      ''        }'',
      ''      }'',
      ''    }'',
      ''  }'',
      '''']\<close>

definition GET_CATEGORY_BY_SLUG_QUERY :: string where
  \<open>GET_CATEGORY_BY_SLUG_QUERY = join_with NL
     ['''',
      ''  query GetCategoryBySlug($slug: ID!) {'',
      ''    productCategory(id: $slug, idType: SLUG) {'',
      ''      id'',
      ''      databaseId'',
      ''      name'',
      ''      slug'',
      ''      description'',
      ''      count'',
      ''      image {'',
      ''        id'',
      ''        sourceUrl'',
      ''        altText'',
      ''      }'',
      ''      parent {'',
      ''        node {'',
      ''          id'',
      ''          name'',
      ''          slug'',
      ''        }'',
      ''      }'',
      ''    }'',
      ''  }'',
      '''']\<close>

definition GET_PRODUCT_COMPREHENSIVE_QUERY :: string where
  \<open>GET_PRODUCT_COMPREHENSIVE_QUERY = join_with NL
     ['''',
      ''  query GetProductComprehensive($slug: ID!) {'',
      ''    product(id: $slug, idType: SLUG) {'',
      ''      id'',
      ''      databaseId'',
      ''      name'',
      ''      slug'',
      ''      description'',
      ''      shortDescription'',
      ''      type'',
      ''      featured'',
      ''      averageRating'',
      ''      reviewCount'',
      ''      image {'',
      ''        id'',
      ''        sourceUrl'',
      ''        altText'',
      ''        mediaDetails {'',
      ''          width'',
      ''          height'',
      ''        }'',
      ''      }'',
      ''      ... on Product {'',
      ''        productCategories {'',
      ''          nodes {'',
      ''            id'',
      ''            name'',
      ''            slug'',
      ''          }'',
      ''        }'',
      ''        localAttributes {'',
      ''          nodes {'',
      ''            id'',
      ''            name'',
      ''            options'',
      ''            variation'',
      ''            visible'',
      ''            position'',
      ''          }'',
      ''        }'',
      ''      }'',
      ''      ... on ProductWithPricing {'',
      ''        price'',
      ''        regularPrice'',
      ''        salePrice'',
      ''      }'',
      ''      ... on InventoriedProduct {'',
      ''        stockStatus'',
      ''        stockQuantity'',
      ''      }'',
      ''      ... on VariableProduct {'',
      ''        variations(first: 20) {'',
      ''          nodes {'',
      ''            id'',
      ''            databaseId'',
      ''            name'',
      ''            price'',
      ''            regularPrice'',
      ''            salePrice'',
      ''            stockStatus'',
      ''            stockQuantity'',
      ''            image {'',
      ''              id'',
      ''              sourceUrl'',
      ''              altText'',
      ''            }'',
      ''            attributes {'',
      ''              nodes {'',
      ''                id'',
      ''                name'',
      ''                value'',
      ''              }'',
      ''            }'',
      ''          }'',
      ''        }'',
      ''      }'',
      ''    }'',
      ''    # Get related products'',
      ''    products(first: 4, where: { category: "uncategorized" }) {'',
      ''      nodes {'',
      ''        id'',
      ''        databaseId'',
      ''        name'',
      ''        slug'',
      ''        price'',
      ''        regularPrice'',
      ''        salePrice'',
      ''        image {'',
      ''          id'',
      ''          sourceUrl'',
      ''          altText'',
      ''        }'',
      ''        ... on InventoriedProduct {'',
      ''          stockStatus'',
      ''        }'',
      ''      }'',
      ''    }'',
      ''    # Get product reviews'',
      ''    comments(first: 10, where: { contentTypes: [PRODUCT] }) {'',
      ''      nodes {'',
      ''        id'',
      ''        content'',
      ''        date'',
      ''        author {'',
      ''          node {'',
      ''            name'',
      ''            email'',
      ''          }'',
      ''        }'',
      ''        # Note: Rating might need to be fetched from meta fields'',
      ''      }'',
      ''    }'',
      ''  }'',
      '''']\<close>

definition GET_PRODUCTS_LIST_QUERY :: string where
  \<open>GET_PRODUCTS_LIST_QUERY = join_with NL
     ['''',
      ''  query GetProductsList($first: Int, $where: RootQueryToProductUnionConnectionWhereArgs) {'',
      ''    products(first: $first, where: $where) {'',
      ''      nodes {'',
      ''        id'',
      ''        databaseId'',
      ''        name'',
      ''        slug'',
      ''        image {'',
      ''          id'',
      ''          sourceUrl'',
      ''          altText'',
      ''        }'',
      ''        ... on Product {'',
      ''          productCategories {'',
      ''            nodes {'',
      ''              name'',
      ''              slug'',
      ''            }'',
      ''          }'',
      ''        }'',
      ''        ... on ProductWithPricing {'',
      ''          price'',
      ''          regularPrice'',
      ''          salePrice'',
      ''        }'',
      ''        ... on InventoriedProduct {'',
      ''          stockStatus'',
      ''        }'',
      ''      }'',
      ''      pageInfo {'',
      ''        hasNextPage'',
      ''        hasPreviousPage'',
      ''        startCursor'',
      ''        endCursor'',
      ''      }'',
      ''    }'',
      ''  }'',
      '''']\<close>

definition SEARCH_PRODUCTS_ADVANCED_QUERY :: string where
  \<open>SEARCH_PRODUCTS_ADVANCED_QUERY = join_with NL
     ['''',
      ''  query SearchProductsAdvanced($search: String!, $first: Int = 10, $category: String) {'',
      ''    products(first: $first, where: { search: $search, category: $category }) {'',
      ''      nodes {'',
      ''        id'',
      ''        databaseId'',
      ''        name'',
      ''        slug'',
      ''        description'',
      ''        shortDescription'',
      ''        image {'',
      ''          id'',
      ''          sourceUrl'',
      ''          altText'',
      ''        }'',
      ''        ... on Product {'',
      ''          productCategories {'',
      ''            nodes {'',
      ''              id'',
      ''              name'',
      ''              slug'',
      ''            }'',
      ''          }'',
      ''        }'',
      ''        ... on ProductWithPricing {'',
      ''          price'',
      ''          regularPrice'',
      ''          salePrice'',
      ''        }'',
      ''        ... on InventoriedProduct {'',
      ''          stockStatus'',
      ''        }'',
      ''      }'',
      ''    }'',
      ''    # Get search suggestions'',
      ''    productCategories(first: 5, where: { search: $search }) {'',
      ''      nodes {'',
      ''        id'',
      ''        name'',
      ''        slug'',
      ''        count'',
      ''      }'',
      ''    }'',
      ''  }'',
      '''']\<close>

definition GET_PRODUCT_ANALYTICS_QUERY :: string where
  \<open>GET_PRODUCT_ANALYTICS_QUERY = join_with NL
     ['''',
      ''  query GetProductAnalytics($productId: ID!) {'',
      ''    product(id: $productId, idType: DATABASE_ID) {'',
      ''      id'',
      ''      databaseId'',
      ''      name'',
      ''      averageRating'',
      ''      reviewCount'',
      ''      ... on InventoriedProduct {'',
      ''        stockStatus'',
      ''        stockQuantity'',
      ''      }'',
      ''      # Note: Sales data might need to be fetched from WooCommerce REST API'',
      ''      # as it's not typically available in GraphQL'',
      ''    }'',
      ''  }'',
      '''']\<close>

end
