(* ===== verification/Legacy_Batch.thy ===== *)
theory Legacy_Batch
  imports Response_Cache Retry Cache_Strategy Queries "HOL-Library.AList"
begin

text \<open>
  \<open>GraphQLBatchClient\<close> of \<open>src/lib/graphql/batch.ts\<close>, the older batcher that the
  enhanced client uses, over the module-wide \<open>graphqlCache\<close> of \<open>cache.ts\<close>.  Its requests
  go through \<open>CachedGraphQLClient.request\<close>, whose cache read is synchronous: requests
  started together (the \<open>map\<close> of \<open>processBatch\<close>, \<open>Promise.all\<close>) all read the cache
  before any of them has an answer, and their writes land when their answers arrive.  A
  group of such requests is modelled by its reads in issue order, the backend's answer
  to each miss with the instant it arrives, and the writes in order of arrival (ties in
  issue order, as timers and microtasks run FIFO).  A thrown value is a \<open>gql_error\<close>;
  \<open>JSON.stringify\<close> is the codec's.
\<close>

subsection \<open>Requests started together\<close>

text \<open>\<open>JSON.stringify(variables || {})\<close> as \<open>generateKey\<close> of \<open>cache.ts\<close> receives it:
  \<open>None\<close> renders as \<open>{}\<close>.\<close>

definition js_vars :: "codec \<Rightarrow> json \<Rightarrow> string option" where
  "js_vars cd v = (if truthy v then Some (stringify cd v) else None)"

text \<open>The synchronous part of \<open>CachedGraphQLClient.request\<close>: \<open>graphqlCache.get\<close> and
  the \<open>if (cached)\<close> test.  \<open>Some d\<close> is a hit answered with \<open>d\<close>.\<close>

definition cr_read :: "time \<Rightarrow> string \<Rightarrow> string option \<Rightarrow> gql_cache \<Rightarrow> json option \<times> gql_cache" where
  "cr_read now q v c =
     (case cache_get now q v c of
        (Some d, c1) \<Rightarrow> (if truthy d then Some d else None, c1)
      | (None, c1) \<Rightarrow> (None, c1))"

text \<open>The rest, after \<open>await this.client.request\<close>: a miss stores the answer with the
  query's TTL at the instant \<open>now'\<close> it arrives; a thrown answer propagates.\<close>

definition cr_settle ::
  "time \<Rightarrow> string \<Rightarrow> string option \<Rightarrow> json option \<Rightarrow> 'e + json \<Rightarrow> gql_cache \<Rightarrow> ('e + json) \<times> gql_cache" where
  "cr_settle now' q v hit resp c =
     (case hit of
        Some d \<Rightarrow> (Inr d, c)
      | None \<Rightarrow> (case resp of
                  Inl e \<Rightarrow> (Inl e, c)
                | Inr d \<Rightarrow> (Inr d, cache_set now' q v d (Some (getTTLForQuery q)) c)))"

fun group_reads :: "time \<Rightarrow> (string \<times> string option) list \<Rightarrow> gql_cache \<Rightarrow> json option list \<times> gql_cache" where
  "group_reads now [] c = ([], c)"
| "group_reads now ((q, v) # qs) c =
     (case cr_read now q v c of (h, c1) \<Rightarrow> (case group_reads now qs c1 of (hs, c2) \<Rightarrow> (h # hs, c2)))"

text \<open>\<open>ans\<close> gives each request the instant its backend answer arrives and the answer; a
  hit settles at once and ignores its entry.  The settlement order is the stable sort of
  the requests by settlement instant.\<close>

definition settle_time :: "time \<Rightarrow> json option list \<Rightarrow> (time \<times> 'r) list \<Rightarrow> nat \<Rightarrow> time" where
  "settle_time now hs ans i = (case hs ! i of Some _ \<Rightarrow> now | None \<Rightarrow> fst (ans ! i))"

definition settle_order :: "time \<Rightarrow> json option list \<Rightarrow> (time \<times> 'r) list \<Rightarrow> nat list" where
  "settle_order now hs ans = sort_key (settle_time now hs ans) [0..<length hs]"

definition group_outcomes :: "json option list \<Rightarrow> (time \<times> ('e + json)) list \<Rightarrow> ('e + json) list" where
  "group_outcomes hs ans = map2 (\<lambda>h a. case h of Some d \<Rightarrow> Inr d | None \<Rightarrow> snd a) hs ans"

definition group_writes ::
  "(string \<times> string option) list \<Rightarrow> json option list \<Rightarrow> (time \<times> ('e + json)) list \<Rightarrow> nat list
   \<Rightarrow> gql_cache \<Rightarrow> gql_cache" where
  "group_writes calls hs ans ord c =
     foldl (\<lambda>c' i. snd (cr_settle (fst (ans ! i)) (fst (calls ! i)) (snd (calls ! i)) (hs ! i) (snd (ans ! i)) c'))
       c ord"

text \<open>A group: the outcomes in issue order, the settlement order and the final cache.\<close>

definition group_run ::
  "time \<Rightarrow> (string \<times> string option) list \<Rightarrow> (time \<times> ('e + json)) list \<Rightarrow> gql_cache
   \<Rightarrow> ('e + json) list \<times> nat list \<times> gql_cache" where
  "group_run now calls ans c =
     (case group_reads now calls c of
        (hs, c1) \<Rightarrow> (group_outcomes hs ans, settle_order now hs ans, group_writes calls hs ans (settle_order now hs ans) c1))"

text \<open>\<open>Promise.all\<close>: the values in issue order, or the first rejection to settle.\<close>

definition promise_all :: "nat list \<Rightarrow> ('e + 'a) list \<Rightarrow> 'e + 'a list" where
  "promise_all ord outs =
     (case find (\<lambda>i. isl (outs ! i)) ord of Some i \<Rightarrow> Inl (projl (outs ! i)) | None \<Rightarrow> Inr (map projr outs))"

subsection \<open>Reading results\<close>

text \<open>Reading a member of \<open>null\<close> throws a \<open>TypeError\<close>.\<close>

definition type_error :: "string \<Rightarrow> gql_error" where
  "type_error m = \<lparr>err_code = None, err_status = None, err_errors = None, err_message = m\<rparr>"

definition get_member :: "json \<Rightarrow> string \<Rightarrow> gql_error + json option" where
  "get_member d k = (if d = JNull then Inl (type_error ''Cannot read properties of null'') else Inr (js_field d k))"

text \<open>\<open>d.k?.nodes || []\<close>.\<close>

definition nodes_of :: "json \<Rightarrow> string \<Rightarrow> gql_error + json" where
  "nodes_of d k = map_sum id (\<lambda>p. field_or_empty p ''nodes'') (get_member d k)"

subsection \<open>The batcher\<close>

type_synonym ticket = nat

text \<open>A queued request: its promise (a ticket), query, variables and result key.\<close>

record lb_state =
  lb_queue :: "(ticket \<times> string \<times> json \<times> string) list"
  lb_timer :: bool
  lb_cache :: gql_cache

definition lb_init :: "gql_cache \<Rightarrow> lb_state" where
  "lb_init c = \<lparr>lb_queue = [], lb_timer = False, lb_cache = c\<rparr>"

text \<open>\<open>addToBatch\<close>: push the request; start the 10 ms timer unless one is pending (the
  timer is not restarted).\<close>

definition lb_addToBatch :: "ticket \<Rightarrow> string \<Rightarrow> json \<Rightarrow> string \<Rightarrow> lb_state \<Rightarrow> lb_state" where
  "lb_addToBatch t q v k st =
     (let st1 = st\<lparr>lb_queue := lb_queue st @ [(t, q, v, k)]\<rparr> in
      if lb_timer st then st1 else st1\<lparr>lb_timer := True\<rparr>)"

text \<open>\<open>processBatch\<close>, run by the timer: take the whole queue, reset it and the timer,
  and run every request together; each ticket is resolved or rejected with its own
  outcome.\<close>

definition processBatch ::
  "codec \<Rightarrow> time \<Rightarrow> (time \<times> (gql_error + json)) list \<Rightarrow> lb_state
   \<Rightarrow> (ticket \<times> (gql_error + json)) list \<times> lb_state" where
  "processBatch cd now ans st =
     (if lb_queue st = [] then ([], st)
      else (let reqs = lb_queue st;
                (outs, ord, c1) = group_run now (map (\<lambda>(t, q, v, k). (q, js_vars cd v)) reqs) ans (lb_cache st)
            in (zip (map fst reqs) outs, st\<lparr>lb_queue := [], lb_timer := False, lb_cache := c1\<rparr>)))"

text \<open>The timer firing; without a pending timer nothing happens.\<close>

definition lb_fire ::
  "codec \<Rightarrow> time \<Rightarrow> (time \<times> (gql_error + json)) list \<Rightarrow> lb_state
   \<Rightarrow> (ticket \<times> (gql_error + json)) list \<times> lb_state" where
  "lb_fire cd now ans st = (if lb_timer st then processBatch cd now ans st else ([], st))"

datatype lb_event = LbAdd ticket string json string | LbFire time "(time \<times> (gql_error + json)) list"

fun lb_step :: "codec \<Rightarrow> lb_event \<Rightarrow> lb_state \<Rightarrow> (ticket \<times> (gql_error + json)) list \<times> lb_state" where
  "lb_step cd (LbAdd t q v k) st = ([], lb_addToBatch t q v k st)"
| "lb_step cd (LbFire now ans) st = lb_fire cd now ans st"

text \<open>A run returns every resolution, in order, and the final state.\<close>

definition lb_run ::
  "codec \<Rightarrow> lb_state \<Rightarrow> lb_event list \<Rightarrow> (ticket \<times> (gql_error + json)) list \<times> lb_state" where
  "lb_run cd st es = foldl (\<lambda>(rs, s) e. case lb_step cd e s of (rs', s') \<Rightarrow> (rs @ rs', s')) ([], st) es"

text \<open>\<open>batchProducts\<close>: the settled outcome of each request stored under its key in a
  plain object, \<open>Inl\<close> standing for \<open>{ error: reason }\<close>.  Assignment to an existing key
  replaces its value in place, as \<open>AList.update\<close> does.\<close>

definition batch_object :: "string list \<Rightarrow> (gql_error + json) list \<Rightarrow> (string \<times> (gql_error + json)) list" where
  "batch_object keys outs = foldl (\<lambda>obj (k, r). AList.update k r obj) [] (zip keys outs)"

text \<open>\<open>batchProducts\<close> from state \<open>st\<close>: its requests get the tickets \<open>t0, t0 + 1, ...\<close>,
  and the timer fires before any other request is queued.\<close>

definition batchProducts ::
  "codec \<Rightarrow> time \<Rightarrow> (time \<times> (gql_error + json)) list \<Rightarrow> ticket \<Rightarrow> (json \<times> string) list \<Rightarrow> lb_state
   \<Rightarrow> (string \<times> (gql_error + json)) list \<times> lb_state" where
  "batchProducts cd now ans t0 reqs st =
     (let st1 = foldl (\<lambda>s (i, p, k). lb_addToBatch (t0 + i) GET_PRODUCTS_QUERY p k s) st (enumerate 0 reqs);
          (res, st2) = lb_fire cd now ans st1
      in (batch_object (map snd reqs) (map snd (drop (length (lb_queue st)) res)), st2))"

text \<open>\<open>getHomepageData\<close>: three cached requests under \<open>Promise.all\<close>.\<close>

definition homepage_calls :: "codec \<Rightarrow> (string \<times> string option) list" where
  "homepage_calls cd =
     [(GET_FEATURED_PRODUCTS_QUERY, js_vars cd (JObj [(''first'', JNum 3)])),
      (GET_CATEGORIES_QUERY, js_vars cd (JObj [(''first'', JNum 10)])),
      (GET_PRODUCTS_QUERY, js_vars cd (JObj [(''first'', JNum 6)]))]"

definition lb_getHomepageData ::
  "codec \<Rightarrow> time \<Rightarrow> (time \<times> (gql_error + json)) list \<Rightarrow> gql_cache
   \<Rightarrow> (gql_error + json \<times> json \<times> json) \<times> gql_cache" where
  "lb_getHomepageData cd now ans c =
     (case group_run now (homepage_calls cd) ans c of
        (outs, ord, c1) \<Rightarrow>
          (case promise_all ord outs of
             Inl e \<Rightarrow> (Inl e, c1)
           | Inr vs \<Rightarrow>
               (case (nodes_of (vs ! 0) ''products'', nodes_of (vs ! 1) ''productCategories'',
                      nodes_of (vs ! 2) ''products'') of
                  (Inr f, Inr cs, Inr l) \<Rightarrow> (Inr (f, cs, l), c1)
                | (Inl e, _, _) \<Rightarrow> (Inl e, c1)
                | (_, Inl e, _) \<Rightarrow> (Inl e, c1)
                | (_, _, Inl e) \<Rightarrow> (Inl e, c1))))"

text \<open>The document of \<open>getProductWithRelatedData\<close>.\<close>

definition comprehensiveQuery :: string where
  \<open>comprehensiveQuery = join_with NL
     ['''',
      ''      query GetProductWithRelatedData($slug: ID!) {'',
      ''        product(id: $slug, idType: SLUG) {'',
      ''          id'',
      ''          databaseId'',
      ''          name'',
      ''          slug'',
      ''          description'',
      ''          shortDescription'',
      ''          type'',
      ''          featured'',
      ''          averageRating'',
      ''          reviewCount'',
      ''          image {'',
      ''            id'',
      ''            sourceUrl'',
      ''            altText'',
      ''            mediaDetails {'',
      ''              width'',
      ''              height'',
      ''            }'',
      ''          }'',
      ''          ... on Product {'',
      ''            productCategories {'',
      ''              nodes {'',
      ''                id'',
      ''                name'',
      ''                slug'',
      ''              }'',
      ''            }'',
      ''          }'',
      ''          ... on ProductWithPricing {'',
      ''            price'',
      ''            regularPrice'',
      ''            salePrice'',
      ''          }'',
      ''          ... on InventoriedProduct {'',
      ''            stockStatus'',
      ''            stockQuantity'',
      ''          }'',
      ''        }'',
      ''        products(first: 4, where: { category: "uncategorized" }) {'',
      ''          nodes {'',
      ''            id'',
      ''            databaseId'',
      ''            name'',
      ''            slug'',
      ''            price'',
      ''            image {'',
      ''              id'',
      ''              sourceUrl'',
      ''              altText'',
      ''            }'',
      ''          }'',
      ''        }'',
      ''        productCategories(first: 10) {'',
      ''          nodes {'',
      ''            id'',
      ''            name'',
      ''            slug'',
      ''            count'',
      ''          }'',
      ''        }'',
      ''      }'',
      ''    '']\<close>

definition getProductWithRelatedData ::
  "codec \<Rightarrow> time \<Rightarrow> time \<Rightarrow> string \<Rightarrow> gql_error + json \<Rightarrow> gql_cache
   \<Rightarrow> (gql_error + json option \<times> json \<times> json) \<times> gql_cache" where
  "getProductWithRelatedData cd now now' slug resp c =
     (case cached_request now now' comprehensiveQuery (js_vars cd (JObj [(''slug'', JStr slug)])) resp c of
        (Inl e, c1) \<Rightarrow> (Inl e, c1)
      | (Inr d, c1) \<Rightarrow>
          (case (get_member d ''product'', nodes_of d ''products'', nodes_of d ''productCategories'') of
             (Inr p, Inr r, Inr cs) \<Rightarrow> (Inr (p, r, cs), c1)
           | (Inl e, _, _) \<Rightarrow> (Inl e, c1)
           | (_, Inl e, _) \<Rightarrow> (Inl e, c1)
           | (_, _, Inl e) \<Rightarrow> (Inl e, c1)))"

text \<open>The batcher's invariant: a timer is pending exactly when requests are queued.\<close>

definition lb_inv :: "lb_state \<Rightarrow> bool" where
  "lb_inv st \<longleftrightarrow> (lb_timer st \<longleftrightarrow> lb_queue st \<noteq> [])"

text \<open>The effect of a read and of a settlement on the entry of their own key, and the
  reference semantics: the same requests awaited one after another.\<close>

definition entry_hit :: "time \<Rightarrow> cache_entry option \<Rightarrow> json option" where
  "entry_hit now e = (case e of None \<Rightarrow> None
     | Some x \<Rightarrow> if isExpired now x then None else if truthy (ce_data x) then Some (ce_data x) else None)"

definition entry_keep :: "time \<Rightarrow> cache_entry option \<Rightarrow> cache_entry option" where
  "entry_keep now e = (case e of None \<Rightarrow> None | Some x \<Rightarrow> if isExpired now x then None else Some x)"

definition entry_write :: "time \<Rightarrow> string \<Rightarrow> json option \<Rightarrow> 'e + json \<Rightarrow> cache_entry option \<Rightarrow> cache_entry option" where
  "entry_write t q h r e = (case h of Some _ \<Rightarrow> e | None \<Rightarrow> (case r of Inl _ \<Rightarrow> e
     | Inr d \<Rightarrow> Some \<lparr>ce_data = d, ce_timestamp = t, ce_ttl = or_default (Some (getTTLForQuery q)) DEFAULT_TTL\<rparr>))"

fun seq_run :: "time \<Rightarrow> (string \<times> string option) list \<Rightarrow> (time \<times> ('e + json)) list \<Rightarrow> gql_cache \<Rightarrow> ('e + json) list \<times> gql_cache" where
  "seq_run now ((q, v) # qs) ((t, r) # as) c =
     (case cached_request now t q v r c of (out, c1) \<Rightarrow> (case seq_run now qs as c1 of (outs, c2) \<Rightarrow> (out # outs, c2)))"
| "seq_run now _ _ c = ([], c)"

abbreviation key_of :: "string \<times> string option \<Rightarrow> string" where
  "key_of qv \<equiv> cache_generateKey (fst qv) (snd qv)"


subsection \<open>Lemmas\<close>

text \<open>The cached request is its synchronous read followed by its settlement; in a group
  a settlement's outcome does not depend on the cache it lands on.\<close>

lemma cached_request_split:
  "cached_request now now' q v resp c = (case cr_read now q v c of (h, c1) \<Rightarrow> cr_settle now' q v h resp c1)"
  by (auto simp: cached_request_def cr_read_def cr_settle_def split: prod.split option.split sum.split)

lemma cr_settle_outcome [simp]:
  "fst (cr_settle t q v h r c) = (case h of Some d \<Rightarrow> Inr d | None \<Rightarrow> r)"
  by (simp add: cr_settle_def split: option.split sum.split)

lemma group_reads_length [simp]: "length (fst (group_reads now qs c)) = length qs"
proof (induction now qs c rule: group_reads.induct)
  case (2 now q v qs c)
  then show ?case by (cases "cr_read now q v c", cases "group_reads now qs (snd (cr_read now q v c))") auto
qed simp

lemma distinct_settle_order [simp]: "distinct (settle_order now hs ans)"
  by (simp add: settle_order_def)

lemma group_run_single:
  "group_run now [(q, v)] [(now', resp)] c =
     ([fst (cached_request now now' q v resp c)], [0], snd (cached_request now now' q v resp c))"
  by (simp add: group_run_def settle_order_def group_outcomes_def group_writes_def cached_request_split
      split: prod.split option.split)

lemma promise_all_Inr:
  assumes "set ord = {..<length outs}"
  shows "(\<exists>vs. promise_all ord outs = Inr vs) \<longleftrightarrow> (\<forall>x\<in>set outs. \<not> isl x)"
proof
  assume "\<exists>vs. promise_all ord outs = Inr vs"
  then have "find (\<lambda>i. isl (outs ! i)) ord = None"
    by (auto simp: promise_all_def split: option.splits)
  then show "\<forall>x\<in>set outs. \<not> isl x" using assms by (auto simp: find_None_iff in_set_conv_nth)
next
  assume "\<forall>x\<in>set outs. \<not> isl x"
  then have "find (\<lambda>i. isl (outs ! i)) ord = None"
    using assms by (auto simp: find_None_iff)
  then show "\<exists>vs. promise_all ord outs = Inr vs" by (simp add: promise_all_def)
qed

lemma set_settle_order [simp]: "set (settle_order now hs ans) = {..<length hs}"
  by (auto simp: settle_order_def)


lemma lb_step_inv: "lb_inv st \<Longrightarrow> lb_inv (snd (lb_step cd e st))"
  by (cases e) (auto simp: lb_inv_def lb_addToBatch_def lb_fire_def processBatch_def Let_def split: prod.split)

text \<open>Every run of \<open>addToBatch\<close> calls and timer firings of the legacy batcher keeps
  a timer pending exactly when requests are queued.\<close>

lemma lb_run_inv: "lb_inv st \<Longrightarrow> lb_inv (snd (lb_run cd st es))"
proof -
  assume "lb_inv st"
  have "\<And>acc. lb_inv (snd acc) \<Longrightarrow> lb_inv (snd (foldl (\<lambda>(rs, s) e. case lb_step cd e s of (rs', s') \<Rightarrow> (rs @ rs', s')) acc es))"
  proof (induction es)
    case Nil then show ?case by simp
  next
    case (Cons e es)
    show ?case
      using Cons.prems lb_step_inv[of "snd acc" cd e] by (auto intro!: Cons.IH split: prod.split)
  qed
  then show ?thesis using \<open>lb_inv st\<close> by (simp add: lb_run_def)
qed

theorem lb_run_inv_witness:
  "lb_inv (snd (lb_run \<lparr>md5hex = id, stringify = js_string\<rparr> (lb_init Map.empty)
     [LbAdd 0 ''q'' JNull ''k'', LbAdd 1 ''q'' (JNum 1) ''k'', LbFire 5 [(7, Inr (JNum 2)), (8, Inr (JNum 3))]]))"
  using lb_run_inv[of "lb_init Map.empty"] by (simp add: lb_inv_def lb_init_def)

text \<open>C19. Two identical requests in one batch window both miss the cache and are both sent
  to the backend, each receiving its own answer; the cache ends with the answer that
  arrived last.\<close>

lemma no_single_flight:
  assumes "c (cache_generateKey q v) = None" and "t1 \<le> t2"
  shows "group_run now [(q, v), (q, v)] [(t1, Inr d1), (t2, Inr d2)] c =
           ([Inr d1, Inr d2], [0, 1], c(cache_generateKey q v \<mapsto> \<lparr>ce_data = d2, ce_timestamp = t2, ce_ttl = or_default (Some (getTTLForQuery q)) DEFAULT_TTL\<rparr>))"
  using assms
  by (simp add: group_run_def cr_read_def cache_get_def Let_def settle_order_def settle_time_def
      group_outcomes_def group_writes_def cr_settle_def cache_set_def fun_upd_idem)

theorem no_single_flight_witness:
  "group_run 0 [(''q'', None), (''q'', None)] [(1, Inr (JNum 1) :: unit + json), (2, Inr (JNum 2))] Map.empty
     = ([Inr (JNum 1), Inr (JNum 2)], [0, 1],
        Map.empty(cache_generateKey ''q'' None \<mapsto> \<lparr>ce_data = JNum 2, ce_timestamp = 2,
                   ce_ttl = or_default (Some (getTTLForQuery ''q'')) DEFAULT_TTL\<rparr>))"
  using no_single_flight[of Map.empty "''q''" None 1 2 0 "JNum 1" "JNum 2"] by simp

lemma lb_adds_queue:
  "snd (lb_run cd st (map (\<lambda>(t, q, v, k). LbAdd t q v k) reqs)) =
     st\<lparr>lb_queue := lb_queue st @ reqs, lb_timer := lb_timer st \<or> reqs \<noteq> []\<rparr>"
proof -
  have "\<And>acc. foldl (\<lambda>(rs, s) e. case lb_step cd e s of (rs', s') \<Rightarrow> (rs @ rs', s')) acc (map (\<lambda>(t, q, v, k). LbAdd t q v k) reqs)
          = (fst acc, (snd acc)\<lparr>lb_queue := lb_queue (snd acc) @ reqs, lb_timer := lb_timer (snd acc) \<or> reqs \<noteq> []\<rparr>)"
  proof (induction reqs)
    case Nil then show ?case by simp
  next
    case (Cons r reqs)
    then show ?case by (cases acc, cases r) (simp add: lb_addToBatch_def Let_def)
  qed
  then show ?thesis by (simp add: lb_run_def)
qed

text \<open>\<open>batchProducts\<close> with two requests under the same key returns an object with
  that key once, holding the second request's outcome: the first result is fetched and
  then overwritten.\<close>

lemma batchProducts_same_key:
  assumes "c (cache_generateKey GET_PRODUCTS_QUERY (js_vars cd p1)) = None"
    and "c (cache_generateKey GET_PRODUCTS_QUERY (js_vars cd p2)) = None"
  shows "fst (batchProducts cd now [(t1, r1), (t2, r2)] t0 [(p1, k), (p2, k)] (lb_init c)) = [(k, r2)]"
  using assms
  by (simp add: batchProducts_def lb_init_def lb_addToBatch_def lb_fire_def processBatch_def group_run_def
      cr_read_def cache_get_def Let_def group_outcomes_def batch_object_def split: prod.split)


theorem batchProducts_same_key_witness:
  "fst (batchProducts \<lparr>md5hex = id, stringify = js_string\<rparr> 0 [(1, Inr (JNum 1)), (2, Inl e503)] 0
          [(JObj [(''first'', JNum 1)], ''k''), (JObj [(''first'', JNum 2)], ''k'')] (lb_init Map.empty))
     = [(''k'', Inl e503)]"
  using batchProducts_same_key[of Map.empty] by simp

text \<open>A cache read and a settlement touch only the entry of their own key.\<close>

lemma cr_read_entry:
  "cr_read now q v c = (entry_hit now (c (cache_generateKey q v)),
     c(cache_generateKey q v := entry_keep now (c (cache_generateKey q v))))"
  by (auto simp: cr_read_def cache_get_def entry_hit_def entry_keep_def Let_def fun_upd_idem split: option.split)

lemma cr_settle_entry:
  "snd (cr_settle t q v h r c) = c(cache_generateKey q v := entry_write t q h r (c (cache_generateKey q v)))"
  by (auto simp: cr_settle_def entry_write_def cache_set_def fun_upd_idem split: option.split sum.split)

lemma group_reads_distinct:
  "distinct (map key_of calls) \<Longrightarrow>
   group_reads now calls c = (map (\<lambda>qv. entry_hit now (c (key_of qv))) calls,
      (\<lambda>x. if x \<in> key_of ` set calls then entry_keep now (c x) else c x))"
proof (induction calls arbitrary: c)
  case Nil then show ?case by simp
next
  case (Cons qv calls)
  obtain q v where qv: "qv = (q, v)" by (cases qv)
  let ?k = "cache_generateKey q v"
  have nk: "?k \<notin> key_of ` set calls" and d: "distinct (map key_of calls)" using Cons.prems qv by auto
  have same: "map (\<lambda>qv. entry_hit now ((c(?k := entry_keep now (c ?k))) (key_of qv))) calls
              = map (\<lambda>qv. entry_hit now (c (key_of qv))) calls"
  proof (rule map_cong[OF refl])
    fix x assume "x \<in> set calls"
    then have "key_of x \<noteq> ?k" using nk by force
    then show "entry_hit now ((c(?k := entry_keep now (c ?k))) (key_of x)) = entry_hit now (c (key_of x))" by simp
  qed
  have cache: "(\<lambda>x. if x \<in> key_of ` set calls then entry_keep now ((c(?k := entry_keep now (c ?k))) x)
                  else (c(?k := entry_keep now (c ?k))) x)
             = (\<lambda>x. if x \<in> key_of ` set (qv # calls) then entry_keep now (c x) else c x)"
    using nk qv by (auto simp: fun_eq_iff entry_keep_def split: option.split)
  have IH: "group_reads now calls (c(?k := entry_keep now (c ?k)))
            = (map (\<lambda>qv. entry_hit now (c (key_of qv))) calls,
               (\<lambda>x. if x \<in> key_of ` set (qv # calls) then entry_keep now (c x) else c x))"
    using Cons.IH[OF d, of "c(?k := entry_keep now (c ?k))"] by (simp only: same cache)
  show ?case using qv IH by (simp add: cr_read_entry)
qed

lemma group_writes_keys:
  assumes "distinct (map key_of calls)" "distinct ord" "set ord \<subseteq> {..<length calls}"
  shows "group_writes calls hs ans ord c =
           (\<lambda>x. case find (\<lambda>i. key_of (calls ! i) = x) ord of
                  Some i \<Rightarrow> entry_write (fst (ans ! i)) (fst (calls ! i)) (hs ! i) (snd (ans ! i)) (c x)
                | None \<Rightarrow> c x)"
proof -
  have inj: "inj_on (\<lambda>i. key_of (calls ! i)) (set ord)"
  proof (rule inj_onI)
    fix x y assume "x \<in> set ord" "y \<in> set ord" "key_of (calls ! x) = key_of (calls ! y)"
    then show "x = y" using assms(1,3) nth_eq_iff_index_eq[of "map key_of calls" x y] by auto
  qed
  have "group_writes calls hs ans ord c =
          foldl (\<lambda>c i. c(key_of (calls ! i) := entry_write (fst (ans ! i)) (fst (calls ! i)) (hs ! i) (snd (ans ! i))
                            (c (key_of (calls ! i))))) c ord"
    by (simp add: group_writes_def cr_settle_entry case_prod_beta)
  then show ?thesis using foldl_key_updates[OF assms(2) inj] by simp
qed

lemma cached_request_entry:
  "cached_request now t q v r c =
     ((case entry_hit now (c (cache_generateKey q v)) of Some d \<Rightarrow> Inr d | None \<Rightarrow> r),
      c(cache_generateKey q v := entry_write t q (entry_hit now (c (cache_generateKey q v))) r
                           (entry_keep now (c (cache_generateKey q v)))))"
  by (simp add: cached_request_split cr_read_entry prod_eq_iff cr_settle_entry split: option.split)

lemma seq_run_keys:
  assumes "distinct (map key_of calls)" "length ans = length calls"
  shows "seq_run now calls ans c =
           (map2 (\<lambda>qv a. case entry_hit now (c (key_of qv)) of Some d \<Rightarrow> Inr d | None \<Rightarrow> snd a) calls ans,
            (\<lambda>x. case map_of (map (\<lambda>(qv, a). (key_of qv, (qv, a))) (zip calls ans)) x of
                   Some (qv, a) \<Rightarrow> entry_write (fst a) (fst qv) (entry_hit now (c x)) (snd a) (entry_keep now (c x))
                 | None \<Rightarrow> c x))"
  using assms
proof (induction calls arbitrary: ans c)
  case Nil then show ?case by simp
next
  case (Cons qv calls)
  obtain a as where ans: "ans = a # as" using Cons.prems(2) by (cases ans) auto
  obtain q v where qv: "qv = (q, v)" by (cases qv)
  obtain t r where a: "a = (t, r)" by (cases a)
  let ?k = "cache_generateKey q v"
  let ?c1 = "c(?k := entry_write t q (entry_hit now (c ?k)) r (entry_keep now (c ?k)))"
  have nk: "\<And>x. x \<in> set calls \<Longrightarrow> key_of x \<noteq> ?k" using Cons.prems(1) qv by force
  have d: "distinct (map key_of calls)" "length as = length calls" using Cons.prems ans by auto
  have outs: "map2 (\<lambda>qv a. case entry_hit now (?c1 (key_of qv)) of Some d \<Rightarrow> Inr d | None \<Rightarrow> snd a) calls as
            = map2 (\<lambda>qv a. case entry_hit now (c (key_of qv)) of Some d \<Rightarrow> Inr d | None \<Rightarrow> snd a) calls as"
    using nk by (auto intro!: map_cong dest: set_zip_leftD)
  have notin: "map_of (map (\<lambda>(qv, a). (key_of qv, (qv, a))) (zip calls as)) ?k = None"
    using nk by (auto simp: map_of_eq_None_iff) (metis fst_conv set_zip_leftD snd_conv)
  have cache: "(\<lambda>x. case map_of (map (\<lambda>(qv, a). (key_of qv, (qv, a))) (zip calls as)) x of
                   Some (qv, a) \<Rightarrow> entry_write (fst a) (fst qv) (entry_hit now (?c1 x)) (snd a) (entry_keep now (?c1 x))
                 | None \<Rightarrow> ?c1 x)
             = (\<lambda>x. case map_of (map (\<lambda>(qv, a). (key_of qv, (qv, a))) (zip (qv # calls) ans)) x of
                   Some (qv, a) \<Rightarrow> entry_write (fst a) (fst qv) (entry_hit now (c x)) (snd a) (entry_keep now (c x))
                 | None \<Rightarrow> c x)"
    using notin by (auto simp: fun_eq_iff ans qv a split: option.split)
  have IH: "seq_run now calls as ?c1 =
              (map2 (\<lambda>qv a. case entry_hit now (c (key_of qv)) of Some d \<Rightarrow> Inr d | None \<Rightarrow> snd a) calls as,
               (\<lambda>x. case map_of (map (\<lambda>(qv, a). (key_of qv, (qv, a))) (zip (qv # calls) ans)) x of
                   Some (qv, a) \<Rightarrow> entry_write (fst a) (fst qv) (entry_hit now (c x)) (snd a) (entry_keep now (c x))
                 | None \<Rightarrow> c x))"
    using Cons.IH[OF d, of ?c1] by (simp only: outs cache)
  show ?case using IH by (simp add: ans qv a cached_request_entry del: snd_conv) (simp split: option.split)
qed

lemma map_of_keyed_zip:
  assumes "distinct (map key_of calls)" "length ans = length calls"
  shows "map_of (map (\<lambda>(qv, a). (key_of qv, (qv, a))) (zip calls ans)) x =
           (case find (\<lambda>i. key_of (calls ! i) = x) [0..<length calls] of Some i \<Rightarrow> Some (calls ! i, ans ! i) | None \<Rightarrow> None)"
proof -
  have z: "map (\<lambda>(qv, a). (key_of qv, (qv, a))) (zip calls ans) = zip (map key_of calls) (zip calls ans)"
    using assms(2)[symmetric] by (induction calls ans rule: list_induct2) auto
  show ?thesis
  proof (cases "find (\<lambda>i. key_of (calls ! i) = x) [0..<length calls]")
    case None
    then have "\<forall>i<length calls. key_of (calls ! i) \<noteq> x" by (simp add: find_None_iff)
    then have "x \<notin> set (map key_of calls)" unfolding in_set_conv_nth by simp
    then have "x \<notin> fst ` set (zip (map key_of calls) (zip calls ans))" by (auto dest: set_zip_leftD)
    then show ?thesis using None z by (simp add: map_of_eq_None_iff)
  next
    case (Some i)
    then have i: "i < length calls" "key_of (calls ! i) = x" by (auto simp: find_Some_iff)
    have "map_of (zip (map key_of calls) (zip calls ans)) (map key_of calls ! i) = Some (zip calls ans ! i)"
      using assms i by (intro map_of_zip_nth) auto
    moreover have "zip calls ans ! i = (calls ! i, ans ! i)" using i assms(2) by simp
    ultimately show ?thesis using Some i by (simp only: z nth_map length_map option.simps)
  qed
qed

text \<open>C18. Requests started together whose cache keys are pairwise distinct give the same
  outcomes and leave the same cache as the same requests awaited one after another: the
  concurrency of \<open>processBatch\<close> and \<open>Promise.all\<close> is only observable between requests
  for the same key.\<close>

theorem group_run_sequential:
  assumes "distinct (map key_of calls)" "length ans = length calls"
  shows "fst (group_run now calls ans c) = fst (seq_run now calls ans c)
         \<and> snd (snd (group_run now calls ans c)) = snd (seq_run now calls ans c)"
proof -
  let ?hs = "map (\<lambda>qv. entry_hit now (c (key_of qv))) calls"
  let ?c1 = "\<lambda>x. if x \<in> key_of ` set calls then entry_keep now (c x) else c x"
  let ?ord = "settle_order now ?hs ans"
  have reads: "group_reads now calls c = (?hs, ?c1)" using group_reads_distinct[OF assms(1)] .
  have ord: "distinct ?ord" "set ?ord = {..<length calls}" by simp_all
  have dk: "distinct (map (\<lambda>i. key_of (calls ! i)) [0..<length calls])"
  proof -
    have "map (\<lambda>i. key_of (calls ! i)) [0..<length calls] = map key_of calls"
      by (rule nth_equalityI) simp_all
    then show ?thesis using assms(1) by simp
  qed
  have outs: "group_outcomes ?hs ans = map2 (\<lambda>qv a. case entry_hit now (c (key_of qv)) of Some d \<Rightarrow> Inr d | None \<Rightarrow> snd a) calls ans"
    by (simp add: group_outcomes_def zip_map1 case_prod_beta)
  have cache: "group_writes calls ?hs ans ?ord ?c1 = snd (seq_run now calls ans c)"
  proof
    fix x
    show "group_writes calls ?hs ans ?ord ?c1 x = snd (seq_run now calls ans c) x"
    proof (cases "find (\<lambda>i. key_of (calls ! i) = x) [0..<length calls]")
      case None
      then have "\<forall>i<length calls. key_of (calls ! i) \<noteq> x" by (simp add: find_None_iff)
      then have "x \<notin> set (map key_of calls)" unfolding in_set_conv_nth by simp
      then have "x \<notin> key_of ` set calls" by simp
      then show ?thesis
        using None find_perm[OF ord dk, of x] assms
        by (simp add: group_writes_keys seq_run_keys map_of_keyed_zip)
    next
      case (Some i)
      then have i: "i < length calls" "key_of (calls ! i) = x" by (auto simp: find_Some_iff)
      then have "x \<in> key_of ` set calls" by (intro rev_image_eqI[of "calls ! i"]) auto
      then show ?thesis
        using Some i find_perm[OF ord dk, of x] assms
        by (simp add: group_writes_keys seq_run_keys map_of_keyed_zip)
    qed
  qed
  show ?thesis using reads outs cache assms by (simp add: group_run_def seq_run_keys)
qed

theorem group_run_sequential_witness:
  "fst (group_run 0 [(''a'', None), (''b'', None)] [(1, Inr (JNum 1)), (2, Inl ())] Map.empty)
     = fst (seq_run 0 [(''a'', None), (''b'', None)] [(1, Inr (JNum 1)), (2, Inl ())] Map.empty)"
  using group_run_sequential[of "[(''a'', None), (''b'', None)]" "[(1, Inr (JNum 1)), (2, Inl ())]" 0 Map.empty]
  by (simp add: cache_generateKey_def)

end
