(* ===== verification/Enhanced_Client.thy ===== *)
theory Enhanced_Client
  imports Legacy_Batch Circuit_Breaker
begin

text \<open>
  \<open>EnhancedGraphQLClient\<close> of \<open>src/lib/graphql/enhanced-client.ts\<close>.  Every query goes
  through \<open>withRetry(() => withCircuitBreaker(() => client.request(...)))\<close>: the retry
  loop of \<open>Retry\<close> around the shared breaker of \<open>Circuit_Breaker\<close> around the cached
  request of \<open>Response_Cache\<close>.  The state is the breaker, the module-wide
  \<open>graphqlCache\<close>, the clock and the number of backend calls made; the backend is an
  oracle giving the \<open>n\<close>-th call its latency and answer.  A retry wait advances the
  clock by its delay; requests started together settle as in \<open>Legacy_Batch\<close>, and the
  clock afterwards is the last settlement.  The converters produce the JSON the objects
  serialise to: an \<open>undefined\<close> member is absent and \<open>NaN\<close> is \<open>null\<close>.
\<close>

subsection \<open>The resilient request\<close>

record enh_state =
  es_breaker :: breaker
  es_cache :: gql_cache
  es_clock :: time
  es_calls :: nat

type_synonym backend = "nat \<Rightarrow> nat \<times> (gql_error + json)"

text \<open>The arrival instant and answer of each request of a group: a hit settles at once
  with its value; the misses call the backend in issue order.\<close>

fun oracle_answers :: "backend \<Rightarrow> nat \<Rightarrow> time \<Rightarrow> json option list \<Rightarrow> (time \<times> (gql_error + json)) list" where
  "oracle_answers be k now [] = []"
| "oracle_answers be k now (Some d # hs) = (now, Inr d) # oracle_answers be k now hs"
| "oracle_answers be k now (None # hs) = (now + int (fst (be k)), snd (be k)) # oracle_answers be (Suc k) now hs"

definition enh_answers ::
  "backend \<Rightarrow> (string \<times> string option) list \<Rightarrow> enh_state \<Rightarrow> json option list \<times> (time \<times> (gql_error + json)) list" where
  "enh_answers be calls s =
     (let hs = fst (group_reads (es_clock s) calls (es_cache s)) in (hs, oracle_answers be (es_calls s) (es_clock s) hs))"

definition enh_after ::
  "json option list \<Rightarrow> (time \<times> (gql_error + json)) list \<Rightarrow> gql_cache \<Rightarrow> enh_state \<Rightarrow> enh_state" where
  "enh_after hs ans c s =
     s\<lparr>es_cache := c, es_clock := foldr max (map fst ans) (es_clock s), es_calls := es_calls s + count_list hs None\<rparr>"

text \<open>\<open>this.client.request(query, variables)\<close>.\<close>

definition enh_request :: "backend \<Rightarrow> string \<Rightarrow> string option \<Rightarrow> enh_state \<Rightarrow> (gql_error + json) \<times> enh_state" where
  "enh_request be q v s =
     (case enh_answers be [(q, v)] s of
        (hs, ans) \<Rightarrow> (case group_run (es_clock s) [(q, v)] ans (es_cache s) of
                        (outs, ord, c) \<Rightarrow> (hd outs, enh_after hs ans c s)))"

text \<open>\<open>graphqlErrorHandler.withCircuitBreaker(op)\<close> on the shared breaker.\<close>

definition cb_wrap :: "(enh_state \<Rightarrow> (gql_error + 'a) \<times> enh_state) \<Rightarrow> enh_state \<Rightarrow> (gql_error + 'a) \<times> enh_state" where
  "cb_wrap op s =
     (case withCircuitBreaker op (es_clock s) (es_breaker s, s) of (r, b, s1) \<Rightarrow> (r, s1\<lparr>es_breaker := b\<rparr>))"

definition enh_wait :: "int \<Rightarrow> enh_state \<Rightarrow> enh_state" where
  "enh_wait d s = s\<lparr>es_clock := es_clock s + d\<rparr>"

text \<open>\<open>withRetry(() => withCircuitBreaker(op))\<close> with the default retry configuration.\<close>

definition resilient ::
  "(enh_state \<Rightarrow> (gql_error + 'a) \<times> enh_state) \<Rightarrow> enh_state \<Rightarrow> (retry_failure + 'a) \<times> int list \<times> enh_state" where
  "resilient op s = withRetry no_overrides (cb_wrap op) enh_wait s"

subsection \<open>Query construction\<close>

definition products_fields :: string where
  "products_fields = join_with NL
     ['''',
      ''        id'',
      ''        databaseId'',
      ''        name'',
      ''        slug'',
      ''        price'',
      ''        regularPrice'',
      ''        salePrice'',
      ''        image {'',
      ''          id'',
      ''          sourceUrl'',
      ''          altText'',
      ''        }'',
      ''        ... on InventoriedProduct {'',
      ''          stockStatus'',
      ''        }'',
      ''        ... on Product {'',
      ''          productCategories {'',
      ''            nodes {'',
      ''              name'',
      ''              slug'',
      ''            }'',
      ''          }'',
      ''        }'',
      ''      '']"

definition categories_fields :: string where
  "categories_fields = join_with NL
     ['''',
      ''        id'',
      ''        databaseId'',
      ''        name'',
      ''        slug'',
      ''        count'',
      ''        image {'',
      ''          id'',
      ''          sourceUrl'',
      ''          altText'',
      ''        }'',
      ''      '']"

text \<open>\<open>defaultFields[type] || defaultFields.products\<close> (for type names that are not
  members of \<open>Object.prototype\<close>).\<close>

definition baseFields :: "string \<Rightarrow> string" where
  "baseFields ty = (if ty = ''categories'' then categories_fields else products_fields)"

definition capitalize :: "string \<Rightarrow> string" where
  "capitalize ty = (case ty of [] \<Rightarrow> [] | c # cs \<Rightarrow> toUpperCase [c] @ cs)"

text \<open>The document without a field list (lines 167 to 181) and with one (lines 186 to
  200, the fields joined by a newline and eight spaces).\<close>

definition default_query :: "string \<Rightarrow> string" where
  "default_query ty = join_with NL
     ['''',
      ''        query GetOptimized'' @ capitalize ty @ ''($first: Int, $where: RootQueryToProductUnionConnectionWhereArgs) {'',
      ''          '' @ ty @ ''(first: $first, where: $where) {'',
      ''            nodes {'',
      ''              '' @ baseFields ty,
      ''            }'',
      ''            pageInfo {'',
      ''              hasNextPage'',
      ''              hasPreviousPage'',
      ''              startCursor'',
      ''              endCursor'',
      ''            }'',
      ''          }'',
      ''        }'',
      ''      '']"

definition custom_query :: "string \<Rightarrow> string list \<Rightarrow> string" where
  "custom_query ty fs = join_with NL
     ['''',
      ''      query GetOptimized'' @ capitalize ty @ ''($first: Int, $where: RootQueryToProductUnionConnectionWhereArgs) {'',
      ''        '' @ ty @ ''(first: $first, where: $where) {'',
      ''          nodes {'',
      ''            '' @ join_with (NL @ ''        '') fs,
      ''          }'',
      ''          pageInfo {'',
      ''            hasNextPage'',
      ''            hasPreviousPage'',
      ''            startCursor'',
      ''            endCursor'',
      ''          }'',
      ''        }'',
      ''      }'',
      ''    '']"

definition buildOptimizedQuery :: "string \<Rightarrow> string list option \<Rightarrow> string" where
  "buildOptimizedQuery ty flds =
     (case flds of Some fs \<Rightarrow> if fs \<noteq> [] then custom_query ty fs else default_query ty | None \<Rightarrow> default_query ty)"

subsection \<open>Conversion to the WooCommerce shape\<close>

text \<open>\<open>parseInt(String(x))\<close> on the decimal and \<open>0x\<close> forms; \<open>None\<close> is \<open>NaN\<close>.  The
  digits are read exactly (the code's doubles round above \<open>2^53\<close>).\<close>

definition digit_value :: "nat \<Rightarrow> char \<Rightarrow> nat option" where
  "digit_value radix c =
     (let n = of_char c :: nat in
      if 48 \<le> n \<and> n \<le> 57 \<and> n - 48 < radix then Some (n - 48)
      else if 97 \<le> n \<and> n \<le> 102 \<and> n - 87 < radix then Some (n - 87)
      else if 65 \<le> n \<and> n \<le> 70 \<and> n - 55 < radix then Some (n - 55)
      else None)"

definition digits_value :: "nat \<Rightarrow> string \<Rightarrow> nat" where
  "digits_value radix ds = foldl (\<lambda>acc c. acc * radix + (case digit_value radix c of Some d \<Rightarrow> d | None \<Rightarrow> 0)) 0 ds"

definition parseInt :: "string \<Rightarrow> int option" where
  "parseInt s =
     (let s1 = dropWhile is_space s;
          (sg, s2) = (case s1 of CHR ''-'' # r \<Rightarrow> (-1 :: int, r) | CHR ''+'' # r \<Rightarrow> (1, r) | _ \<Rightarrow> (1, s1));
          (radix, s3) = (if take 2 s2 = ''0x'' \<or> take 2 s2 = ''0X'' then (16, drop 2 s2) else (10, s2));
          ds = takeWhile (\<lambda>c. digit_value radix c \<noteq> None) s3
      in if ds = [] then None else Some (sg * int (digits_value radix ds)))"

definition js_parseInt :: "json option \<Rightarrow> json" where
  "js_parseInt v =
     (case v of None \<Rightarrow> JNull
      | Some x \<Rightarrow> (case parseInt (js_string x) of None \<Rightarrow> JNull | Some n \<Rightarrow> JNum n))"

text \<open>\<open>a || d\<close>, \<open>`${a}`\<close>, and an object literal rendered as JSON (absent members
  dropped).\<close>

definition js_or :: "json option \<Rightarrow> json \<Rightarrow> json" where
  "js_or v d = (case v of Some x \<Rightarrow> if truthy x then x else d | None \<Rightarrow> d)"

definition tmpl :: "json option \<Rightarrow> string" where
  "tmpl v = (case v of None \<Rightarrow> ''undefined'' | Some x \<Rightarrow> js_string x)"

definition obj :: "(string \<times> json option) list \<Rightarrow> json" where
  "obj fs = JObj (concat (map (\<lambda>(k, v). case v of None \<Rightarrow> [] | Some x \<Rightarrow> [(k, x)]) fs))"

definition not_a_function :: gql_error where
  "not_a_function = type_error ''map is not a function''"

text \<open>\<open>v?.nodes?.map(f) || []\<close>: a \<open>nodes\<close> value that is neither nullish nor an array
  has no \<open>map\<close> to call.\<close>

definition nodes_map :: "(json \<Rightarrow> gql_error + json) \<Rightarrow> json option \<Rightarrow> gql_error + json" where
  "nodes_map f v =
     (case v of None \<Rightarrow> Inr (JArr [])
      | Some x \<Rightarrow> (case js_field x ''nodes'' of
                    None \<Rightarrow> Inr (JArr [])
                  | Some JNull \<Rightarrow> Inr (JArr [])
                  | Some (JArr xs) \<Rightarrow> map_sum id JArr (map_throw f xs)
                  | Some _ \<Rightarrow> Inl not_a_function))"

definition image_of :: "json \<Rightarrow> json" where
  "image_of img =
     obj [(''id'', Some (js_parseInt (js_field img ''id''))), (''src'', js_field img ''sourceUrl''),
          (''alt'', js_field img ''altText'')]"

definition category_of :: "json \<Rightarrow> gql_error + json" where
  "category_of cat =
     map_sum id (\<lambda>_. obj [(''id'', Some (js_parseInt (js_field cat ''id''))), (''name'', js_field cat ''name''),
                          (''slug'', js_field cat ''slug'')])
       (get_member cat ''id'')"

definition variation_of :: "json \<Rightarrow> gql_error + json" where
  "variation_of v =
     map_sum id (\<lambda>_. obj [(''id'', js_field v ''databaseId''), (''price'', js_field v ''price''),
        (''regular_price'', js_field v ''regularPrice''), (''sale_price'', js_field v ''salePrice''),
        (''on_sale'', js_field v ''onSale''), (''stock_status'', js_field v ''stockStatus''),
        (''stock_quantity'', js_field v ''stockQuantity''),
        (''image'', Some (case js_field v ''image'' of Some i \<Rightarrow> if truthy i then image_of i else JNull | None \<Rightarrow> JNull))])
       (get_member v ''databaseId'')"

text \<open>\<open>convertProduct\<close>: a falsy product is \<open>null\<close>; the members are read in the order of
  the literal, and only the \<open>map\<close> calls can throw.\<close>

definition convertProduct :: "json option \<Rightarrow> gql_error + json" where
  "convertProduct p =
     (case p of None \<Rightarrow> Inr JNull
      | Some x \<Rightarrow> if \<not> truthy x then Inr JNull else
          (case (nodes_map category_of (js_field x ''productCategories''), nodes_map variation_of (js_field x ''variations'')) of
             (Inl e, _) \<Rightarrow> Inl e
           | (_, Inl e) \<Rightarrow> Inl e
           | (Inr cats, Inr vars) \<Rightarrow> Inr (obj
               [(''id'', js_field x ''databaseId''), (''name'', js_field x ''name''), (''slug'', js_field x ''slug''),
                (''permalink'', Some (JStr (''/'' @ tmpl (js_field x ''slug'')))),
                (''description'', js_field x ''description''), (''short_description'', js_field x ''shortDescription''),
                (''price'', Some (js_or (js_field x ''price'') (JStr ''''))),
                (''regular_price'', Some (js_or (js_field x ''regularPrice'') (JStr ''''))),
                (''sale_price'', Some (js_or (js_field x ''salePrice'') (JStr ''''))),
                (''on_sale'', Some (js_or (js_field x ''onSale'') (JBool False))),
                (''stock_status'', Some (js_or (js_field x ''stockStatus'') (JStr ''instock''))),
                (''type'', js_field x ''type''), (''featured'', js_field x ''featured''),
                (''average_rating'', js_field x ''averageRating''), (''review_count'', js_field x ''reviewCount''),
                (''images'', Some (case js_field x ''image'' of Some i \<Rightarrow> if truthy i then JArr [image_of i] else JArr [] | None \<Rightarrow> JArr [])),
                (''categories'', Some cats), (''variations'', Some vars)])))"

text \<open>\<open>products.map(p => this.convertProduct(p))\<close> on \<open>x || []\<close>.\<close>

definition convertProducts :: "json \<Rightarrow> gql_error + json" where
  "convertProducts v =
     (case v of JArr xs \<Rightarrow> map_sum id JArr (map_throw (\<lambda>p. convertProduct (Some p)) xs) | _ \<Rightarrow> Inl not_a_function)"

subsection \<open>The client's methods\<close>

record product_params =
  pp_per_page :: "int option"
  pp_page :: "int option"
  pp_category :: "string option"
  pp_search :: "string option"
  pp_featured :: "bool option"
  pp_fields :: "string list option"

definition where_of :: "product_params \<Rightarrow> (string \<times> json) list" where
  "where_of pp =
     (case pp_category pp of Some c \<Rightarrow> if c \<noteq> [] then [(''category'', JStr c)] else [] | None \<Rightarrow> [])
     @ (case pp_search pp of Some c \<Rightarrow> if c \<noteq> [] then [(''search'', JStr c)] else [] | None \<Rightarrow> [])
     @ (case pp_featured pp of Some b \<Rightarrow> [(''featured'', JBool b)] | None \<Rightarrow> [])"

definition products_variables :: "product_params \<Rightarrow> json" where
  "products_variables pp =
     JObj ((''first'', JNum (or_default (pp_per_page pp) 10))
           # (if where_of pp \<noteq> [] then [(''where'', JObj (where_of pp))] else []))"

text \<open>The body of each \<open>try\<close> after the request: any exception is caught and the
  method's empty default returned.\<close>

definition getProductsOptimized ::
  "codec \<Rightarrow> backend \<Rightarrow> product_params \<Rightarrow> enh_state \<Rightarrow> json \<times> enh_state" where
  "getProductsOptimized cd be pp s =
     (case resilient (enh_request be (buildOptimizedQuery ''products'' (pp_fields pp)) (js_vars cd (products_variables pp))) s of
        (Inl _, _, s1) \<Rightarrow> (JArr [], s1)
      | (Inr d, _, s1) \<Rightarrow>
          (case nodes_of d ''products'' of
             Inl _ \<Rightarrow> (JArr [], s1)
           | Inr ns \<Rightarrow> (case convertProducts ns of Inl _ \<Rightarrow> (JArr [], s1) | Inr ps \<Rightarrow> (ps, s1))))"

definition comprehensive_empty :: json where
  "comprehensive_empty = JObj [(''product'', JNull), (''related'', JArr []), (''reviews'', JArr [])]"

definition getProductComprehensive :: "codec \<Rightarrow> backend \<Rightarrow> string \<Rightarrow> enh_state \<Rightarrow> json \<times> enh_state" where
  "getProductComprehensive cd be slug s =
     (case resilient (enh_request be GET_PRODUCT_COMPREHENSIVE_QUERY (js_vars cd (JObj [(''slug'', JStr slug)]))) s of
        (Inl _, _, s1) \<Rightarrow> (comprehensive_empty, s1)
      | (Inr d, _, s1) \<Rightarrow>
          (case get_member d ''product'' of
             Inl _ \<Rightarrow> (comprehensive_empty, s1)
           | Inr p \<Rightarrow>
               (case (convertProduct p, nodes_of d ''products'') of
                  (Inr cp, Inr ns) \<Rightarrow>
                    (case (convertProducts ns, nodes_of d ''comments'') of
                       (Inr rel, Inr rv) \<Rightarrow> (JObj [(''product'', cp), (''related'', rel), (''reviews'', rv)], s1)
                     | _ \<Rightarrow> (comprehensive_empty, s1))
                | _ \<Rightarrow> (comprehensive_empty, s1))))"

definition search_empty :: json where
  "search_empty = JObj [(''products'', JArr []), (''suggestions'', JArr [])]"

definition searchProductsAdvanced ::
  "codec \<Rightarrow> backend \<Rightarrow> string \<Rightarrow> string option \<Rightarrow> enh_state \<Rightarrow> json \<times> enh_state" where
  "searchProductsAdvanced cd be q category s =
     (case resilient (enh_request be SEARCH_PRODUCTS_ADVANCED_QUERY
             (js_vars cd (JObj ([(''search'', JStr q)] @ (case category of Some c \<Rightarrow> [(''category'', JStr c)] | None \<Rightarrow> [])
                               @ [(''first'', JNum 10)])))) s of
        (Inl _, _, s1) \<Rightarrow> (search_empty, s1)
      | (Inr d, _, s1) \<Rightarrow>
          (case nodes_of d ''products'' of
             Inl _ \<Rightarrow> (search_empty, s1)
           | Inr ns \<Rightarrow>
               (case (convertProducts ns, nodes_of d ''productCategories'') of
                  (Inr ps, Inr sg) \<Rightarrow> (JObj [(''products'', ps), (''suggestions'', sg)], s1)
                | _ \<Rightarrow> (search_empty, s1))))"

text \<open>\<open>getHomepageData\<close> runs the legacy batcher's three requests inside the wrappers.\<close>

definition enh_homepage_op ::
  "codec \<Rightarrow> backend \<Rightarrow> enh_state \<Rightarrow> (gql_error + json \<times> json \<times> json) \<times> enh_state" where
  "enh_homepage_op cd be s =
     (case enh_answers be (homepage_calls cd) s of
        (hs, ans) \<Rightarrow> (case lb_getHomepageData cd (es_clock s) ans (es_cache s) of
                        (r, c) \<Rightarrow> (r, enh_after hs ans c s)))"

definition homepage_empty :: json where
  "homepage_empty = JObj [(''featured'', JArr []), (''categories'', JArr []), (''latest'', JArr [])]"

definition enh_getHomepageData :: "codec \<Rightarrow> backend \<Rightarrow> enh_state \<Rightarrow> json \<times> enh_state" where
  "enh_getHomepageData cd be s =
     (case resilient (enh_homepage_op cd be) s of
        (Inl _, _, s1) \<Rightarrow> (homepage_empty, s1)
      | (Inr (f, c, l), _, s1) \<Rightarrow> (JObj [(''featured'', f), (''categories'', c), (''latest'', l)], s1))"

text \<open>\<open>withPerformanceMonitoring\<close> only logs: the operation's result or exception
  passes through.\<close>

definition withPerformanceMonitoring :: "('s \<Rightarrow> 'r \<times> 's) \<Rightarrow> 's \<Rightarrow> 'r \<times> 's" where
  "withPerformanceMonitoring op s = op s"

definition enh_clearCache :: "string option \<Rightarrow> enh_state \<Rightarrow> enh_state" where
  "enh_clearCache pattern s = s\<lparr>es_cache := invalidateCache pattern (es_cache s)\<rparr>"

subsection \<open>Lemmas\<close>

text \<open>The retry configuration the client uses, and the breaker's rejection, which is not
  retryable: it has no code, no status and no GraphQL errors.\<close>

lemma retry_cfg [simp]: "maxRetries (final_config no_overrides) = 3"
  "calculateDelay 1 (final_config no_overrides) = 1000" "calculateDelay 2 (final_config no_overrides) = 2000"
  by (simp_all add: final_config_def no_overrides_def defaultConfig_def calculateDelay_def)

lemma breaker_open_not_retryable [simp]: "\<not> isRetryableError breaker_open_error"
  by (simp add: isRetryableError_def breaker_open_error_def)

lemma cb_wrap_open:
  assumes "state (es_breaker s) = OPEN" "es_clock s - lastFailureTime (es_breaker s) \<le> timeout (es_breaker s)"
  shows "cb_wrap op s = (Inl breaker_open_error, s)"
  using assms by (simp add: cb_wrap_def withCircuitBreaker_def cb_enter_def)

lemma resilient_open:
  assumes "state (es_breaker s) = OPEN" "es_clock s - lastFailureTime (es_breaker s) \<le> timeout (es_breaker s)"
  shows "resilient op s = (Inl (Enhanced (enhanceError breaker_open_error)), [], s)"
  using assms
  by (simp add: resilient_def withRetry_def retry_loop.simps cb_wrap_open throw_last_def)

lemma enh_request_miss:
  assumes "es_cache s (cache_generateKey q v) = None" "be (es_calls s) = (lat, r)"
  shows "enh_request be q v s =
           (r, s\<lparr>es_cache := snd (cr_settle (es_clock s + int lat) q v None r (es_cache s)),
                 es_clock := es_clock s + int lat, es_calls := Suc (es_calls s)\<rparr>)"
  using assms
  by (simp add: enh_request_def enh_answers_def enh_after_def group_run_def cr_read_def cache_get_def Let_def
      settle_order_def group_outcomes_def group_writes_def fun_upd_idem max_def)

lemma enh_request_hit:
  assumes "cr_read (es_clock s) q v (es_cache s) = (Some d, c1)"
  shows "enh_request be q v s = (Inr d, s\<lparr>es_cache := c1\<rparr>)"
  using assms
  by (simp add: enh_request_def enh_answers_def enh_after_def group_run_def settle_order_def group_outcomes_def
      group_writes_def cr_settle_def)

lemma cr_settle_fail [simp]: "cr_settle t q v None (Inl e) c = (Inl e, c)"
  by (simp add: cr_settle_def)

lemma cb_wrap_fail_attempt:
  assumes "state (es_breaker s) = CLOSED" "failures (es_breaker s) + 1 < threshold (es_breaker s)"
    and "es_cache s (cache_generateKey q v) = None" "be (es_calls s) = (lat, Inl e)"
  shows "cb_wrap (enh_request be q v) s =
           (Inl e, s\<lparr>es_breaker := (es_breaker s)\<lparr>failures := Suc (failures (es_breaker s)), lastFailureTime := es_clock s\<rparr>,
                    es_clock := es_clock s + int lat, es_calls := Suc (es_calls s)\<rparr>)"
  using assms
  by (simp add: cb_wrap_def withCircuitBreaker_def cb_enter_def enh_request_miss cb_failure_def Let_def)

lemma resilient_three_failures:
  assumes "state (es_breaker s) = CLOSED" "failures (es_breaker s) + 3 < threshold (es_breaker s)"
    and "es_cache s (cache_generateKey q v) = None"
    and "\<And>n. snd (be n) = Inl e" "isRetryableError e"
  shows "\<exists>s'. resilient (enh_request be q v) s = (Inl (Enhanced (enhanceError e)), [1000, 2000], s')
           \<and> es_calls s' = es_calls s + 3 \<and> failures (es_breaker s') = failures (es_breaker s) + 3
           \<and> state (es_breaker s') = CLOSED \<and> es_cache s' = es_cache s"
proof -
  have be: "\<And>n. be n = (fst (be n), Inl e)" using assms(4) by (metis prod.collapse)
  show ?thesis
    using assms
    by (simp add: resilient_def withRetry_def retry_loop.simps cb_wrap_fail_attempt[OF _ _ _ be] enh_wait_def
        throw_last_def)
qed


text \<open>C20. While the breaker is OPEN and its timeout has not passed, \<open>getProductComprehensive\<close>
  returns its empty default and changes nothing, although the cache holds a live value for
  the request: the cache sits inside the breaker.  With a CLOSED breaker the same call is
  answered from that cache without a backend call.\<close>

theorem enh_open_breaker_hides_cache:
  assumes "state (es_breaker s) = OPEN" "es_clock s - lastFailureTime (es_breaker s) \<le> timeout (es_breaker s)"
    and "cr_read (es_clock s) GET_PRODUCT_COMPREHENSIVE_QUERY (js_vars cd (JObj [(''slug'', JStr slug)])) (es_cache s) = (Some d, c1)"
  shows "getProductComprehensive cd be slug s = (comprehensive_empty, s)
         \<and> es_calls (snd (getProductComprehensive cd be slug (s\<lparr>es_breaker := initial_breaker\<rparr>))) = es_calls s"
proof -
  have closed: "resilient (enh_request be GET_PRODUCT_COMPREHENSIVE_QUERY (js_vars cd (JObj [(''slug'', JStr slug)])))
                  (s\<lparr>es_breaker := initial_breaker\<rparr>) = (Inr d, [], s\<lparr>es_breaker := initial_breaker, es_cache := c1\<rparr>)"
    using assms(3)
    by (simp add: resilient_def withRetry_def retry_loop.simps cb_wrap_def withCircuitBreaker_def cb_enter_def
        initial_breaker_def enh_request_hit cb_success_def)
  have "es_calls (snd (getProductComprehensive cd be slug (s\<lparr>es_breaker := initial_breaker\<rparr>))) = es_calls s"
    by (simp add: getProductComprehensive_def closed split: sum.split prod.split)
  then show ?thesis using assms(1,2) by (simp add: getProductComprehensive_def resilient_open)
qed

theorem enh_open_breaker_hides_cache_witness:
  "getProductComprehensive \<lparr>md5hex = id, stringify = js_string\<rparr> (\<lambda>n. (0, Inr JNull)) ''p''
     \<lparr>es_breaker = initial_breaker\<lparr>state := OPEN\<rparr>,
      es_cache = Map.empty(cache_generateKey GET_PRODUCT_COMPREHENSIVE_QUERY (js_vars \<lparr>md5hex = id, stringify = js_string\<rparr> (JObj [(''slug'', JStr ''p'')]))
                   \<mapsto> \<lparr>ce_data = JObj [], ce_timestamp = 0, ce_ttl = 1000\<rparr>),
      es_clock = 10, es_calls = 0\<rparr>
   = (comprehensive_empty,
      \<lparr>es_breaker = initial_breaker\<lparr>state := OPEN\<rparr>,
       es_cache = Map.empty(cache_generateKey GET_PRODUCT_COMPREHENSIVE_QUERY (js_vars \<lparr>md5hex = id, stringify = js_string\<rparr> (JObj [(''slug'', JStr ''p'')]))
                    \<mapsto> \<lparr>ce_data = JObj [], ce_timestamp = 0, ce_ttl = 1000\<rparr>),
       es_clock = 10, es_calls = 0\<rparr>)"
  using enh_open_breaker_hides_cache[of "\<lparr>es_breaker = initial_breaker\<lparr>state := OPEN\<rparr>,
      es_cache = Map.empty(cache_generateKey GET_PRODUCT_COMPREHENSIVE_QUERY (js_vars \<lparr>md5hex = id, stringify = js_string\<rparr> (JObj [(''slug'', JStr ''p'')]))
                   \<mapsto> \<lparr>ce_data = JObj [], ce_timestamp = 0, ce_ttl = 1000\<rparr>),
      es_clock = 10, es_calls = 0\<rparr>" "\<lparr>md5hex = id, stringify = js_string\<rparr>" "''p''" "JObj []"]
  by (simp add: initial_breaker_def cr_read_def cache_get_def isExpired_def)

text \<open>C21. Every attempt of the retry loop is a failure of the breaker: a product listing
  that misses the cache while the backend keeps failing with a retryable error makes
  three backend calls, adds three failures to the breaker and returns the empty list.\<close>

theorem getProductsOptimized_attempt_failures:
  assumes "state (es_breaker s) = CLOSED" "failures (es_breaker s) + 3 < threshold (es_breaker s)"
    and "es_cache s (cache_generateKey (buildOptimizedQuery ''products'' (pp_fields pp))
                       (js_vars cd (products_variables pp))) = None"
    and "\<And>n. snd (be n) = Inl e" "isRetryableError e"
  shows "fst (getProductsOptimized cd be pp s) = JArr []
         \<and> es_calls (snd (getProductsOptimized cd be pp s)) = es_calls s + 3
         \<and> failures (es_breaker (snd (getProductsOptimized cd be pp s))) = failures (es_breaker s) + 3
         \<and> state (es_breaker (snd (getProductsOptimized cd be pp s))) = CLOSED"
proof -
  obtain s' where "resilient (enh_request be (buildOptimizedQuery ''products'' (pp_fields pp)) (js_vars cd (products_variables pp))) s
                     = (Inl (Enhanced (enhanceError e)), [1000, 2000], s')"
    and "es_calls s' = es_calls s + 3" "failures (es_breaker s') = failures (es_breaker s) + 3"
    and "state (es_breaker s') = CLOSED"
    using resilient_three_failures[of s "buildOptimizedQuery ''products'' (pp_fields pp)" "js_vars cd (products_variables pp)" be e]
      assms by blast
  then show ?thesis by (simp add: getProductsOptimized_def)
qed

theorem getProductsOptimized_attempt_failures_witness:
  "fst (getProductsOptimized \<lparr>md5hex = id, stringify = js_string\<rparr> (\<lambda>n. (5, Inl e503)) \<lparr>pp_per_page = None, pp_page = None, pp_category = None, pp_search = None, pp_featured = None, pp_fields = None\<rparr>
          \<lparr>es_breaker = initial_breaker, es_cache = Map.empty, es_clock = 0, es_calls = 0\<rparr>) = JArr []
   \<and> es_calls (snd (getProductsOptimized \<lparr>md5hex = id, stringify = js_string\<rparr> (\<lambda>n. (5, Inl e503)) \<lparr>pp_per_page = None, pp_page = None, pp_category = None, pp_search = None, pp_featured = None, pp_fields = None\<rparr>
          \<lparr>es_breaker = initial_breaker, es_cache = Map.empty, es_clock = 0, es_calls = 0\<rparr>)) = 3"
  using getProductsOptimized_attempt_failures[of "\<lparr>es_breaker = initial_breaker, es_cache = Map.empty, es_clock = 0, es_calls = 0\<rparr>"
      "\<lparr>pp_per_page = None, pp_page = None, pp_category = None, pp_search = None, pp_featured = None, pp_fields = None\<rparr>" "\<lparr>md5hex = id, stringify = js_string\<rparr>" "\<lambda>n. (5, Inl e503)" e503]
  by (simp add: initial_breaker_def isRetryableError_def e503_def)

end
