(* ===== verification/GraphQL_Facade.thy ===== *)
theory GraphQL_Facade
  imports Enhanced_Client
begin

text \<open>
  The plain GraphQL facade of \<open>src/lib/graphql/index.ts\<close>: \<open>graphqlClient.request\<close> with
  no cache, and the conversion of WPGraphQL products and categories to the WooCommerce
  REST shape.  The transport answers a query and its variables with data or a thrown
  error.  As in \<open>Enhanced_Client\<close>, a converted object is the JSON it serialises to, and
  every member read of \<open>null\<close> or \<open>undefined\<close> throws a \<open>TypeError\<close>.
\<close>

type_synonym transport = "string \<Rightarrow> json \<Rightarrow> gql_error + json"

text \<open>Sequencing of computations that may throw.\<close>

definition sbind :: "'e + 'a \<Rightarrow> ('a \<Rightarrow> 'e + 'b) \<Rightarrow> 'e + 'b" where
  "sbind m f = (case m of Inl e \<Rightarrow> Inl e | Inr a \<Rightarrow> f a)"

text \<open>\<open>v.k\<close> where \<open>v\<close> may be \<open>undefined\<close> (\<open>None\<close>) or \<open>null\<close>: both throw.\<close>

definition deref :: "json option \<Rightarrow> string \<Rightarrow> gql_error + json option" where
  "deref v k =
     (case v of None \<Rightarrow> Inl (type_error ''Cannot read properties of undefined'')
      | Some x \<Rightarrow> get_member x k)"

subsection \<open>Conversion\<close>

definition attribute_of :: "json \<Rightarrow> gql_error + json" where
  "attribute_of attr =
     map_sum id (\<lambda>_. obj [(''id'', Some (js_parseInt (js_field attr ''id''))), (''name'', js_field attr ''name''),
                          (''options'', js_field attr ''options''), (''variation'', js_field attr ''variation'')])
       (get_member attr ''id'')"

definition variation_attribute_of :: "json \<Rightarrow> gql_error + json" where
  "variation_attribute_of attr =
     map_sum id (\<lambda>_. obj [(''id'', Some (js_parseInt (js_field attr ''id''))), (''name'', js_field attr ''name''),
                          (''option'', js_field attr ''value'')])
       (get_member attr ''id'')"

definition idx_variation_of :: "json \<Rightarrow> gql_error + json" where
  "idx_variation_of v =
     sbind (get_member v ''databaseId'') (\<lambda>_.
       map_sum id (\<lambda>attrs. obj [(''id'', js_field v ''databaseId''), (''price'', js_field v ''price''),
          (''regular_price'', js_field v ''regularPrice''), (''sale_price'', js_field v ''salePrice''),
          (''on_sale'', js_field v ''onSale''), (''stock_status'', js_field v ''stockStatus''),
          (''stock_quantity'', js_field v ''stockQuantity''), (''attributes'', Some attrs),
          (''image'', Some (case js_field v ''image'' of Some i \<Rightarrow> if truthy i then image_of i else JNull | None \<Rightarrow> JNull))])
         (nodes_map variation_attribute_of (js_field v ''attributes'')))"

definition related_of :: "json \<Rightarrow> gql_error + json" where
  "related_of r =
     map_sum id (\<lambda>_. obj [(''id'', js_field r ''databaseId''), (''name'', js_field r ''name''), (''slug'', js_field r ''slug''),
        (''price'', js_field r ''price''), (''regular_price'', js_field r ''regularPrice''),
        (''sale_price'', js_field r ''salePrice''), (''on_sale'', js_field r ''onSale''),
        (''stock_status'', js_field r ''stockStatus''),
        (''images'', Some (case js_field r ''image'' of Some i \<Rightarrow> if truthy i then JArr [image_of i] else JArr [] | None \<Rightarrow> JArr []))])
       (get_member r ''databaseId'')"

text \<open>\<open>review.author.node.name\<close> throws unless the author and its node are present.\<close>

definition review_of :: "json \<Rightarrow> gql_error + json" where
  "review_of rv =
     sbind (get_member rv ''id'') (\<lambda>_.
       sbind (deref (js_field rv ''author'') ''node'') (\<lambda>n.
         map_sum id (\<lambda>nm. obj [(''id'', Some (js_parseInt (js_field rv ''id''))), (''content'', js_field rv ''content''),
                               (''rating'', js_field rv ''rating''), (''author'', nm), (''date'', js_field rv ''date'')])
           (deref n ''name'')))"

text \<open>\<open>convertGraphQLProductToWooCommerce\<close>: the members in the order of the literal.\<close>

definition convertGraphQLProductToWooCommerce :: "json \<Rightarrow> gql_error + json" where
  "convertGraphQLProductToWooCommerce p =
     sbind (get_member p ''databaseId'') (\<lambda>_.
     sbind (nodes_map category_of (js_field p ''productCategories'')) (\<lambda>cats.
     sbind (nodes_map attribute_of (js_field p ''attributes'')) (\<lambda>attrs.
     sbind (nodes_map idx_variation_of (js_field p ''variations'')) (\<lambda>vars.
     sbind (nodes_map related_of (js_field p ''related'')) (\<lambda>rel.
     sbind (nodes_map review_of (js_field p ''reviews'')) (\<lambda>revs.
       Inr (obj
         [(''id'', js_field p ''databaseId''), (''name'', js_field p ''name''), (''slug'', js_field p ''slug''),
          (''permalink'', Some (JStr (''/'' @ tmpl (js_field p ''slug'')))),
          (''description'', js_field p ''description''), (''short_description'', js_field p ''shortDescription''),
          (''price'', Some (js_or (js_field p ''price'') (JStr ''''))),
          (''regular_price'', Some (js_or (js_field p ''regularPrice'') (JStr ''''))),
          (''sale_price'', Some (js_or (js_field p ''salePrice'') (JStr ''''))),
          (''on_sale'', Some (js_or (js_field p ''onSale'') (JBool False))),
          (''stock_status'', Some (js_or (js_field p ''stockStatus'') (JStr ''instock''))),
          (''type'', js_field p ''type''), (''featured'', js_field p ''featured''),
          (''average_rating'', js_field p ''averageRating''), (''review_count'', js_field p ''reviewCount''),
          (''images'', Some (case js_field p ''image'' of Some i \<Rightarrow> if truthy i then JArr [image_of i] else JArr [] | None \<Rightarrow> JArr [])),
          (''categories'', Some cats), (''attributes'', Some attrs), (''variations'', Some vars),
          (''related'', Some rel), (''reviews'', Some revs)])))))))"

text \<open>\<open>convertGraphQLCategoryToWooCommerce\<close>: \<open>graphqlCategory.parent.node\<close> is read
  without optional chaining.\<close>

definition convertGraphQLCategoryToWooCommerce :: "json \<Rightarrow> gql_error + json" where
  "convertGraphQLCategoryToWooCommerce c =
     sbind (get_member c ''databaseId'') (\<lambda>_.
     sbind (deref (js_field c ''parent'') ''node'') (\<lambda>pn.
       Inr (obj
         [(''id'', js_field c ''databaseId''), (''name'', js_field c ''name''), (''slug'', js_field c ''slug''),
          (''description'', js_field c ''description''), (''count'', js_field c ''count''),
          (''image'', Some (case js_field c ''image'' of Some i \<Rightarrow> if truthy i then image_of i else JNull | None \<Rightarrow> JNull)),
          (''parent'', Some (case pn of Some n \<Rightarrow> if truthy n then obj [(''id'', Some (js_parseInt (js_field n ''id''))),
                                 (''name'', js_field n ''name''), (''slug'', js_field n ''slug'')] else JNull
                             | None \<Rightarrow> JNull))])))"

subsection \<open>The exported functions\<close>

text \<open>\<open>if (!result.x?.nodes) return []\<close> then \<open>result.x.nodes.map(convert)\<close>; every
  exception is caught and \<open>[]\<close> returned.\<close>

definition nodes_list :: "(json \<Rightarrow> gql_error + json) \<Rightarrow> string \<Rightarrow> gql_error + json \<Rightarrow> json" where
  "nodes_list conv k res =
     (case sbind res (\<lambda>d. get_member d k) of
        Inl _ \<Rightarrow> JArr []
      | Inr v \<Rightarrow> (case v of None \<Rightarrow> JArr [] | Some x \<Rightarrow>
          (case js_field x ''nodes'' of
             None \<Rightarrow> JArr []
           | Some n \<Rightarrow> if \<not> truthy n then JArr []
               else (case n of JArr xs \<Rightarrow> (case map_throw conv xs of Inl _ \<Rightarrow> JArr [] | Inr ys \<Rightarrow> JArr ys)
                     | _ \<Rightarrow> JArr []))))"

record products_params =
  ip_per_page :: "int option"
  ip_page :: "int option"
  ip_category :: "string option"
  ip_search :: "string option"
  ip_featured :: "bool option"

definition idx_products_variables :: "products_params \<Rightarrow> json" where
  "idx_products_variables pp =
     (let wh = (case ip_category pp of Some c \<Rightarrow> if c \<noteq> [] then [(''category'', JStr c)] else [] | None \<Rightarrow> [])
               @ (case ip_search pp of Some c \<Rightarrow> if c \<noteq> [] then [(''search'', JStr c)] else [] | None \<Rightarrow> [])
               @ (case ip_featured pp of Some b \<Rightarrow> [(''featured'', JBool b)] | None \<Rightarrow> [])
      in JObj ((''first'', JNum (or_default (ip_per_page pp) 10)) # (if wh \<noteq> [] then [(''where'', JObj wh)] else [])))"

definition getWooCommerceProductsGraphQL :: "transport \<Rightarrow> products_params \<Rightarrow> json" where
  "getWooCommerceProductsGraphQL tr pp =
     nodes_list convertGraphQLProductToWooCommerce ''products'' (tr GET_PRODUCTS_QUERY (idx_products_variables pp))"

text \<open>A single product or collection: \<open>undefined\<close> (\<open>None\<close>) when absent or on any error.\<close>

definition single_of :: "(json \<Rightarrow> gql_error + json) \<Rightarrow> string \<Rightarrow> gql_error + json \<Rightarrow> json option" where
  "single_of conv k res =
     (case sbind res (\<lambda>d. get_member d k) of
        Inl _ \<Rightarrow> None
      | Inr v \<Rightarrow> (case v of None \<Rightarrow> None | Some x \<Rightarrow>
          if \<not> truthy x then None else (case conv x of Inl _ \<Rightarrow> None | Inr y \<Rightarrow> Some y)))"

definition getWooCommerceProductGraphQL :: "transport \<Rightarrow> string \<Rightarrow> json option" where
  "getWooCommerceProductGraphQL tr handle =
     single_of convertGraphQLProductToWooCommerce ''product'' (tr GET_PRODUCT_BY_SLUG_QUERY (JObj [(''slug'', JStr handle)]))"

definition getWooCommerceProductsByCategoryGraphQL :: "transport \<Rightarrow> string \<Rightarrow> json" where
  "getWooCommerceProductsByCategoryGraphQL tr slug =
     nodes_list convertGraphQLProductToWooCommerce ''products''
       (tr GET_PRODUCTS_BY_CATEGORY_QUERY (JObj [(''categorySlug'', JStr slug), (''first'', JNum 20)]))"

definition getWooCommerceCollectionsGraphQL :: "transport \<Rightarrow> json" where
  "getWooCommerceCollectionsGraphQL tr =
     nodes_list convertGraphQLCategoryToWooCommerce ''productCategories'' (tr GET_CATEGORIES_QUERY (JObj [(''first'', JNum 20)]))"

definition getWooCommerceCollectionGraphQL :: "transport \<Rightarrow> string \<Rightarrow> json option" where
  "getWooCommerceCollectionGraphQL tr handle =
     single_of convertGraphQLCategoryToWooCommerce ''productCategory'' (tr GET_CATEGORY_BY_SLUG_QUERY (JObj [(''slug'', JStr handle)]))"

definition searchWooCommerceProductsGraphQL :: "transport \<Rightarrow> string \<Rightarrow> json" where
  "searchWooCommerceProductsGraphQL tr q =
     nodes_list convertGraphQLProductToWooCommerce ''products''
       (tr SEARCH_PRODUCTS_QUERY (JObj [(''search'', JStr q), (''first'', JNum 20)]))"

definition getWooCommerceFeaturedProductsGraphQL :: "transport \<Rightarrow> json" where
  "getWooCommerceFeaturedProductsGraphQL tr =
     nodes_list convertGraphQLProductToWooCommerce ''products'' (tr GET_FEATURED_PRODUCTS_QUERY (JObj [(''first'', JNum 3)]))"

text \<open>\<open>arr.slice(0, 3)\<close> and \<open>arr.length === 0\<close> on the arrays the calls return.\<close>

definition js_slice3 :: "json \<Rightarrow> json" where
  "js_slice3 v = (case v of JArr xs \<Rightarrow> JArr (take 3 xs) | _ \<Rightarrow> v)"

definition getWooCommerceHomepageProductsGraphQL :: "transport \<Rightarrow> json" where
  "getWooCommerceHomepageProductsGraphQL tr =
     (let featured = getWooCommerceFeaturedProductsGraphQL tr in
      if featured = JArr []
      then js_slice3 (getWooCommerceProductsGraphQL tr
             \<lparr>ip_per_page = Some 3, ip_page = None, ip_category = None, ip_search = None, ip_featured = None\<rparr>)
      else js_slice3 featured)"


subsection \<open>parseInt and the decimal text of integers\<close>

lemma digits_of_nat_ne': "digits_of_nat n \<noteq> []"
  by (subst digits_of_nat.simps) simp

lemma digit_value_dec: "k < 10 \<Longrightarrow> digit_value 10 (''0123456789'' ! k) = Some k"
  by (auto simp: digit_value_def less_Suc_eq numeral_eq_Suc)

lemma digits_of_nat_digits: "c \<in> set (digits_of_nat n) \<Longrightarrow> digit_value 10 c \<noteq> None"
proof (induction n rule: digits_of_nat.induct)
  case (1 n)
  have "digit_value 10 (''0123456789'' ! (n mod 10)) \<noteq> None"
    using digit_value_dec[of "n mod 10"] by simp
  with 1 show ?case
    using digit_value_dec[of n]
    by (cases "n < 10") (auto simp: digits_of_nat.simps[of n] simp del: digits_of_nat.simps)
qed

lemma digits_of_nat_hd: "\<exists>k<10. hd (digits_of_nat n) = ''0123456789'' ! k"
proof (induction n rule: digits_of_nat.induct)
  case (1 n)
  then show ?case
    by (cases "n < 10") (auto simp: digits_of_nat.simps[of n] digits_of_nat_ne' simp del: digits_of_nat.simps)
qed

lemma digits_of_nat_value: "digits_value 10 (digits_of_nat n) = n"
proof (induction n rule: digits_of_nat.induct)
  case (1 n)
  show ?case
  proof (cases "n < 10")
    case True
    then show ?thesis by (simp add: digits_of_nat.simps[of n] digits_value_def digit_value_dec)
  next
    case False
    then have "digits_value 10 (digits_of_nat (n div 10)) = n div 10" using "1.IH" by simp
    then show ?thesis
      using False by (simp add: digits_of_nat.simps[of n] digits_value_def digit_value_dec)
  qed
qed


lemma digits_of_nat_no_letter:
  assumes "c \<in> set (take 2 (digits_of_nat m))"
  shows "c \<noteq> CHR ''x'' \<and> c \<noteq> CHR ''X''"
proof -
  have "digit_value 10 c \<noteq> None"
    using digits_of_nat_digits[of c m] assms by (meson in_set_takeD)
  then show ?thesis by (auto simp: digit_value_def)
qed

lemma digits_of_nat_not_hex: "take 2 (digits_of_nat m) \<noteq> ''0x'' \<and> take 2 (digits_of_nat m) \<noteq> ''0X''"
  using digits_of_nat_no_letter[of "CHR ''x''" m] digits_of_nat_no_letter[of "CHR ''X''" m] by auto

lemma digits_of_nat_takeWhile:
  "takeWhile (\<lambda>c. digit_value 10 c \<noteq> None) (digits_of_nat m) = digits_of_nat m"
  by (rule takeWhile_eq_all_conv[THEN iffD2]) (use digits_of_nat_digits in blast)

theorem parseInt_show_int: "parseInt (show_int n) = Some n"
proof (cases "n < 0")
  case True
  then show ?thesis
    using digits_of_nat_not_hex[of "nat (- n)"]
    by (simp add: show_int_def parseInt_def is_space_def digits_of_nat_takeWhile digits_of_nat_value digits_of_nat_ne'
             del: not_None_eq)
next
  case False
  obtain c r where D: "digits_of_nat (nat n) = c # r"
    using digits_of_nat_ne' by (meson neq_Nil_conv)
  obtain k where k: "k < 10" "c = ''0123456789'' ! k"
    using digits_of_nat_hd[of "nat n"] D by auto
  have c: "c \<in> set ''0123456789''" unfolding k(2) by (rule nth_mem) (use k(1) in simp)
  have hex: "take 2 (c # r) \<noteq> ''0x'' \<and> take 2 (c # r) \<noteq> ''0X''"
    using digits_of_nat_not_hex[of "nat n"] D by simp
  have tw: "takeWhile (\<lambda>c. digit_value 10 c \<noteq> None) (c # r) = c # r"
    using digits_of_nat_takeWhile[of "nat n"] D by simp
  have v: "digits_value 10 (c # r) = nat n"
    using digits_of_nat_value[of "nat n"] D by simp
  have s: "show_int n = c # r" using False D by (simp add: show_int_def)
  from c show ?thesis
    unfolding s parseInt_def using hex tw v False
    by (simp only: set_simps insert_iff empty_iff)
       (elim disjE; simp add: is_space_def del: not_None_eq)
qed

text \<open>parseInt inverts the decimal printing of integers: a databaseId read back through parseInt, as a number or as its decimal text, is the same integer.\<close>

theorem js_parseInt_roundtrip: "js_parseInt (Some (JNum n)) = JNum n \<and> js_parseInt (Some (JStr (show_int n))) = JNum n"
  by (simp add: js_parseInt_def parseInt_show_int)

text \<open>WPGraphQL global ids are base64 text, so \<open>parseInt\<close> of an attribute, review or category id gives NaN, which serialises to null.\<close>

lemma relay_id_parses_to_null: "js_parseInt (Some (JStr ''cHJvZHVjdDox'')) = JNull"
  by (simp add: js_parseInt_def parseInt_def is_space_def digit_value_def)

subsection \<open>Properties of the facade\<close>

lemma map_throw_Inl: "x \<in> set xs \<Longrightarrow> f x = Inl e0 \<Longrightarrow> \<exists>e. map_throw f xs = Inl e"
  by (induction xs) (auto split: sum.split)

lemma category_without_parent:
  "js_field c ''parent'' = None \<or> js_field c ''parent'' = Some JNull \<Longrightarrow>
   \<exists>e. convertGraphQLCategoryToWooCommerce c = Inl e"
  by (auto simp: convertGraphQLCategoryToWooCommerce_def sbind_def deref_def get_member_def split: sum.split)

text \<open>C31. getWooCommerceCollectionsGraphQL returns no category at all as soon as one category in the answer has no parent or a null parent: the converter reads parent.node without optional chaining, the TypeError aborts the map, and the catch returns the empty list.\<close>

theorem collections_drop_top_level:
  assumes "tr GET_CATEGORIES_QUERY (JObj [(''first'', JNum 20)])
             = Inr (JObj [(''productCategories'', JObj [(''nodes'', JArr cs)])])"
    and "c \<in> set cs" "js_field c ''parent'' = None \<or> js_field c ''parent'' = Some JNull"
  shows "getWooCommerceCollectionsGraphQL tr = JArr []"
proof -
  obtain e0 where e0: "convertGraphQLCategoryToWooCommerce c = Inl e0"
    using category_without_parent[OF assms(3)] by blast
  obtain e where "map_throw convertGraphQLCategoryToWooCommerce cs = Inl e"
    using map_throw_Inl[of c cs convertGraphQLCategoryToWooCommerce e0, OF assms(2) e0] by blast
  then show ?thesis
    using assms(1) by (simp add: getWooCommerceCollectionsGraphQL_def nodes_list_def sbind_def get_member_def js_field_def)
qed

theorem collections_drop_top_level_witness:
  "getWooCommerceCollectionsGraphQL (\<lambda>q v. Inr (JObj [(''productCategories'', JObj [(''nodes'',
      JArr [JObj [(''databaseId'', JNum 1), (''name'', JStr ''Shoes''), (''parent'', JNull)]])])])) = JArr []"
  using collections_drop_top_level[of "\<lambda>q v. Inr (JObj [(''productCategories'', JObj [(''nodes'',
      JArr [JObj [(''databaseId'', JNum 1), (''name'', JStr ''Shoes''), (''parent'', JNull)]])])])"
      "[JObj [(''databaseId'', JNum 1), (''name'', JStr ''Shoes''), (''parent'', JNull)]]"
      "JObj [(''databaseId'', JNum 1), (''name'', JStr ''Shoes''), (''parent'', JNull)]"]
  by (simp add: js_field_def)

lemma nodes_list_JArr: "\<exists>xs. nodes_list conv k res = JArr xs"
  by (auto simp: nodes_list_def split: sum.split option.split json.split)

text \<open>getWooCommerceHomepageProductsGraphQL always returns an array of at most three products, from the featured list or the fallback listing.\<close>

theorem homepage_at_most_three:
  "\<exists>xs. getWooCommerceHomepageProductsGraphQL tr = JArr xs \<and> length xs \<le> 3"
proof -
  obtain fs where f: "getWooCommerceFeaturedProductsGraphQL tr = JArr fs"
    unfolding getWooCommerceFeaturedProductsGraphQL_def using nodes_list_JArr by blast
  obtain ps where p: "getWooCommerceProductsGraphQL tr
      \<lparr>ip_per_page = Some 3, ip_page = None, ip_category = None, ip_search = None, ip_featured = None\<rparr> = JArr ps"
    unfolding getWooCommerceProductsGraphQL_def using nodes_list_JArr by blast
  show ?thesis
    by (simp add: getWooCommerceHomepageProductsGraphQL_def f p js_slice3_def Let_def)
qed

end
