(* ===== verification/Field_Optimizer.thy ===== *)
theory Field_Optimizer
  imports Prelude
begin

text \<open>
  \<open>GraphQLFieldOptimizer\<close> of \<open>src/lib/graphql/field-optimizer.ts\<close>.  The optimiser
  rewrites a query text with \<open>query.replace(/(\{[^}]*\})/g, ...)\<close>: every match, an
  opening brace up to the first closing brace after it, becomes a fixed selection
  set.  The optimised client disables it; the lemmas show why: a nested selection set
  loses its closing braces.
\<close>

datatype device = Mobile | Desktop
datatype connection = Slow | Fast

record query_context =
  qc_page :: "string option"
  qc_component :: "string option"
  qc_device :: "device option"
  qc_connection :: "connection option"

text \<open>The global replacement: at a \<open>{\<close> with a \<open>}\<close> somewhere after it the match runs
  to the first \<open>}\<close>; elsewhere the character is kept and the scan moves on.\<close>

function replace_sets :: "string \<Rightarrow> string \<Rightarrow> string" where
  "replace_sets r [] = []"
| "replace_sets r (c # s) =
     (if c = CHR ''{'' \<and> CHR ''}'' \<in> set s
      then r @ replace_sets r (drop 1 (dropWhile (\<lambda>x. x \<noteq> CHR ''}'') s))
      else c # replace_sets r s)"
  by pat_completeness auto
termination
  by (relation "measure (\<lambda>(r, s). length s)")
    (simp_all add: less_Suc_eq_le, meson diff_le_self dual_order.trans length_dropWhile_le)

definition replaceFields :: "string \<Rightarrow> string list \<Rightarrow> string" where
  "replaceFields query flds =
     replace_sets (''{'' @ NL @ ''    '' @ join_with (NL @ ''    '') flds @ NL @ ''  }'') query"

definition minimal_fields :: "string list" where
  "minimal_fields = [''id'', ''name'', ''slug'', ''price'', ''image { sourceUrl altText }'']"

definition product_fields :: "string list" where
  "product_fields = [''id'', ''name'', ''slug'', ''description'', ''price'', ''regularPrice'',
     ''salePrice'', ''onSale'', ''stockStatus'', ''images { sourceUrl altText }'', ''categories { name slug }'']"

definition grid_fields :: "string list" where
  "grid_fields = [''id'', ''name'', ''slug'', ''price'', ''onSale'', ''image { sourceUrl altText }'', ''categories { name }'']"

definition selectMinimalFields :: "string \<Rightarrow> string" where
  "selectMinimalFields q = replaceFields q minimal_fields"

definition selectProductFields :: "string \<Rightarrow> string" where
  "selectProductFields q = replaceFields q product_fields"

definition selectGridFields :: "string \<Rightarrow> string" where
  "selectGridFields q = replaceFields q grid_fields"

definition selectDefaultFields :: "string \<Rightarrow> string" where
  "selectDefaultFields q = replaceFields q minimal_fields"

definition optimizeQuery :: "string \<Rightarrow> query_context \<Rightarrow> string" where
  "optimizeQuery q ctx =
     (if qc_device ctx = Some Mobile \<or> qc_connection ctx = Some Slow then selectMinimalFields q
      else if qc_page ctx = Some ''product'' then selectProductFields q
      else if qc_component ctx = Some ''product-grid'' then selectGridFields q
      else selectDefaultFields q)"

definition getFieldSelection :: "query_context \<Rightarrow> string list" where
  "getFieldSelection ctx =
     (if qc_device ctx = Some Mobile \<or> qc_connection ctx = Some Slow then minimal_fields
      else if qc_page ctx = Some ''product'' then product_fields
      else if qc_component ctx = Some ''product-grid'' then grid_fields
      else minimal_fields)"

definition getFieldStats :: "query_context \<Rightarrow> nat \<times> nat \<times> string" where
  "getFieldStats ctx =
     (let n = length (getFieldSelection ctx) in
      (n, n * 50,
       if qc_device ctx = Some Mobile then ''minimal''
       else if qc_page ctx = Some ''product'' then ''full''
       else if qc_component ctx = Some ''product-grid'' then ''grid'' else ''default''))"

text \<open>Opening minus closing braces.\<close>

definition brace_balance :: "string \<Rightarrow> int" where
  "brace_balance s = int (count_list s (CHR ''{'')) - int (count_list s (CHR ''}''))"

subsection \<open>Lemmas\<close>

lemma brace_balance_simps [simp]:
  "brace_balance [] = 0"
  "brace_balance (xs @ ys) = brace_balance xs + brace_balance ys"
  "brace_balance (c # s) = (if c = CHR ''{'' then 1 else if c = CHR ''}'' then -1 else 0) + brace_balance s"
  by (simp_all add: brace_balance_def)

lemma brace_balance_no_close: "CHR ''}'' \<notin> set u \<Longrightarrow> 0 \<le> brace_balance u"
  by (induction u) auto

text \<open>A match holds one closing brace and at least one opening brace; replacing it by a
  balanced text never raises the balance.\<close>

lemma replace_sets_balance:
  assumes "brace_balance r = 0"
  shows "brace_balance (replace_sets r s) \<le> brace_balance s"
  using assms
proof (induction r s rule: replace_sets.induct)
  case (1 r) then show ?case by simp
next
  case (2 r c s)
  show ?case
  proof (cases "c = CHR ''{'' \<and> CHR ''}'' \<in> set s")
    case True
    then obtain u w where s: "s = u @ CHR ''}'' # w" "CHR ''}'' \<notin> set u"
      using split_list_first[of "CHR ''}''" s] by blast
    have "dropWhile (\<lambda>x. x \<noteq> CHR ''}'') s = CHR ''}'' # w"
      using s(2) unfolding s(1) by (subst dropWhile_append2) auto
    then have d: "drop 1 (dropWhile (\<lambda>x. x \<noteq> CHR ''}'') s) = w" by simp
    have "brace_balance (replace_sets r w) \<le> brace_balance w" using "2.IH"(1) "2.prems" True d by simp
    then show ?thesis
      using True s d "2.prems" brace_balance_no_close[OF s(2)] by simp
  next
    case False
    then show ?thesis using "2.IH"(2) "2.prems" by auto
  qed
qed

lemma replace_sets_prefix: "CHR ''{'' \<notin> set p \<Longrightarrow> replace_sets r (p @ s) = p @ replace_sets r s"
  by (induction p) auto

lemma replace_sets_nested:
  assumes "brace_balance r = 0" "CHR ''}'' \<notin> set a" "CHR ''}'' \<in> set b"
  shows "brace_balance (replace_sets r (CHR ''{'' # a @ CHR ''{'' # b)) < brace_balance (CHR ''{'' # a @ CHR ''{'' # b)"
proof -
  obtain b1 w where b: "b = b1 @ CHR ''}'' # w" "CHR ''}'' \<notin> set b1"
    using split_list_first[OF assms(3)] by blast
  have "dropWhile (\<lambda>x. x \<noteq> CHR ''}'') (a @ CHR ''{'' # b) = CHR ''}'' # w"
    using assms(2) b(2) unfolding b(1) by (subst dropWhile_append2, auto)+
  then have "replace_sets r (CHR ''{'' # a @ CHR ''{'' # b) = r @ replace_sets r w"
    using b by simp
  moreover have "brace_balance (replace_sets r w) \<le> brace_balance w" by (rule replace_sets_balance[OF assms(1)])
  ultimately show ?thesis
    using assms(1) b brace_balance_no_close[OF assms(2)] brace_balance_no_close[OF b(2)] by simp
qed

lemma replacement_balanced:
  "brace_balance (''{'' @ NL @ ''    '' @ join_with (NL @ ''    '') minimal_fields @ NL @ ''  }'') = 0"
  "brace_balance (''{'' @ NL @ ''    '' @ join_with (NL @ ''    '') product_fields @ NL @ ''  }'') = 0"
  "brace_balance (''{'' @ NL @ ''    '' @ join_with (NL @ ''    '') grid_fields @ NL @ ''  }'') = 0"
  by (simp_all add: NL_def minimal_fields_def product_fields_def grid_fields_def)

lemma optimizeQuery_cases:
  "optimizeQuery q ctx \<in> {replaceFields q minimal_fields, replaceFields q product_fields, replaceFields q grid_fields}"
  by (simp add: optimizeQuery_def selectMinimalFields_def selectProductFields_def selectGridFields_def
      selectDefaultFields_def)

text \<open>C32. optimizeQuery corrupts nested selection sets: on a query with a selection set
  nested inside another, the rewritten text has strictly fewer opening than closing braces
  left in excess, whatever the context, because each match ends at the inner closing brace
  and the outer one is left over.\<close>

theorem optimizeQuery_nested_unbalanced:
  assumes "CHR ''{'' \<notin> set p" "CHR ''}'' \<notin> set a" "CHR ''}'' \<in> set b"
  shows "brace_balance (optimizeQuery (p @ CHR ''{'' # a @ CHR ''{'' # b) ctx)
           < brace_balance (p @ CHR ''{'' # a @ CHR ''{'' # b)"
proof -
  let ?X = "CHR ''{'' # a @ CHR ''{'' # b"
  have step: "brace_balance (replaceFields (p @ ?X) fs) < brace_balance (p @ ?X)"
    if "brace_balance (''{'' @ NL @ ''    '' @ join_with (NL @ ''    '') fs @ NL @ ''  }'') = 0" for fs
  proof -
    have "replaceFields (p @ ?X) fs = p @ replace_sets (''{'' @ NL @ ''    '' @ join_with (NL @ ''    '') fs @ NL @ ''  }'') ?X"
      unfolding replaceFields_def by (rule replace_sets_prefix[OF assms(1)])
    moreover have "brace_balance (replace_sets (''{'' @ NL @ ''    '' @ join_with (NL @ ''    '') fs @ NL @ ''  }'') ?X)
                     < brace_balance ?X"
      by (rule replace_sets_nested[OF that assms(2,3)])
    ultimately show ?thesis by (simp only: brace_balance_simps(2))
  qed
  show ?thesis using optimizeQuery_cases[of "p @ ?X" ctx] step[OF replacement_balanced(1)] step[OF replacement_balanced(2)]
      step[OF replacement_balanced(3)] by auto
qed

theorem optimizeQuery_nested_unbalanced_witness:
  "brace_balance (optimizeQuery (''query '' @ CHR ''{'' # '' products '' @ CHR ''{'' # '' id } }'')
                    \<lparr>qc_page = None, qc_component = None, qc_device = None, qc_connection = None\<rparr>)
   < brace_balance (''query '' @ CHR ''{'' # '' products '' @ CHR ''{'' # '' id } }'')"
  using optimizeQuery_nested_unbalanced[of "''query ''" "'' products ''" "'' id } }''"
          "\<lparr>qc_page = None, qc_component = None, qc_device = None, qc_connection = None\<rparr>"]
  by simp

text \<open>On a slow connection the product page gets the minimal selection, but
  \<open>getFieldStats\<close> reports it as the full one.\<close>

lemma getFieldStats_slow_product:
  "getFieldSelection \<lparr>qc_page = Some ''product'', qc_component = None, qc_device = Some Desktop, qc_connection = Some Slow\<rparr>
     = minimal_fields
   \<and> getFieldStats \<lparr>qc_page = Some ''product'', qc_component = None, qc_device = Some Desktop, qc_connection = Some Slow\<rparr>
     = (5, 250, ''full'')"
  by (simp add: getFieldSelection_def getFieldStats_def minimal_fields_def)

end
