(* ===== verification/Woo_Rest.thy ===== *)
theory Woo_Rest
  imports Enhanced_Client
begin

text \<open>
  The REST layer of \<open>WooCommerceAPI\<close> in \<open>src/lib/woocommerce.ts\<close> and the storefront
  functions of \<open>src/lib/woocommerce/index.ts\<close> built on it.  \<open>fetch\<close> is the
  environment: a request (URL, method, body) is answered by a response or rejected with
  an error message.  A response carries its status, status text, body text, content
  type and the result of \<open>response.json()\<close> (an error message when the body is not
  JSON).  Every thrown \<open>Error\<close> is its message, \<open>Inl\<close>; the \<open>'use cache'\<close>
  directives of Next.js are not modelled.
\<close>

subsection \<open>Requests\<close>

record http_request =
  rq_url :: string
  rq_method :: string
  rq_body :: "string option"

record http_response =
  hr_status :: nat
  hr_statusText :: string
  hr_text :: string
  hr_contentType :: "string option"
  hr_json :: "string + json"

type_synonym http = "http_request \<Rightarrow> string + http_response"

definition resp_ok :: "http_response \<Rightarrow> bool" where
  "resp_ok r \<longleftrightarrow> 200 \<le> hr_status r \<and> hr_status r \<le> 299"

definition requestWordPress :: "http \<Rightarrow> string \<Rightarrow> string \<Rightarrow> string \<Rightarrow> string option \<Rightarrow> string + json" where
  "requestWordPress fetch store ep meth body =
     (case fetch \<lparr>rq_url = store @ ''/wp-json'' @ ep, rq_method = meth, rq_body = body\<rparr> of
        Inl e \<Rightarrow> Inl e
      | Inr r \<Rightarrow>
          if \<not> resp_ok r
          then Inl (''WordPress API Error: '' @ show_int (int (hr_status r)) @ '' '' @ hr_statusText r @ '' - '' @ hr_text r)
          else hr_json r)"

definition AUTH_FAILED :: string where
  "AUTH_FAILED = ''WooCommerce API Authentication failed. Please check your consumer key and secret.''"

definition NOT_FOUND :: string where
  "NOT_FOUND = ''WooCommerce API endpoint not found. Please verify your store URL and that WooCommerce REST API is enabled.''"

text \<open>\<open>request(endpoint, options)\<close>: WordPress endpoints go to \<open>requestWordPress\<close>, the
  others to \<open>baseUrl = STORE_URL/wp-json/wc/v3\<close>.\<close>

definition wc_request :: "http \<Rightarrow> string \<Rightarrow> string \<Rightarrow> string \<Rightarrow> string option \<Rightarrow> string + json" where
  "wc_request fetch store ep meth body =
     (if starts_with ep ''/wp/v2/'' then requestWordPress fetch store ep meth body
      else (case fetch \<lparr>rq_url = store @ ''/wp-json/wc/v3'' @ ep, rq_method = meth, rq_body = body\<rparr> of
        Inl e \<Rightarrow> Inl e
      | Inr r \<Rightarrow>
          if \<not> resp_ok r then
            (if hr_status r = 401 then Inl AUTH_FAILED
             else if hr_status r = 404 then Inl NOT_FOUND
             else Inl (''WooCommerce API Error: '' @ show_int (int (hr_status r)) @ '' '' @ hr_statusText r @ '' - '' @ hr_text r))
          else (let ct = (case hr_contentType r of Some c \<Rightarrow> c | None \<Rightarrow> [])
                in if \<not> str_includes ct ''application/json''
                   then Inl (''WooCommerce API returned '' @ ct @
                             '' instead of JSON. This usually means the order doesn't exist or access is denied.'')
                   else hr_json r)))"

abbreviation wc_get :: "http \<Rightarrow> string \<Rightarrow> string \<Rightarrow> string + json" where
  "wc_get fetch store ep \<equiv> wc_request fetch store ep ''GET'' None"

subsection \<open>URLSearchParams\<close>

definition hex_digit :: "nat \<Rightarrow> char" where
  "hex_digit n = ''0123456789ABCDEF'' ! n"

text \<open>\<open>application/x-www-form-urlencoded\<close> serialisation of one byte.\<close>

definition form_char :: "char \<Rightarrow> string" where
  "form_char c =
     (let n = of_char c :: nat in
      if (48 \<le> n \<and> n \<le> 57) \<or> (65 \<le> n \<and> n \<le> 90) \<or> (97 \<le> n \<and> n \<le> 122) \<or> c \<in> set ''*-._'' then [c]
      else if c = CHR '' '' then ''+''
      else [CHR ''%'', hex_digit (n div 16), hex_digit (n mod 16)])"

definition form_encode :: "string \<Rightarrow> string" where
  "form_encode s = concat (map form_char s)"

text \<open>\<open>params.set(k, v)\<close>: the first entry for \<open>k\<close> takes the value and the others
  go; a new key is appended.\<close>

fun usp_set_first :: "(string \<times> string) list \<Rightarrow> string \<Rightarrow> string \<Rightarrow> (string \<times> string) list" where
  "usp_set_first [] k v = []"
| "usp_set_first ((k', v') # ps) k v =
     (if k' = k then (k, v) # filter (\<lambda>p. fst p \<noteq> k) ps else (k', v') # usp_set_first ps k v)"

definition usp_set :: "(string \<times> string) list \<Rightarrow> string \<Rightarrow> string \<Rightarrow> (string \<times> string) list" where
  "usp_set ps k v = (if k \<in> set (map fst ps) then usp_set_first ps k v else ps @ [(k, v)])"

definition usp_toString :: "(string \<times> string) list \<Rightarrow> string" where
  "usp_toString ps = join_with ''&'' (map (\<lambda>(k, v). form_encode k @ ''='' @ form_encode v) ps)"

text \<open>An options object: its members in insertion order, \<open>None\<close> for a member present
  with the value \<open>undefined\<close>.  \<open>{...a, ...b}\<close> assigns member by member.\<close>

type_synonym params = "(string \<times> json option) list"

definition obj_spread :: "params \<Rightarrow> params \<Rightarrow> params" where
  "obj_spread a b = foldl (\<lambda>acc (k, v). AList.update k v acc) a b"

text \<open>\<open>new URLSearchParams(record)\<close>: every member, \<open>String(v)\<close> of its value.\<close>

definition usp_of_record :: "params \<Rightarrow> (string \<times> string) list" where
  "usp_of_record ps = map (\<lambda>(k, v). (k, tmpl v)) ps"

text \<open>\<open>Object.entries(params).forEach(([k, v]) => { if (v !== undefined) sp.f(k, String(v)) })\<close>.\<close>

definition usp_each_defined ::
  "((string \<times> string) list \<Rightarrow> string \<Rightarrow> string \<Rightarrow> (string \<times> string) list) \<Rightarrow> params \<Rightarrow>
   (string \<times> string) list \<Rightarrow> (string \<times> string) list" where
  "usp_each_defined f ps sp =
     foldl (\<lambda>acc (k, v). case v of None \<Rightarrow> acc | Some x \<Rightarrow> f acc k (js_string x)) sp ps"

definition usp_append :: "(string \<times> string) list \<Rightarrow> string \<Rightarrow> string \<Rightarrow> (string \<times> string) list" where
  "usp_append ps k v = ps @ [(k, v)]"

text \<open>The abstract contract of that loop: the defined members of \<open>params\<close> as text, in order.\<close>

definition defined_params :: "params \<Rightarrow> (string \<times> string) list" where
  "defined_params ps = concat (map (\<lambda>(k, v). case v of None \<Rightarrow> [] | Some x \<Rightarrow> [(k, js_string x)]) ps)"

subsection \<open>The REST getters\<close>

text \<open>A JSON answer that must be an array, or the error the method throws.\<close>

definition expect_array :: "string \<Rightarrow> string + json \<Rightarrow> string + json list" where
  "expect_array msg r = (case r of Inl e \<Rightarrow> Inl e | Inr (JArr xs) \<Rightarrow> Inr xs | Inr _ \<Rightarrow> Inl msg)"

definition first_or_null :: "json list \<Rightarrow> json option" where
  "first_or_null xs = (if xs = [] then None else Some (hd xs))"

definition testConnection :: "http \<Rightarrow> string \<Rightarrow> bool \<times> string" where
  "testConnection fetch store =
     (case wc_get fetch store ''/products?per_page=1'' of
        Inr _ \<Rightarrow> (True, ''Successfully connected to WooCommerce API'')
      | Inl m \<Rightarrow> (False, m))"

definition wc_getProducts :: "http \<Rightarrow> string \<Rightarrow> params \<Rightarrow> string + json list" where
  "wc_getProducts fetch store ps =
     expect_array ''Expected array of products from API''
       (wc_get fetch store (''/products?'' @ usp_toString (usp_each_defined usp_append ps [])))"

definition getProduct :: "http \<Rightarrow> string \<Rightarrow> string \<Rightarrow> string + json option" where
  "getProduct fetch store slug =
     map_sum id first_or_null
       (expect_array ''Expected array for product search'' (wc_get fetch store (''/products?slug='' @ slug)))"

text \<open>A \<open>catch\<close> that turns a not-found error into \<open>null\<close> and rethrows the others.\<close>

definition null_if :: "(string \<Rightarrow> bool) \<Rightarrow> string + json \<Rightarrow> string + json option" where
  "null_if nf r = (case r of Inr v \<Rightarrow> Inr (Some v) | Inl m \<Rightarrow> if nf m then Inr None else Inl m)"

definition getProductById :: "http \<Rightarrow> string \<Rightarrow> int \<Rightarrow> string + json option" where
  "getProductById fetch store i =
     null_if (\<lambda>m. str_includes m ''404'' \<or> str_includes m ''endpoint not found'')
       (wc_get fetch store (''/products/'' @ show_int i))"

text \<open>\<open>new URLSearchParams({per_page: "20", hide_empty: "true", ...params})\<close>, then
  \<open>set\<close> for every defined member.\<close>

definition categories_params :: "params \<Rightarrow> (string \<times> string) list" where
  "categories_params ps =
     usp_each_defined usp_set ps
       (usp_of_record (obj_spread [(''per_page'', Some (JStr ''20'')), (''hide_empty'', Some (JStr ''true''))] ps))"

definition getCategories :: "http \<Rightarrow> string \<Rightarrow> params \<Rightarrow> string + json list" where
  "getCategories fetch store ps =
     expect_array ''Expected array of categories from API''
       (wc_get fetch store (''/products/categories?'' @ usp_toString (categories_params ps)))"

definition getCategoryBySlug :: "http \<Rightarrow> string \<Rightarrow> string \<Rightarrow> string + json option" where
  "getCategoryBySlug fetch store slug =
     map_sum id first_or_null
       (expect_array ''Expected array for category search''
          (wc_get fetch store (''/products/categories?slug='' @ slug @ ''&per_page=1'')))"

text \<open>\<open>createOrder\<close> posts \<open>JSON.stringify(orderData)\<close>, given here as its text.\<close>

definition createOrder :: "http \<Rightarrow> string \<Rightarrow> string \<Rightarrow> string + json" where
  "createOrder fetch store body = wc_request fetch store ''/orders'' ''POST'' (Some body)"

definition getOrder :: "http \<Rightarrow> string \<Rightarrow> int \<Rightarrow> string + json option" where
  "getOrder fetch store oid =
     null_if (\<lambda>m. str_includes m ''404'') (wc_get fetch store (''/orders/'' @ show_int oid))"

record orders_query =
  oq_per_page :: "int option"
  oq_page :: "int option"
  oq_status :: "string option"
  oq_order :: "string option"
  oq_orderby :: "string option"

text \<open>\<open>x || d\<close> on an optional string.\<close>

definition str_or :: "string option \<Rightarrow> string \<Rightarrow> string" where
  "str_or x d = (case x of Some s \<Rightarrow> if s \<noteq> [] then s else d | None \<Rightarrow> d)"

text \<open>\<open>getCustomerOrders\<close>: logging \<open>orders.length\<close> throws on a \<open>null\<close> answer.\<close>

definition getCustomerOrders :: "http \<Rightarrow> string \<Rightarrow> int \<Rightarrow> orders_query \<Rightarrow> string + json" where
  "getCustomerOrders fetch store cid q =
     (let sp = [(''customer'', show_int cid), (''per_page'', show_int (or_default (oq_per_page q) 20)),
                (''page'', show_int (or_default (oq_page q) 1)), (''order'', str_or (oq_order q) ''desc''),
                (''orderby'', str_or (oq_orderby q) ''date'')]
               @ (case oq_status q of Some s \<Rightarrow> if s \<noteq> [] then [(''status'', s)] else [] | None \<Rightarrow> [])
      in case wc_get fetch store (''/orders?'' @ usp_toString sp) of
           Inl e \<Rightarrow> Inl e
         | Inr v \<Rightarrow> if v = JNull then Inl ''TypeError'' else Inr v)"

definition ORDER_STATUSES :: "string list" where
  "ORDER_STATUSES = [''pending'', ''processing'', ''on-hold'', ''completed'', ''cancelled'', ''refunded'', ''failed'']"

text \<open>\<open>getCustomerOrderCounts\<close>: the counts in the order the object is built; a
  \<open>filter\<close> on an answer that is not an array, or \<open>order.status\<close> of a \<open>null\<close> order,
  throws and gives \<open>{ all: 0 }\<close>.\<close>

definition getCustomerOrderCounts :: "http \<Rightarrow> string \<Rightarrow> int \<Rightarrow> (string \<times> int) list" where
  "getCustomerOrderCounts fetch store cid =
     (case getCustomerOrders fetch store cid
             \<lparr>oq_per_page = Some 100, oq_page = None, oq_status = None, oq_order = None, oq_orderby = None\<rparr> of
        Inr (JArr os) \<Rightarrow>
          if JNull \<in> set os then [(''all'', 0)]
          else (let counts = map (\<lambda>s. (s, int (length (filter (\<lambda>od. js_field od ''status'' = Some (JStr s)) os)))) ORDER_STATUSES;
                    completed = int (length (filter (\<lambda>od. js_field od ''status'' = Some (JStr ''completed'')) os))
                in (''all'', int (length os)) # counts @ [(''review'', completed)])
      | _ \<Rightarrow> [(''all'', 0)])"

definition getProductReviews :: "http \<Rightarrow> string \<Rightarrow> int \<Rightarrow> int option \<Rightarrow> int option \<Rightarrow> string option \<Rightarrow> string + json list" where
  "getProductReviews fetch store pid per_page page status =
     (let sp0 = [(''product'', show_int pid), (''per_page'', show_int (or_default per_page 10))];
          sp1 = (case page of Some p \<Rightarrow> usp_set sp0 ''page'' (show_int p) | None \<Rightarrow> sp0);
          sp2 = (case status of Some s \<Rightarrow> usp_set sp1 ''status'' s | None \<Rightarrow> sp1)
      in expect_array ''Expected array of reviews from API''
           (wc_get fetch store (''/products/reviews?'' @ usp_toString sp2)))"

definition getCoupons :: "http \<Rightarrow> string \<Rightarrow> int option \<Rightarrow> params \<Rightarrow> string + json list" where
  "getCoupons fetch store per_page ps =
     expect_array ''Expected array of coupons from API''
       (wc_get fetch store (''/coupons?'' @
          usp_toString (usp_each_defined usp_set ps [(''per_page'', show_int (or_default per_page 10))])))"

definition getPaymentMethods :: "http \<Rightarrow> string \<Rightarrow> string + json list" where
  "getPaymentMethods fetch store =
     (case expect_array ''Expected array of payment methods from API'' (wc_get fetch store ''/payment_gateways'') of
        Inl e \<Rightarrow> Inl e
      | Inr ms \<Rightarrow> if JNull \<in> set ms then Inl ''TypeError''
                 else Inr (filter (\<lambda>m. case js_field m ''enabled'' of Some v \<Rightarrow> truthy v | None \<Rightarrow> False) ms))"

definition getProductVariations :: "http \<Rightarrow> string \<Rightarrow> json option \<Rightarrow> json list" where
  "getProductVariations fetch store pid =
     (case expect_array ''Expected array of variations from API''
             (wc_get fetch store (''/products/'' @ tmpl pid @ ''/variations'')) of
        Inl _ \<Rightarrow> [] | Inr vs \<Rightarrow> vs)"

definition getProductVariation :: "http \<Rightarrow> string \<Rightarrow> int \<Rightarrow> int \<Rightarrow> string + json option" where
  "getProductVariation fetch store pid vid =
     null_if (\<lambda>m. str_includes m ''404'')
       (wc_get fetch store (''/products/'' @ show_int pid @ ''/variations/'' @ show_int vid))"

definition getGroupedProductChildren :: "http \<Rightarrow> string \<Rightarrow> int list \<Rightarrow> json list" where
  "getGroupedProductChildren fetch store ids =
     (if ids = [] then []
      else (case expect_array ''Expected array of child products from API''
                   (wc_get fetch store (''/products?include='' @ join_with '','' (map show_int ids)
                                        @ ''&per_page='' @ show_int (int (length ids)))) of
              Inl _ \<Rightarrow> [] | Inr ps \<Rightarrow> ps))"

subsection \<open>The storefront functions of \<open>woocommerce/index.ts\<close>\<close>

definition list_or_empty :: "string + json list \<Rightarrow> json list" where
  "list_or_empty r = (case r of Inl _ \<Rightarrow> [] | Inr xs \<Rightarrow> xs)"

definition getWooCommerceProducts :: "http \<Rightarrow> string \<Rightarrow> params \<Rightarrow> json list" where
  "getWooCommerceProducts fetch store ps = list_or_empty (wc_getProducts fetch store ps)"

text \<open>\<open>wcProduct.variations.length > 0\<close> on the member as it comes.\<close>

definition has_variations :: "json \<Rightarrow> bool" where
  "has_variations p =
     (case js_field p ''variations'' of
        Some (JArr vs) \<Rightarrow> vs \<noteq> []
      | Some (JStr s) \<Rightarrow> s \<noteq> []
      | _ \<Rightarrow> False)"

text \<open>\<open>(wcProduct as any).productVariations = variations\<close>.\<close>

definition set_member :: "json \<Rightarrow> string \<Rightarrow> json \<Rightarrow> json" where
  "set_member v k x = (case v of JObj fs \<Rightarrow> JObj (AList.update k x fs) | _ \<Rightarrow> v)"

definition getWooCommerceProduct :: "http \<Rightarrow> string \<Rightarrow> string \<Rightarrow> json option" where
  "getWooCommerceProduct fetch store handle =
     (case getProduct fetch store handle of
        Inl _ \<Rightarrow> None
      | Inr None \<Rightarrow> None
      | Inr (Some p) \<Rightarrow>
          if \<not> truthy p then None
          else if js_field p ''type'' = Some (JStr ''variable'') \<and> has_variations p
          then Some (set_member p ''productVariations'' (JArr (getProductVariations fetch store (js_field p ''id''))))
          else Some p)"

definition getWooCommerceProductsByCategory :: "http \<Rightarrow> string \<Rightarrow> string \<Rightarrow> json list" where
  "getWooCommerceProductsByCategory fetch store slug =
     list_or_empty (wc_getProducts fetch store [(''category'', Some (JStr slug))])"

definition getWooCommerceCollections :: "http \<Rightarrow> string \<Rightarrow> json list" where
  "getWooCommerceCollections fetch store = list_or_empty (getCategories fetch store [])"

definition getWooCommerceCollection :: "http \<Rightarrow> string \<Rightarrow> string \<Rightarrow> json option" where
  "getWooCommerceCollection fetch store handle =
     (case getCategoryBySlug fetch store handle of
        Inr (Some c) \<Rightarrow> if truthy c then Some c else None
      | _ \<Rightarrow> None)"

definition searchWooCommerceProducts :: "http \<Rightarrow> string \<Rightarrow> string \<Rightarrow> json list" where
  "searchWooCommerceProducts fetch store q = list_or_empty (wc_getProducts fetch store [(''search'', Some (JStr q))])"

definition getWooCommerceFeaturedProducts :: "http \<Rightarrow> string \<Rightarrow> json list" where
  "getWooCommerceFeaturedProducts fetch store =
     list_or_empty (wc_getProducts fetch store [(''featured'', Some (JBool True))])"

definition testWooCommerceConnection :: "http \<Rightarrow> string \<Rightarrow> bool \<times> string" where
  "testWooCommerceConnection fetch store = testConnection fetch store"

definition getWooCommerceHomepageProducts :: "http \<Rightarrow> string \<Rightarrow> json list" where
  "getWooCommerceHomepageProducts fetch store =
     (case wc_getProducts fetch store [(''featured'', Some (JBool True)), (''per_page'', Some (JNum 3))] of
        Inl _ \<Rightarrow> []
      | Inr fs \<Rightarrow> if fs \<noteq> [] then fs
                 else list_or_empty (wc_getProducts fetch store [(''per_page'', Some (JNum 3))]))"


subsection \<open>Properties\<close>

lemma map_of_filter_other: "k \<noteq> k' \<Longrightarrow> map_of (filter (\<lambda>p. fst p \<noteq> k') ps) k = map_of ps k"
  by (induction ps) auto

lemma map_of_usp_set_first:
  "k \<in> set (map fst ps) \<Longrightarrow> map_of (usp_set_first ps k v) = (map_of ps)(k \<mapsto> v)"
proof (induction ps)
  case (Cons p ps)
  obtain k' v' where p: "p = (k', v')" by (cases p)
  show ?case
  proof (cases "k' = k")
    case True
    then show ?thesis using p by (auto simp: fun_eq_iff map_of_filter_other)
  next
    case False
    then show ?thesis using p Cons by (auto simp: fun_eq_iff)
  qed
qed simp

text \<open>URLSearchParams.set refines the update of a finite map: read through map_of, setting a key in the parameter list is the map updated at that key, whether the key was absent, present once or present several times.\<close>

lemma usp_set_refines_update: "map_of (usp_set ps k v) = (map_of ps)(k \<mapsto> v)"
proof (cases "k \<in> set (map fst ps)")
  case True
  then show ?thesis by (simp add: usp_set_def map_of_usp_set_first)
next
  case False
  then have "map_of ps k = None" by (simp add: map_of_eq_None_iff)
  with False show ?thesis
    by (auto simp: usp_set_def map_of_append fun_eq_iff map_add_def split: option.split)
qed

lemma usp_set_other: "k \<noteq> k' \<Longrightarrow> map_of (usp_set ps k' v) k = map_of ps k"
  by (simp add: usp_set_refines_update)

text \<open>C24. The loop over Object.entries(params) refines the update of the parameter map by
  the defined members: read through map_of, the parameters after the loop are the initial
  ones overridden by every member whose value is not undefined, the later member winning,
  and no undefined member is set.\<close>

theorem usp_each_defined_refines:
  "map_of (usp_each_defined usp_set ps sp) = map_of sp ++ map_of (rev (defined_params ps))"
proof (induction ps arbitrary: sp)
  case Nil
  then show ?case by (simp add: usp_each_defined_def defined_params_def)
next
  case (Cons p ps)
  obtain k v where p: "p = (k, v)" by (cases p)
  show ?case
  proof (cases v)
    case None
    then show ?thesis using Cons[of sp] p by (simp add: usp_each_defined_def defined_params_def)
  next
    case (Some x)
    have "map_of (usp_each_defined usp_set (p # ps) sp) = map_of (usp_each_defined usp_set ps (usp_set sp k (js_string x)))"
      using p Some by (simp add: usp_each_defined_def)
    also have "\<dots> = map_of sp ++ map_of (rev (defined_params (p # ps)))"
      using Cons[of "usp_set sp k (js_string x)"] p Some
      by (auto simp: usp_set_refines_update defined_params_def map_of_append fun_eq_iff map_add_def split: option.split)
    finally show ?thesis .
  qed
qed

lemma usp_each_defined_other:
  "(\<And>x. (k, Some x) \<notin> set ps) \<Longrightarrow> map_of (usp_each_defined usp_set ps sp) k = map_of sp k"
proof (induction ps arbitrary: sp)
  case (Cons p ps)
  obtain k' v' where p: "p = (k', v')" by (cases p)
  have "map_of (case v' of None \<Rightarrow> sp | Some x \<Rightarrow> usp_set sp k' (js_string x)) k = map_of sp k"
  proof (cases v')
    case (Some a)
    then have "k \<noteq> k'" using Cons.prems[of a] p by auto
    then show ?thesis using Some by (simp add: usp_set_other)
  qed simp
  then show ?case
    using Cons p by (simp add: usp_each_defined_def)
qed (simp add: usp_each_defined_def)

lemma map_of_obj_spread:
  "distinct (map fst b) \<Longrightarrow> map_of (obj_spread a b) = map_of a ++ map_of b"
proof (induction b arbitrary: a)
  case (Cons p b)
  obtain k v where p: "p = (k, v)" by (cases p)
  have "map_of (obj_spread (AList.update k v a) b) = map_of (AList.update k v a) ++ map_of b"
    using Cons by simp
  moreover have "k \<notin> dom (map_of b)" using Cons.prems p by (auto simp: dom_map_of_conv_image_fst)
  ultimately show ?case
    using p by (auto simp: obj_spread_def update_conv' fun_eq_iff map_add_def split: option.split)
qed (simp add: obj_spread_def)

text \<open>C25. getCategories sends the text undefined for a parameter passed with the value undefined, even for per_page: the spread into the URLSearchParams record keeps the member, and the loop that sets the defined members skips it instead of removing it.\<close>

theorem categories_undefined_param:
  assumes "distinct (map fst ps)" "map_of ps k = Some None"
  shows "map_of (categories_params ps) k = Some ''undefined''"
proof -
  have "(k, Some x) \<notin> set ps" for x
    using assms map_of_is_SomeI by fastforce
  then have "map_of (categories_params ps) k
      = map_of (usp_of_record (obj_spread [(''per_page'', Some (JStr ''20'')), (''hide_empty'', Some (JStr ''true''))] ps)) k"
    unfolding categories_params_def by (rule usp_each_defined_other)
  also have "\<dots> = Some ''undefined''"
    using assms by (simp add: usp_of_record_def map_of_map map_of_obj_spread map_add_def tmpl_def)
  finally show ?thesis .
qed

text \<open>C26. A 404 answer makes getOrder and getProductVariation throw instead of returning null, because request turns the status into a message without the text 404; getProductById, which also looks for endpoint not found, returns null.\<close>

theorem not_found_order_throws:
  assumes "hr_status r = 404"
  shows "getOrder (\<lambda>_. Inr r) store oid = Inl NOT_FOUND
       \<and> getProductVariation (\<lambda>_. Inr r) store pid vid = Inl NOT_FOUND
       \<and> getProductById (\<lambda>_. Inr r) store pid = Inr None"
  using assms
  by (simp add: getOrder_def getProductVariation_def getProductById_def null_if_def wc_request_def
                resp_ok_def NOT_FOUND_def)

theorem categories_undefined_param_witness:
  "map_of (categories_params [(''per_page'', None), (''parent'', Some (JNum 0))]) ''per_page'' = Some ''undefined''"
  using categories_undefined_param[of "[(''per_page'', None), (''parent'', Some (JNum 0))]" "''per_page''"]
  by simp

theorem not_found_order_throws_witness:
  "getOrder (\<lambda>_. Inr \<lparr>hr_status = 404, hr_statusText = ''Not Found'', hr_text = [], hr_contentType = None,
                      hr_json = Inl ''SyntaxError''\<rparr>) ''https://shop.example'' 7 = Inl NOT_FOUND
   \<and> getProductVariation (\<lambda>_. Inr \<lparr>hr_status = 404, hr_statusText = ''Not Found'', hr_text = [], hr_contentType = None,
                      hr_json = Inl ''SyntaxError''\<rparr>) ''https://shop.example'' 3 4 = Inl NOT_FOUND
   \<and> getProductById (\<lambda>_. Inr \<lparr>hr_status = 404, hr_statusText = ''Not Found'', hr_text = [], hr_contentType = None,
                      hr_json = Inl ''SyntaxError''\<rparr>) ''https://shop.example'' 3 = Inr None"
  using not_found_order_throws[of "\<lparr>hr_status = 404, hr_statusText = ''Not Found'', hr_text = [], hr_contentType = None,
                      hr_json = Inl ''SyntaxError''\<rparr>" "''https://shop.example''" 7 3 4]
  by simp


end
