(* ===== verification/Woo_Commerce.thy ===== *)
theory Woo_Commerce
  imports Complex_Main Woo_Rest
begin

text \<open>
  The business rules of the WooCommerce REST client \<open>WooCommerceAPI\<close> of
  \<open>src/lib/woocommerce.ts\<close>: coupon validation and applicability, the product sales
  count with its paginated order scan and its cache, and the shipping methods with
  their free-shipping rule and fallbacks.  HTTP is the environment: a request is
  answered by parsed JSON or a thrown error message.  JavaScript numbers are
  rationals, with \<open>None\<close> for \<open>NaN\<close> where the code can produce it; \<open>parseFloat\<close> reads
  the decimal forms (sign, digits, fraction, exponent) but not \<open>Infinity\<close>.
\<close>

type_synonym jsnum = "rat option"

subsection \<open>Numbers\<close>

definition dec_digit :: "char \<Rightarrow> nat option" where
  "dec_digit c = (let n = of_char c :: nat in if 48 \<le> n \<and> n \<le> 57 then Some (n - 48) else None)"

definition dec_value :: "string \<Rightarrow> nat" where
  "dec_value ds = foldl (\<lambda>acc c. acc * 10 + (case dec_digit c of Some d \<Rightarrow> d | None \<Rightarrow> 0)) 0 ds"

definition is_dec :: "char \<Rightarrow> bool" where
  "is_dec c \<longleftrightarrow> dec_digit c \<noteq> None"

text \<open>The exponent part \<open>[eE][+-]?digits\<close>, if present: its value and the rest.\<close>

definition exponent_of :: "string \<Rightarrow> int" where
  "exponent_of s =
     (case s of
        e # r \<Rightarrow> if e = CHR ''e'' \<or> e = CHR ''E'' then
          (let (sg, r2) = (case r of CHR ''-'' # t \<Rightarrow> (-1 :: int, t) | CHR ''+'' # t \<Rightarrow> (1, t) | _ \<Rightarrow> (1, r));
               ds = takeWhile is_dec r2
           in if ds = [] then 0 else sg * int (dec_value ds))
          else 0
      | [] \<Rightarrow> 0)"

definition parseFloat :: "string \<Rightarrow> jsnum" where
  "parseFloat s =
     (let s1 = dropWhile is_space s;
          (sg, s2) = (case s1 of CHR ''-'' # r \<Rightarrow> (-1 :: rat, r) | CHR ''+'' # r \<Rightarrow> (1, r) | _ \<Rightarrow> (1, s1));
          ip = takeWhile is_dec s2;
          s3 = dropWhile is_dec s2;
          (fp, s4) = (case s3 of CHR ''.'' # r \<Rightarrow> (takeWhile is_dec r, dropWhile is_dec r) | _ \<Rightarrow> ([], s3))
      in if ip = [] \<and> fp = [] then None
         else Some (sg * (of_nat (dec_value ip) + of_nat (dec_value fp) / 10 ^ length fp)
                    * (if 0 \<le> exponent_of s4 then 10 ^ nat (exponent_of s4) else 1 / 10 ^ nat (- exponent_of s4))))"

text \<open>Comparisons with \<open>NaN\<close> are false.\<close>

definition num_lt :: "jsnum \<Rightarrow> jsnum \<Rightarrow> bool" where
  "num_lt a b = (case (a, b) of (Some x, Some y) \<Rightarrow> x < y | _ \<Rightarrow> False)"

definition num_le :: "jsnum \<Rightarrow> jsnum \<Rightarrow> bool" where
  "num_le a b = (case (a, b) of (Some x, Some y) \<Rightarrow> x \<le> y | _ \<Rightarrow> False)"

subsection \<open>Coupons\<close>

datatype discount_type = Percent | Fixed_cart | Fixed_product

record coupon =
  cp_id :: int
  cp_code :: string
  cp_amount :: string
  cp_discount_type :: discount_type
  cp_description :: string
  cp_date_expires :: "string option"
  cp_usage_count :: int
  cp_product_ids :: "int list"
  cp_excluded_product_ids :: "int list"
  cp_usage_limit :: "int option"
  cp_minimum_amount :: string
  cp_maximum_amount :: string

record coupon_check =
  cc_valid :: bool
  cc_message :: string
  cc_discount :: "jsnum option"
  cc_description :: "string option"

text \<open>\<open>coupon.date_expires && new Date(coupon.date_expires) < new Date()\<close>: the date
  parser is the environment's, \<open>None\<close> an invalid date.\<close>

definition expired :: "(string \<Rightarrow> time option) \<Rightarrow> time \<Rightarrow> coupon \<Rightarrow> bool" where
  "expired parse_date now c =
     (case cp_date_expires c of None \<Rightarrow> False
      | Some d \<Rightarrow> d \<noteq> [] \<and> (case parse_date d of Some t \<Rightarrow> t < now | None \<Rightarrow> False))"

definition product_ok :: "coupon \<Rightarrow> int \<Rightarrow> bool" where
  "product_ok c pid =
     (if pid \<in> set (cp_excluded_product_ids c) then False
      else if cp_product_ids c \<noteq> [] then pid \<in> set (cp_product_ids c) else True)"

definition getProductApplicableCoupons ::
  "(string \<Rightarrow> time option) \<Rightarrow> time \<Rightarrow> int \<Rightarrow> coupon list \<Rightarrow> coupon list" where
  "getProductApplicableCoupons parse_date now pid cs =
     filter (\<lambda>c. \<not> expired parse_date now c \<and> product_ok c pid) cs"

definition reject :: "string \<Rightarrow> coupon \<Rightarrow> coupon_check" where
  "reject m c = \<lparr>cc_valid = False, cc_message = m, cc_discount = None, cc_description = Some (cp_description c)\<rparr>"

definition coupon_discount :: "coupon \<Rightarrow> rat \<Rightarrow> jsnum" where
  "coupon_discount c cart_total =
     (case cp_discount_type c of
        Percent \<Rightarrow> map_option (\<lambda>a. cart_total * a / 100) (parseFloat (cp_amount c))
      | Fixed_cart \<Rightarrow> parseFloat (cp_amount c)
      | Fixed_product \<Rightarrow> Some 0)"

text \<open>\<open>validateCoupon\<close>, after \<open>getCoupons({ code })\<close> answered \<open>found\<close>: the checks in the
  code's order, each an early return.\<close>

definition validateCoupon ::
  "(string \<Rightarrow> time option) \<Rightarrow> time \<Rightarrow> string + coupon list \<Rightarrow> int list \<Rightarrow> rat \<Rightarrow> coupon_check" where
  "validateCoupon parse_date now found pids cart_total =
     (case found of
        Inl _ \<Rightarrow> \<lparr>cc_valid = False, cc_message = ''Error validating coupon'', cc_discount = None, cc_description = None\<rparr>
      | Inr [] \<Rightarrow> \<lparr>cc_valid = False, cc_message = ''Coupon not found'', cc_discount = None, cc_description = None\<rparr>
      | Inr (c # _) \<Rightarrow>
          if expired parse_date now c then reject ''Coupon has expired'' c
          else if (case cp_usage_limit c of Some l \<Rightarrow> l \<noteq> 0 \<and> cp_usage_count c \<ge> l | None \<Rightarrow> False)
          then reject ''Coupon usage limit reached'' c
          else if cp_minimum_amount c \<noteq> [] \<and> num_lt (Some 0) (parseFloat (cp_minimum_amount c))
                  \<and> num_lt (Some cart_total) (parseFloat (cp_minimum_amount c))
          then reject (''Minimum order amount of $'' @ cp_minimum_amount c @ '' required'') c
          else if cp_maximum_amount c \<noteq> [] \<and> cp_maximum_amount c \<noteq> ''0'' \<and> cp_maximum_amount c \<noteq> ''0.00''
                  \<and> num_lt (Some 0) (parseFloat (cp_maximum_amount c))
                  \<and> num_lt (parseFloat (cp_maximum_amount c)) (Some cart_total)
          then reject (''Maximum order amount of $'' @ cp_maximum_amount c @ '' exceeded'') c
          else if \<not> list_ex (product_ok c) pids then reject ''Coupon not applicable to cart items'' c
          else if num_le (coupon_discount c cart_total) (Some 0)
          then (reject ''Coupon provides no discount for current cart'' c)\<lparr>cc_discount := Some (Some 0)\<rparr>
          else \<lparr>cc_valid = True, cc_message = ''Coupon is valid'',
                 cc_discount = Some (map_option (\<lambda>d. min d cart_total) (coupon_discount c cart_total)),
                 cc_description = Some (cp_description c)\<rparr>)"

subsection \<open>Product sales\<close>

record sales_entry =
  se_totalSold :: int
  se_timestamp :: time
  se_ttl :: int

type_synonym sales_cache = "int \<Rightarrow> sales_entry option"

definition CACHE_TTL :: int where "CACHE_TTL = 30 * 60 * 1000"
definition MAX_ORDERS_PER_REQUEST :: nat where "MAX_ORDERS_PER_REQUEST = 50"
definition MAX_TOTAL_ORDERS :: nat where "MAX_TOTAL_ORDERS = 500"

text \<open>A page of orders is requested by its number; \<open>Inl\<close> is a thrown error.\<close>

type_synonym order_pages = "nat \<Rightarrow> string + json"

text \<open>\<open>item.quantity || 0\<close> on the API's integer quantities; reading a member of a
  \<open>null\<close> order or item throws.\<close>

definition item_quantity :: "json \<Rightarrow> int" where
  "item_quantity it = (case js_field it ''quantity'' of Some (JNum n) \<Rightarrow> n | _ \<Rightarrow> 0)"

definition item_sold :: "int \<Rightarrow> json \<Rightarrow> string + int" where
  "item_sold pid it =
     (if it = JNull then Inl ''TypeError''
      else Inr (if js_field it ''product_id'' = Some (JNum pid) then item_quantity it else 0))"

definition order_sold :: "int \<Rightarrow> json \<Rightarrow> string + int" where
  "order_sold pid order =
     (if order = JNull then Inl ''TypeError''
      else (case js_field order ''line_items'' of
              Some (JArr items) \<Rightarrow> map_sum id sum_list (map_throw (item_sold pid) items)
            | _ \<Rightarrow> Inr 0))"

text \<open>The \<open>while\<close> loop of \<open>getProductSales\<close> from page \<open>page\<close>, with \<open>processed\<close> orders
  seen and \<open>sold\<close> counted: the sold count, the orders processed and the number of
  pages requested.  Each page that does not end the loop holds at least one order, so
  \<open>MAX_TOTAL_ORDERS - processed\<close> decreases.\<close>

function sales_loop :: "int \<Rightarrow> order_pages \<Rightarrow> nat \<Rightarrow> nat \<Rightarrow> int \<Rightarrow> string + (int \<times> nat \<times> nat)" where
  "sales_loop pid fetch page processed sold =
     (if processed < MAX_TOTAL_ORDERS then
        (case fetch page of
           Inl e \<Rightarrow> Inl e
         | Inr (JArr os) \<Rightarrow>
             if os = [] then Inr (sold, processed, page)
             else (case map_throw (order_sold pid) os of
                     Inl e \<Rightarrow> Inl e
                   | Inr qs \<Rightarrow>
                       if length os < MAX_ORDERS_PER_REQUEST
                       then Inr (sold + sum_list qs, processed + length os, page)
                       else sales_loop pid fetch (Suc page) (processed + length os) (sold + sum_list qs))
         | Inr _ \<Rightarrow> Inr (sold, processed, page))
      else Inr (sold, processed, page - 1))"
  by pat_completeness auto
termination
  by (relation "measure (\<lambda>(pid, fetch, page, processed, sold). MAX_TOTAL_ORDERS - processed)") (auto simp: MAX_TOTAL_ORDERS_def length_greater_0_conv[symmetric] simp del: length_greater_0_conv)

declare sales_loop.simps [simp del]

definition sales_cleanupCache :: "time \<Rightarrow> sales_cache \<Rightarrow> sales_cache" where
  "sales_cleanupCache now c =
     (\<lambda>k. case c k of None \<Rightarrow> None | Some e \<Rightarrow> if now - se_timestamp e > se_ttl e then None else Some e)"

text \<open>\<open>getProductSales\<close>: \<open>now\<close> is the reading before the cache lookup, \<open>now'\<close> the one
  after the scan; any thrown error gives \<open>0\<close> and leaves the cache.\<close>

definition getProductSales :: "int \<Rightarrow> order_pages \<Rightarrow> time \<Rightarrow> time \<Rightarrow> sales_cache \<Rightarrow> int \<times> sales_cache" where
  "getProductSales pid fetch now now' c =
     (case c pid of
        Some e \<Rightarrow> if now - se_timestamp e < se_ttl e then (se_totalSold e, c) else
          (case sales_loop pid fetch 1 0 0 of
             Inl _ \<Rightarrow> (0, c)
           | Inr (sold, _, _) \<Rightarrow>
               (sold, sales_cleanupCache now' (c(pid \<mapsto> \<lparr>se_totalSold = sold, se_timestamp = now', se_ttl = CACHE_TTL\<rparr>))))
      | None \<Rightarrow>
          (case sales_loop pid fetch 1 0 0 of
             Inl _ \<Rightarrow> (0, c)
           | Inr (sold, _, _) \<Rightarrow>
               (sold, sales_cleanupCache now' (c(pid \<mapsto> \<lparr>se_totalSold = sold, se_timestamp = now', se_ttl = CACHE_TTL\<rparr>)))))"

text \<open>\<open>clearSalesCache(productId?)\<close>: \<open>if (productId)\<close> treats \<open>0\<close> like no argument.\<close>

definition clearSalesCache :: "int option \<Rightarrow> sales_cache \<Rightarrow> sales_cache" where
  "clearSalesCache p c = (case p of Some i \<Rightarrow> if i \<noteq> 0 then c(i := None) else Map.empty | None \<Rightarrow> Map.empty)"

subsection \<open>Shipping methods\<close>

record shipping_method =
  sm_id :: "json option"
  sm_title :: "json option"
  sm_description :: json
  sm_cost :: rat
  sm_estimatedDays :: string
  sm_available :: bool

text \<open>The REST API: a path answered by parsed JSON or a thrown error.\<close>

type_synonym shipping_api = "string \<Rightarrow> string + json"

text \<open>\<open>a?.k\<close> along a path of members: \<open>undefined\<close> as soon as a link is \<open>null\<close> or
  missing.\<close>

fun opt_path :: "json \<Rightarrow> string list \<Rightarrow> json option" where
  "opt_path v [] = Some v"
| "opt_path v (k # ks) = (if v = JNull then None else case js_field v k of None \<Rightarrow> None | Some w \<Rightarrow> opt_path w ks)"

definition opt_truthy :: "json option \<Rightarrow> bool" where
  "opt_truthy v = (case v of Some w \<Rightarrow> truthy w | None \<Rightarrow> False)"

text \<open>\<open>Number.parseFloat(v)\<close> of a setting: a string is parsed, a number is itself,
  anything else prints to a text that is not a number.\<close>

definition setting_num :: "json option \<Rightarrow> jsnum" where
  "setting_num v = (case v of Some (JStr s) \<Rightarrow> parseFloat s | Some (JNum n) \<Rightarrow> Some (of_int n) | _ \<Rightarrow> None)"

definition estimated_days :: "json option \<Rightarrow> string" where
  "estimated_days mid =
     (if mid = Some (JStr ''flat_rate'') then ''3-5 business days''
      else if mid = Some (JStr ''free_shipping'') then ''5-7 business days''
      else if mid = Some (JStr ''local_pickup'') then ''Same day''
      else ''3-5 business days'')"

text \<open>\<open>x || y\<close> on optional JSON values.\<close>

definition or_json :: "json option \<Rightarrow> json option \<Rightarrow> json option" where
  "or_json x y = (if opt_truthy x then x else y)"

text \<open>The entry pushed for an enabled method, at cart total \<open>cart\<close>.\<close>

definition method_entry :: "rat \<Rightarrow> json \<Rightarrow> shipping_method" where
  "method_entry cart m =
     (let mid = js_field m ''method_id'';
          cost0 = (if opt_truthy (opt_path m [''settings'', ''cost'', ''value''])
                   then (case setting_num (opt_path m [''settings'', ''cost'', ''value'']) of
                           Some q \<Rightarrow> q | None \<Rightarrow> 0)
                   else 0);
          minAmount = (if opt_truthy (opt_path m [''settings'', ''min_amount'', ''value''])
                       then setting_num (opt_path m [''settings'', ''min_amount'', ''value''])
                       else Some 0);
          cost = (if mid = Some (JStr ''free_shipping'')
                  then (if num_le minAmount (Some cart) then 0 else cost0) else cost0);
          inst = (case opt_path m [''instance_id''] of
                    None \<Rightarrow> None | Some JNull \<Rightarrow> None | Some v \<Rightarrow> Some (JStr (js_string v)))
      in \<lparr>sm_id = or_json inst mid,
          sm_title = or_json (js_field m ''title'') (js_field m ''method_title''),
          sm_description = (case or_json (opt_path m [''settings'', ''description'', ''value''])
                                   (js_field m ''method_description'') of
                              Some v \<Rightarrow> if truthy v then v else JStr [] | None \<Rightarrow> JStr []),
          sm_cost = cost, sm_estimatedDays = estimated_days mid, sm_available = True\<rparr>)"

text \<open>The inner \<open>for\<close> over a zone's methods: \<open>method.enabled\<close> on a \<open>null\<close> method
  throws, the zone's \<open>catch\<close> continues with the next zone, and what was pushed
  before stays pushed.\<close>

fun zone_methods :: "rat \<Rightarrow> json list \<Rightarrow> shipping_method list" where
  "zone_methods cart [] = []"
| "zone_methods cart (m # ms) =
     (if m = JNull then []
      else (if opt_truthy (js_field m ''enabled'') then [method_entry cart m] else []) @ zone_methods cart ms)"

text \<open>The outer \<open>for\<close> over the zones.  For a \<open>null\<close> zone the template literal
  \<open>zone.id\<close> throws inside the \<open>try\<close>, and the \<open>catch\<close> block reads \<open>zone.id\<close> again, so
  the error leaves the loop.\<close>

fun zones_loop :: "shipping_api \<Rightarrow> rat \<Rightarrow> json list \<Rightarrow> shipping_method list \<Rightarrow> string + shipping_method list" where
  "zones_loop api cart [] acc = Inr acc"
| "zones_loop api cart (z # zs) acc =
     (if z = JNull then Inl ''TypeError''
      else (let path = ''/shipping/zones/'' @ (case js_field z ''id'' of Some v \<Rightarrow> js_string v | None \<Rightarrow> ''undefined'') @ ''/methods''
            in case api path of
                 Inr (JArr ms) \<Rightarrow> zones_loop api cart zs (acc @ zone_methods cart ms)
               | _ \<Rightarrow> zones_loop api cart zs acc))"

definition standard_shipping :: "rat \<Rightarrow> shipping_method" where
  "standard_shipping cart =
     \<lparr>sm_id = Some (JStr ''standard''), sm_title = Some (JStr ''Standard Shipping''),
      sm_description = JStr ''Regular delivery service'', sm_cost = (if cart > 100 then 0 else 50),
      sm_estimatedDays = ''3-5 business days'', sm_available = True\<rparr>"

definition express_shipping :: shipping_method where
  "express_shipping =
     \<lparr>sm_id = Some (JStr ''express''), sm_title = Some (JStr ''Express Shipping''),
      sm_description = JStr ''Fast delivery service'', sm_cost = 150,
      sm_estimatedDays = ''1-2 business days'', sm_available = True\<rparr>"

definition getShippingMethods :: "shipping_api \<Rightarrow> rat \<Rightarrow> shipping_method list" where
  "getShippingMethods api cart =
     (case api ''/shipping/zones'' of
        Inr (JArr zones) \<Rightarrow>
          (case zones_loop api cart zones [] of
             Inl _ \<Rightarrow> [standard_shipping cart]
           | Inr ms \<Rightarrow> filter sm_available (if ms = [] then [standard_shipping cart, express_shipping] else ms))
      | _ \<Rightarrow> [standard_shipping cart])"

record shipping_check =
  sv_valid :: bool
  sv_message :: "string option"

definition validateShippingMethod :: "shipping_api \<Rightarrow> string \<Rightarrow> rat \<Rightarrow> shipping_check" where
  "validateShippingMethod api mid cart =
     (case find (\<lambda>m. sm_id m = Some (JStr mid)) (getShippingMethods api cart) of
        None \<Rightarrow> \<lparr>sv_valid = False, sv_message = Some ''Shipping method not available for your location or cart contents''\<rparr>
      | Some m \<Rightarrow> if \<not> sm_available m then \<lparr>sv_valid = False, sv_message = Some ''Shipping method is currently unavailable''\<rparr>
                  else \<lparr>sv_valid = True, sv_message = None\<rparr>)"



subsection \<open>Over the REST layer\<close>

text \<open>The order pages \<open>getProductSales\<close> requests: \<open>dateAfter\<close> is the ISO text of the
  date six months back.\<close>

definition sales_pages :: "http \<Rightarrow> string \<Rightarrow> string \<Rightarrow> order_pages" where
  "sales_pages fetch store dateAfter page =
     wc_get fetch store (''/orders?status=completed&per_page='' @ show_int (int MAX_ORDERS_PER_REQUEST)
                         @ ''&page='' @ show_int (int page) @ ''&after='' @ dateAfter)"

definition getProductSales_wc ::
  "http \<Rightarrow> string \<Rightarrow> string \<Rightarrow> int \<Rightarrow> time \<Rightarrow> time \<Rightarrow> sales_cache \<Rightarrow> int \<times> sales_cache" where
  "getProductSales_wc fetch store dateAfter pid now now' c =
     getProductSales pid (sales_pages fetch store dateAfter) now now' c"

definition getShippingMethods_wc :: "http \<Rightarrow> string \<Rightarrow> rat \<Rightarrow> shipping_method list" where
  "getShippingMethods_wc fetch store cart = getShippingMethods (wc_get fetch store) cart"

definition validateShippingMethod_wc :: "http \<Rightarrow> string \<Rightarrow> string \<Rightarrow> rat \<Rightarrow> shipping_check" where
  "validateShippingMethod_wc fetch store mid cart = validateShippingMethod (wc_get fetch store) mid cart"

subsection \<open>Properties\<close>

lemma sales_loop_pages_gen:
  assumes "1 \<le> page" "page \<le> 11" "50 * (page - 1) \<le> processed"
    and "\<And>p. page \<le> p \<Longrightarrow> p \<le> 10 \<Longrightarrow> fetch' p = fetch p"
  shows "sales_loop pid fetch page processed sold = sales_loop pid fetch' page processed sold"
  using assms
proof (induction pid fetch page processed sold rule: sales_loop.induct)
  case (1 pid fetch page processed sold)
  show ?case
  proof (cases "processed < MAX_TOTAL_ORDERS")
    case False
    then show ?thesis by (simp add: sales_loop.simps[of pid fetch] sales_loop.simps[of pid fetch'])
  next
    case True
    then have "page \<le> 10" using "1.prems"(3) by (simp add: MAX_TOTAL_ORDERS_def)
    then have eq: "fetch' page = fetch page" using "1.prems"(4) by simp
    have step: "sales_loop pid fetch (Suc page) (processed + length os) (sold + sum_list qs)
              = sales_loop pid fetch' (Suc page) (processed + length os) (sold + sum_list qs)"
      if "fetch page = Inr (JArr os)" "os \<noteq> []" "map_throw (order_sold pid) os = Inr qs"
         "\<not> length os < MAX_ORDERS_PER_REQUEST" for os qs
      using that True "1.prems" \<open>page \<le> 10\<close>
      by (intro "1.IH") (auto simp: MAX_ORDERS_PER_REQUEST_def)
    show ?thesis
      using True eq step
      by (simp add: sales_loop.simps[of pid fetch] sales_loop.simps[of pid fetch']
               split: sum.split json.split)
  qed
qed

lemma zone_methods_available: "m \<in> set (zone_methods cart ms) \<Longrightarrow> sm_available m"
  by (induction ms) (auto simp: method_entry_def Let_def split: if_splits)

lemma zones_loop_available:
  "zones_loop api cart zs acc = Inr ms \<Longrightarrow> set ms \<subseteq> set acc \<union> Collect sm_available"
proof (induction api cart zs acc rule: zones_loop.induct)
  case (2 api cart z zs acc)
  have "set (zone_methods cart ms') \<subseteq> Collect sm_available" for ms'
    using zone_methods_available by blast
  with 2 show ?case
    by (fastforce simp: Let_def split: if_splits sum.splits json.splits)
qed simp

lemma zones_loop_null: "JNull \<in> set zs \<Longrightarrow> \<exists>e. zones_loop api cart zs acc = Inl e"
  by (induction api cart zs acc rule: zones_loop.induct) (auto simp: Let_def split: sum.splits json.splits)

text \<open>getShippingMethods always offers at least one method: the API list filtered by availability, the two fallbacks when it is empty, the standard fallback on an error.\<close>

theorem getShippingMethods_nonempty: "getShippingMethods api cart \<noteq> []"
proof -
  have "filter sm_available ms = ms" if "zones_loop api cart zs [] = Inr ms" for zs ms
    using zones_loop_available[OF that] by (auto simp: filter_id_conv)
  then show ?thesis
    by (auto simp: getShippingMethods_def standard_shipping_def express_shipping_def
             split: sum.split json.split)
qed

text \<open>C30. A null entry in the zone list makes the zone loop throw out of its catch block (which reads zone.id again), so every method found in other zones is discarded and only the standard fallback is offered.\<close>

theorem getShippingMethods_null_zone:
  assumes "api ''/shipping/zones'' = Inr (JArr zones)" "JNull \<in> set zones"
  shows "getShippingMethods api cart = [standard_shipping cart]"
  using zones_loop_null[OF assms(2), of api cart "[]"] assms(1)
  by (auto simp: getShippingMethods_def)

text \<open>C29. Below its min_amount, an enabled free_shipping method is still offered, as
  available, at its cost setting, and so at cost 0 when it has none, as free shipping
  methods have not: the min_amount test only chooses between 0 and the cost setting and
  never withholds the method.\<close>

theorem free_shipping_below_minimum:
  assumes "js_field m ''method_id'' = Some (JStr ''free_shipping'')" "opt_truthy (js_field m ''enabled'')"
    and "m \<noteq> JNull" "opt_truthy (opt_path m [''settings'', ''min_amount'', ''value''])"
    and "setting_num (opt_path m [''settings'', ''min_amount'', ''value'']) = Some a" "cart < a"
  shows "method_entry cart m \<in> set (zone_methods cart (m # ms)) \<and> sm_available (method_entry cart m)
       \<and> sm_cost (method_entry cart m)
         = (if opt_truthy (opt_path m [''settings'', ''cost'', ''value''])
            then (case setting_num (opt_path m [''settings'', ''cost'', ''value'']) of Some q \<Rightarrow> q | None \<Rightarrow> 0)
            else 0)"
  using assms by (simp add: method_entry_def Let_def num_le_def)

text \<open>C28. validateCoupon never accepts a fixed_product coupon: its computed discount is 0, so the "no discount" check rejects it whatever the cart.\<close>

theorem fixed_product_rejected:
  "cp_discount_type c = Fixed_product \<Longrightarrow> \<not> cc_valid (validateCoupon parse_date now (Inr (c # cs)) pids cart_total)"
  by (simp add: validateCoupon_def reject_def coupon_discount_def num_le_def)

text \<open>C27. The order scan of getProductSales requests at most pages 1 to 10: two order sources that agree on those pages give the same result, so the loop terminates after at most ten requests.\<close>

theorem sales_loop_pages:
  assumes "\<And>p. 1 \<le> p \<Longrightarrow> p \<le> 10 \<Longrightarrow> fetch' p = fetch p"
  shows "sales_loop pid fetch 1 0 0 = sales_loop pid fetch' 1 0 0"
  using sales_loop_pages_gen[of 1 0 fetch' fetch pid 0] assms by simp

lemma cleanupCache_fresh:
  "c k = Some e \<Longrightarrow> \<not> now - se_timestamp e > se_ttl e \<Longrightarrow> sales_cleanupCache now c k = Some e"
  by (simp add: sales_cleanupCache_def)

text \<open>After a successful scan on a cache miss, a second getProductSales for the same product within CACHE_TTL returns the same count from the cache, without reading any order page, and leaves the cache unchanged.\<close>

theorem getProductSales_roundtrip:
  assumes "c pid = None" "sales_loop pid fetch 1 0 0 = Inr (n, p, k)"
    and "now' \<le> now2" "now2 < now' + CACHE_TTL"
  shows "fst (getProductSales pid fetch now now' c) = n
       \<and> getProductSales pid fetch2 now2 now2' (snd (getProductSales pid fetch now now' c))
         = (n, snd (getProductSales pid fetch now now' c))"
proof -
  let ?e = "\<lparr>se_totalSold = n, se_timestamp = now', se_ttl = CACHE_TTL\<rparr>"
  have ttl: "0 < CACHE_TTL" by (simp add: CACHE_TTL_def)
  have first: "getProductSales pid fetch now now' c = (n, sales_cleanupCache now' (c(pid \<mapsto> ?e)))"
    using assms(1,2) by (simp add: getProductSales_def)
  have "sales_cleanupCache now' (c(pid \<mapsto> ?e)) pid = Some ?e"
    using ttl by (intro cleanupCache_fresh) simp_all
  then show ?thesis
    using first assms(3,4) by (simp add: getProductSales_def)
qed

theorem getShippingMethods_null_zone_witness:
  "getShippingMethods (\<lambda>p. if p = ''/shipping/zones'' then Inr (JArr [JObj [(''id'', JNum 1)], JNull])
                            else Inr (JArr [JObj [(''enabled'', JBool True), (''method_id'', JStr ''flat_rate'')]])) 20
   = [standard_shipping 20]"
  using getShippingMethods_null_zone[of "\<lambda>p. if p = ''/shipping/zones'' then Inr (JArr [JObj [(''id'', JNum 1)], JNull])
                            else Inr (JArr [JObj [(''enabled'', JBool True), (''method_id'', JStr ''flat_rate'')]])"
                                        "[JObj [(''id'', JNum 1)], JNull]" 20]
  by simp

theorem free_shipping_below_minimum_witness:
  "method_entry 100 (JObj [(''enabled'', JBool True), (''method_id'', JStr ''free_shipping''),
       (''settings'', JObj [(''min_amount'', JObj [(''value'', JNum 500)])])])
     \<in> set (zone_methods 100 [JObj [(''enabled'', JBool True), (''method_id'', JStr ''free_shipping''),
       (''settings'', JObj [(''min_amount'', JObj [(''value'', JNum 500)])])]])
   \<and> sm_cost (method_entry 100 (JObj [(''enabled'', JBool True), (''method_id'', JStr ''free_shipping''),
       (''settings'', JObj [(''min_amount'', JObj [(''value'', JNum 500)])])])) = 0"
  using free_shipping_below_minimum[of "JObj [(''enabled'', JBool True), (''method_id'', JStr ''free_shipping''),
       (''settings'', JObj [(''min_amount'', JObj [(''value'', JNum 500)])])]" 500 100 "[]"]
  by (simp add: js_field_def opt_truthy_def setting_num_def)

theorem fixed_product_rejected_witness:
  "\<not> cc_valid (validateCoupon (\<lambda>_. None) 0
      (Inr [\<lparr>cp_id = 1, cp_code = ''TENOFF'', cp_amount = ''10'', cp_discount_type = Fixed_product,
             cp_description = [], cp_date_expires = None, cp_usage_count = 0, cp_product_ids = [],
             cp_excluded_product_ids = [], cp_usage_limit = None, cp_minimum_amount = [],
             cp_maximum_amount = []\<rparr>]) [5] 100)"
  using fixed_product_rejected[of "\<lparr>cp_id = 1, cp_code = ''TENOFF'', cp_amount = ''10'', cp_discount_type = Fixed_product,
             cp_description = [], cp_date_expires = None, cp_usage_count = 0, cp_product_ids = [],
             cp_excluded_product_ids = [], cp_usage_limit = None, cp_minimum_amount = [],
             cp_maximum_amount = []\<rparr>" "\<lambda>_. None" 0 "[]" "[5]" 100]
  by simp

theorem sales_loop_pages_witness:
  "sales_loop 7 (\<lambda>p. Inr (JArr (replicate 50 (JObj [])))) 1 0 0
   = sales_loop 7 (\<lambda>p. if p \<le> 10 then Inr (JArr (replicate 50 (JObj []))) else Inl ''unreachable'') 1 0 0"
  using sales_loop_pages[of "\<lambda>p. if p \<le> 10 then Inr (JArr (replicate 50 (JObj []))) else Inl ''unreachable''"
                           "\<lambda>p. Inr (JArr (replicate 50 (JObj [])))" 7]
  by simp

theorem getProductSales_roundtrip_witness:
  "fst (getProductSales 7 (\<lambda>p. Inr (JArr [JObj [(''line_items'', JArr [JObj [(''product_id'', JNum 7), (''quantity'', JNum 3)]])]])) 0 1000 Map.empty) = 3
   \<and> getProductSales 7 (\<lambda>p. Inl ''offline'') 2000 2000
       (snd (getProductSales 7 (\<lambda>p. Inr (JArr [JObj [(''line_items'', JArr [JObj [(''product_id'', JNum 7), (''quantity'', JNum 3)]])]])) 0 1000 Map.empty))
     = (3, snd (getProductSales 7 (\<lambda>p. Inr (JArr [JObj [(''line_items'', JArr [JObj [(''product_id'', JNum 7), (''quantity'', JNum 3)]])]])) 0 1000 Map.empty))"
proof -
  have "sales_loop 7 (\<lambda>p. Inr (JArr [JObj [(''line_items'', JArr [JObj [(''product_id'', JNum 7), (''quantity'', JNum 3)]])]])) 1 0 0 = Inr (3, 1, 1)"
    by (simp add: sales_loop.simps order_sold_def item_sold_def item_quantity_def js_field_def
                  MAX_TOTAL_ORDERS_def MAX_ORDERS_PER_REQUEST_def)
  then show ?thesis
    using getProductSales_roundtrip[of "Map.empty" 7 "\<lambda>p. Inr (JArr [JObj [(''line_items'', JArr [JObj [(''product_id'', JNum 7), (''quantity'', JNum 3)]])]])"
                                      3 1 1 1000 2000 0 "\<lambda>p. Inl ''offline''" 2000]
    by (simp add: CACHE_TTL_def)
qed

end
