(* ===== verification/Woo_Users.thy ===== *)
theory Woo_Users
  imports Woo_Rest Woo_Commerce GraphQL_Facade
begin

text \<open>
  The user accounts of \<open>WooCommerceAPI\<close> (\<open>src/lib/woocommerce.ts\<close>): \<open>authenticateUser\<close>,
  \<open>createUser\<close>, \<open>getUserById\<close> and \<open>validateToken\<close>, over the requests of \<open>Woo_Rest\<close>.
  \<open>Buffer\<close>'s base64 encoding and decoding, \<open>JSON.json_stringify\<close> and the ISO text of the
  current date are the environment's and are parameters; case conversion is on the
  ASCII letters.
\<close>

definition lower_table :: "(char \<times> char) list" where
  "lower_table = zip ''ABCDEFGHIJKLMNOPQRSTUVWXYZ'' ''abcdefghijklmnopqrstuvwxyz''"

definition toLowerCase :: "string \<Rightarrow> string" where
  "toLowerCase s = map (\<lambda>c. case map_of lower_table c of None \<Rightarrow> c | Some l \<Rightarrow> l) s"

text \<open>\<open>encodeURIComponent\<close> of a byte string.\<close>

definition uri_char :: "char \<Rightarrow> string" where
  "uri_char c =
     (let n = of_char c :: nat in
      if (48 \<le> n \<and> n \<le> 57) \<or> (65 \<le> n \<and> n \<le> 90) \<or> (97 \<le> n \<and> n \<le> 122) \<or> c \<in> set ''-_.!~*()'' \<or> n = 39
      then [c] else [CHR ''%'', hex_digit (n div 16), hex_digit (n mod 16)])"

definition encodeURIComponent :: "string \<Rightarrow> string" where
  "encodeURIComponent s = concat (map uri_char s)"

text \<open>\<open>s.split(" ")\<close>.\<close>

fun split_on :: "char \<Rightarrow> string \<Rightarrow> string list" where
  "split_on c [] = [[]]"
| "split_on c (x # xs) = (let r = split_on c xs in if x = c then [] # r else (x # hd r) # tl r)"

text \<open>\<open>Number.parseInt(s, 10)\<close>.\<close>

definition parseInt10 :: "string \<Rightarrow> int option" where
  "parseInt10 s =
     (let s1 = dropWhile is_space s;
          (sg, s2) = (case s1 of CHR ''-'' # r \<Rightarrow> (-1 :: int, r) | CHR ''+'' # r \<Rightarrow> (1, r) | _ \<Rightarrow> (1, s1));
          ds = takeWhile (\<lambda>c. digit_value 10 c \<noteq> None) s2
      in if ds = [] then None else Some (sg * int (digits_value 10 ds)))"

subsection \<open>Finding the user\<close>

text \<open>\<open>list.find(p)\<close> with a test that may throw.\<close>

fun find_throw :: "('a \<Rightarrow> string + bool) \<Rightarrow> 'a list \<Rightarrow> string + 'a option" where
  "find_throw p [] = Inr None"
| "find_throw p (x # xs) = (case p x of Inl e \<Rightarrow> Inl e | Inr True \<Rightarrow> Inr (Some x) | Inr False \<Rightarrow> find_throw p xs)"

text \<open>\<open>v.toLowerCase() === l\<close> on a member: only a string has the method.\<close>

definition lower_eq :: "json \<Rightarrow> string \<Rightarrow> string + bool" where
  "lower_eq v l = (case v of JStr s \<Rightarrow> Inr (toLowerCase s = toLowerCase l) | _ \<Rightarrow> Inl ''TypeError'')"

text \<open>\<open>u.email?.toLowerCase() === login.toLowerCase()\<close>.\<close>

definition wp_email_match :: "string \<Rightarrow> json \<Rightarrow> string + bool" where
  "wp_email_match l u =
     (if u = JNull then Inl ''TypeError''
      else (case js_field u ''email'' of None \<Rightarrow> Inr False | Some JNull \<Rightarrow> Inr False | Some e \<Rightarrow> lower_eq e l))"

text \<open>\<open>c.email.toLowerCase() === l || c.username?.toLowerCase() === l\<close>.\<close>

definition customer_match :: "string \<Rightarrow> json \<Rightarrow> string + bool" where
  "customer_match l c =
     (if c = JNull then Inl ''TypeError''
      else (case lower_eq (case js_field c ''email'' of Some e \<Rightarrow> e | None \<Rightarrow> JNull) l of
              Inl e \<Rightarrow> Inl e
            | Inr True \<Rightarrow> Inr True
            | Inr False \<Rightarrow> (case js_field c ''username'' of None \<Rightarrow> Inr False | Some JNull \<Rightarrow> Inr False
                             | Some n \<Rightarrow> lower_eq n l)))"

text \<open>The three lookups of \<open>authenticateUser\<close>, each in its own \<open>try\<close>: the WordPress
  user whose slug is the login, the WordPress user found by search whose email is the
  login, the WooCommerce customer whose email or username is the login.  \<open>JNull\<close> is
  \<open>null\<close> or \<open>undefined\<close>; an exception leaves \<open>user\<close> as it was.\<close>

definition lookup_user :: "http \<Rightarrow> string \<Rightarrow> string \<Rightarrow> json" where
  "lookup_user fetch store login =
     (let enc = encodeURIComponent login;
          u1 = (case wc_get fetch store (''/wp/v2/users?slug='' @ enc @ ''&per_page=10'') of
                  Inr (JArr (u # _)) \<Rightarrow> u | _ \<Rightarrow> JNull);
          u2 = (if truthy u1 then u1 else
                  (case wc_get fetch store (''/wp/v2/users?search='' @ enc @ ''&per_page=10'') of
                     Inr (JArr (x # xs)) \<Rightarrow>
                       (case find_throw (wp_email_match login) (x # xs) of
                          Inl _ \<Rightarrow> u1 | Inr None \<Rightarrow> JNull | Inr (Some u) \<Rightarrow> u)
                   | _ \<Rightarrow> u1))
      in if truthy u2 then u2 else
           (case wc_get fetch store (''/customers?search='' @ enc @ ''&per_page=1'') of
              Inr (JArr (x # xs)) \<Rightarrow>
                (case find_throw (customer_match login) (x # xs) of
                   Inl _ \<Rightarrow> u2 | Inr None \<Rightarrow> JNull | Inr (Some u) \<Rightarrow> u)
            | _ \<Rightarrow> u2))"

subsection \<open>The user object\<close>

text \<open>\<open>a || b\<close> on members, with a final default.\<close>

definition or3 :: "json option \<Rightarrow> json option \<Rightarrow> json \<Rightarrow> json" where
  "or3 a b d = js_or (or_json a b) d"

text \<open>\<open>v[i]\<close> on a value: an element of an array, a character of a string, a member
  of an object.\<close>

definition js_index :: "json \<Rightarrow> nat \<Rightarrow> json option" where
  "js_index v i =
     (case v of
        JArr xs \<Rightarrow> if i < length xs then Some (xs ! i) else None
      | JStr s \<Rightarrow> if i < length s then Some (JStr [s ! i]) else None
      | JObj fs \<Rightarrow> map_of fs (digits_of_nat i)
      | _ \<Rightarrow> None)"

text \<open>\<open>user.roles?.[0]\<close> and \<open>user.avatar_urls?.["96"]\<close>.\<close>

definition opt_index :: "json \<Rightarrow> string \<Rightarrow> nat \<Rightarrow> json option" where
  "opt_index u k i = (case js_field u k of None \<Rightarrow> None | Some JNull \<Rightarrow> None | Some v \<Rightarrow> js_index v i)"

text \<open>\<open>user.k || user.name?.split(" ")... || ""\<close>: the name is split only when the
  member is falsy, and splitting a name that is not a string throws.\<close>

definition name_field :: "json \<Rightarrow> string \<Rightarrow> (string list \<Rightarrow> string) \<Rightarrow> string + json" where
  "name_field u k f =
     (let from_name =
        (case js_field u ''name'' of
           None \<Rightarrow> Inr (JStr '''') | Some JNull \<Rightarrow> Inr (JStr '''')
         | Some (JStr s) \<Rightarrow> Inr (JStr (f (split_on CHR '' '' s)))
         | Some _ \<Rightarrow> Inl ''TypeError'')
      in if opt_truthy (js_field u k) then Inr (the (js_field u k)) else from_name)"

definition auth_user_json :: "string \<Rightarrow> json \<Rightarrow> json \<Rightarrow> json \<Rightarrow> json" where
  "auth_user_json iso_now u first_name last_name =
     obj [(''id'', js_field u ''id''),
          (''username'', or_json (or_json (js_field u ''username'') (js_field u ''slug'')) (js_field u ''email'')),
          (''email'', Some (js_or (js_field u ''email'') (JStr ''''))),
          (''first_name'', Some first_name), (''last_name'', Some last_name),
          (''role'', Some (or3 (opt_index u ''roles'' 0) (js_field u ''role'') (JStr ''customer''))),
          (''date_created'', Some (or3 (js_field u ''date_created'') (js_field u ''date'') (JStr iso_now))),
          (''date_modified'', Some (or3 (js_field u ''date_modified'') (js_field u ''modified'') (JStr iso_now))),
          (''avatar_url'', Some (or3 (js_field u ''avatar_url'') (opt_index u ''avatar_urls'' 96) (JStr '''')))]"

definition INVALID_LOGIN :: string where
  "INVALID_LOGIN = ''Invalid email or username''"

text \<open>\<open>authenticateUser(login, password)\<close>: \<open>b64\<close> is base64 encoding, \<open>now\<close> the value
  of \<open>Date.now()\<close> and \<open>iso_now\<close> that of \<open>new Date().toISOString()\<close>.  Every error becomes
  \<open>Invalid email or username\<close>.\<close>

definition authenticateUser ::
  "http \<Rightarrow> string \<Rightarrow> (string \<Rightarrow> string) \<Rightarrow> int \<Rightarrow> string \<Rightarrow> string \<Rightarrow> string \<Rightarrow> string + json \<times> string" where
  "authenticateUser fetch store b64 now iso_now login password =
     (let u = lookup_user fetch store login in
      if \<not> truthy u then Inl INVALID_LOGIN
      else if password = [] then Inl INVALID_LOGIN
      else (case (name_field u ''first_name'' hd, name_field u ''last_name'' (\<lambda>ps. join_with '' '' (tl ps))) of
              (Inr fname, Inr lname) \<Rightarrow>
                Inr (auth_user_json iso_now u fname lname,
                     b64 (tmpl (js_field u ''id'') @ '':'' @ tmpl (or_json (js_field u ''email'') (js_field u ''slug''))
                          @ '':'' @ show_int now))
            | _ \<Rightarrow> Inl INVALID_LOGIN))"

subsection \<open>Creating and reading customers\<close>

definition customer_json :: "json \<Rightarrow> json" where
  "customer_json u =
     obj [(''id'', js_field u ''id''),
          (''username'', or_json (js_field u ''username'') (js_field u ''email'')),
          (''email'', js_field u ''email''), (''first_name'', js_field u ''first_name''),
          (''last_name'', js_field u ''last_name''),
          (''role'', Some (js_or (js_field u ''role'') (JStr ''customer''))),
          (''date_created'', js_field u ''date_created''), (''date_modified'', js_field u ''date_modified''),
          (''avatar_url'', Some (js_or (js_field u ''avatar_url'') (JStr '''')))]"

text \<open>\<open>createUser\<close>: \<open>json_stringify\<close> is \<open>JSON.json_stringify\<close>; an error is rethrown as it is.\<close>

definition createUser ::
  "http \<Rightarrow> string \<Rightarrow> (string \<Rightarrow> string) \<Rightarrow> (json \<Rightarrow> string) \<Rightarrow> int \<Rightarrow> string \<Rightarrow> string \<Rightarrow> string \<Rightarrow> string \<Rightarrow>
   string + json \<times> string" where
  "createUser fetch store b64 json_stringify now email password first_name last_name =
     (case wc_get fetch store (''/customers?email='' @ encodeURIComponent email @ ''&per_page=1'') of
        Inl e \<Rightarrow> Inl e
      | Inr (JArr (_ # _)) \<Rightarrow> Inl ''User with this email already exists''
      | Inr _ \<Rightarrow>
          (case wc_request fetch store ''/customers'' ''POST''
                  (Some (json_stringify (JObj [(''email'', JStr email), (''first_name'', JStr first_name), (''last_name'', JStr last_name),
                                          (''username'', JStr email), (''password'', JStr password)]))) of
             Inl e \<Rightarrow> Inl e
           | Inr u \<Rightarrow> if u = JNull then Inl ''TypeError''
                      else Inr (customer_json u, b64 (tmpl (js_field u ''id'') @ '':'' @ show_int now))))"

definition getUserById :: "http \<Rightarrow> string \<Rightarrow> int \<Rightarrow> json option" where
  "getUserById fetch store uid =
     (case wc_get fetch store (''/customers/'' @ show_int uid) of
        Inl _ \<Rightarrow> None
      | Inr u \<Rightarrow> if u = JNull then None else Some (customer_json u))"

text \<open>\<open>validateToken(token)\<close>: \<open>unb64\<close> is base64 decoding; the id is the text before
  the first colon.\<close>

definition validateToken :: "http \<Rightarrow> string \<Rightarrow> (string \<Rightarrow> string) \<Rightarrow> string \<Rightarrow> json option" where
  "validateToken fetch store unb64 token =
     (case parseInt10 (takeWhile (\<lambda>c. c \<noteq> CHR '':'') (unb64 token)) of
        None \<Rightarrow> None
      | Some uid \<Rightarrow> getUserById fetch store uid)"


subsection \<open>Properties\<close>

lemma parseInt10_show_int: "parseInt10 (show_int n) = Some n"
proof (cases "n < 0")
  case True
  then show ?thesis
    by (simp add: show_int_def parseInt10_def is_space_def digits_of_nat_takeWhile digits_of_nat_value
                  digits_of_nat_ne' del: not_None_eq)
next
  case False
  obtain c r where D: "digits_of_nat (nat n) = c # r"
    using digits_of_nat_ne' by (meson neq_Nil_conv)
  obtain k where k: "k < 10" "c = ''0123456789'' ! k"
    using digits_of_nat_hd[of "nat n"] D by auto
  have c: "c \<in> set ''0123456789''" unfolding k(2) by (rule nth_mem) (use k(1) in simp)
  have tw: "takeWhile (\<lambda>c. digit_value 10 c \<noteq> None) (c # r) = c # r"
    using digits_of_nat_takeWhile[of "nat n"] D by simp
  have v: "digits_value 10 (c # r) = nat n"
    using digits_of_nat_value[of "nat n"] D by simp
  have s: "show_int n = c # r" using False D by (simp add: show_int_def)
  from c show ?thesis
    unfolding s parseInt10_def using tw v False
    by (simp only: set_simps insert_iff empty_iff)
       (elim disjE; simp add: is_space_def del: not_None_eq)
qed

lemma show_int_no_colon: "CHR '':'' \<notin> set (show_int n)"
proof -
  have "CHR '':'' \<notin> set (digits_of_nat m)" for m
    using digits_of_nat_digits[of "CHR '':''" m] by (auto simp: digit_value_def)
  then show ?thesis by (simp add: show_int_def)
qed

text \<open>C23. A session token carries no secret: any token whose base64 decoding starts with the decimal id of a customer and a colon is accepted by validateToken as that customer, whatever follows.\<close>

theorem validateToken_forgeable:
  assumes "unb64 token = show_int n @ CHR '':'' # rest"
  shows "validateToken fetch store unb64 token = getUserById fetch store n"
proof -
  have "takeWhile (\<lambda>c. c \<noteq> CHR '':'') (show_int n @ CHR '':'' # rest) = show_int n"
    using show_int_no_colon[of n] by (subst takeWhile_append2) auto
  then show ?thesis
    using assms by (simp add: validateToken_def parseInt10_show_int)
qed

text \<open>C22. authenticateUser never checks the password: for a given login, every non-empty password gives the same result, the user and token of a successful login included.\<close>

theorem authenticateUser_ignores_password:
  "password \<noteq> [] \<Longrightarrow> password' \<noteq> [] \<Longrightarrow>
   authenticateUser fetch store b64 now iso_now login password = authenticateUser fetch store b64 now iso_now login password'"
  by (simp add: authenticateUser_def Let_def)

theorem validateToken_forgeable_witness:
  "validateToken (\<lambda>_. Inl ''offline'') ''https://shop.example'' (\<lambda>s. s) (show_int 5 @ CHR '':'' # ''forged'')
   = getUserById (\<lambda>_. Inl ''offline'') ''https://shop.example'' 5"
  using validateToken_forgeable[of "\<lambda>s. s" "show_int 5 @ CHR '':'' # ''forged''" 5 "''forged''"
                                  "\<lambda>_. Inl ''offline''" "''https://shop.example''"]
  by simp

theorem authenticateUser_ignores_password_witness:
  "authenticateUser (\<lambda>_. Inr \<lparr>hr_status = 200, hr_statusText = ''OK'', hr_text = [],
                                hr_contentType = Some ''application/json'',
                                hr_json = Inr (JArr [JObj [(''id'', JNum 5), (''slug'', JStr ''alice'')]])\<rparr>)
     ''https://shop.example'' (\<lambda>s. s) 0 ''2026-01-01'' ''alice'' ''secret''
   = authenticateUser (\<lambda>_. Inr \<lparr>hr_status = 200, hr_statusText = ''OK'', hr_text = [],
                                hr_contentType = Some ''application/json'',
                                hr_json = Inr (JArr [JObj [(''id'', JNum 5), (''slug'', JStr ''alice'')]])\<rparr>)
     ''https://shop.example'' (\<lambda>s. s) 0 ''2026-01-01'' ''alice'' ''wrong''
   \<and> \<not> isl (authenticateUser (\<lambda>_. Inr \<lparr>hr_status = 200, hr_statusText = ''OK'', hr_text = [],
                                hr_contentType = Some ''application/json'',
                                hr_json = Inr (JArr [JObj [(''id'', JNum 5), (''slug'', JStr ''alice'')]])\<rparr>)
     ''https://shop.example'' (\<lambda>s. s) 0 ''2026-01-01'' ''alice'' ''wrong'')"
proof -
  let ?F = "\<lambda>_::http_request. Inr \<lparr>hr_status = 200, hr_statusText = ''OK'', hr_text = [],
                                hr_contentType = Some ''application/json'',
                                hr_json = Inr (JArr [JObj [(''id'', JNum 5), (''slug'', JStr ''alice'')]])\<rparr>
                                :: string + http_response"
  have "lookup_user ?F ''https://shop.example'' ''alice'' = JObj [(''id'', JNum 5), (''slug'', JStr ''alice'')]"
    by (simp add: lookup_user_def wc_request_def requestWordPress_def resp_ok_def)
  then have "\<not> isl (authenticateUser ?F ''https://shop.example'' (\<lambda>s. s) 0 ''2026-01-01'' ''alice'' ''wrong'')"
    by (simp add: authenticateUser_def name_field_def js_field_def opt_truthy_def)
  then show ?thesis
    using authenticateUser_ignores_password[of "''secret''" "''wrong''" ?F "''https://shop.example''" "\<lambda>s. s" 0
                                             "''2026-01-01''" "''alice''"]
    by simp
qed

end
