(* ===== verification/Lazy_Loader.thy ===== *)
theory Lazy_Loader
  imports Complex_Main Enhanced_Client
begin

text \<open>
  The lazy-loading hooks and components of \<open>src/lib/lazy-loading/lazy-loader.ts\<close>.
  \<open>useLazyLoad\<close> is a state machine driven by the \<open>IntersectionObserver\<close>: its React
  state, and whether the observer still watches the element, change on each callback
  delivery (a list of entries, each intersecting or not) and when the effect re-runs
  because an option changed.  React batches the updates of one callback into one
  render, and an effect runs after a render in which one of its dependencies changed.
  \<open>LazyImage\<close> adds the image state and the \<open>Image\<close> objects in flight;
  \<open>LazyLoadWithPrefetch\<close> counts the calls of its prefetch function.  A rendered React
  element is a tree of tags, attributes and children; nodes the caller supplies
  (children, fallbacks, rendered items) are opaque labels.
\<close>

subsection \<open>useLazyLoad\<close>

record lazy_load_options =
  llo_threshold :: "rat option"
  llo_rootMargin :: "string option"
  llo_triggerOnce :: "bool option"

text \<open>The destructuring defaults \<open>threshold = 0.1\<close>, \<open>rootMargin = '50px'\<close>,
  \<open>triggerOnce = true\<close>.\<close>

definition triggerOnce_of :: "lazy_load_options \<Rightarrow> bool" where
  "triggerOnce_of opts = (case llo_triggerOnce opts of None \<Rightarrow> True | Some b \<Rightarrow> b)"

definition threshold_of :: "lazy_load_options \<Rightarrow> rat" where
  "threshold_of opts = (case llo_threshold opts of None \<Rightarrow> 1 / 10 | Some t \<Rightarrow> t)"

definition rootMargin_of :: "lazy_load_options \<Rightarrow> string" where
  "rootMargin_of opts = (case llo_rootMargin opts of None \<Rightarrow> ''50px'' | Some m \<Rightarrow> m)"

record lazy_state =
  isVisible :: bool
  hasLoaded :: bool
  isLoading :: bool

record lazy_hook =
  lh_state :: lazy_state
  lh_observing :: bool

definition lazy_state_init :: lazy_state where
  "lazy_state_init = \<lparr>isVisible = False, hasLoaded = False, isLoading = False\<rparr>"

text \<open>The first render and the effect: without an element (\<open>elementRef.current\<close> is
  \<open>null\<close>) nothing is observed.\<close>

definition lazy_mount :: "bool \<Rightarrow> lazy_hook" where
  "lazy_mount has_element = \<lparr>lh_state = lazy_state_init, lh_observing = has_element\<rparr>"

text \<open>One entry of a callback delivery.\<close>

definition lazy_entry :: "bool \<Rightarrow> bool \<Rightarrow> lazy_hook \<Rightarrow> lazy_hook" where
  "lazy_entry triggerOnce intersecting h =
     (if intersecting then
        \<lparr>lh_state = (lh_state h)\<lparr>isVisible := True, hasLoaded := True, isLoading := True\<rparr>,
         lh_observing = (if triggerOnce then False else lh_observing h)\<rparr>
      else if \<not> triggerOnce then h\<lparr>lh_state := (lh_state h)\<lparr>isVisible := False\<rparr>\<rparr>
      else h)"

text \<open>\<open>entries.forEach(...)\<close>: an unobserved element gets no delivery, and
  \<open>unobserve\<close> inside the loop does not stop the entries already delivered.\<close>

definition lazy_callback :: "bool \<Rightarrow> bool list \<Rightarrow> lazy_hook \<Rightarrow> lazy_hook" where
  "lazy_callback triggerOnce entries h =
     (if lh_observing h then foldl (\<lambda>h e. lazy_entry triggerOnce e h) h entries else h)"

datatype lazy_event = Deliver "bool list" | Reobserve

text \<open>\<open>Reobserve\<close>: a dependency \<open>[threshold, rootMargin, triggerOnce]\<close> changed, so the
  cleanup unobserves and a new observer observes the element again.\<close>

fun lazy_step :: "bool \<Rightarrow> bool \<Rightarrow> lazy_event \<Rightarrow> lazy_hook \<Rightarrow> lazy_hook" where
  "lazy_step triggerOnce has_element (Deliver es) h = lazy_callback triggerOnce es h"
| "lazy_step triggerOnce has_element Reobserve h = h\<lparr>lh_observing := has_element\<rparr>"

inductive lazy_reach :: "bool \<Rightarrow> bool \<Rightarrow> lazy_hook \<Rightarrow> bool" where
  init: "lazy_reach triggerOnce has_element (lazy_mount has_element)"
| step: "lazy_reach triggerOnce has_element h \<Longrightarrow>
         lazy_reach triggerOnce has_element (lazy_step triggerOnce has_element ev h)"

subsection \<open>React elements\<close>

datatype element = Elem string "(string \<times> json) list" "element list" | Node string

text \<open>\<open>{...a, ...b}\<close> on props: later members replace earlier ones in place.\<close>

definition props_merge :: "(string \<times> json) list \<Rightarrow> (string \<times> json) list \<Rightarrow> (string \<times> json) list" where
  "props_merge a b = foldl (\<lambda>acc (k, v). AList.update k v acc) a b"

definition placeholder_div :: "string \<Rightarrow> element" where
  "placeholder_div cls = Elem ''div'' [(''className'', JStr cls)] []"

subsection \<open>LazyImage\<close>

text \<open>The image state: \<open>imageLoaded\<close>, \<open>imageError\<close>, the source, and the sources of
  the \<open>Image\<close> objects whose load is in flight.\<close>

record img_state =
  im_hook :: lazy_hook
  im_src :: string
  im_loaded :: bool
  im_error :: bool
  im_pending :: "string list"

definition img_init :: "string \<Rightarrow> img_state" where
  "img_init src = \<lparr>im_hook = lazy_mount True, im_src = src, im_loaded = False, im_error = False, im_pending = []\<rparr>"

text \<open>The effect with dependencies \<open>[isVisible, src, imageLoaded, imageError]\<close>, run
  after a render in which one of them changed: it starts loading the current source.\<close>

definition img_effect :: "img_state \<Rightarrow> img_state \<Rightarrow> img_state" where
  "img_effect before s =
     (if (isVisible (lh_state (im_hook s)), im_src s, im_loaded s, im_error s)
           \<noteq> (isVisible (lh_state (im_hook before)), im_src before, im_loaded before, im_error before)
         \<and> isVisible (lh_state (im_hook s)) \<and> \<not> im_loaded s \<and> \<not> im_error s
      then s\<lparr>im_pending := im_pending s @ [im_src s]\<rparr> else s)"

datatype img_event =
    ImgDeliver "bool list"
  | ImgSrc string
  | ImgSettle nat bool
  | ElemLoad
  | ElemError

text \<open>\<open>ImgSettle i ok\<close>: the \<open>i\<close>-th \<open>Image\<close> in flight fires \<open>onload\<close> or \<open>onerror\<close>,
  whatever source is current; \<open>ElemLoad\<close>/\<open>ElemError\<close> are the rendered \<open><img>\<close>'s own
  handlers.\<close>

fun img_update :: "img_event \<Rightarrow> img_state \<Rightarrow> img_state" where
  "img_update (ImgDeliver es) s = s\<lparr>im_hook := lazy_callback True es (im_hook s)\<rparr>"
| "img_update (ImgSrc src) s = s\<lparr>im_src := src\<rparr>"
| "img_update (ImgSettle i ok) s =
     (if i < length (im_pending s)
      then (if ok then s\<lparr>im_loaded := True\<rparr> else s\<lparr>im_error := True\<rparr>)\<lparr>im_pending := take i (im_pending s) @ drop (Suc i) (im_pending s)\<rparr>
      else s)"
| "img_update ElemLoad s = s\<lparr>im_loaded := True\<rparr>"
| "img_update ElemError s = s\<lparr>im_error := True\<rparr>"

definition img_step :: "img_event \<Rightarrow> img_state \<Rightarrow> img_state" where
  "img_step ev s = img_effect s (img_update ev s)"

fun img_run :: "img_event list \<Rightarrow> img_state \<Rightarrow> img_state" where
  "img_run [] s = s"
| "img_run (ev # evs) s = img_run evs (img_step ev s)"

text \<open>What \<open>LazyImage\<close> renders.\<close>

definition LazyImage :: "string \<Rightarrow> string \<Rightarrow> element option \<Rightarrow> (string \<times> json) list \<Rightarrow> img_state \<Rightarrow> element" where
  "LazyImage alt className fallback props s =
     (if \<not> hasLoaded (lh_state (im_hook s)) then
        Elem ''div'' [(''ref'', JStr ''elementRef'')]
          [case fallback of Some f \<Rightarrow> f | None \<Rightarrow> placeholder_div ''animate-pulse bg-gray-200 rounded'']
      else if im_error s then
        Elem ''div'' [(''className'', JStr (className @ '' bg-gray-200 flex items-center justify-center''))]
          [Elem ''span'' [(''className'', JStr ''text-gray-500 text-sm'')] [Node ''Failed to load'']]
      else
        Elem ''img''
          (props_merge
            [(''ref'', JStr ''elementRef''), (''src'', JStr (im_src s)), (''alt'', JStr alt),
             (''className'', JStr (className @ '' '' @ (if \<not> im_loaded s then ''opacity-0'' else ''opacity-100'')
                                   @ '' transition-opacity duration-300''))]
            props) [])"

subsection \<open>LazyProductCard, LazyGrid, LazyLoadWithPrefetch, LazyComponent\<close>

text \<open>A JSON value rendered as a React child: strings and numbers as text, \<open>null\<close>,
  \<open>undefined\<close> and booleans as nothing.\<close>

definition child_of :: "json option \<Rightarrow> element list" where
  "child_of v = (case v of Some (JStr s) \<Rightarrow> [Node s] | Some (JNum n) \<Rightarrow> [Node (show_int n)] | _ \<Rightarrow> [])"

text \<open>\<open>product.image?.src || '/placeholder.jpg'\<close>.\<close>

definition card_image_src :: "json \<Rightarrow> json" where
  "card_image_src product =
     js_or (case js_field product ''image'' of None \<Rightarrow> None | Some JNull \<Rightarrow> None | Some i \<Rightarrow> js_field i ''src'')
           (JStr ''/placeholder.jpg'')"

definition LazyProductCard :: "json \<Rightarrow> (string \<times> json) list \<Rightarrow> lazy_hook \<Rightarrow> element" where
  "LazyProductCard product props h =
     (if \<not> hasLoaded (lh_state h) then
        Elem ''div'' [(''ref'', JStr ''elementRef''), (''className'', JStr ''animate-pulse bg-gray-200 rounded-lg h-64'')] []
      else
        Elem ''div'' (props_merge [(''ref'', JStr ''elementRef''), (''className'', JStr ''product-card'')] props)
          [Elem ''LazyImage''
             [(''src'', card_image_src product),
              (''alt'', case js_field product ''name'' of Some n \<Rightarrow> n | None \<Rightarrow> JNull),
              (''className'', JStr ''w-full h-48 object-cover rounded-lg'')] [],
           Elem ''div'' [(''className'', JStr ''p-4'')]
             [Elem ''h3'' [(''className'', JStr ''font-semibold text-lg'')] (child_of (js_field product ''name'')),
              Elem ''p'' [(''className'', JStr ''text-gray-600'')] [Node (''$'' @ tmpl (js_field product ''price''))]]])"

text \<open>The effect \<open>[isVisible, onLoad]\<close> of \<open>LazyProductCard\<close>: how many times \<open>onLoad\<close>
  runs after a render that changed the hook from \<open>before\<close> to \<open>h\<close>.\<close>

definition card_onLoad_calls :: "bool \<Rightarrow> lazy_hook \<Rightarrow> lazy_hook \<Rightarrow> nat" where
  "card_onLoad_calls has_onLoad before h =
     (if isVisible (lh_state h) \<noteq> isVisible (lh_state before) \<and> isVisible (lh_state h) \<and> has_onLoad then 1 else 0)"

text \<open>\<open>item.id || index\<close> as the key React compares, i.e. its text.\<close>

definition grid_key :: "json \<Rightarrow> nat \<Rightarrow> string" where
  "grid_key item i = js_string (js_or (js_field item ''id'') (JNum (int i)))"

definition grid_class :: "string \<Rightarrow> string" where
  "grid_class className = className @ '' grid grid-cols-1 md:grid-cols-2 lg:grid-cols-3 gap-4''"

text \<open>\<open>LazyGrid\<close>: six skeletons until loaded (the \<open>fallback\<close> prop is never used), then
  every item wrapped in a keyed \<open>div\<close>.\<close>

definition LazyGrid :: "json list \<Rightarrow> (json \<Rightarrow> nat \<Rightarrow> element) \<Rightarrow> element option \<Rightarrow> string \<Rightarrow>
                        (string \<times> json) list \<Rightarrow> lazy_hook \<Rightarrow> element" where
  "LazyGrid items renderItem fallback className props h =
     (if \<not> hasLoaded (lh_state h) then
        Elem ''div'' [(''ref'', JStr ''elementRef''), (''className'', JStr (grid_class className))]
          (map (\<lambda>i. Elem ''div'' [(''key'', JStr (show_int (int i))), (''className'', JStr ''animate-pulse bg-gray-200 rounded-lg h-64'')] [])
               [0..<6])
      else
        Elem ''div'' (props_merge [(''ref'', JStr ''elementRef''), (''className'', JStr (grid_class className))] props)
          (map (\<lambda>(item, i). Elem ''div'' [(''key'', JStr (grid_key item i))] [renderItem item i])
               (zip items [0..<length items])))"

text \<open>\<open>LazyLoadWithPrefetch\<close>: the hook with \<open>triggerOnce: false\<close> and the number of
  calls of \<open>prefetchFunction\<close>.  \<open>PNewCallback\<close> is a render that passes a new function
  object (an inline arrow in the parent): the effect's dependency changed.\<close>

record prefetch_view =
  pv_hook :: lazy_hook
  pv_calls :: nat

datatype pv_event = PDeliver "bool list" | PNewCallback | PReobserve

fun pv_step :: "bool \<Rightarrow> pv_event \<Rightarrow> prefetch_view \<Rightarrow> prefetch_view" where
  "pv_step has_fn (PDeliver es) v =
     (let h' = lazy_callback False es (pv_hook v) in
      \<lparr>pv_hook = h',
       pv_calls = pv_calls v + card_onLoad_calls has_fn (pv_hook v) h'\<rparr>)"
| "pv_step has_fn PNewCallback v =
     v\<lparr>pv_calls := pv_calls v + (if isVisible (lh_state (pv_hook v)) \<and> has_fn then 1 else 0)\<rparr>"
| "pv_step has_fn PReobserve v = v\<lparr>pv_hook := lazy_step False True Reobserve (pv_hook v)\<rparr>"

fun pv_run :: "bool \<Rightarrow> pv_event list \<Rightarrow> prefetch_view \<Rightarrow> prefetch_view" where
  "pv_run has_fn [] v = v"
| "pv_run has_fn (e # es) v = pv_run has_fn es (pv_step has_fn e v)"

definition LazyLoadWithPrefetch :: "element \<Rightarrow> (string \<times> json) list \<Rightarrow> element" where
  "LazyLoadWithPrefetch children props = Elem ''div'' (props_merge [(''ref'', JStr ''elementRef'')] props) [children]"

text \<open>\<open>LazyComponent\<close>: \<open>React.lazy(component)\<close> under \<open>Suspense\<close> with the given fallback
  or a pulsing placeholder.\<close>

definition LazyComponent :: "string \<Rightarrow> element option \<Rightarrow> (string \<times> json) list \<Rightarrow> element" where
  "LazyComponent component fallback props =
     Elem ''Suspense'' []
       [Elem ''fallback'' [] [case fallback of Some f \<Rightarrow> f | None \<Rightarrow> placeholder_div ''animate-pulse bg-gray-200 rounded h-32''],
        Elem (''lazy:'' @ component) props []]"


subsection \<open>Properties\<close>

lemma lazy_entry_inv:
  "(isVisible (lh_state h) \<longrightarrow> hasLoaded (lh_state h)) \<and> isLoading (lh_state h) = hasLoaded (lh_state h) \<Longrightarrow>
   (isVisible (lh_state (lazy_entry t e h)) \<longrightarrow> hasLoaded (lh_state (lazy_entry t e h)))
   \<and> isLoading (lh_state (lazy_entry t e h)) = hasLoaded (lh_state (lazy_entry t e h))"
  by (auto simp: lazy_entry_def)

lemma lazy_callback_inv:
  assumes "(isVisible (lh_state h) \<longrightarrow> hasLoaded (lh_state h)) \<and> isLoading (lh_state h) = hasLoaded (lh_state h)"
  shows "(isVisible (lh_state (lazy_callback t es h)) \<longrightarrow> hasLoaded (lh_state (lazy_callback t es h)))
         \<and> isLoading (lh_state (lazy_callback t es h)) = hasLoaded (lh_state (lazy_callback t es h))"
proof -
  have "(isVisible (lh_state (foldl (\<lambda>h e. lazy_entry t e h) h es)) \<longrightarrow> hasLoaded (lh_state (foldl (\<lambda>h e. lazy_entry t e h) h es)))
        \<and> isLoading (lh_state (foldl (\<lambda>h e. lazy_entry t e h) h es)) = hasLoaded (lh_state (foldl (\<lambda>h e. lazy_entry t e h) h es))"
    using assms by (induction es arbitrary: h) (simp_all add: lazy_entry_inv)
  then show ?thesis using assms by (simp add: lazy_callback_def)
qed

text \<open>C33. In every state useLazyLoad reaches, isVisible implies hasLoaded, and isLoading always equals hasLoaded: it is set with hasLoaded and never cleared, so it never reports that loading finished.\<close>

theorem lazy_reach_inv:
  "lazy_reach t el h \<Longrightarrow>
   (isVisible (lh_state h) \<longrightarrow> hasLoaded (lh_state h)) \<and> isLoading (lh_state h) = hasLoaded (lh_state h)"
proof (induction rule: lazy_reach.induct)
  case (init t el)
  then show ?case by (simp add: lazy_mount_def lazy_state_init_def)
next
  case (step t el h ev)
  then show ?case by (cases ev) (simp_all add: lazy_callback_inv)
qed

lemma lazy_entry_keeps_loaded: "hasLoaded (lh_state h) \<Longrightarrow> hasLoaded (lh_state (lazy_entry t e h))"
  by (simp add: lazy_entry_def)

lemma lazy_fold_keeps_loaded:
  "hasLoaded (lh_state h) \<Longrightarrow> hasLoaded (lh_state (foldl (\<lambda>h e. lazy_entry t e h) h es))"
  by (induction es arbitrary: h) (simp_all add: lazy_entry_keeps_loaded)

lemma lazy_callback_keeps_loaded: "hasLoaded (lh_state h) \<Longrightarrow> hasLoaded (lh_state (lazy_callback t es h))"
  by (simp add: lazy_callback_def lazy_fold_keeps_loaded)

lemma lazy_step_keeps_loaded: "hasLoaded (lh_state h) \<Longrightarrow> hasLoaded (lh_state (lazy_step t el ev h))"
  by (cases ev) (simp_all add: lazy_callback_keeps_loaded)

lemma lazy_run_keeps_loaded:
  "hasLoaded (lh_state h) \<Longrightarrow> hasLoaded (lh_state (foldl (\<lambda>h ev. lazy_step t el ev h) h evs))"
  by (induction evs arbitrary: h) (simp_all add: lazy_step_keeps_loaded)

lemma lazy_callback_intersecting:
  "lh_observing h \<Longrightarrow> True \<in> set es \<Longrightarrow> hasLoaded (lh_state (lazy_callback t es h))"
proof -
  have "True \<in> set es \<Longrightarrow> hasLoaded (lh_state (foldl (\<lambda>h e. lazy_entry t e h) h es))" for h
  proof (induction es arbitrary: h)
    case (Cons e es)
    show ?case
    proof (cases e)
      case True
      then have "hasLoaded (lh_state (lazy_entry t e h))" by (simp add: lazy_entry_def)
      then show ?thesis by (simp add: lazy_fold_keeps_loaded)
    next
      case False
      then show ?thesis using Cons by simp
    qed
  qed simp
  then show "lh_observing h \<Longrightarrow> True \<in> set es \<Longrightarrow> hasLoaded (lh_state (lazy_callback t es h))"
    by (simp add: lazy_callback_def)
qed

text \<open>C34. An observed element that is delivered an intersecting entry is loaded, and stays loaded whatever deliveries and re-observations follow.\<close>

theorem lazy_loads_and_stays:
  assumes "lh_observing h" "True \<in> set es"
  shows "hasLoaded (lh_state (foldl (\<lambda>h ev. lazy_step t el ev h) (lazy_step t el (Deliver es) h) evs))"
  using lazy_run_keeps_loaded lazy_callback_intersecting[OF assms] by simp

text \<open>C35. LazyImage does not tie a load to its source: when the source changes while the old image is loading, the old image's onload marks the new source loaded (shown at full opacity) while the new image is still in flight.\<close>

theorem img_stale_load:
  assumes "isVisible (lh_state (im_hook s))" "\<not> im_loaded s" "\<not> im_error s"
    and "im_src s = a" "im_pending s = [a]" "b \<noteq> a"
  shows "im_src (img_run [ImgSrc b, ImgSettle 0 True] s) = b
       \<and> im_loaded (img_run [ImgSrc b, ImgSettle 0 True] s)
       \<and> im_pending (img_run [ImgSrc b, ImgSettle 0 True] s) = [b]"
  using assms by (simp add: img_step_def img_effect_def)

theorem grid_key_collision:
  assumes "i < length items" "j < length items" "i \<noteq> j"
    and "js_field (items ! i) ''id'' = Some (JNum (int j))"
    and "0 < j" "case js_field (items ! j) ''id'' of None \<Rightarrow> True | Some v \<Rightarrow> \<not> truthy v"
  shows "grid_key (items ! i) i = grid_key (items ! j) j"
  using assms by (auto simp: grid_key_def js_or_def split: option.splits)

lemma pv_run_append: "pv_run f (xs @ ys) v = pv_run f ys (pv_run f xs v)"
  by (induction xs arbitrary: v) simp_all

lemma pv_reentry_cycle:
  assumes "lh_observing (pv_hook v)" "\<not> isVisible (lh_state (pv_hook v))"
  shows "pv_calls (pv_run True [PDeliver [True], PDeliver [False]] v) = Suc (pv_calls v)
       \<and> lh_observing (pv_hook (pv_run True [PDeliver [True], PDeliver [False]] v))
       \<and> \<not> isVisible (lh_state (pv_hook (pv_run True [PDeliver [True], PDeliver [False]] v)))"
  using assms by (simp add: lazy_callback_def lazy_entry_def card_onLoad_calls_def)

text \<open>LazyLoadWithPrefetch calls its prefetch function on every entry into view: n enter/leave cycles make n calls.\<close>

theorem prefetch_every_reentry:
  assumes "lh_observing (pv_hook v)" "\<not> isVisible (lh_state (pv_hook v))"
  shows "pv_calls (pv_run True (concat (replicate n [PDeliver [True], PDeliver [False]])) v) = pv_calls v + n"
  using assms
proof (induction n arbitrary: v)
  case (Suc n)
  let ?w = "pv_run True [PDeliver [True], PDeliver [False]] v"
  have "pv_calls (pv_run True (concat (replicate n [PDeliver [True], PDeliver [False]])) ?w) = pv_calls ?w + n"
    using Suc.IH pv_reentry_cycle[OF Suc.prems] by blast
  moreover have "pv_run True (concat (replicate (Suc n) [PDeliver [True], PDeliver [False]])) v
                 = pv_run True (concat (replicate n [PDeliver [True], PDeliver [False]])) ?w"
    by (simp only: replicate_Suc concat.simps pv_run_append)
  ultimately show ?case
    using pv_reentry_cycle[OF Suc.prems] by simp
qed simp

theorem lazy_reach_inv_witness:
  "isVisible (lh_state (lazy_step True True (Deliver [False, True]) (lazy_mount True)))
   \<and> hasLoaded (lh_state (lazy_step True True (Deliver [False, True]) (lazy_mount True)))
   \<and> isLoading (lh_state (lazy_step True True (Deliver [False, True]) (lazy_mount True)))"
  using lazy_reach_inv[OF lazy_reach.step[OF lazy_reach.init, of True True "Deliver [False, True]"]]
  by (simp add: lazy_callback_def lazy_entry_def lazy_mount_def lazy_state_init_def)

theorem lazy_loads_and_stays_witness:
  "hasLoaded (lh_state (foldl (\<lambda>h ev. lazy_step False True ev h)
     (lazy_step False True (Deliver [False, True]) (lazy_mount True)) [Reobserve, Deliver [False], Deliver []]))"
  using lazy_loads_and_stays[of "lazy_mount True" "[False, True]" False True "[Reobserve, Deliver [False], Deliver []]"]
  by (simp add: lazy_mount_def)

theorem img_stale_load_witness:
  "im_src (img_run [ImgSrc ''b.jpg'', ImgSettle 0 True]
      \<lparr>im_hook = \<lparr>lh_state = \<lparr>isVisible = True, hasLoaded = True, isLoading = True\<rparr>, lh_observing = False\<rparr>,
       im_src = ''a.jpg'', im_loaded = False, im_error = False, im_pending = [''a.jpg'']\<rparr>) = ''b.jpg''
   \<and> im_loaded (img_run [ImgSrc ''b.jpg'', ImgSettle 0 True]
      \<lparr>im_hook = \<lparr>lh_state = \<lparr>isVisible = True, hasLoaded = True, isLoading = True\<rparr>, lh_observing = False\<rparr>,
       im_src = ''a.jpg'', im_loaded = False, im_error = False, im_pending = [''a.jpg'']\<rparr>)
   \<and> im_pending (img_run [ImgSrc ''b.jpg'', ImgSettle 0 True]
      \<lparr>im_hook = \<lparr>lh_state = \<lparr>isVisible = True, hasLoaded = True, isLoading = True\<rparr>, lh_observing = False\<rparr>,
       im_src = ''a.jpg'', im_loaded = False, im_error = False, im_pending = [''a.jpg'']\<rparr>) = [''b.jpg'']"
  using img_stale_load[of "\<lparr>im_hook = \<lparr>lh_state = \<lparr>isVisible = True, hasLoaded = True, isLoading = True\<rparr>, lh_observing = False\<rparr>,
       im_src = ''a.jpg'', im_loaded = False, im_error = False, im_pending = [''a.jpg'']\<rparr>" "''a.jpg''" "''b.jpg''"]
  by simp

theorem grid_key_collision_witness:
  "grid_key (JObj [(''id'', JNum 1)]) 0 = grid_key (JObj []) 1"
  using grid_key_collision[of 0 "[JObj [(''id'', JNum 1)], JObj []]" 1]
  by (simp add: js_field_def)

theorem prefetch_every_reentry_witness:
  "pv_calls (pv_run True (concat (replicate 3 [PDeliver [True], PDeliver [False]]))
     \<lparr>pv_hook = lazy_mount True, pv_calls = 0\<rparr>) = 3"
  using prefetch_every_reentry[of "\<lparr>pv_hook = lazy_mount True, pv_calls = 0\<rparr>" 3]
  by (simp add: lazy_mount_def lazy_state_init_def)

end
