(* ===== verification/Redis_Client.thy ===== *)
theory Redis_Client
  imports Redis_Cache GraphQL_Facade
begin

text \<open>
  The Redis configuration of \<open>src/lib/redis/config.ts\<close>, the client module
  \<open>src/lib/redis/client.ts\<close>, and the two methods of \<open>RedisCacheService\<close> that report on or
  warm the cache (\<open>getStats\<close>, \<open>warmUpCache\<close>).  The environment variables are a partial
  map from names to texts; \<open>parseInt\<close> is the one of \<open>Enhanced_Client\<close>, with \<open>None\<close> for
  \<open>NaN\<close>.  The \<open>ioredis\<close> client is the environment: whether it loads, and the answers of
  \<open>ping\<close>, \<open>connect\<close> and \<open>quit\<close>, are parameters.
\<close>

type_synonym env = "string \<Rightarrow> string option"

text \<open>\<open>process.env.X || 'd'\<close>: an unset or empty variable gives the default.\<close>

definition env_or :: "env \<Rightarrow> string \<Rightarrow> string \<Rightarrow> string" where
  "env_or env x d = (case env x of Some s \<Rightarrow> if s \<noteq> [] then s else d | None \<Rightarrow> d)"

subsection \<open>config.ts\<close>

record ttl_settings =
  ttl_default :: "int option"
  ttl_product :: "int option"
  ttl_category :: "int option"
  ttl_search :: "int option"
  ttl_homepage :: "int option"
  ttl_user :: "int option"

record redis_config =
  rc_host :: string
  rc_port :: "int option"
  rc_password :: "string option"
  rc_db :: "int option"
  rc_enabled :: bool
  rc_ttl :: ttl_settings
  rc_retryDelayOnFailover :: int
  rc_maxRetriesPerRequest :: int
  rc_lazyConnect :: bool
  rc_prefixes :: "(string \<times> string) list"
  rc_version :: string

definition REDIS_CONFIG :: "env \<Rightarrow> redis_config" where
  "REDIS_CONFIG env =
     \<lparr>rc_host = env_or env ''REDIS_HOST'' ''localhost'',
      rc_port = parseInt (env_or env ''REDIS_PORT'' ''6379''),
      rc_password = env ''REDIS_PASSWORD'',
      rc_db = parseInt (env_or env ''REDIS_DB'' ''0''),
      rc_enabled = (env ''REDIS_ENABLED'' = Some ''true'' \<or> env ''NODE_ENV'' = Some ''production''),
      rc_ttl = \<lparr>ttl_default = parseInt (env_or env ''CACHE_TTL_DEFAULT'' ''600''),
                ttl_product = parseInt (env_or env ''CACHE_TTL_PRODUCT'' ''1800''),
                ttl_category = parseInt (env_or env ''CACHE_TTL_CATEGORY'' ''3600''),
                ttl_search = parseInt (env_or env ''CACHE_TTL_SEARCH'' ''300''),
                ttl_homepage = parseInt (env_or env ''CACHE_TTL_HOMEPAGE'' ''900''),
                ttl_user = parseInt (env_or env ''CACHE_TTL_USER'' ''300'')\<rparr>,
      rc_retryDelayOnFailover = 100, rc_maxRetriesPerRequest = 3, rc_lazyConnect = True,
      rc_prefixes = [(''graphql'', ''graphql''), (''product'', ''graphql:product''),
                     (''category'', ''graphql:category''), (''search'', ''graphql:search''),
                     (''homepage'', ''graphql:homepage''), (''user'', ''graphql:user'')],
      rc_version = ''v1''\<rparr>"

definition isRedisEnabled :: "env \<Rightarrow> bool" where
  "isRedisEnabled env = rc_enabled (REDIS_CONFIG env)"

definition getRedisConfig :: "env \<Rightarrow> redis_config" where
  "getRedisConfig env = REDIS_CONFIG env"

subsection \<open>client.ts\<close>

text \<open>The options \<open>client.ts\<close> passes to \<open>new Redis(...)\<close>.\<close>

record client_options =
  co_host :: string
  co_port :: "int option"
  co_password :: "string option"
  co_db :: "int option"
  co_retryDelayOnFailover :: int
  co_maxRetriesPerRequest :: int
  co_lazyConnect :: bool
  co_connectTimeout :: int
  co_commandTimeout :: int

definition client_redisConfig :: "env \<Rightarrow> client_options" where
  "client_redisConfig env =
     \<lparr>co_host = env_or env ''REDIS_HOST'' ''localhost'',
      co_port = parseInt (env_or env ''REDIS_PORT'' ''6379''),
      co_password = env ''REDIS_PASSWORD'',
      co_db = parseInt (env_or env ''REDIS_DB'' ''0''),
      co_retryDelayOnFailover = 100, co_maxRetriesPerRequest = 3, co_lazyConnect = True,
      co_connectTimeout = 10000, co_commandTimeout = 5000\<rparr>"

text \<open>The module-level \<open>redisClient\<close>: created on the server side when \<open>require('ioredis')\<close>
  succeeds, \<open>null\<close> otherwise.\<close>

definition redisClient :: "bool \<Rightarrow> bool \<Rightarrow> env \<Rightarrow> client_options option" where
  "redisClient server_side loads env =
     (if server_side \<and> loads then Some (client_redisConfig env) else None)"

record health_report =
  hr_status_text :: string
  hr_message :: string
  hr_connected :: bool

text \<open>\<open>redisHealthCheck()\<close>: \<open>ping\<close> answers a text or throws a message.\<close>

definition redisHealthCheck :: "client_options option \<Rightarrow> string + string \<Rightarrow> health_report" where
  "redisHealthCheck client ping =
     (case client of
        None \<Rightarrow> \<lparr>hr_status_text = ''unhealthy'', hr_message = ''Redis client not available (server-side only)'',
                 hr_connected = False\<rparr>
      | Some _ \<Rightarrow>
          (case ping of
             Inr pong \<Rightarrow>
               if pong = ''PONG''
               then \<lparr>hr_status_text = ''healthy'', hr_message = ''Redis is connected and responding'', hr_connected = True\<rparr>
               else \<lparr>hr_status_text = ''unhealthy'', hr_message = ''Redis ping failed'', hr_connected = False\<rparr>
           | Inl m \<Rightarrow> \<lparr>hr_status_text = ''unhealthy'', hr_message = ''Redis health check failed: '' @ m,
                       hr_connected = False\<rparr>))"

text \<open>\<open>closeRedisConnection()\<close> and \<open>initializeRedis()\<close>: the outcome of \<open>quit\<close> or
  \<open>connect\<close>; neither throws.\<close>

definition closeRedisConnection :: "client_options option \<Rightarrow> string + unit \<Rightarrow> unit" where
  "closeRedisConnection client quit = ()"

definition initializeRedis :: "client_options option \<Rightarrow> string + unit \<Rightarrow> bool" where
  "initializeRedis client connect =
     (case client of None \<Rightarrow> False | Some _ \<Rightarrow> (case connect of Inr _ \<Rightarrow> True | Inl _ \<Rightarrow> False))"

subsection \<open>RedisCacheService.getStats and warmUpCache\<close>

text \<open>\<open>getStats()\<close>: \<open>status\<close> is the result of calling
  \<open>redisClient.getConnectionStatus()\<close>, \<open>Inl\<close> when the call throws.\<close>

definition getStats :: "time \<Rightarrow> string + bool \<Rightarrow> redis \<Rightarrow> bool \<times> nat" where
  "getStats now status r =
     (if \<not> r_available r then (False, 0)
      else (case status of
              Inl _ \<Rightarrow> (False, 0)
            | Inr c \<Rightarrow> if r_failing r then (False, 0) else (c, length (r_keys now ''graphql:*'' r))))"

text \<open>\<open>warmUpCache(fns)\<close>: every function is started and awaited under
  \<open>Promise.allSettled\<close>; a function is its effect on the store and its outcome, and the
  functions' effects are applied in the order \<open>order\<close> in which they run (the
  environment's).  Failures are only logged.\<close>

definition warmUpCache ::
  "(redis \<Rightarrow> (string + unit) \<times> redis) list \<Rightarrow> nat list \<Rightarrow> redis \<Rightarrow> unit \<times> redis" where
  "warmUpCache fns order r = ((), foldl (\<lambda>r i. snd ((fns ! i) r)) r order)"

subsection \<open>Properties\<close>


lemma env_or_set: "env x = Some s \<Longrightarrow> s \<noteq> [] \<Longrightarrow> env_or env x d = s"
  by (simp add: env_or_def)

lemma env_or_unset: "env x = None \<Longrightarrow> env_or env x d = d"
  by (simp add: env_or_def)

lemma show_int_ne: "show_int n \<noteq> []"
  by (simp add: show_int_def digits_of_nat_ne')

text \<open>The port of the configuration and of the client options is the number the
  REDIS_PORT variable spells: parseInt reads back the decimal text of every integer.\<close>

theorem redis_port_from_env:
  "env ''REDIS_PORT'' = Some (show_int n) \<Longrightarrow>
   rc_port (REDIS_CONFIG env) = Some n \<and> co_port (client_redisConfig env) = Some n"
  by (simp add: REDIS_CONFIG_def client_redisConfig_def env_or_set show_int_ne parseInt_show_int)

theorem redis_port_from_env_witness:
  "rc_port (REDIS_CONFIG ((\<lambda>_. None)(''REDIS_PORT'' \<mapsto> show_int 6380))) = Some 6380
   \<and> co_port (client_redisConfig ((\<lambda>_. None)(''REDIS_PORT'' \<mapsto> show_int 6380))) = Some 6380"
  using redis_port_from_env[of "(\<lambda>_. None)(''REDIS_PORT'' \<mapsto> show_int 6380)" 6380] by simp

text \<open>A REDIS_PORT that is not a number gives the port NaN.\<close>

lemma redis_port_nan: "rc_port (REDIS_CONFIG ((\<lambda>_. None)(''REDIS_PORT'' \<mapsto> ''redis''))) = None"
  by (simp add: REDIS_CONFIG_def env_or_def parseInt_def is_space_def digit_value_def)


text \<open>C38. The health check reports a connection exactly when the client exists and ping
  answers PONG, and reports healthy exactly then; a throwing ping is reported with its message.\<close>

theorem redisHealthCheck_connected:
  "(hr_connected (redisHealthCheck c ping) \<longleftrightarrow> c \<noteq> None \<and> ping = Inr ''PONG'')
   \<and> (hr_status_text (redisHealthCheck c ping) = ''healthy'' \<longleftrightarrow> hr_connected (redisHealthCheck c ping))
   \<and> (c \<noteq> None \<and> ping = Inl m \<longrightarrow> hr_message (redisHealthCheck c ping) = ''Redis health check failed: '' @ m)"
  by (auto simp: redisHealthCheck_def split: option.split sum.split)

theorem redisHealthCheck_connected_witness:
  "hr_message (redisHealthCheck (redisClient True True (\<lambda>_. None)) (Inl ''ECONNREFUSED''))
     = ''Redis health check failed: ECONNREFUSED''
   \<and> \<not> hr_connected (redisHealthCheck (redisClient True True (\<lambda>_. None)) (Inr ''LOADING''))"
  using redisHealthCheck_connected[of "redisClient True True (\<lambda>_. None)" "Inl ''ECONNREFUSED''" "''ECONNREFUSED''"]
        redisHealthCheck_connected[of "redisClient True True (\<lambda>_. None)" "Inr ''LOADING''"]
  by (simp_all add: redisClient_def)

end
