(* ===== verification/Variant_Selector.thy ===== *)
theory Variant_Selector
  imports Lazy_Loader
begin

text \<open>
  The variation selector of a WooCommerce product page:
  \<open>src/components/product/woocommerce-variant-selector.tsx\<close> and the context of
  \<open>src/components/product/woocommerce-product-context.tsx\<close> that holds the selected
  options and variation, over the product and variation types of
  \<open>src/lib/woocommerce/types.ts\<close> (the fields the selector reads).  The state is the
  context's selection and variation and the component's displayed variation; an event
  is the mount or a click on an option button.  React runs the effects in order after
  each render whose dependencies changed; a state update renders again.  A selection
  (\<open>Record<string, string>\<close>) is an association list in insertion order.
\<close>

subsection \<open>Types\<close>

record wc_attribute =
  at_id :: int
  at_name :: string
  at_options :: "string list option"
  at_variation :: "bool option"

record var_attr =
  va_id :: int
  va_name :: string
  va_option :: string

record wc_image =
  wi_src :: string
  wi_alt :: string

record wc_variation =
  v_id :: int
  v_price :: string
  v_regular_price :: string
  v_sale_price :: string
  v_on_sale :: bool
  v_stock_status :: string
  v_image :: "wc_image option"
  v_attributes :: "var_attr list"

record wc_product =
  p_price :: string
  p_regular_price :: string
  p_sale_price :: string
  p_on_sale :: bool
  p_stock_status :: string
  p_attributes :: "wc_attribute list option"
  p_productVariations :: "wc_variation list option"

type_synonym selection = "(string \<times> string) list"

subsection \<open>The product context\<close>

record product_context =
  pc_selectedVariation :: "wc_variation option"
  pc_selectedOptions :: selection

definition provider_init :: product_context where
  "provider_init = \<lparr>pc_selectedVariation = None, pc_selectedOptions = []\<rparr>"

definition useWooCommerceProduct :: "product_context option \<Rightarrow> string + product_context" where
  "useWooCommerceProduct ctx =
     (case ctx of None \<Rightarrow> Inl ''useWooCommerceProduct must be used within a WooCommerceProductProvider''
      | Some c \<Rightarrow> Inr c)"

subsection \<open>The selector\<close>

record selected_variation =
  sv_variation :: wc_variation
  sv_price :: string
  sv_regularPrice :: string
  sv_salePrice :: "string option"
  sv_stockStatus :: string
  sv_image :: "wc_image option"

text \<open>\<open>product.attributes?.filter(attr => attr.variation) || []\<close>.\<close>

definition variationAttributes :: "wc_product \<Rightarrow> wc_attribute list" where
  "variationAttributes p =
     (case p_attributes p of None \<Rightarrow> [] | Some as \<Rightarrow> filter (\<lambda>a. at_variation a = Some True) as)"

text \<open>The early \<open>return null\<close>: no selector without variation attributes or variations.\<close>

definition selector_shown :: "wc_product \<Rightarrow> bool" where
  "selector_shown p \<longleftrightarrow> variationAttributes p \<noteq> [] \<and> p_productVariations p \<noteq> None"

text \<open>The first option of every variation attribute that has options.\<close>

definition initial_options :: "wc_attribute list \<Rightarrow> selection" where
  "initial_options attrs =
     foldl (\<lambda>m a. case at_options a of Some (opt # _) \<Rightarrow> AList.update (at_name a) opt m | _ \<Rightarrow> m) [] attrs"

text \<open>\<open>variation.attributes.every(va => va.option === selectedOptions[va.name])\<close>.\<close>

definition variation_matches :: "selection \<Rightarrow> wc_variation \<Rightarrow> bool" where
  "variation_matches sel v \<longleftrightarrow> list_all (\<lambda>va. map_of sel (va_name va) = Some (va_option va)) (v_attributes v)"

definition selected_of :: "wc_variation \<Rightarrow> selected_variation" where
  "selected_of v =
     \<lparr>sv_variation = v,
      sv_price = (if v_on_sale v \<and> v_sale_price v \<noteq> [] then v_sale_price v else v_price v),
      sv_regularPrice = v_regular_price v,
      sv_salePrice = (if v_on_sale v then Some (v_sale_price v) else None),
      sv_stockStatus = v_stock_status v,
      sv_image = v_image v\<rparr>"

record selector_state =
  ss_context :: product_context
  ss_display :: "selected_variation option"

text \<open>The effect that initialises the selection when it is empty.\<close>

definition init_effect :: "wc_product \<Rightarrow> selector_state \<Rightarrow> selector_state" where
  "init_effect p s =
     (if variationAttributes p \<noteq> [] \<and> pc_selectedOptions (ss_context s) = []
      then s\<lparr>ss_context := (ss_context s)\<lparr>pc_selectedOptions := initial_options (variationAttributes p)\<rparr>\<rparr>
      else s)"

text \<open>The effect that finds the variation matching the selection.\<close>

definition match_effect :: "wc_product \<Rightarrow> selector_state \<Rightarrow> selector_state" where
  "match_effect p s =
     (case p_productVariations p of
        None \<Rightarrow> s
      | Some vs \<Rightarrow>
          if pc_selectedOptions (ss_context s) = [] then s
          else (case find (variation_matches (pc_selectedOptions (ss_context s))) vs of
                  Some v \<Rightarrow> \<lparr>ss_context = (ss_context s)\<lparr>pc_selectedVariation := Some v\<rparr>, ss_display = Some (selected_of v)\<rparr>
                | None \<Rightarrow> \<lparr>ss_context = (ss_context s)\<lparr>pc_selectedVariation := None\<rparr>, ss_display = None\<rparr>))"

definition handleOptionChange :: "string \<Rightarrow> string \<Rightarrow> selection \<Rightarrow> selection" where
  "handleOptionChange n opt sel = AList.update n opt sel"

text \<open>\<open>isOptionAvailable\<close>: some variation has that option for that attribute, whatever
  the other attributes selected.\<close>

definition isOptionAvailable :: "wc_product \<Rightarrow> string \<Rightarrow> string \<Rightarrow> bool" where
  "isOptionAvailable p n opt =
     (case p_productVariations p of
        None \<Rightarrow> True
      | Some vs \<Rightarrow> list_ex (\<lambda>v. case find (\<lambda>a. va_name a = n) (v_attributes v) of
                                  Some a \<Rightarrow> va_option a = opt | None \<Rightarrow> False) vs)"

datatype selector_event = Mount | Choose string string

text \<open>Mount: both effects run on the first render (the matching one with the selection
  as it was), then, if the initialisation changed the selection, the matching effect runs
  again.  A click on an enabled button: the selection changes and the matching effect runs;
  a disabled button (\<open>disabled={!isAvailable}\<close>) fires no \<open>onClick\<close>.  A product whose
  selector renders \<open>null\<close> runs no effect.  A click and the effects of the render it causes
  are one step: React flushes the pending effects of a discrete event's render before it
  dispatches the next discrete event.\<close>

fun selector_step :: "wc_product \<Rightarrow> selector_event \<Rightarrow> selector_state \<Rightarrow> selector_state" where
  "selector_step p Mount s =
     (if \<not> selector_shown p then s
      else (let s1 = init_effect p s; s2 = match_effect p s
            in if pc_selectedOptions (ss_context s1) \<noteq> pc_selectedOptions (ss_context s)
               then match_effect p (s2\<lparr>ss_context := (ss_context s2)\<lparr>pc_selectedOptions := pc_selectedOptions (ss_context s1)\<rparr>\<rparr>)
               else s2))"
| "selector_step p (Choose n opt) s =
     (if \<not> selector_shown p \<or> \<not> isOptionAvailable p n opt then s
      else match_effect p (s\<lparr>ss_context := (ss_context s)\<lparr>pc_selectedOptions := handleOptionChange n opt (pc_selectedOptions (ss_context s))\<rparr>\<rparr>))"

fun selector_run :: "wc_product \<Rightarrow> selector_event list \<Rightarrow> selector_state \<Rightarrow> selector_state" where
  "selector_run p [] s = s"
| "selector_run p (e # es) s = selector_run p es (selector_step p e s)"

inductive selector_reach :: "wc_product \<Rightarrow> product_context \<Rightarrow> selector_state \<Rightarrow> bool" where
  init: "selector_reach p c \<lparr>ss_context = c, ss_display = None\<rparr>"
| step: "selector_reach p c s \<Longrightarrow> selector_reach p c (selector_step p e s)"

definition getCurrentPrice :: "wc_product \<Rightarrow> selected_variation option \<Rightarrow> string" where
  "getCurrentPrice p d =
     (case d of Some x \<Rightarrow> sv_price x
      | None \<Rightarrow> if p_on_sale p \<and> p_sale_price p \<noteq> [] then p_sale_price p else p_price p)"

definition getCurrentRegularPrice :: "wc_product \<Rightarrow> selected_variation option \<Rightarrow> string" where
  "getCurrentRegularPrice p d = (case d of Some x \<Rightarrow> sv_regularPrice x | None \<Rightarrow> p_regular_price p)"

definition getCurrentSalePrice :: "wc_product \<Rightarrow> selected_variation option \<Rightarrow> string option" where
  "getCurrentSalePrice p d =
     (case d of Some x \<Rightarrow> sv_salePrice x | None \<Rightarrow> if p_on_sale p then Some (p_sale_price p) else None)"

definition getCurrentStockStatus :: "wc_product \<Rightarrow> selected_variation option \<Rightarrow> string" where
  "getCurrentStockStatus p d = (case d of Some x \<Rightarrow> sv_stockStatus x | None \<Rightarrow> p_stock_status p)"

subsection \<open>Rendering\<close>

text \<open>\<open>clsx(base, {c1: b1, c2: b2, c3: b3})\<close>: the base, then the keys whose value holds.\<close>

definition button_class :: "bool \<Rightarrow> bool \<Rightarrow> string" where
  "button_class selected available =
     join_with '' '' ([''px-4 py-2 rounded-md border text-sm font-medium transition-colors'']
       @ (if selected then [''border-blue-600 bg-blue-600 text-white''] else [])
       @ (if \<not> selected \<and> available then [''border-gray-300 bg-white text-gray-700 hover:border-gray-400 dark:border-gray-600 dark:bg-gray-800 dark:text-gray-300''] else [])
       @ (if \<not> available then [''border-gray-200 bg-gray-100 text-gray-400 cursor-not-allowed dark:border-gray-700 dark:bg-gray-900 dark:text-gray-600''] else []))"

definition option_button :: "wc_product \<Rightarrow> selection \<Rightarrow> string \<Rightarrow> string \<Rightarrow> element" where
  "option_button p sel n opt =
     (let selected = (map_of sel n = Some opt); available = isOptionAvailable p n opt
      in Elem ''button''
           [(''key'', JStr opt), (''type'', JStr ''button''), (''disabled'', JBool (\<not> available)),
            (''className'', JStr (button_class selected available)),
            (''title'', JStr (if \<not> available then opt @ '' - Not Available'' else opt))]
           [Node opt])"

text \<open>\<open>{getCurrentSalePrice() && ...}\<close>: the struck-through regular price when the sale
  price is a non-empty text.\<close>

definition price_display :: "wc_product \<Rightarrow> selected_variation option \<Rightarrow> element" where
  "price_display p d =
     Elem ''div'' [(''className'', JStr ''flex items-center gap-2'')]
       ([Elem ''span'' [(''className'', JStr ''text-2xl font-bold text-blue-600'')] [Node (''$'' @ getCurrentPrice p d)]]
        @ (case getCurrentSalePrice p d of
             Some sp \<Rightarrow> if sp \<noteq> [] then [Elem ''span'' [(''className'', JStr ''text-lg text-gray-500 line-through'')]
                                           [Node (''$'' @ getCurrentRegularPrice p d)]] else []
           | None \<Rightarrow> []))"

definition stock_badge :: "wc_product \<Rightarrow> selected_variation option \<Rightarrow> element" where
  "stock_badge p d =
     (let instock = (getCurrentStockStatus p d = ''instock'') in
      Elem ''span''
        [(''className'', JStr (''inline-flex items-center px-2.5 py-0.5 rounded-full text-xs font-medium '' @
            (if instock then ''bg-green-100 text-green-800 dark:bg-green-900 dark:text-green-200''
             else ''bg-red-100 text-red-800 dark:bg-red-900 dark:text-red-200'')))]
        [Node (if instock then ''In Stock'' else ''Out of Stock'')])"

definition WooCommerceVariantSelector :: "wc_product \<Rightarrow> selector_state \<Rightarrow> element option" where
  "WooCommerceVariantSelector p s =
     (if \<not> selector_shown p then None
      else Some (Elem ''div'' [(''className'', JStr ''mb-6'')]
        (map (\<lambda>a. Elem ''div'' [(''key'', JNum (at_id a)), (''className'', JStr ''mb-4'')]
                   [Elem ''label'' [(''className'', JStr ''block text-sm font-medium text-gray-700 dark:text-gray-300 mb-2'')] [Node (at_name a)],
                    Elem ''div'' [(''className'', JStr ''flex flex-wrap gap-2'')]
                      (map (option_button p (pc_selectedOptions (ss_context s)) (at_name a))
                           (case at_options a of Some os \<Rightarrow> os | None \<Rightarrow> []))])
             (variationAttributes p)
         @ [Elem ''div'' [(''className'', JStr ''mb-4'')] [price_display p (ss_display s)],
            Elem ''div'' [(''className'', JStr ''mb-4'')] [stock_badge p (ss_display s)]]
         @ (case ss_display s of
              Some d \<Rightarrow> (case sv_image d of
                           Some i \<Rightarrow> [Elem ''div'' [(''className'', JStr ''mb-4'')]
                                       [Elem ''img'' [(''src'', JStr (wi_src i)), (''alt'', JStr (wi_alt i)),
                                                     (''className'', JStr ''w-24 h-24 object-cover rounded-md border'')] []]]
                         | None \<Rightarrow> [])
            | None \<Rightarrow> []))))"

subsection \<open>The selector's invariant\<close>

text \<open>A displayed variation matches the current selection and is the context's variation.\<close>

definition display_consistent :: "selector_state \<Rightarrow> bool" where
  "display_consistent s =
     (case ss_display s of None \<Rightarrow> True
      | Some d \<Rightarrow> variation_matches (pc_selectedOptions (ss_context s)) (sv_variation d)
                  \<and> pc_selectedVariation (ss_context s) = Some (sv_variation d))"

subsection \<open>A sample product\<close>

text \<open>A variable T-shirt with sizes S and M and colours red and blue, sold as the two
  variations (S, red) and (M, blue).\<close>

definition demo_variation :: "int \<Rightarrow> string \<Rightarrow> string \<Rightarrow> string \<Rightarrow> wc_variation" where
  "demo_variation i sz colour price =
     \<lparr>v_id = i, v_price = price, v_regular_price = price, v_sale_price = [], v_on_sale = False,
      v_stock_status = ''instock'', v_image = None,
      v_attributes = [\<lparr>va_id = 1, va_name = ''Size'', va_option = sz\<rparr>,
                      \<lparr>va_id = 2, va_name = ''Color'', va_option = colour\<rparr>]\<rparr>"

definition demo_tee :: wc_product where
  "demo_tee =
     \<lparr>p_price = ''20'', p_regular_price = ''20'', p_sale_price = [], p_on_sale = False,
      p_stock_status = ''instock'',
      p_attributes = Some [\<lparr>at_id = 1, at_name = ''Size'', at_options = Some [''S'', ''M''], at_variation = Some True\<rparr>,
                           \<lparr>at_id = 2, at_name = ''Color'', at_options = Some [''red'', ''blue''], at_variation = Some True\<rparr>],
      p_productVariations = Some [demo_variation 11 ''S'' ''red'' ''20'', demo_variation 12 ''M'' ''blue'' ''22'']\<rparr>"

subsection \<open>Properties\<close>


lemma match_effect_establishes:
  "p_productVariations p \<noteq> None \<Longrightarrow> pc_selectedOptions (ss_context s) \<noteq> [] \<Longrightarrow>
   display_consistent (match_effect p s)"
  by (auto simp: match_effect_def display_consistent_def selected_of_def find_Some_iff
           split: option.splits)

lemma match_effect_keeps:
  assumes "display_consistent s"
  shows "display_consistent (match_effect p s)"
proof (cases "p_productVariations p = None \<or> pc_selectedOptions (ss_context s) = []")
  case True
  then have "match_effect p s = s" by (auto simp: match_effect_def split: option.split)
  then show ?thesis using assms by simp
next
  case False
  then show ?thesis by (intro match_effect_establishes) auto
qed

lemma handleOptionChange_ne: "handleOptionChange n opt sel \<noteq> []"
  by (induction sel) (auto simp: handleOptionChange_def)

lemma selector_step_consistent:
  assumes c: "display_consistent s"
  shows "display_consistent (selector_step p e s)"
proof (cases e)
  case Mount
  show ?thesis
  proof (cases "selector_shown p")
    case shown: True
    then have pv: "p_productVariations p \<noteq> None" by (simp add: selector_shown_def)
    show ?thesis
    proof (cases "pc_selectedOptions (ss_context (init_effect p s)) \<noteq> pc_selectedOptions (ss_context s)")
      case changed: True
      then have "pc_selectedOptions (ss_context (init_effect p s)) \<noteq> []"
        by (auto simp: init_effect_def split: if_splits)
      then show ?thesis
        using Mount shown changed pv by (simp add: Let_def match_effect_establishes del: not_None_eq)
    next
      case False
      then show ?thesis using Mount shown c by (simp add: Let_def match_effect_keeps)
    qed
  qed (use Mount c in simp)
next
  case (Choose n opt)
  then show ?thesis
    using c by (auto simp: selector_shown_def handleOptionChange_ne intro!: match_effect_establishes)
qed

text \<open>C36. In every state the selector reaches from an empty display, whatever the context
  it starts from, the variation it displays matches every attribute of the current selection
  and is the variation the product context holds.\<close>

theorem selector_display_matches:
  assumes "selector_reach p c s" "ss_display s = Some d"
  shows "variation_matches (pc_selectedOptions (ss_context s)) (sv_variation d)
         \<and> pc_selectedVariation (ss_context s) = Some (sv_variation d)"
proof -
  have "display_consistent s"
    using assms(1)
  proof (induction rule: selector_reach.induct)
    case (init p c)
    then show ?case by (simp add: display_consistent_def)
  next
    case (step p c s e)
    from step.IH show ?case by (rule selector_step_consistent)
  qed
  then show ?thesis using assms(2) by (simp add: display_consistent_def)
qed

text \<open>A click on an enabled option whose combination with the current selection no
  variation has clears the displayed and the context's variation, and the price shown falls
  back to the product's own price.\<close>

lemma dead_selection_step:
  assumes "selector_shown p" "p_productVariations p = Some vs" "isOptionAvailable p n opt"
    and "\<not> list_ex (variation_matches (handleOptionChange n opt (pc_selectedOptions (ss_context s)))) vs"
  shows "ss_display (selector_step p (Choose n opt) s) = None
       \<and> pc_selectedVariation (ss_context (selector_step p (Choose n opt) s)) = None
       \<and> getCurrentPrice p (ss_display (selector_step p (Choose n opt) s))
         = (if p_on_sale p \<and> p_sale_price p \<noteq> [] then p_sale_price p else p_price p)"
proof -
  have "find (variation_matches (handleOptionChange n opt (pc_selectedOptions (ss_context s)))) vs = None"
    using assms(4) by (simp add: find_None_iff list_ex_iff)
  then show ?thesis
    using assms(1-3) by (simp add: match_effect_def handleOptionChange_ne getCurrentPrice_def)
qed

theorem selector_display_matches_witness:
  "variation_matches (pc_selectedOptions (ss_context (selector_step demo_tee Mount \<lparr>ss_context = provider_init, ss_display = None\<rparr>)))
     (demo_variation 11 ''S'' ''red'' ''20'')
   \<and> pc_selectedVariation (ss_context (selector_step demo_tee Mount \<lparr>ss_context = provider_init, ss_display = None\<rparr>))
     = Some (demo_variation 11 ''S'' ''red'' ''20'')"
proof -
  have d: "ss_display (selector_step demo_tee Mount \<lparr>ss_context = provider_init, ss_display = None\<rparr>)
           = Some (selected_of (demo_variation 11 ''S'' ''red'' ''20''))"
    by (simp add: demo_tee_def demo_variation_def selector_shown_def variationAttributes_def
        init_effect_def initial_options_def match_effect_def variation_matches_def provider_init_def)
  show ?thesis
    using selector_display_matches[OF selector_reach.step[OF selector_reach.init, of demo_tee provider_init Mount] d]
    by (simp add: selected_of_def)
qed

text \<open>C37. isOptionAvailable enables an option when some variation has it, whatever the
  other attributes selected.  So an enabled button can lead to a selection no variation has:
  on the sample T-shirt, after mounting (size S, colour red, a variation displayed), the
  enabled button "blue" clears the displayed and the context's variation and the price
  falls back to the product's own.\<close>

theorem enabled_option_dead_selection:
  "\<exists>s. selector_reach demo_tee provider_init s \<and> ss_display s \<noteq> None
       \<and> isOptionAvailable demo_tee ''Color'' ''blue''
       \<and> ss_display (selector_step demo_tee (Choose ''Color'' ''blue'') s) = None
       \<and> pc_selectedVariation (ss_context (selector_step demo_tee (Choose ''Color'' ''blue'') s)) = None
       \<and> getCurrentPrice demo_tee (ss_display (selector_step demo_tee (Choose ''Color'' ''blue'') s)) = p_price demo_tee"
proof (intro exI conjI)
  let ?s = "selector_step demo_tee Mount \<lparr>ss_context = provider_init, ss_display = None\<rparr>"
  show "selector_reach demo_tee provider_init ?s"
    by (rule selector_reach.step[OF selector_reach.init])
  have sel: "pc_selectedOptions (ss_context ?s) = [(''Size'', ''S''), (''Color'', ''red'')]"
    and d: "ss_display ?s = Some (selected_of (demo_variation 11 ''S'' ''red'' ''20''))"
    by (simp_all add: demo_tee_def demo_variation_def selector_shown_def variationAttributes_def
        init_effect_def initial_options_def match_effect_def variation_matches_def provider_init_def)
  then show "ss_display ?s \<noteq> None" by simp
  have sh: "selector_shown demo_tee"
    by (simp add: demo_tee_def selector_shown_def variationAttributes_def)
  show av: "isOptionAvailable demo_tee ''Color'' ''blue''"
    by (simp add: demo_tee_def demo_variation_def isOptionAvailable_def)
  have nm: "\<not> list_ex (variation_matches (handleOptionChange ''Color'' ''blue'' (pc_selectedOptions (ss_context ?s))))
              [demo_variation 11 ''S'' ''red'' ''20'', demo_variation 12 ''M'' ''blue'' ''22'']"
    unfolding sel by (simp add: handleOptionChange_def variation_matches_def demo_variation_def)
  have pv: "p_productVariations demo_tee = Some [demo_variation 11 ''S'' ''red'' ''20'', demo_variation 12 ''M'' ''blue'' ''22'']"
    and pp: "p_on_sale demo_tee = False"
    by (simp_all add: demo_tee_def)
  note r = dead_selection_step[OF sh pv av nm]
  from r show "ss_display (selector_step demo_tee (Choose ''Color'' ''blue'') ?s) = None" by blast
  from r show "pc_selectedVariation (ss_context (selector_step demo_tee (Choose ''Color'' ''blue'') ?s)) = None" by blast
  from r show "getCurrentPrice demo_tee (ss_display (selector_step demo_tee (Choose ''Color'' ''blue'') ?s)) = p_price demo_tee"
    using pp by (simp add: getCurrentPrice_def del: selector_step.simps)
qed

end
