(* ===== verification/Spec2Isabelle.thy ===== *)
theory Spec2Isabelle
  imports Response_Cache Retry Circuit_Breaker Batch Prefetch Prefetch_Manager Cache_Strategy Redis_Cache Executor Queries Legacy_Batch Enhanced_Client GraphQL_Facade Field_Optimizer Woo_Commerce Woo_Rest Woo_Users Lazy_Loader Redis_Client Variant_Selector
begin

text \<open>
  \<^bold>\<open>A verification library for the storefront's data layer.\<close>

  The repository is a Next.js storefront over a WooCommerce shop.  The library models
  its data layer: the GraphQL request layer of \<open>src/lib/graphql\<close>, the Redis cache of
  \<open>src/lib/redis\<close>, and the WooCommerce REST client of \<open>src/lib/woocommerce.ts\<close> and
  \<open>src/lib/woocommerce/index.ts\<close>.  The GraphQL layer has a response cache
  (\<open>cache.ts\<close>), two batchers (\<open>batch-client.ts\<close>, \<open>batch.ts\<close>), retry and a circuit
  breaker (\<open>error-handler.ts\<close>), two prefetch managers, Redis-backed and optimised
  executors, an enhanced client that composes cache, breaker and retry
  (\<open>enhanced-client.ts\<close>), a field optimiser and a plain facade (\<open>index.ts\<close>).  The
  backends (GraphQL server, Redis server, REST API via \<open>fetch\<close>), the clock, the DOM
  and the timers are the environment: their answers and timing are parameters, oracles
  or events of the model.

  \<^bold>\<open>Theories\<close> (each opens with a text saying what it holds).
  \<^item> \<open>Prelude\<close>: JSON values and JavaScript truthiness, \<open>||\<close> defaults, \<open>startsWith\<close>,
    \<open>includes\<close>, \<open>join\<close>, decimal printing, \<open>Array.map\<close> with a throwing callback, and
    the generic lemmas on lists and maps the components share.
  \<^item> \<open>Response_Cache\<close>: \<open>GraphQLCache\<close> and \<open>CachedGraphQLClient\<close> of \<open>cache.ts\<close>; the
    \<open>Map\<close> as a partial map, \<open>cache_get\<close> returning the map it lazily evicts from.
  \<^item> \<open>Retry\<close>: \<open>withRetry\<close>, \<open>isRetryableError\<close>, \<open>calculateDelay\<close>, \<open>enhanceError\<close>,
    \<open>handleGraphQLError\<close>; the \<open>for\<close> loop is \<open>retry_loop\<close>, terminating by the measure
    \<open>maxRetries + 1 - attempt\<close>, recording every delay it waits.
  \<^item> \<open>Circuit_Breaker\<close>: \<open>withCircuitBreaker\<close> on the shared breaker, as whole calls
    (\<open>cb_run\<close>) and as the interleaving relation \<open>cb_conc\<close> with reachability \<open>cb_reach\<close>.
  \<^item> \<open>Batch\<close>: \<open>GraphQLBatchClient\<close> of \<open>batch-client.ts\<close> as a step function over
    enqueue, timer and \<open>clearBatch\<close> events.
  \<^item> \<open>Prefetch\<close> and \<open>Prefetch_Manager\<close>: \<open>BrowserPrefetchManager\<close> and
    \<open>GraphQLPrefetchManager\<close>; async methods split at their \<open>await\<close>s, the second with an
    explicit heap of task objects because a timer mutates the object it captured.
  \<^item> \<open>Cache_Strategy\<close> and \<open>Redis_Cache\<close>: key generation, TTL policy and invalidation
    patterns of \<open>cache-strategy.ts\<close>; \<open>RedisCacheService\<close> over a Redis store with
    expiry instants (digest and serialisation are a codec parameter).
  \<^item> \<open>Queries\<close> and \<open>Executor\<close>: the query texts of \<open>queries.ts\<close> line for line; the
    Redis-enhanced and optimised clients.
  \<^item> \<open>Legacy_Batch\<close>: the batcher of \<open>batch.ts\<close>; requests started together read the
    shared cache before any answer lands, and writes land in arrival order (a stable
    sort of the oracle's latencies); \<open>seq_run\<close> is the sequential reference.
  \<^item> \<open>Enhanced_Client\<close>: \<open>withRetry\<close> around \<open>withCircuitBreaker\<close> around the cached
    request, over an oracle backend; query building and the product converters.
  \<^item> \<open>GraphQL_Facade\<close>: \<open>index.ts\<close> over a transport oracle; \<open>parseInt\<close> against decimal
    printing.
  \<^item> \<open>Field_Optimizer\<close>: \<open>field-optimizer.ts\<close>; the regex replacement is the terminating
    function \<open>replace_sets\<close> (measure: the length of the text).
  \<^item> \<open>Woo_Rest\<close>: \<open>request\<close> and \<open>requestWordPress\<close> over a \<open>fetch\<close> oracle, URLSearchParams
    as an association list, every REST getter, and the storefront functions of
    \<open>woocommerce/index.ts\<close>.
  \<^item> \<open>Woo_Commerce\<close>: coupons (\<open>validateCoupon\<close>, with \<open>parseFloat\<close> and NaN as
    \<open>None\<close> over exact rationals), \<open>getProductSales\<close> with its paginated scan and cache,
    and the shipping methods with their fallbacks.
  \<^item> \<open>Woo_Users\<close>: \<open>authenticateUser\<close>, \<open>createUser\<close>, \<open>getUserById\<close>, \<open>validateToken\<close>.
  \<^item> \<open>Lazy_Loader\<close>: \<open>lazy-loader.ts\<close>; \<open>useLazyLoad\<close> as the step function
    \<open>lazy_step\<close> over observer deliveries and effect re-runs, with the reachable states
    \<open>lazy_reach\<close>; \<open>LazyImage\<close>'s loads in flight; the components' renders as element
    trees.
  \<^item> \<open>Redis_Client\<close>: \<open>REDIS_CONFIG\<close> of \<open>config.ts\<close> over an environment map (an unset or
    empty variable gives the default, parseInt's NaN is \<open>None\<close>); the client options and
    creation, \<open>redisHealthCheck\<close>, \<open>closeRedisConnection\<close>, \<open>initializeRedis\<close> of
    \<open>client.ts\<close> over the outcomes of ping, quit and connect; \<open>getStats\<close> and
    \<open>warmUpCache\<close> of \<open>RedisCacheService\<close>.
  \<^item> \<open>Variant_Selector\<close>: \<open>woocommerce-variant-selector.tsx\<close> and
    \<open>woocommerce-product-context.tsx\<close>; the product and variation types they read as
    records, the two effects as \<open>init_effect\<close> and \<open>match_effect\<close>, mount and option clicks
    as \<open>selector_step\<close> with reachable states \<open>selector_reach\<close>, and the render.

  \<^bold>\<open>What is proved\<close> (claims C1 to C38, each after a text naming it):
  \<^item> cache: TTL semantics, hits and falsy values (C1 to C3);
  \<^item> retry: the backoff sequence, the error path, the attempt bound (C4 to C6);
  \<^item> breaker: its invariant over all interleavings, rejection while open, two trial
    calls in flight (C7 to C9);
  \<^item> batcher: its invariant, conservation and order of requests (C10, C11);
  \<^item> prefetch: queue, concurrency and history bounds (C12, C13), the concurrency bound
    broken by items that carry their own id (C14);
  \<^item> Redis: key collisions through comments, invalidation that misses query keys, the
    \<open>getOrSet\<close> round trip (C15 to C17);
  \<^item> legacy batcher and enhanced client: a group of requests with distinct keys is
    equivalent to the sequential run, identical requests are not coalesced, the open
    breaker hides the cache, retry attempts count as breaker failures (C18 to C21);
  \<^item> WooCommerce: the password is never checked and tokens are forgeable (C22, C23);
    the parameter loop refines map update by the defined members (C24); undefined
    parameters and 404 handling (C25, C26); the sales scan requests at most ten pages
    (C27); coupons and shipping (C28 to C30);
  \<^item> GraphQL facade and optimiser: top-level categories empty the collection list
    (C31), nested selection sets are corrupted (C32);
  \<^item> lazy loading: the hook's invariant over its reachable states (C33), an element
    seen is loaded for good (C34), a stale image load marks a new source loaded (C35);
  \<^item> variant selector: the displayed variation always matches the selection and is the
    context's variation (C36); an enabled option button can select no variation, and
    the price falls back to the product's (C37);
  \<^item> Redis client: the health check reports connected exactly on PONG (C38).
  Further lemmas, not claims: requests lost by \<open>clearBatch\<close>, \<open>clearQueue\<close> breaking the
  concurrency bound, the sales cache round trip, the prefetch call on every entry into
  view, \<open>URLSearchParams.set\<close> as map update, the port read from \<open>REDIS_PORT\<close> (NaN for
  a non-number).

  Each claim with a hypothesis is followed by a witness, which applies it at a concrete
  input and evaluates it by \<open>simp\<close>.

  \<^bold>\<open>Abstractions, bounds and fuel.\<close>
  \<^item> Clock readings are parameters; nothing assumes they increase unless a statement
    says so.  Timer delays are not modelled: a pending timer is an event that may occur
    between any two others, which suffices because each callback reads the state only
    when it fires.
  \<^item> No fuel is used: every loop is a \<open>fun\<close> or a \<open>function\<close> with a termination proof
    (\<open>retry_loop\<close> by remaining attempts, \<open>replace_sets\<close> by text length, \<open>sales_loop\<close> by
    \<open>MAX_TOTAL_ORDERS - processed\<close>, since every page that continues the loop holds at
    least one order).
  \<^item> Integers are unbounded: TTL and counter arithmetic stays far below 2^53 in the code,
    so doubles and \<open>int\<close> agree.  WooCommerce amounts are exact rationals, with \<open>None\<close>
    for NaN; \<open>parseFloat\<close> reads sign, digits, fraction and exponent but not
    \<open>Infinity\<close>.
  \<^item> JavaScript objects are the JSON they serialise to: absent (\<open>undefined\<close>) members
    are dropped and NaN is \<open>null\<close>.  Strings are byte strings; case conversion is on
    ASCII letters.  MD5, base64 and \<open>JSON.stringify\<close> are parameters.
  \<^item> An error that the code throws is a value \<open>Inl\<close>; every \<open>catch\<close> is a case on it.
  \<^item> Platform functions the code calls are modelled by what they do at the call:
    \<open>URLSearchParams.set\<close> (\<open>usp_set\<close>) replaces the first entry of a key and drops the
    others, or appends.  \<open>Number.parseInt\<close> in \<open>validateToken\<close> (\<open>parseInt10\<close>) is exact:
    a JavaScript number holds the parsed id exactly up to 2^53, beyond which the code
    rounds and the model does not follow it.
  \<^item> Object spreads keep the caller's members: \<open>addPrefetch\<close> takes the \<open>id\<close> the
    caller's object may carry (\<open>own_id\<close> of an event), which overrides the generated one.
  \<^item> React: a click and the effects of the render it causes are one step of the variant
    selector, as React flushes them before the next discrete event; a disabled button
    fires nothing.

  \<^bold>\<open>Not modelled.\<close>
  \<^item> The graphql-request client and the ioredis connection: I/O, the environment the
    models take as oracles; the Redis connection event handlers only log.
  \<^item> TypeScript types (\<open>types.ts\<close>): only the fields the variant selector reads are
    records; the others have no behaviour.
  \<^item> The React components other than \<open>lazy-loader.ts\<close> and the variant selector, the
    pages and the API test routes: rendering of data the modelled functions return, and
    demo endpoints calling them.  The observer's geometry (threshold, root margin) is the
    environment of \<open>Lazy_Loader\<close>.
  \<^item> \<open>getCacheStats\<close>, logging and Next.js \<open>'use cache'\<close> directives.
  \<^item> The galleries (\<open>gallery.tsx\<close>, \<open>optimized-gallery.tsx\<close>): their state comes from
    \<open>components/product/product-context\<close>, which the repository does not contain.
\<close>

end
